(* ===== verification/Bridge_Prelude.thy ===== *)
theory Bridge_Prelude
  imports Main "HOL-Library.Char_ord" "HOL-Library.List_Lexorder"
begin

text \<open>
  Shared vocabulary of the development: exceptions as values, aware and naive timestamps,
  Python strings, the character classes of the validation patterns, decimal numerals, and
  the proof collections the component theories extend.

  Conventions.
  \<^item> A Python \<open>str\<close> is a \<^typ>\<open>string\<close> whose characters are the code points U+0000 to
    U+00FF, so \<open>len\<close> is \<^const>\<open>length\<close> and string order is the lexicographic order of code
    points. Text with larger code points is outside the model.
  \<^item> A \<open>datetime\<close> is an instant counted in microseconds from a fixed origin, tagged by
    whether it carries a timezone. A value stored in a validated object is always aware
    and is kept as the bare instant. A \<open>timedelta\<close> is a number of microseconds. Python's
    \<open>OverflowError\<close> beyond the year 9999 is not modelled.
  \<^item> A raised exception is the left summand of the result. A failing pydantic constructor
    raises \<open>ValidationError\<close> whatever validator failed; an explicit \<open>raise ValueError\<close> in
    a plain function is \<open>ValueError\<close>; the typed transition errors carry their code.
\<close>

named_theorems validity \<open>unfolding rules of the validation predicates\<close>
named_theorems outcome_simps \<open>rules that evaluate and invert exception results\<close>

section \<open>Exceptions as values\<close>

datatype 'c exn =
    Transition 'c
  | ValidationError
  | ValueError
  | TypeError
  | KeyError
  | AssertionError

type_synonym ('c, 'a) outcome = "'c exn + 'a"

definition bindE :: "'e + 'a \<Rightarrow> ('a \<Rightarrow> 'e + 'b) \<Rightarrow> 'e + 'b" where
  "bindE m f = (case m of Inl e \<Rightarrow> Inl e | Inr x \<Rightarrow> f x)"

lemma bindE_simps [simp]:
  "bindE (Inl e) f = Inl e"
  "bindE (Inr x) f = f x"
  by (simp_all add: bindE_def)

lemma bindE_eq_Inr [outcome_simps]:
  "bindE m f = Inr y \<longleftrightarrow> (\<exists>x. m = Inr x \<and> f x = Inr y)"
  by (cases m) simp_all

lemma bindE_eq_Inl [outcome_simps]:
  "bindE m f = Inl e \<longleftrightarrow> m = Inl e \<or> (\<exists>x. m = Inr x \<and> f x = Inl e)"
  by (cases m) auto

lemma if_Inl_eq_Inr [outcome_simps]:
  "((if b then Inl e else r) = Inr y) \<longleftrightarrow> \<not> b \<and> r = Inr y"
  by simp

lemma if_Inr_eq_Inr [outcome_simps]:
  "((if b then Inr x else Inl e) = Inr y) \<longleftrightarrow> b \<and> x = y"
  by simp

text \<open>Constructing a validated object: the validators decide whether a value comes back.\<close>

definition construct_model :: "('a \<Rightarrow> bool) \<Rightarrow> 'a \<Rightarrow> ('c, 'a) outcome" where
  "construct_model valid x = (if valid x then Inr x else Inl ValidationError)"

lemma construct_model_eq_Inr [outcome_simps]: "construct_model valid x = Inr y \<longleftrightarrow> y = x \<and> valid x"
  by (auto simp: construct_model_def)

lemma construct_model_eq_Inl [outcome_simps]:
  "construct_model valid x = Inl e \<longleftrightarrow> e = ValidationError \<and> \<not> valid x"
  by (auto simp: construct_model_def)

text \<open>What an operation establishes of every value it returns, with one rule per construct the
  transition functions are built from.\<close>

named_theorems returns_intros \<open>rules that walk through an operation to its results\<close>

definition returns :: "('a \<Rightarrow> bool) \<Rightarrow> 'e + 'a \<Rightarrow> bool" where
  "returns P m \<longleftrightarrow> (\<forall>x. m = Inr x \<longrightarrow> P x)"

lemma returnsD: "returns P m \<Longrightarrow> m = Inr x \<Longrightarrow> P x"
  by (simp add: returns_def)

lemma returns_Inl [returns_intros]: "returns P (Inl e)"
  by (simp add: returns_def)

lemma returns_Inr [returns_intros]: "P x \<Longrightarrow> returns P (Inr x)"
  by (simp add: returns_def)

lemma returns_bindE [returns_intros]:
  "(\<And>x. m = Inr x \<Longrightarrow> returns P (f x)) \<Longrightarrow> returns P (bindE m f)"
  by (auto simp: returns_def bindE_eq_Inr)

lemma returns_if [returns_intros]:
  "(b \<Longrightarrow> returns P x) \<Longrightarrow> (\<not> b \<Longrightarrow> returns P y) \<Longrightarrow> returns P (if b then x else y)"
  by simp

lemma returns_option [returns_intros]:
  "(v = None \<Longrightarrow> returns P x) \<Longrightarrow> (\<And>a. v = Some a \<Longrightarrow> returns P (f a)) \<Longrightarrow>
   returns P (case v of None \<Rightarrow> x | Some a \<Rightarrow> f a)"
  by (cases v) simp_all

lemma returns_prod [returns_intros]:
  "(\<And>a b. p = (a, b) \<Longrightarrow> returns P (f a b)) \<Longrightarrow> returns P (case p of (a, b) \<Rightarrow> f a b)"
  by (cases p) simp

lemma returns_Let [returns_intros]: "returns P (f x) \<Longrightarrow> returns P (Let x f)"
  by simp

lemma returns_construct [returns_intros]: "(valid x \<Longrightarrow> P x) \<Longrightarrow> returns P (construct_model valid x)"
  by (simp add: returns_def construct_model_eq_Inr)

text \<open>The same for the exceptions an operation may end in.\<close>

named_theorems fails_intros \<open>rules that walk through an operation to its exceptions\<close>

definition fails :: "('e \<Rightarrow> bool) \<Rightarrow> 'e + 'a \<Rightarrow> bool" where
  "fails Q m \<longleftrightarrow> (\<forall>e. m = Inl e \<longrightarrow> Q e)"

lemma failsD: "fails Q m \<Longrightarrow> m = Inl e \<Longrightarrow> Q e"
  by (simp add: fails_def)

lemma fails_Inl [fails_intros]: "Q e \<Longrightarrow> fails Q (Inl e)"
  by (simp add: fails_def)

lemma fails_Inr [fails_intros]: "fails Q (Inr x)"
  by (simp add: fails_def)

lemma fails_bindE [fails_intros]:
  "fails Q m \<Longrightarrow> (\<And>x. m = Inr x \<Longrightarrow> fails Q (f x)) \<Longrightarrow> fails Q (bindE m f)"
  by (auto simp: fails_def bindE_eq_Inl)

lemma fails_if [fails_intros]:
  "(b \<Longrightarrow> fails Q x) \<Longrightarrow> (\<not> b \<Longrightarrow> fails Q y) \<Longrightarrow> fails Q (if b then x else y)"
  by simp

lemma fails_option [fails_intros]:
  "(v = None \<Longrightarrow> fails Q x) \<Longrightarrow> (\<And>a. v = Some a \<Longrightarrow> fails Q (f a)) \<Longrightarrow>
   fails Q (case v of None \<Rightarrow> x | Some a \<Rightarrow> f a)"
  by (cases v) simp_all

lemma fails_Let [fails_intros]: "fails Q (f x) \<Longrightarrow> fails Q (Let x f)"
  by simp

text \<open>
  An exception that no caller of a transition function expects: the rebuilt object failed its
  own validation, an assertion failed, or incomparable timestamps met.
\<close>

fun crash :: "'c exn \<Rightarrow> bool" where
  "crash (Transition c) = False"
| "crash ValueError = False"
| "crash e = True"

text \<open>A validator applied to an optional field.\<close>

abbreviation optional :: "('a \<Rightarrow> bool) \<Rightarrow> 'a option \<Rightarrow> bool" where
  "optional P v \<equiv> (case v of None \<Rightarrow> True | Some x \<Rightarrow> P x)"

section \<open>Time\<close>

type_synonym instant = int
type_synonym timedelta = int

datatype datetime = Aware instant | Naive instant

abbreviation seconds :: "int \<Rightarrow> timedelta" where "seconds n \<equiv> n * 1000000"
abbreviation minutes :: "int \<Rightarrow> timedelta" where "minutes n \<equiv> n * 60000000"
abbreviation hours :: "int \<Rightarrow> timedelta" where "hours n \<equiv> n * 3600000000"
abbreviation days :: "int \<Rightarrow> timedelta" where "days n \<equiv> n * 86400000000"

fun require_aware :: "datetime \<Rightarrow> ('c, instant) outcome" where
  "require_aware (Aware t) = Inr t"
| "require_aware (Naive t) = Inl ValueError"

lemma require_aware_eq_Inr [outcome_simps]: "require_aware d = Inr t \<longleftrightarrow> d = Aware t"
  by (cases d) auto

lemma require_aware_eq_Inl [outcome_simps]:
  "require_aware d = Inl e \<longleftrightarrow> e = ValueError \<and> (\<exists>t. d = Naive t)"
  by (cases d) auto

text \<open>Comparing a naive with an aware timestamp raises \<open>TypeError\<close>.\<close>

fun comparable :: "datetime \<Rightarrow> ('c, instant) outcome" where
  "comparable (Aware t) = Inr t"
| "comparable (Naive t) = Inl TypeError"

lemma comparable_eq_Inr [outcome_simps]: "comparable d = Inr t \<longleftrightarrow> d = Aware t"
  by (cases d) auto

lemma fails_require_aware [fails_intros]: "Q ValueError \<Longrightarrow> fails Q (require_aware d)"
  by (cases d) (simp_all add: fails_def)

section \<open>Characters and strings\<close>

definition code :: "char \<Rightarrow> nat" where
  "code c = of_char c"

definition is_digit :: "char \<Rightarrow> bool" where
  "is_digit c \<longleftrightarrow> 48 \<le> code c \<and> code c \<le> 57"

definition is_lower :: "char \<Rightarrow> bool" where
  "is_lower c \<longleftrightarrow> 97 \<le> code c \<and> code c \<le> 122"

definition is_upper :: "char \<Rightarrow> bool" where
  "is_upper c \<longleftrightarrow> 65 \<le> code c \<and> code c \<le> 90"

definition is_hex :: "char \<Rightarrow> bool" where
  "is_hex c \<longleftrightarrow> is_digit c \<or> (97 \<le> code c \<and> code c \<le> 102)"

definition is_ascii :: "char \<Rightarrow> bool" where
  "is_ascii c \<longleftrightarrow> code c < 128"

definition is_printable :: "char \<Rightarrow> bool" where
  "is_printable c \<longleftrightarrow> (32 \<le> code c \<and> code c \<le> 126) \<or> (161 \<le> code c \<and> code c \<noteq> 173)"

definition is_space :: "char \<Rightarrow> bool" where
  "is_space c \<longleftrightarrow> (9 \<le> code c \<and> code c \<le> 13) \<or> (28 \<le> code c \<and> code c \<le> 32)
     \<or> code c = 133 \<or> code c = 160"

lemmas char_class_defs =
  code_def is_digit_def is_lower_def is_upper_def is_hex_def is_ascii_def
  is_printable_def is_space_def

definition lstrip :: "string \<Rightarrow> string" where
  "lstrip s = dropWhile is_space s"

definition strip :: "string \<Rightarrow> string" where
  "strip s = rev (dropWhile is_space (rev (lstrip s)))"

definition blank :: "string \<Rightarrow> bool" where
  "blank s \<longleftrightarrow> strip s = []"

lemma lstrip_eq_Nil: "lstrip s = [] \<longleftrightarrow> list_all is_space s"
  by (induction s) (auto simp: lstrip_def)

lemma set_lstrip: "set (lstrip s) \<subseteq> set s"
  unfolding lstrip_def by (rule set_dropWhileD [THEN subsetI])

lemma set_strip: "set (strip s) \<subseteq> set s"
proof
  fix c
  assume "c \<in> set (strip s)"
  then have "c \<in> set (dropWhile is_space (rev (lstrip s)))"
    by (simp add: strip_def)
  then have "c \<in> set (lstrip s)"
    by (auto dest: set_dropWhileD)
  then show "c \<in> set s"
    using set_lstrip by blast
qed

lemma lstrip_head: "lstrip s = c # r \<Longrightarrow> \<not> is_space c"
  unfolding lstrip_def by (metis hd_dropWhile list.distinct(1) list.sel(1))

lemma blank_iff: "blank s \<longleftrightarrow> list_all is_space s"
proof
  assume "blank s"
  then have *: "list_all is_space (lstrip s)"
    unfolding blank_def strip_def by (simp add: dropWhile_eq_Nil_conv list_all_iff)
  show "list_all is_space s"
  proof (cases "lstrip s")
    case Nil
    then show ?thesis by (simp add: lstrip_eq_Nil)
  next
    case (Cons c r)
    with * lstrip_head [OF Cons] show ?thesis by simp
  qed
next
  assume "list_all is_space s"
  then have "lstrip s = []" by (simp add: lstrip_eq_Nil)
  then show "blank s" by (simp add: blank_def strip_def)
qed

text \<open>Stripping is idempotent and leaves a string without surrounding whitespace alone.\<close>

lemma strip_fixpoint:
  assumes "\<not> is_space (hd s)" and "\<not> is_space (last s)"
  shows "strip s = s"
proof (cases "s = []")
  case True
  then show ?thesis by (simp add: strip_def lstrip_def)
next
  case False
  with assms(1) have 1: "lstrip s = s"
    by (cases s) (simp_all add: lstrip_def)
  have "dropWhile is_space (rev s) = rev s"
    using False assms(2) by (cases s rule: rev_cases) simp_all
  with 1 show ?thesis by (simp add: strip_def)
qed

section \<open>Patterns\<close>

text \<open>
  The validation patterns of the source are anchored and applied with \<open>fullmatch\<close>. They have
  two shapes: a fixed class repeated an exact number of times, and a head class followed by
  a bounded or unbounded run of a tail class.
\<close>

definition re_exactly :: "(char \<Rightarrow> bool) \<Rightarrow> nat \<Rightarrow> string \<Rightarrow> bool" where
  "re_exactly cls n s \<longleftrightarrow> length s = n \<and> list_all cls s"

definition re_head_run :: "(char \<Rightarrow> bool) \<Rightarrow> (char \<Rightarrow> bool) \<Rightarrow> nat \<Rightarrow> nat \<Rightarrow> string \<Rightarrow> bool" where
  "re_head_run hd_cls cls lo hi s \<longleftrightarrow>
     (case s of [] \<Rightarrow> False
      | c # r \<Rightarrow> hd_cls c \<and> lo \<le> length r \<and> length r \<le> hi \<and> list_all cls r)"

definition re_head_star :: "(char \<Rightarrow> bool) \<Rightarrow> (char \<Rightarrow> bool) \<Rightarrow> string \<Rightarrow> bool" where
  "re_head_star hd_cls cls s \<longleftrightarrow>
     (case s of [] \<Rightarrow> False | c # r \<Rightarrow> hd_cls c \<and> list_all cls r)"

lemmas pattern_defs = re_exactly_def re_head_run_def re_head_star_def

definition lower_or_digit :: "char \<Rightarrow> bool" where
  "lower_or_digit c \<longleftrightarrow> is_lower c \<or> is_digit c"

definition lower_digit_dash :: "char \<Rightarrow> bool" where
  "lower_digit_dash c \<longleftrightarrow> is_lower c \<or> is_digit c \<or> c = CHR ''_'' \<or> c = CHR ''-''"

definition lower_digit_under :: "char \<Rightarrow> bool" where
  "lower_digit_under c \<longleftrightarrow> is_lower c \<or> is_digit c \<or> c = CHR ''_''"

definition ident_start :: "char \<Rightarrow> bool" where
  "ident_start c \<longleftrightarrow> is_upper c \<or> is_lower c \<or> c = CHR ''_''"

definition ident_part :: "char \<Rightarrow> bool" where
  "ident_part c \<longleftrightarrow> is_upper c \<or> is_lower c \<or> is_digit c \<or> c = CHR ''_''"

lemmas class_defs =
  lower_or_digit_def lower_digit_dash_def lower_digit_under_def ident_start_def ident_part_def

text \<open>\<open>^[0-9a-f]{64}$\<close>, and the identifier shape \<open>^[A-Za-z_][A-Za-z0-9_]*$\<close>.\<close>

definition is_sha256 :: "string \<Rightarrow> bool" where
  "is_sha256 s \<longleftrightarrow> re_exactly is_hex 64 s"

definition is_identifier :: "string \<Rightarrow> bool" where
  "is_identifier s \<longleftrightarrow> re_head_star ident_start ident_part s"

text \<open>The bounded inert identifiers \<open>^[a-z0-9][a-z0-9_-]{2,199}$\<close> and \<open>^[a-z][a-z0-9_-]{2,199}$\<close>.\<close>

definition is_safe_id :: "string \<Rightarrow> bool" where
  "is_safe_id s \<longleftrightarrow> re_head_run lower_or_digit lower_digit_dash 2 199 s"

definition is_named_id :: "string \<Rightarrow> bool" where
  "is_named_id s \<longleftrightarrow> re_head_run is_lower lower_digit_dash 2 199 s"

text \<open>Length bounds of \<open>Field(min_length=\<dots>, max_length=\<dots>)\<close>.\<close>

definition len_between :: "nat \<Rightarrow> nat \<Rightarrow> 'a list \<Rightarrow> bool" where
  "len_between lo hi xs \<longleftrightarrow> lo \<le> length xs \<and> length xs \<le> hi"

lemma re_head_run_length:
  "re_head_run h cls lo hi s \<Longrightarrow> Suc lo \<le> length s \<and> length s \<le> Suc hi"
  by (auto simp: re_head_run_def split: list.splits)

lemma safe_id_length [simp]: "is_safe_id s \<Longrightarrow> len_between 3 200 s"
  by (auto simp: is_safe_id_def len_between_def dest: re_head_run_length)

lemma named_id_length [simp]: "is_named_id s \<Longrightarrow> len_between 3 200 s"
  by (auto simp: is_named_id_def len_between_def dest: re_head_run_length)

lemma identifier_nonempty: "is_identifier s \<Longrightarrow> s \<noteq> []"
  by (auto simp: is_identifier_def re_head_star_def)

lemma identifier_chars: "is_identifier s \<Longrightarrow> list_all ident_part s"
  by (auto simp: is_identifier_def re_head_star_def ident_start_def ident_part_def
      split: list.splits)

section \<open>Decimal numerals\<close>

text \<open>\<open>str(n)\<close> for an integer.\<close>

definition digit_char :: "nat \<Rightarrow> char" where
  "digit_char d = char_of (48 + d)"

fun str_of_nat :: "nat \<Rightarrow> string" where
  "str_of_nat n =
     (if n < 10 then [digit_char n] else str_of_nat (n div 10) @ [digit_char (n mod 10)])"

declare str_of_nat.simps [simp del]

definition str_of_int :: "int \<Rightarrow> string" where
  "str_of_int i = (if i < 0 then CHR ''-'' # str_of_nat (nat (- i)) else str_of_nat (nat i))"

text \<open>\<open>int(s)\<close> for a string of ASCII digits.\<close>

definition nat_of_digits :: "string \<Rightarrow> nat" where
  "nat_of_digits s = foldl (\<lambda>n c. 10 * n + (code c - 48)) 0 s"

lemma code_digit_char [simp]: "d < 10 \<Longrightarrow> code (digit_char d) = 48 + d"
  by (simp add: code_def digit_char_def of_char_of)

lemma is_digit_digit_char: "d < 10 \<Longrightarrow> is_digit (digit_char d)"
  by (simp add: is_digit_def)

lemma str_of_nat_nonempty: "str_of_nat n \<noteq> []"
  by (subst str_of_nat.simps) simp

lemma str_of_nat_digits: "list_all is_digit (str_of_nat n)"
proof (induction n rule: str_of_nat.induct)
  case (1 n)
  then show ?case
    by (cases "n < 10") (simp_all add: str_of_nat.simps [of n] is_digit_digit_char)
qed

lemma nat_of_digits_snoc: "nat_of_digits (s @ [c]) = 10 * nat_of_digits s + (code c - 48)"
  by (simp add: nat_of_digits_def)

lemma nat_of_digits_str_of_nat: "nat_of_digits (str_of_nat n) = n"
proof (induction n rule: str_of_nat.induct)
  case (1 n)
  show ?case
  proof (cases "n < 10")
    case True
    then show ?thesis by (simp add: str_of_nat.simps [of n] nat_of_digits_def)
  next
    case False
    then have "nat_of_digits (str_of_nat (n div 10)) = n div 10" using 1 by simp
    then show ?thesis using False
      by (simp add: str_of_nat.simps [of n] nat_of_digits_snoc)
  qed
qed

lemma str_of_nat_inject: "str_of_nat m = str_of_nat n \<longleftrightarrow> m = n"
  by (metis nat_of_digits_str_of_nat)

section \<open>Lists\<close>

text \<open>\<open>len(xs) != len(set(xs))\<close> is the source's duplicate test.\<close>

lemma distinct_iff_card: "length xs = card (set xs) \<longleftrightarrow> distinct xs"
  using card_distinct distinct_card by metis

text \<open>\<open>values == tuple(sorted(set(values)))\<close>: strictly ascending.\<close>

definition canonical_sequence :: "'a::linorder list \<Rightarrow> bool" where
  "canonical_sequence xs \<longleftrightarrow> sorted xs \<and> distinct xs"

end
