(* ===== verification/Transformations.thy ===== *)
theory Transformations
  imports Bridge_Prelude Complex_Main
begin

text \<open>
  The closed transformation algebra and the identifier interpreter of
  \<^verbatim>\<open>src/schemabridge/domain/transformations.py\<close>: the scanner that accepts the anchored
  regular-expression subset, the transformation steps and plans with their validators, and
  \<open>normalize_identifier\<close> with its helpers. The lemmas show that the scanner accepts only
  renderings of a small grammar, and that normalization never truncates, is idempotent and
  makes two keys equal exactly when they denote the same number.
\<close>

section \<open>The closed regular-expression subset\<close>

definition MAX_IDENTIFIER_PAD_LENGTH :: int where
  "MAX_IDENTIFIER_PAD_LENGTH = 256"

definition REGEX_LITERAL_PUNCTUATION :: string where
  "REGEX_LITERAL_PUNCTUATION = '' _.,:/@#%=-''"

definition REGEX_CLASS_PUNCTUATION :: string where
  "REGEX_CLASS_PUNCTUATION = '' _.,:/@#%+=''"

definition is_ascii_alphanumeric :: "char \<Rightarrow> bool" where
  "is_ascii_alphanumeric c \<longleftrightarrow> is_digit c \<or> is_upper c \<or> is_lower c"

definition same_family :: "char \<Rightarrow> char \<Rightarrow> bool" where
  "same_family c e \<longleftrightarrow>
     (is_digit c \<and> is_digit e) \<or> (is_upper c \<and> is_upper e) \<or> (is_lower c \<and> is_lower e)"

definition class_char :: "char \<Rightarrow> bool" where
  "class_char c \<longleftrightarrow> is_ascii_alphanumeric c \<or> c \<in> set REGEX_CLASS_PUNCTUATION"

text \<open>
  The loop of \<open>_is_safe_regex_class\<close>, over the suffix that starts at \<open>index\<close>: the flag says
  \<open>index == 0\<close>, and an empty tail says \<open>index == len(value) - 1\<close>.
\<close>

fun safe_class_loop :: "bool \<Rightarrow> string \<Rightarrow> bool" where
  "safe_class_loop at_start [] = True"
| "safe_class_loop at_start (c # r) =
     (if c = CHR ''-'' \<and> (at_start \<or> r = []) then safe_class_loop False r
      else (case r of
          d # e # r' \<Rightarrow>
            (if d = CHR ''-''
             then (if \<not> same_family c e \<or> code c > code e then False
                   else safe_class_loop False r')
             else if \<not> class_char c then False else safe_class_loop False r)
        | _ \<Rightarrow> (if \<not> class_char c then False else safe_class_loop False r)))"

declare safe_class_loop.simps(2) [simp del]

definition is_safe_regex_class :: "string \<Rightarrow> bool" where
  "is_safe_regex_class v \<longleftrightarrow> (if v = [] then False else safe_class_loop True v)"

text \<open>\<open>str.split\<close> with a one-character separator.\<close>

fun split_on :: "char \<Rightarrow> string \<Rightarrow> string list" where
  "split_on sep [] = [[]]"
| "split_on sep (c # r) =
     (if c = sep then [] # split_on sep r
      else (case split_on sep r of [] \<Rightarrow> [[c]] | w # ws \<Rightarrow> (c # w) # ws))"

text \<open>One atom: the suffix behind it, or \<open>None\<close> where the scanner returns \<open>False\<close>.\<close>

definition scan_atom :: "string \<Rightarrow> string option" where
  "scan_atom s =
     (case s of
        [] \<Rightarrow> None
      | c # r \<Rightarrow>
          (if c = CHR ''['' then
             (let inner = takeWhile (\<lambda>d. d \<noteq> CHR '']'') r;
                  after = dropWhile (\<lambda>d. d \<noteq> CHR '']'') r
              in if after = [] \<or> \<not> is_safe_regex_class inner then None else Some (tl after))
           else if is_ascii_alphanumeric c \<or> c \<in> set REGEX_LITERAL_PUNCTUATION then Some r
           else None))"

definition bound_ok :: "string \<Rightarrow> bool" where
  "bound_ok b \<longleftrightarrow> b \<noteq> [] \<and> list_all is_digit b \<and> length b \<le> 3"

definition bounds_ok :: "string list \<Rightarrow> bool" where
  "bounds_ok bs \<longleftrightarrow>
     (length bs = 1 \<or> length bs = 2) \<and> list_all bound_ok bs
     \<and> \<not> (nat_of_digits (last bs) < nat_of_digits (hd bs)
          \<or> int (nat_of_digits (last bs)) > MAX_IDENTIFIER_PAD_LENGTH)"

text \<open>The optional quantifier behind an atom: the suffix behind it, or \<open>None\<close>.\<close>

definition scan_quantifier :: "string \<Rightarrow> string option" where
  "scan_quantifier s =
     (case s of
        [] \<Rightarrow> Some []
      | c # r \<Rightarrow>
          (if c \<in> set ''+*?'' then Some r
           else if c \<noteq> CHR ''{'' then Some s
           else
             (let inner = takeWhile (\<lambda>d. d \<noteq> CHR ''}'') r;
                  after = dropWhile (\<lambda>d. d \<noteq> CHR ''}'') r
              in if after = [] \<or> \<not> bounds_ok (split_on (CHR '','') inner) then None
                 else Some (tl after))))"

lemma scan_atom_shorter: "scan_atom s = Some r \<Longrightarrow> length r < length s"
proof -
  assume a: "scan_atom s = Some r"
  then obtain c t where s: "s = c # t"
    by (cases s) (simp_all add: scan_atom_def)
  have "length (tl (dropWhile (\<lambda>d. d \<noteq> CHR '']'') t)) \<le> length t"
    using length_dropWhile_le [of "\<lambda>d. d \<noteq> CHR '']''" t] by simp
  with a s show ?thesis
    by (auto simp: scan_atom_def Let_def split: if_splits)
qed

lemma scan_quantifier_le: "scan_quantifier s = Some r \<Longrightarrow> length r \<le> length s"
proof (cases s)
  case (Cons c t)
  assume a: "scan_quantifier s = Some r"
  have "length (tl (dropWhile (\<lambda>d. d \<noteq> CHR ''}'') t)) \<le> length t"
    using length_dropWhile_le [of "\<lambda>d. d \<noteq> CHR ''}''" t] by simp
  with a Cons show ?thesis
    by (auto simp: scan_quantifier_def Let_def split: if_splits)
qed (simp add: scan_quantifier_def)

function closed_body :: "string \<Rightarrow> bool" where
  "closed_body s =
     (if s = [] then True
      else (case scan_atom s of
          None \<Rightarrow> False
        | Some r \<Rightarrow> (case scan_quantifier r of None \<Rightarrow> False | Some r' \<Rightarrow> closed_body r')))"
  by pat_completeness auto
termination
proof (relation "measure length")
  fix s r r' :: string
  assume "scan_atom s = Some r" and "scan_quantifier r = Some r'"
  then show "(r', s) \<in> measure length"
    using scan_atom_shorter [of s r] scan_quantifier_le [of r r'] by simp
qed simp

declare closed_body.simps [simp del]

definition is_closed_postgres_regex :: "string \<Rightarrow> bool" where
  "is_closed_postgres_regex v \<longleftrightarrow>
     (if v = [] \<or> hd v \<noteq> CHR ''^'' \<or> last v \<noteq> CHR ''$'' \<or> length v < 3 then False
      else closed_body (butlast (tl v)))"

section \<open>Transformation steps and plans\<close>

text \<open>
  A finite float or decimal is its exact value; \<open>-0.0\<close> and \<open>Decimal('-0')\<close> are zero,
  which is also how every test of the source reads them.
\<close>

datatype real_value = NaN | PosInf | NegInf | Finite rat

datatype scalar = ScStr string | ScInt int | ScFloat real_value | ScBool bool | ScNull

record value_map_entry =
  vm_source :: scalar
  vm_target :: scalar

datatype transformation_step =
    IdentityStep
  | TrimStep
  | EmptyToNullStep
  | ValidateRegexStep (regex_pattern: string)
  | ValidateFiniteStep
  | ValidateIntegralStep
  | StripLeadingZerosStep
  | PadLeftStep (pad_length: int)
  | CastIntegerToStringStep
  | CastTimestampToDateStep
  | ParseDateStep (date_format: string)
  | NormalizeDecimalScaleStep (decimal_scale: int)
  | MapValuesStep (map_entries: "value_map_entry list")
  | PreserveNullStep
  | RejectInvalidStep

fun transformation_step_valid :: "transformation_step \<Rightarrow> bool" where
  "transformation_step_valid (ValidateRegexStep p) =
     (len_between 1 256 p \<and> is_closed_postgres_regex p)"
| "transformation_step_valid (PadLeftStep n) = (1 \<le> n \<and> n \<le> MAX_IDENTIFIER_PAD_LENGTH)"
| "transformation_step_valid (ParseDateStep f) =
     (f \<in> {''YYYY-MM-DD'', ''DD/MM/YYYY'', ''MM/DD/YYYY'', ''YYYYMMDD''})"
| "transformation_step_valid (NormalizeDecimalScaleStep n) = (0 \<le> n \<and> n \<le> 18)"
| "transformation_step_valid (MapValuesStep es) = (es \<noteq> [])"
| "transformation_step_valid s = True"

record transformation_plan =
  tp_version :: int
  tp_steps :: "transformation_step list"

definition is_strip_step :: "transformation_step \<Rightarrow> bool" where
  "is_strip_step s \<longleftrightarrow> s = StripLeadingZerosStep"

definition is_pad_step :: "transformation_step \<Rightarrow> bool" where
  "is_pad_step s \<longleftrightarrow> (case s of PadLeftStep n \<Rightarrow> True | _ \<Rightarrow> False)"

definition transformation_plan_valid :: "transformation_plan \<Rightarrow> bool" where
  "transformation_plan_valid p \<longleftrightarrow>
     tp_version p = 1 \<and> tp_steps p \<noteq> [] \<and> list_all transformation_step_valid (tp_steps p)
     \<and> \<not> (list_ex is_strip_step (tp_steps p) \<and> list_ex is_pad_step (tp_steps p))"

section \<open>Identifier normalization\<close>

datatype null_policy = NullPreserve | NullReject
datatype empty_string_policy = EmptyReject | EmptyAsNull
datatype leading_zero_policy = ZeroPreserve | ZeroStrip | ZeroPadToLength

record identifier_plan =
  ip_version :: int
  ip_null_policy :: null_policy
  ip_leading_zero_policy :: leading_zero_policy
  ip_pad_to_length :: "int option"
  ip_trim_whitespace :: bool
  ip_empty_string_policy :: empty_string_policy

definition identifier_plan_valid :: "identifier_plan \<Rightarrow> bool" where
  "identifier_plan_valid p \<longleftrightarrow>
     ip_version p = 1
     \<and> optional (\<lambda>n. 1 \<le> n \<and> n \<le> MAX_IDENTIFIER_PAD_LENGTH) (ip_pad_to_length p)
     \<and> (let requires_length = (ip_leading_zero_policy p = ZeroPadToLength)
        in \<not> (requires_length \<and> ip_pad_to_length p = None)
           \<and> \<not> (\<not> requires_length \<and> ip_pad_to_length p \<noteq> None))"

datatype source_kind =
    KNull | KString | KInteger | KFloat | KDecimal | KBoolean | KUnsupported

datatype rejection_code =
    NULL_NOT_ALLOWED
  | EMPTY_IDENTIFIER
  | BOOLEAN_IDENTIFIER
  | NEGATIVE_IDENTIFIER
  | NON_FINITE_IDENTIFIER
  | NON_INTEGRAL_IDENTIFIER
  | UNSAFE_FLOAT_IDENTIFIER
  | MALFORMED_IDENTIFIER
  | IDENTIFIER_TOO_LONG
  | UNSUPPORTED_IDENTIFIER_TYPE

datatype normalization_outcome =
    Accepted "string option" source_kind
  | Rejected rejection_code source_kind

text \<open>The typed error of a plan that bypassed validation.\<close>

datatype plan_error = NormalizationPlanInvariantError

text \<open>
  The Python value handed to the interpreter.
\<close>

datatype identifier_value =
    VNone
  | VBool bool
  | VStr string
  | VInt int
  | VFloat real_value
  | VDecimal real_value
  | VOther

definition MAX_SAFE_FLOAT_INTEGER :: rat where
  "MAX_SAFE_FLOAT_INTEGER = 9007199254740991"

text \<open>
  \<open>str(n)\<close> of an integer: the interpreter refuses, with \<open>ValueError\<close>, to render more than
  4300 digits.
\<close>

definition py_str_int :: "int \<Rightarrow> ('c, string) outcome" where
  "py_str_int i =
     (if length (str_of_nat (nat \<bar>i\<bar>)) > 4300 then Inl ValueError else Inr (str_of_int i))"

definition is_integral :: "rat \<Rightarrow> bool" where
  "is_integral q \<longleftrightarrow> of_int \<lfloor>q\<rfloor> = q"

definition normalize_null :: "identifier_plan \<Rightarrow> source_kind \<Rightarrow> normalization_outcome" where
  "normalize_null plan kind =
     (if ip_null_policy plan = NullPreserve then Accepted None kind
      else Rejected NULL_NOT_ALLOWED kind)"

text \<open>
  \<open>_digits_from_value\<close>: the digits or the rejection, and the source kind. The source's triple
  has exactly one of the two set.
\<close>

fun digits_from_value ::
  "identifier_value \<Rightarrow> (plan_error, (rejection_code + string) \<times> source_kind) outcome" where
  "digits_from_value (VBool b) = Inr (Inl BOOLEAN_IDENTIFIER, KBoolean)"
| "digits_from_value (VStr s) = Inr (Inr s, KString)"
| "digits_from_value (VInt i) =
     (if i < 0 then Inr (Inl NEGATIVE_IDENTIFIER, KInteger)
      else bindE (py_str_int i) (\<lambda>s. Inr (Inr s, KInteger)))"
| "digits_from_value (VFloat (Finite q)) =
     (if \<not> is_integral q then Inr (Inl NON_INTEGRAL_IDENTIFIER, KFloat)
      else if q < 0 then Inr (Inl NEGATIVE_IDENTIFIER, KFloat)
      else if \<bar>q\<bar> > MAX_SAFE_FLOAT_INTEGER then Inr (Inl UNSAFE_FLOAT_IDENTIFIER, KFloat)
      else bindE (py_str_int \<lfloor>q\<rfloor>) (\<lambda>s. Inr (Inr s, KFloat)))"
| "digits_from_value (VFloat f) = Inr (Inl NON_FINITE_IDENTIFIER, KFloat)"
| "digits_from_value (VDecimal (Finite q)) =
     (if \<not> is_integral q then Inr (Inl NON_INTEGRAL_IDENTIFIER, KDecimal)
      else if q < 0 then Inr (Inl NEGATIVE_IDENTIFIER, KDecimal)
      else bindE (py_str_int \<lfloor>q\<rfloor>) (\<lambda>s. Inr (Inr s, KDecimal)))"
| "digits_from_value (VDecimal f) = Inr (Inl NON_FINITE_IDENTIFIER, KDecimal)"
| "digits_from_value v = Inr (Inl UNSUPPORTED_IDENTIFIER_TYPE, KUnsupported)"

text \<open>\<open>^[0-9]+$\<close> and \<open>^-[0-9]+$\<close>, both with \<open>fullmatch\<close>.\<close>

definition ascii_digits :: "string \<Rightarrow> bool" where
  "ascii_digits s \<longleftrightarrow> s \<noteq> [] \<and> list_all is_digit s"

definition negative_digits :: "string \<Rightarrow> bool" where
  "negative_digits s \<longleftrightarrow> (case s of [] \<Rightarrow> False | c # r \<Rightarrow> c = CHR ''-'' \<and> ascii_digits r)"

text \<open>\<open>digits.lstrip("0") or "0"\<close>, and \<open>str.zfill\<close> on a string without a sign.\<close>

definition strip_zeros :: "string \<Rightarrow> string" where
  "strip_zeros s =
     (let r = dropWhile (\<lambda>c. c = CHR ''0'') s in if r = [] then ''0'' else r)"

definition zfill :: "string \<Rightarrow> int \<Rightarrow> string" where
  "zfill s n = replicate (nat n - length s) (CHR ''0'') @ s"

text \<open>The canonical form behind the digit check, on every leading-zero policy.\<close>

definition canonicalize ::
  "identifier_plan \<Rightarrow> source_kind \<Rightarrow> string \<Rightarrow> (plan_error, normalization_outcome) outcome" where
  "canonicalize plan kind digits =
     (if \<not> ascii_digits digits then Inr (Rejected MALFORMED_IDENTIFIER kind)
      else if ip_leading_zero_policy plan = ZeroPreserve
      then Inr (Accepted (Some digits) kind)
      else
        (let canonical = strip_zeros digits
         in if ip_leading_zero_policy plan = ZeroPadToLength
            then (case ip_pad_to_length plan of
                None \<Rightarrow> Inl (Transition NormalizationPlanInvariantError)
              | Some n \<Rightarrow>
                  (if int (length canonical) > n then Inr (Rejected IDENTIFIER_TOO_LONG kind)
                   else Inr (Accepted (Some (zfill canonical n)) kind)))
            else Inr (Accepted (Some canonical) kind)))"

definition normalize_identifier ::
  "identifier_value \<Rightarrow> identifier_plan \<Rightarrow> (plan_error, normalization_outcome) outcome" where
  "normalize_identifier value plan =
     (if value = VNone then Inr (normalize_null plan KNull)
      else bindE (digits_from_value value) (\<lambda>(res, kind).
        (case res of
           Inl c \<Rightarrow> Inr (Rejected c kind)
         | Inr digits \<Rightarrow>
             (if kind = KString then
                (let d = (if ip_trim_whitespace plan then strip digits else digits)
                 in if d = [] then
                      (if ip_empty_string_policy plan = EmptyAsNull
                       then Inr (normalize_null plan kind)
                       else Inr (Rejected EMPTY_IDENTIFIER kind))
                    else if negative_digits d then Inr (Rejected NEGATIVE_IDENTIFIER kind)
                    else canonicalize plan kind d)
              else canonicalize plan kind digits))))"

section \<open>The scanner accepts exactly a small grammar\<close>

text \<open>
  A reference definition: an item is a literal or a bracketed class, with an optional
  quantifier; a pattern is a non-empty sequence of items between the two anchors.
\<close>

datatype regex_atom = Literal char | Class string
datatype regex_quantifier = Once | Sign char | Exactly string | Between string string
datatype regex_item = Item regex_atom regex_quantifier

fun render_atom :: "regex_atom \<Rightarrow> string" where
  "render_atom (Literal c) = [c]"
| "render_atom (Class cs) = ''['' @ cs @ '']''"

fun render_quantifier :: "regex_quantifier \<Rightarrow> string" where
  "render_quantifier Once = []"
| "render_quantifier (Sign c) = [c]"
| "render_quantifier (Exactly b) = ''{'' @ b @ ''}''"
| "render_quantifier (Between a b) = ''{'' @ a @ '','' @ b @ ''}''"

fun render_item :: "regex_item \<Rightarrow> string" where
  "render_item (Item a q) = render_atom a @ render_quantifier q"

fun atom_ok :: "regex_atom \<Rightarrow> bool" where
  "atom_ok (Literal c) = (is_ascii_alphanumeric c \<or> c \<in> set REGEX_LITERAL_PUNCTUATION)"
| "atom_ok (Class cs) = is_safe_regex_class cs"

text \<open>One to three decimal digits, and the repetitions the grammar allows.\<close>

definition bound_numeral :: "string \<Rightarrow> bool" where
  "bound_numeral b \<longleftrightarrow> b \<noteq> [] \<and> length b \<le> 3 \<and> (\<forall>c \<in> set b. is_digit c)"

fun quantifier_ok :: "regex_quantifier \<Rightarrow> bool" where
  "quantifier_ok Once = True"
| "quantifier_ok (Sign c) = (c \<in> set ''+*?'')"
| "quantifier_ok (Exactly b) =
     (bound_numeral b \<and> nat_of_digits b \<le> nat MAX_IDENTIFIER_PAD_LENGTH)"
| "quantifier_ok (Between a b) =
     (bound_numeral a \<and> bound_numeral b \<and> nat_of_digits a \<le> nat_of_digits b
      \<and> nat_of_digits b \<le> nat MAX_IDENTIFIER_PAD_LENGTH)"

text \<open>The scanner's test of a bound list is the grammar's test of a repetition.\<close>

lemma quantifier_ok_bounds:
  "quantifier_ok (Exactly b) \<longleftrightarrow> bounds_ok [b]"
  "quantifier_ok (Between a b) \<longleftrightarrow> bounds_ok [a, b]"
  by (auto simp: bounds_ok_def bound_ok_def bound_numeral_def list_all_iff
      MAX_IDENTIFIER_PAD_LENGTH_def)

declare quantifier_ok.simps(3,4) [simp del]
declare quantifier_ok_bounds [simp]

fun item_ok :: "regex_item \<Rightarrow> bool" where
  "item_ok (Item a q) = (atom_ok a \<and> quantifier_ok q)"

definition render_pattern :: "regex_item list \<Rightarrow> string" where
  "render_pattern items = ''^'' @ concat (map render_item items) @ ''$''"

subsection \<open>Splitting\<close>

lemma split_on_nonempty: "split_on sep s \<noteq> []"
  by (induction s) (auto split: list.splits)

lemma split_on_single: "split_on sep s = [w] \<longleftrightarrow> w = s \<and> sep \<notin> set s"
proof (induction s arbitrary: w)
  case (Cons c r)
  obtain v vs where v: "split_on sep r = v # vs"
    using split_on_nonempty [of sep r] by (cases "split_on sep r") auto
  from Cons.IH [of v] v have "vs = [] \<longleftrightarrow> v = r \<and> sep \<notin> set r" by simp
  with v show ?case
    using Cons.IH [of r] by (cases "c = sep") auto
qed auto

lemma split_on_pair:
  "split_on sep s = [a, b] \<longleftrightarrow> s = a @ sep # b \<and> sep \<notin> set a \<and> sep \<notin> set b"
proof (induction s arbitrary: a)
  case (Cons c r)
  show ?case
  proof (cases "c = sep")
    case True
    then show ?thesis by (cases a) (auto simp: split_on_single)
  next
    case False
    obtain w ws where w: "split_on sep r = w # ws"
      using split_on_nonempty [of sep r] by (cases "split_on sep r") auto
    show ?thesis
    proof (cases a)
      case Nil
      with False w show ?thesis by auto
    next
      case (Cons d t)
      have "split_on sep r = [t, b] \<longleftrightarrow> r = t @ sep # b \<and> sep \<notin> set t \<and> sep \<notin> set b"
        by (rule Cons.IH)
      with False w Cons show ?thesis by auto
    qed
  qed
qed auto

lemma separators_not_digits: "\<not> is_digit (CHR '','')" "\<not> is_digit (CHR ''}'')"
  by (simp_all add: char_class_defs)

lemma digit_not_comma: "list_all is_digit b \<Longrightarrow> CHR '','' \<notin> set b"
  using separators_not_digits by (auto simp: list_all_iff)

lemma digit_not_brace: "list_all is_digit b \<Longrightarrow> CHR ''}'' \<notin> set b"
  using separators_not_digits by (auto simp: list_all_iff)

lemma span_until:
  assumes "x \<notin> set xs"
  shows "takeWhile (\<lambda>d. d \<noteq> x) (xs @ x # ys) = xs"
    and "dropWhile (\<lambda>d. d \<noteq> x) (xs @ x # ys) = x # ys"
  using assms by (induction xs) auto

lemma split_at_first:
  assumes "dropWhile (\<lambda>d. d \<noteq> x) s \<noteq> []"
  shows "s = takeWhile (\<lambda>d. d \<noteq> x) s @ x # tl (dropWhile (\<lambda>d. d \<noteq> x) s)"
proof -
  have "hd (dropWhile (\<lambda>d. d \<noteq> x) s) = x"
    using hd_dropWhile [OF assms] by simp
  then have "dropWhile (\<lambda>d. d \<noteq> x) s = x # tl (dropWhile (\<lambda>d. d \<noteq> x) s)"
    using assms by (metis list.collapse)
  then show ?thesis
    by (metis takeWhile_dropWhile_id)
qed

subsection \<open>Soundness\<close>

lemma scan_atom_sound:
  assumes "scan_atom s = Some r"
  shows "\<exists>a. atom_ok a \<and> s = render_atom a @ r"
proof (cases s)
  case Nil
  with assms show ?thesis by (simp add: scan_atom_def)
next
  case (Cons c t)
  let ?in = "takeWhile (\<lambda>d. d \<noteq> CHR '']'') t" and ?af = "dropWhile (\<lambda>d. d \<noteq> CHR '']'') t"
  show ?thesis
  proof (cases "c = CHR ''[''")
    case True
    with assms Cons have ok: "?af \<noteq> []" "is_safe_regex_class ?in" "r = tl ?af"
      by (auto simp: scan_atom_def Let_def split: if_splits)
    from split_at_first [OF ok(1)] ok(3) have "t = ?in @ CHR '']'' # r" by simp
    with True Cons ok(2) show ?thesis
      by (intro exI [of _ "Class ?in"]) simp
  next
    case False
    with assms Cons have "atom_ok (Literal c)" "r = t"
      by (auto simp: scan_atom_def split: if_splits)
    with Cons show ?thesis by (intro exI [of _ "Literal c"]) simp
  qed
qed

lemma bounds_split_sound:
  assumes "bounds_ok (split_on (CHR '','') s)"
  shows "\<exists>q. quantifier_ok q \<and> ''{'' @ s @ ''}'' = render_quantifier q"
proof -
  from assms consider b where "split_on (CHR '','') s = [b]"
    | a b where "split_on (CHR '','') s = [a, b]"
    by (auto simp: bounds_ok_def length_Suc_conv numeral_2_eq_2)
  then show ?thesis
  proof cases
    case 1
    with assms show ?thesis
      by (intro exI [of _ "Exactly s"]) (simp add: split_on_single)
  next
    case 2
    then have "s = a @ CHR '','' # b" by (simp add: split_on_pair)
    with assms 2 show ?thesis by (intro exI [of _ "Between a b"]) simp
  qed
qed

lemma scan_quantifier_sound:
  assumes "scan_quantifier s = Some r"
  shows "\<exists>q. quantifier_ok q \<and> s = render_quantifier q @ r"
proof (cases s)
  case Nil
  with assms show ?thesis
    by (intro exI [of _ Once]) (simp add: scan_quantifier_def)
next
  case (Cons c t)
  let ?in = "takeWhile (\<lambda>d. d \<noteq> CHR ''}'') t" and ?af = "dropWhile (\<lambda>d. d \<noteq> CHR ''}'') t"
  consider "c \<in> set ''+*?''" | "c \<notin> set ''+*?''" "c \<noteq> CHR ''{''"
    | "c \<notin> set ''+*?''" "c = CHR ''{''" by blast
  then show ?thesis
  proof cases
    case 1
    with assms Cons show ?thesis
      by (intro exI [of _ "Sign c"]) (simp add: scan_quantifier_def)
  next
    case 2
    with assms Cons show ?thesis
      by (intro exI [of _ Once]) (simp add: scan_quantifier_def)
  next
    case 3
    with assms Cons have ok: "?af \<noteq> []" "bounds_ok (split_on (CHR '','') ?in)" "r = tl ?af"
      by (auto simp: scan_quantifier_def Let_def split: if_splits)
    from split_at_first [OF ok(1)] ok(3) have t: "t = ?in @ CHR ''}'' # r" by simp
    from bounds_split_sound [OF ok(2)] obtain q where
      q: "quantifier_ok q" "''{'' @ ?in @ ''}'' = render_quantifier q" by blast
    have "s = (''{'' @ ?in @ ''}'') @ r"
      using Cons 3 t by simp
    with q show ?thesis by metis
  qed
qed

lemma closed_body_sound:
  "closed_body s \<Longrightarrow> \<exists>items. list_all item_ok items \<and> s = concat (map render_item items)"
proof (induction s rule: closed_body.induct)
  case (1 s)
  show ?case
  proof (cases "s = []")
    case True
    then show ?thesis by (intro exI [of _ "[]"]) simp
  next
    case False
    with "1.prems" obtain r r' where sc: "scan_atom s = Some r" "scan_quantifier r = Some r'"
      and "closed_body r'"
      by (auto simp: closed_body.simps [of s] split: option.splits)
    with False "1.IH" obtain items where
      items: "list_all item_ok items" "r' = concat (map render_item items)" by blast
    from scan_atom_sound [OF sc(1)] scan_quantifier_sound [OF sc(2)] obtain a q where
      "atom_ok a" "s = render_atom a @ r" "quantifier_ok q" "r = render_quantifier q @ r'"
      by blast
    with items show ?thesis
      by (intro exI [of _ "Item a q # items"]) simp
  qed
qed

subsection \<open>Completeness\<close>

lemma bracket_not_class:
  "\<not> class_char (CHR '']'')" "\<not> same_family c (CHR '']'')" "\<not> same_family (CHR '']'') c"
  by (simp_all add: class_char_def same_family_def is_ascii_alphanumeric_def
      REGEX_CLASS_PUNCTUATION_def char_class_defs)

lemma operators_not_literal:
  "c \<in> set ''[+*?{'' \<Longrightarrow> \<not> is_ascii_alphanumeric c \<and> c \<notin> set REGEX_LITERAL_PUNCTUATION"
  by (auto simp: is_ascii_alphanumeric_def REGEX_LITERAL_PUNCTUATION_def char_class_defs)

text \<open>What one round of the class loop has checked, and where it goes on.\<close>

lemma safe_class_loop_step:
  assumes "safe_class_loop b (c # r)"
  obtains "c = CHR ''-''" "safe_class_loop False r"
  | e r' where "r = CHR ''-'' # e # r'" "same_family c e" "safe_class_loop False r'"
  | "class_char c" "safe_class_loop False r"
  using assms by (auto simp: safe_class_loop.simps(2) [of b c r] split: list.splits if_splits)

lemma safe_class_loop_no_bracket: "safe_class_loop b s \<Longrightarrow> CHR '']'' \<notin> set s"
proof (induction s arbitrary: b rule: length_induct)
  case (1 s)
  show ?case
  proof (cases s)
    case (Cons c r)
    with "1.prems" have "safe_class_loop b (c # r)" by simp
    then show ?thesis
    proof (cases rule: safe_class_loop_step)
      case 1
      with "1.IH" Cons show ?thesis by auto
    next
      case (2 e r')
      then have "length r' < length s" using Cons by simp
      with 2 "1.IH" have "CHR '']'' \<notin> set r'" by blast
      with 2 Cons bracket_not_class show ?thesis by auto
    next
      case 3
      then have "CHR '']'' \<notin> set r" using "1.IH" Cons by auto
      with 3 Cons bracket_not_class show ?thesis by auto
    qed
  qed simp
qed

lemma scan_atom_complete:
  assumes "atom_ok a"
  shows "scan_atom (render_atom a @ r) = Some r"
proof (cases a)
  case (Literal c)
  with assms operators_not_literal [of c] have "c \<noteq> CHR ''[''" by auto
  with assms Literal show ?thesis by (auto simp: scan_atom_def)
next
  case (Class cs)
  with assms have "CHR '']'' \<notin> set cs"
    by (auto simp: is_safe_regex_class_def split: if_splits dest: safe_class_loop_no_bracket)
  with assms Class show ?thesis
    by (simp add: scan_atom_def Let_def span_until)
qed

lemma bounds_ok_digits: "bounds_ok bs \<Longrightarrow> b \<in> set bs \<Longrightarrow> list_all is_digit b"
  by (auto simp: bounds_ok_def bound_ok_def list_all_iff)

lemma scan_quantifier_braces:
  assumes "bounds_ok (split_on (CHR '','') s)" and "CHR ''}'' \<notin> set s"
  shows "scan_quantifier (CHR ''{'' # s @ CHR ''}'' # r) = Some r"
  using assms by (simp add: scan_quantifier_def Let_def span_until)

definition quantifier_free_start :: "string \<Rightarrow> bool" where
  "quantifier_free_start r \<longleftrightarrow> r = [] \<or> hd r \<notin> set ''+*?{''"

lemma scan_quantifier_complete:
  assumes "quantifier_ok q" and "q = Once \<longrightarrow> quantifier_free_start r"
  shows "scan_quantifier (render_quantifier q @ r) = Some r"
proof (cases q)
  case Once
  with assms show ?thesis
    by (cases r) (simp_all add: scan_quantifier_def quantifier_free_start_def)
next
  case (Sign c)
  with assms show ?thesis by (simp add: scan_quantifier_def)
next
  case (Exactly b)
  with assms have "list_all is_digit b" by (auto dest: bounds_ok_digits)
  then have "split_on (CHR '','') b = [b]" "CHR ''}'' \<notin> set b"
    by (auto simp: split_on_single dest: digit_not_comma digit_not_brace)
  with assms Exactly show ?thesis
    using scan_quantifier_braces [of b r] by simp
next
  case (Between a b)
  with assms have "list_all is_digit a" "list_all is_digit b"
    by (auto dest: bounds_ok_digits)
  then have "split_on (CHR '','') (a @ CHR '','' # b) = [a, b]"
      "CHR ''}'' \<notin> set (a @ CHR '','' # b)"
    by (auto simp: split_on_pair dest: digit_not_comma digit_not_brace)
  with assms Between show ?thesis
    using scan_quantifier_braces [of "a @ CHR '','' # b" r] by simp
qed

lemma render_item_nonempty: "render_item i \<noteq> []"
  by (cases i; cases "case i of Item a q \<Rightarrow> a") auto

lemma rendered_items_free_start:
  assumes "list_all item_ok items"
  shows "quantifier_free_start (concat (map render_item items))"
proof (cases items)
  case Nil
  then show ?thesis by (simp add: quantifier_free_start_def)
next
  case (Cons i rest)
  obtain a q where i: "i = Item a q" by (cases i)
  with assms Cons have ok: "atom_ok a" by simp
  show ?thesis
  proof (cases a)
    case (Literal c)
    with ok operators_not_literal [of c] have "c \<notin> set ''+*?{''" by auto
    with Cons i Literal show ?thesis by (simp add: quantifier_free_start_def)
  next
    case (Class cs)
    with Cons i show ?thesis by (simp add: quantifier_free_start_def)
  qed
qed

lemma closed_body_complete:
  "list_all item_ok items \<Longrightarrow> closed_body (concat (map render_item items))"
proof (induction items)
  case Nil
  then show ?case by (simp add: closed_body.simps [of "[]"])
next
  case (Cons i rest)
  obtain a q where i: "i = Item a q" by (cases i)
  let ?rest = "concat (map render_item rest)"
  let ?s = "render_atom a @ render_quantifier q @ ?rest"
  have "scan_atom ?s = Some (render_quantifier q @ ?rest)"
    using Cons.prems i by (simp add: scan_atom_complete)
  moreover have "scan_quantifier (render_quantifier q @ ?rest) = Some ?rest"
    using Cons.prems i by (simp add: scan_quantifier_complete rendered_items_free_start)
  moreover have "?s \<noteq> []" by (cases a) simp_all
  ultimately have "closed_body ?s"
    using Cons by (simp add: closed_body.simps [of ?s])
  with i show ?case by simp
qed

text \<open>Property C3. The index-driven scanner that guards \<open>ValidateRegexStep\<close> accepts a pattern
  exactly when the pattern is a non-empty sequence of grammar items between the anchors: a
  safe literal or a safe bracketed class, each with an optional \<open>+\<close>, \<open>*\<close>, \<open>?\<close> or bounded
  repetition. In particular no group, alternation, escape, wildcard or inner anchor passes.\<close>

theorem closed_regex_iff_grammar:
  "is_closed_postgres_regex v \<longleftrightarrow>
     (\<exists>items. items \<noteq> [] \<and> list_all item_ok items \<and> v = render_pattern items)"
proof
  assume v: "is_closed_postgres_regex v"
  then have ends: "v \<noteq> []" "hd v = CHR ''^''" "last v = CHR ''$''" "3 \<le> length v"
    and "closed_body (butlast (tl v))"
    by (auto simp: is_closed_postgres_regex_def split: if_splits)
  then obtain items where items: "list_all item_ok items"
    and body: "butlast (tl v) = concat (map render_item items)"
    using closed_body_sound by blast
  obtain m where m: "v = CHR ''^'' # m" "m \<noteq> []" "2 \<le> length m"
    using ends by (cases v; cases "tl v") auto
  then have "v = CHR ''^'' # butlast m @ [last m]" by simp
  with ends m body have "v = render_pattern items"
    by (simp add: render_pattern_def)
  moreover have "length (butlast m) \<noteq> 0" using m by simp
  with m body have "items \<noteq> []" by auto
  ultimately show "\<exists>items. items \<noteq> [] \<and> list_all item_ok items \<and> v = render_pattern items"
    using items by blast
next
  assume "\<exists>items. items \<noteq> [] \<and> list_all item_ok items \<and> v = render_pattern items"
  then obtain i rest where ok: "list_all item_ok (i # rest)" "v = render_pattern (i # rest)"
    by (metis neq_Nil_conv)
  have "Suc 0 \<le> length (render_item i)"
    using render_item_nonempty [of i] by (cases "render_item i") simp_all
  then have "3 \<le> length v" using ok(2) by (simp add: render_pattern_def)
  moreover have "butlast (tl v) = concat (map render_item (i # rest))"
    using ok(2) by (simp add: render_pattern_def butlast_append)
  ultimately show "is_closed_postgres_regex v"
    using closed_body_complete [OF ok(1)] ok(2)
    by (simp add: is_closed_postgres_regex_def render_pattern_def render_item_nonempty)
qed

section \<open>Digit strings and the numbers they denote\<close>

lemma nat_of_digits_Cons_zero: "nat_of_digits (CHR ''0'' # s) = nat_of_digits s"
  by (simp add: nat_of_digits_def code_def)

lemma nat_of_digits_strip:
  "nat_of_digits (dropWhile (\<lambda>c. c = CHR ''0'') s) = nat_of_digits s"
  by (induction s) (auto simp: nat_of_digits_Cons_zero)

lemma nat_of_digits_zeros: "nat_of_digits (replicate n (CHR ''0'') @ s) = nat_of_digits s"
  by (induction n) (auto simp: nat_of_digits_Cons_zero)

lemma digit_char_code: "is_digit c \<Longrightarrow> digit_char (code c - 48) = c"
  by (simp add: is_digit_def digit_char_def code_def)

lemma code_zero: "code (CHR ''0'') = 48"
  by (simp add: code_def)

lemma digit_zero: "code c = 48 \<longleftrightarrow> c = CHR ''0''"
  by (metis code_zero code_def of_char_eq_iff)

lemma digit_char_0: "digit_char 0 = CHR ''0''"
  using digit_zero [of "digit_char 0"] by simp

text \<open>A digit string without a leading zero is the numeral of its value.\<close>

lemma str_of_nat_step:
  "0 < n \<Longrightarrow> d < 10 \<Longrightarrow> str_of_nat (10 * n + d) = str_of_nat n @ [digit_char d]"
  by (subst str_of_nat.simps) simp

lemma numeral_without_leading_zero:
  assumes "list_all is_digit s" and "s \<noteq> []" and "hd s \<noteq> CHR ''0''"
  shows "s = str_of_nat (nat_of_digits s) \<and> 0 < nat_of_digits s"
  using assms
proof (induction s rule: rev_induct)
  case (snoc c t)
  have c: "is_digit c" using snoc.prems by simp
  then have d: "code c - 48 < 10" and cc: "digit_char (code c - 48) = c"
    by (auto simp: is_digit_def digit_char_code)
  show ?case
  proof (cases "t = []")
    case True
    with snoc.prems have "c \<noteq> CHR ''0''" by simp
    with c digit_zero [of c] have "0 < code c - 48" by (auto simp: is_digit_def)
    with True d cc show ?thesis
      by (simp add: nat_of_digits_def str_of_nat.simps)
  next
    case False
    with snoc have IH: "t = str_of_nat (nat_of_digits t)" "0 < nat_of_digits t" by auto
    then have "str_of_nat (nat_of_digits (t @ [c])) = t @ [c]"
      using d cc by (simp add: nat_of_digits_snoc str_of_nat_step)
    with IH show ?thesis by (simp add: nat_of_digits_snoc)
  qed
qed simp

lemma strip_zeros_eq_numeral:
  assumes "ascii_digits s"
  shows "strip_zeros s = str_of_nat (nat_of_digits s)"
proof (cases "dropWhile (\<lambda>c. c = CHR ''0'') s = []")
  case True
  have "nat_of_digits s = nat_of_digits []"
    using nat_of_digits_strip [of s] unfolding True by simp
  with True show ?thesis
    unfolding strip_zeros_def Let_def True
    by (simp add: str_of_nat.simps digit_char_0 nat_of_digits_def)
next
  case False
  let ?r = "dropWhile (\<lambda>c. c = CHR ''0'') s"
  have "list_all is_digit ?r"
    using assms by (auto simp: ascii_digits_def list_all_iff dest: set_dropWhileD)
  with False hd_dropWhile [OF False]
  have "?r = str_of_nat (nat_of_digits s)"
    using numeral_without_leading_zero [of ?r] by (simp add: nat_of_digits_strip)
  with False show ?thesis
    unfolding strip_zeros_def Let_def by argo
qed

lemma ascii_digits_str_of_nat: "ascii_digits (str_of_nat n)"
  by (simp add: ascii_digits_def str_of_nat_nonempty str_of_nat_digits)

lemma is_digit_0: "is_digit (CHR ''0'')"
  by (simp add: char_class_defs)

lemma ascii_digits_zfill: "ascii_digits s \<Longrightarrow> ascii_digits (zfill s n)"
  by (auto simp: ascii_digits_def zfill_def list_all_iff is_digit_0)

lemma nat_of_digits_zfill: "nat_of_digits (zfill s n) = nat_of_digits s"
  by (simp add: zfill_def nat_of_digits_zeros)

lemma length_zfill: "int (length s) \<le> n \<Longrightarrow> int (length (zfill s n)) = n"
  by (simp add: zfill_def)

lemma digit_not_space: "is_digit c \<Longrightarrow> \<not> is_space c"
  by (auto simp: is_digit_def is_space_def)

lemma strip_ascii_digits: "ascii_digits s \<Longrightarrow> strip s = s"
  by (rule strip_fixpoint) (auto simp: ascii_digits_def list_all_iff intro!: digit_not_space)

lemma negative_not_digits: "ascii_digits s \<Longrightarrow> \<not> negative_digits s"
proof -
  have "\<not> is_digit (CHR ''-'')" by (simp add: char_class_defs)
  then show "ascii_digits s \<Longrightarrow> \<not> negative_digits s"
    by (auto simp: ascii_digits_def negative_digits_def split: list.splits)
qed

lemmas digit_string_simps =
  strip_zeros_eq_numeral ascii_digits_str_of_nat nat_of_digits_str_of_nat
  ascii_digits_zfill nat_of_digits_zfill

section \<open>The canonical form\<close>

text \<open>The digits that \<open>canonicalize\<close> receives denote the number of the input value.\<close>

definition string_digits :: "identifier_plan \<Rightarrow> string \<Rightarrow> string" where
  "string_digits plan s = (if ip_trim_whitespace plan then strip s else s)"

fun identifier_number :: "identifier_plan \<Rightarrow> identifier_value \<Rightarrow> nat option" where
  "identifier_number plan (VStr s) =
     (if ascii_digits (string_digits plan s) then Some (nat_of_digits (string_digits plan s))
      else None)"
| "identifier_number plan (VInt i) = (if 0 \<le> i then Some (nat i) else None)"
| "identifier_number plan (VFloat (Finite q)) =
     (if is_integral q \<and> 0 \<le> q \<and> q \<le> MAX_SAFE_FLOAT_INTEGER then Some (nat \<lfloor>q\<rfloor>) else None)"
| "identifier_number plan (VDecimal (Finite q)) =
     (if is_integral q \<and> 0 \<le> q then Some (nat \<lfloor>q\<rfloor>) else None)"
| "identifier_number plan v = None"

text \<open>What each leading-zero policy makes of a number.\<close>

definition canonical_of :: "identifier_plan \<Rightarrow> string \<Rightarrow> string" where
  "canonical_of plan digits =
     (case ip_leading_zero_policy plan of
        ZeroPreserve \<Rightarrow> digits
      | ZeroStrip \<Rightarrow> str_of_nat (nat_of_digits digits)
      | ZeroPadToLength \<Rightarrow> zfill (str_of_nat (nat_of_digits digits)) (the (ip_pad_to_length plan)))"

lemma canonicalize_accepts:
  assumes "canonicalize plan kind digits = Inr (Accepted (Some c) k)"
  shows "ascii_digits digits \<and> k = kind \<and> c = canonical_of plan digits"
    and "ip_leading_zero_policy plan = ZeroPadToLength \<Longrightarrow>
         \<exists>n. ip_pad_to_length plan = Some n \<and> int (length (str_of_nat (nat_of_digits digits))) \<le> n"
proof -
  from assms have d: "ascii_digits digits"
    by (auto simp: canonicalize_def split: if_splits)
  then show "ascii_digits digits \<and> k = kind \<and> c = canonical_of plan digits"
    using assms
    by (cases "ip_leading_zero_policy plan")
      (auto simp: canonicalize_def canonical_of_def Let_def strip_zeros_eq_numeral
        split: if_splits option.splits)
  show "\<exists>n. ip_pad_to_length plan = Some n \<and> int (length (str_of_nat (nat_of_digits digits))) \<le> n"
    if "ip_leading_zero_policy plan = ZeroPadToLength"
    using assms d that
    by (auto simp: canonicalize_def Let_def strip_zeros_eq_numeral split: if_splits option.splits)
qed

lemma canonicalize_None: "canonicalize plan kind digits \<noteq> Inr (Accepted None k)"
  by (auto simp: canonicalize_def Let_def split: option.splits)

lemma canonical_of_value:
  "ascii_digits d \<Longrightarrow> ascii_digits (canonical_of plan d) \<and> nat_of_digits (canonical_of plan d) = nat_of_digits d"
  by (auto simp: canonical_of_def digit_string_simps split: leading_zero_policy.splits)

lemma py_str_int_nonneg:
  "0 \<le> i \<Longrightarrow> py_str_int i = Inr s \<Longrightarrow> s = str_of_nat (nat i)"
  by (auto simp: py_str_int_def str_of_int_def split: if_splits)

text \<open>Every accepted value reached \<open>canonicalize\<close> with digits that denote its number.\<close>

lemma digits_from_value_string:
  "digits_from_value v = Inr (Inr d, KString) \<Longrightarrow> v = VStr d"
  by (cases v rule: digits_from_value.cases) (auto simp: bindE_eq_Inr split: if_splits)

lemma digits_from_value_number:
  assumes "digits_from_value v = Inr (Inr d, kind)" and "kind \<noteq> KString"
  shows "identifier_number plan v = Some (nat_of_digits d) \<and> (\<forall>s. v \<noteq> VStr s)"
  using assms
  by (cases v rule: digits_from_value.cases)
    (auto simp: bindE_eq_Inr nat_of_digits_str_of_nat not_less dest!: py_str_int_nonneg [rotated]
      split: if_splits)

lemma accepted_through_canonicalize:
  assumes "normalize_identifier v plan = Inr (Accepted (Some c) k)"
  obtains digits where "canonicalize plan k digits = Inr (Accepted (Some c) k)"
    and "identifier_number plan v = Some (nat_of_digits digits)"
    and "\<And>s. v = VStr s \<Longrightarrow> digits = string_digits plan s"
proof -
  have nn: "normalize_null plan x \<noteq> Accepted (Some c) k" for x
    by (simp add: normalize_null_def)
  from assms nn obtain d kind where dv: "digits_from_value v = Inr (Inr d, kind)"
    by (auto simp: normalize_identifier_def bindE_eq_Inr split: if_splits sum.splits)
  then have vn: "v \<noteq> VNone" by auto
  show thesis
  proof (cases "kind = KString")
    case True
    with dv have v: "v = VStr d" by (simp add: digits_from_value_string)
    with assms nn have "canonicalize plan KString (string_digits plan d) = Inr (Accepted (Some c) k)"
      by (auto simp: normalize_identifier_def Let_def string_digits_def split: if_splits)
    with canonicalize_accepts(1) [OF this] v show thesis
      by (intro that [of "string_digits plan d"]) auto
  next
    case False
    with assms dv vn have can: "canonicalize plan kind d = Inr (Accepted (Some c) k)"
      by (simp add: normalize_identifier_def)
    with canonicalize_accepts(1) [OF can] digits_from_value_number [OF dv False] show thesis
      by (intro that [of d]) auto
  qed
qed

text \<open>Property C2. Normalization never truncates or repairs: whatever the Python type of the
  value, an accepted non-NULL canonical form is a non-empty string of ASCII digits that
  denotes exactly the number of the input, and under the padding policy it has exactly the
  configured width.\<close>

theorem normalize_identifier_exact:
  assumes "normalize_identifier v plan = Inr (Accepted (Some c) k)"
  shows "ascii_digits c \<and> identifier_number plan v = Some (nat_of_digits c)
    \<and> (ip_leading_zero_policy plan = ZeroPadToLength \<longrightarrow>
         ip_pad_to_length plan = Some (int (length c)))"
proof -
  obtain d where can: "canonicalize plan k d = Inr (Accepted (Some c) k)"
    and num: "identifier_number plan v = Some (nat_of_digits d)"
    using accepted_through_canonicalize [OF assms] by metis
  note acc = canonicalize_accepts [OF can]
  have "ip_pad_to_length plan = Some (int (length c))"
    if "ip_leading_zero_policy plan = ZeroPadToLength"
    using acc(1) acc(2) [OF that] that by (auto simp: canonical_of_def length_zfill)
  with acc(1) num canonical_of_value [of d plan] show ?thesis by simp
qed

text \<open>Property C1. Join keys match exactly when they are the same number: under a policy that
  fixes the leading zeros (strip or pad), two accepted values, of any mixture of types, get
  equal canonical forms if and only if they denote the same number.\<close>

theorem canonical_keys_equal_iff_same_number:
  assumes "ip_leading_zero_policy plan \<noteq> ZeroPreserve"
    and "normalize_identifier v plan = Inr (Accepted (Some c) k)"
    and "normalize_identifier w plan = Inr (Accepted (Some d) l)"
  shows "c = d \<longleftrightarrow> identifier_number plan v = identifier_number plan w"
proof -
  obtain a where a: "canonicalize plan k a = Inr (Accepted (Some c) k)"
    "identifier_number plan v = Some (nat_of_digits a)"
    using accepted_through_canonicalize [OF assms(2)] by metis
  obtain b where b: "canonicalize plan l b = Inr (Accepted (Some d) l)"
    "identifier_number plan w = Some (nat_of_digits b)"
    using accepted_through_canonicalize [OF assms(3)] by metis
  have ab: "ascii_digits a" "c = canonical_of plan a" "ascii_digits b" "d = canonical_of plan b"
    using canonicalize_accepts(1) [OF a(1)] canonicalize_accepts(1) [OF b(1)] by auto
  show ?thesis
  proof
    assume "c = d"
    then show "identifier_number plan v = identifier_number plan w"
      using a b ab canonical_of_value [of a plan] canonical_of_value [of b plan] by simp
  next
    assume "identifier_number plan v = identifier_number plan w"
    then have "nat_of_digits a = nat_of_digits b" using a b by simp
    then show "c = d"
      using ab assms(1) by (cases "ip_leading_zero_policy plan") (simp_all add: canonical_of_def)
  qed
qed

text \<open>Normalization is idempotent: feeding a canonical form back as a string under
  the same plan returns the same canonical form.\<close>

lemma normalize_identifier_idempotent:
  assumes "normalize_identifier v plan = Inr (Accepted (Some c) k)"
  shows "normalize_identifier (VStr c) plan = Inr (Accepted (Some c) KString)"
proof -
  obtain d where can: "canonicalize plan k d = Inr (Accepted (Some c) k)"
    using accepted_through_canonicalize [OF assms] by metis
  note acc = canonicalize_accepts [OF can]
  have dig: "ascii_digits c" and num: "nat_of_digits c = nat_of_digits d"
    using acc(1) canonical_of_value [of d plan] by auto
  have "canonicalize plan KString c = Inr (Accepted (Some c) KString)"
  proof (cases "ip_leading_zero_policy plan")
    case ZeroPreserve
    with dig show ?thesis by (simp add: canonicalize_def)
  next
    case ZeroStrip
    with dig acc(1) num show ?thesis
      by (simp add: canonicalize_def canonical_of_def strip_zeros_eq_numeral)
  next
    case ZeroPadToLength
    with acc(2) dig acc(1) num show ?thesis
      by (auto simp: canonicalize_def canonical_of_def strip_zeros_eq_numeral Let_def)
  qed
  moreover have "c \<noteq> []" using dig by (simp add: ascii_digits_def)
  ultimately show ?thesis
    using dig by (simp add: normalize_identifier_def Let_def strip_ascii_digits negative_not_digits)
qed

text \<open>Rendering a safe float integer stays far below the interpreter's digit limit.\<close>

lemma length_str_of_nat_le: "n < 10 ^ Suc k \<Longrightarrow> length (str_of_nat n) \<le> Suc k"
proof (induction k arbitrary: n)
  case 0
  then show ?case by (simp add: str_of_nat.simps [of n])
next
  case (Suc k)
  show ?case
  proof (cases "n < 10")
    case True
    then show ?thesis by (simp add: str_of_nat.simps [of n])
  next
    case False
    have "n div 10 < 10 ^ Suc k" using Suc.prems by simp
    then have "length (str_of_nat (n div 10)) \<le> Suc k" by (rule Suc.IH)
    with False show ?thesis by (simp add: str_of_nat.simps [of n])
  qed
qed

definition oversized_integer :: "identifier_value \<Rightarrow> bool" where
  "oversized_integer v \<longleftrightarrow>
     (case v of
        VInt i \<Rightarrow> 0 \<le> i \<and> 4300 < length (str_of_nat (nat i))
      | VDecimal (Finite q) \<Rightarrow>
          is_integral q \<and> 0 \<le> q \<and> 4300 < length (str_of_nat (nat \<lfloor>q\<rfloor>))
      | _ \<Rightarrow> False)"

lemma py_str_int_safe_float:
  assumes "0 \<le> q" and "q \<le> MAX_SAFE_FLOAT_INTEGER"
  shows "py_str_int \<lfloor>q\<rfloor> = Inr (str_of_int \<lfloor>q\<rfloor>)"
proof -
  have "\<lfloor>q\<rfloor> \<le> \<lfloor>MAX_SAFE_FLOAT_INTEGER\<rfloor>" using assms(2) by (rule floor_mono)
  moreover have "\<lfloor>MAX_SAFE_FLOAT_INTEGER\<rfloor> = 9007199254740991"
    by (simp add: MAX_SAFE_FLOAT_INTEGER_def)
  moreover have "0 \<le> \<lfloor>q\<rfloor>" using assms(1) by simp
  ultimately have "\<bar>\<lfloor>q\<rfloor>\<bar> < 10 ^ 16" by simp
  then have "nat \<bar>\<lfloor>q\<rfloor>\<bar> < 10 ^ Suc 15" by (subst nat_less_iff) simp_all
  then have "length (str_of_nat (nat \<bar>\<lfloor>q\<rfloor>\<bar>)) \<le> Suc 15" by (rule length_str_of_nat_le)
  then show ?thesis by (simp add: py_str_int_def)
qed

lemma digits_from_value_total:
  "if oversized_integer v then digits_from_value v = Inl ValueError
   else (\<exists>r. digits_from_value v = Inr r)"
proof (cases v rule: digits_from_value.cases)
  case (4 q)
  then show ?thesis
    by (auto simp: oversized_integer_def py_str_int_safe_float not_less)
qed (auto simp: oversized_integer_def py_str_int_def not_less)

lemma canonicalize_total:
  "identifier_plan_valid plan \<Longrightarrow> \<exists>r. canonicalize plan kind d = Inr r"
  by (auto simp: canonicalize_def identifier_plan_valid_def Let_def split: option.splits)

text \<open>Property C4. For a validated plan the interpreter returns an outcome for every value,
  except for a non-negative integer (or integral decimal) of more than 4300 digits, whose
  rendering makes Python raise \<open>ValueError\<close>. The plan-invariant exception of the padding
  branch is unreachable.\<close>

theorem normalize_identifier_total:
  assumes "identifier_plan_valid plan"
  shows "if oversized_integer v then normalize_identifier v plan = Inl ValueError
    else (\<exists>r. normalize_identifier v plan = Inr r)"
proof (cases "oversized_integer v")
  case True
  then have "digits_from_value v = Inl ValueError" "v \<noteq> VNone"
    using digits_from_value_total [of v] by (auto simp: oversized_integer_def)
  with True show ?thesis by (simp add: normalize_identifier_def)
next
  case False
  then obtain res kind where "digits_from_value v = Inr (res, kind)"
    using digits_from_value_total [of v] by (metis surj_pair)
  moreover have "\<exists>r. canonicalize plan x y = Inr r" for x y
    using assms by (rule canonicalize_total)
  ultimately show ?thesis
    using False by (cases res) (auto simp: normalize_identifier_def Let_def)
qed

section \<open>The interpreter on concrete keys\<close>

text \<open>
  The keys of the north-star demonstration: the string \<open>"00000000123"\<close>, the integer \<open>123\<close> and
  the float \<open>123.0\<close> under a stripping plan.
\<close>

definition strip_plan :: identifier_plan where
  "strip_plan = \<lparr>ip_version = 1, ip_null_policy = NullReject, ip_leading_zero_policy = ZeroStrip,
     ip_pad_to_length = None, ip_trim_whitespace = True, ip_empty_string_policy = EmptyReject\<rparr>"

lemma strip_plan_valid: "identifier_plan_valid strip_plan"
  by (simp add: strip_plan_def identifier_plan_valid_def)

lemma strip_plan_string:
  "normalize_identifier (VStr ''00000000123'') strip_plan = Inr (Accepted (Some ''123'') KString)"
  by code_simp

lemma strip_plan_float:
  "normalize_identifier (VFloat (Finite 123)) strip_plan = Inr (Accepted (Some ''123'') KFloat)"
  by code_simp

theorem normalize_identifier_exact_witness:
  "identifier_number strip_plan (VStr ''00000000123'') = Some (nat_of_digits ''123'')"
  using normalize_identifier_exact [OF strip_plan_string] by simp

theorem canonical_keys_equal_iff_same_number_witness:
  "identifier_number strip_plan (VStr ''00000000123'') = identifier_number strip_plan (VFloat (Finite 123))"
proof -
  have "ip_leading_zero_policy strip_plan \<noteq> ZeroPreserve" by (simp add: strip_plan_def)
  from canonical_keys_equal_iff_same_number [OF this strip_plan_string strip_plan_float]
  show ?thesis by simp
qed

lemma normalize_identifier_idempotent_witness:
  "normalize_identifier (VStr ''123'') strip_plan = Inr (Accepted (Some ''123'') KString)"
  using normalize_identifier_idempotent [OF strip_plan_float] .

theorem normalize_identifier_total_witness:
  "\<exists>r. normalize_identifier (VFloat NaN) strip_plan = Inr r"
  using normalize_identifier_total [OF strip_plan_valid, of "VFloat NaN"]
  by (simp add: oversized_integer_def)

end
