(* ===== verification/Lease_Interface.thy ===== *)
theory Lease_Interface
  imports Bridge_Prelude
begin

text \<open>
  The contract the three durable job machines of the source share. A job is claimed by a
  worker for one delivery, the claim advances a fencing token, and every later write of that
  worker must present the token. The locales below state what a machine promises; the
  theories \<open>Background_Jobs\<close>, \<open>Profile_Jobs\<close> and \<open>Publication_Jobs\<close> interpret them on the
  transition functions of the code.
\<close>

section \<open>Runs\<close>

text \<open>A run from one state to another, counting the claims on the way.\<close>

inductive lease_run :: "('j \<Rightarrow> 'j \<Rightarrow> bool) \<Rightarrow> ('j \<Rightarrow> 'j \<Rightarrow> bool) \<Rightarrow> 'j \<Rightarrow> nat \<Rightarrow> 'j \<Rightarrow> bool"
  for claim :: "'j \<Rightarrow> 'j \<Rightarrow> bool" and progress :: "'j \<Rightarrow> 'j \<Rightarrow> bool"
where
  run_start: "lease_run claim progress j 0 j"
| run_claim: "lease_run claim progress j n k \<Longrightarrow> claim k l \<Longrightarrow> lease_run claim progress j (Suc n) l"
| run_progress: "lease_run claim progress j n k \<Longrightarrow> progress k l \<Longrightarrow> lease_run claim progress j n l"

lemmas run_intros = run_start run_claim run_progress

lemma run_single_claim: "claim j k \<Longrightarrow> lease_run claim progress j 1 k"
  using run_claim [OF run_start] by simp

lemma run_single_progress: "progress j k \<Longrightarrow> lease_run claim progress j 0 k"
  by (rule run_progress [OF run_start])

lemma run_append:
  assumes "lease_run claim progress k m l" and "lease_run claim progress j n k"
  shows "lease_run claim progress j (n + m) l"
  using assms
  by (induction rule: lease_run.induct) (auto intro: lease_run.intros)

section \<open>Fenced leases\<close>

locale fenced_lease =
  fixes valid :: "'j \<Rightarrow> bool"
    and claim :: "'j \<Rightarrow> 'j \<Rightarrow> bool"
    and progress :: "'j \<Rightarrow> 'j \<Rightarrow> bool"
    and fence :: "'j \<Rightarrow> int"
    and budget :: "'j \<Rightarrow> int"
    and accepts :: "'j \<Rightarrow> int \<Rightarrow> bool"
    and settled :: "'j \<Rightarrow> bool"
  assumes claim_valid: "valid j \<Longrightarrow> claim j k \<Longrightarrow> valid k"
    and progress_valid: "valid j \<Longrightarrow> progress j k \<Longrightarrow> valid k"
    and claim_fence: "valid j \<Longrightarrow> claim j k \<Longrightarrow> fence k = fence j + 1"
    and progress_fence: "valid j \<Longrightarrow> progress j k \<Longrightarrow> fence k = fence j"
    and claim_budget: "valid j \<Longrightarrow> claim j k \<Longrightarrow> budget k = budget j"
    and progress_budget: "valid j \<Longrightarrow> progress j k \<Longrightarrow> budget k = budget j"
    and fence_bounds: "valid j \<Longrightarrow> 0 \<le> fence j \<and> fence j \<le> budget j"
    and accepts_fence: "valid j \<Longrightarrow> accepts j t \<Longrightarrow> t = fence j"
    and settled_claim: "valid j \<Longrightarrow> settled j \<Longrightarrow> \<not> claim j k"
    and settled_progress: "valid j \<Longrightarrow> settled j \<Longrightarrow> progress j k \<Longrightarrow> k = j"
begin

lemma run_valid:
  assumes "lease_run claim progress j n k" and "valid j"
  shows "valid k"
  using assms by (induction) (auto intro: claim_valid progress_valid)

lemma run_accounts:
  assumes "lease_run claim progress j n k" and "valid j"
  shows "fence k = fence j + int n \<and> budget k = budget j"
  using assms
proof (induction)
  case (run_claim j n k l)
  then show ?case
    using run_valid [OF run_claim.hyps(1)] by (simp add: claim_fence claim_budget)
next
  case (run_progress j n k l)
  then show ?case
    using run_valid [OF run_progress.hyps(1)] by (simp add: progress_fence progress_budget)
qed simp

text \<open>A job is delivered at most as often as its budget allows.\<close>

lemma deliveries_bounded:
  assumes "lease_run claim progress j n k" and "valid j"
  shows "int n \<le> budget j - fence j" and "int n \<le> budget j"
  using run_accounts [OF assms] fence_bounds [OF run_valid [OF assms]] fence_bounds [OF assms(2)]
  by auto

text \<open>Once the job was claimed again, no token handed out before is accepted.\<close>

lemma stale_token_refused:
  assumes "lease_run claim progress j n k" and "valid j" and "0 < n" and "t \<le> fence j"
  shows "\<not> accepts k t"
  using run_accounts [OF assms(1,2)] accepts_fence [OF run_valid [OF assms(1,2)]] assms(3,4)
  by fastforce

text \<open>A token is accepted in at most one delivery.\<close>

lemma token_identifies_delivery:
  assumes "lease_run claim progress j n k" and "valid j" and "accepts j t" and "accepts k t"
  shows "n = 0"
  using stale_token_refused [OF assms(1,2)] accepts_fence [OF assms(2,3)] assms(4) by auto

text \<open>A settled job stays as it is, whatever is attempted on it.\<close>

lemma settled_forever:
  assumes "lease_run claim progress j n k" and "valid j" and "settled j"
  shows "k = j \<and> n = 0"
  using assms
proof (induction)
  case (run_claim j n k l)
  then show ?case using settled_claim by blast
next
  case (run_progress j n k l)
  then show ?case using settled_progress by blast
qed simp

end

section \<open>Capped exponential backoff\<close>

text \<open>
  The retry delay of a delivery: \<open>min(initial * 2 ** (attempt - 1), maximum)\<close> seconds for
  the attempts the machine admits.
\<close>

definition backoff_seconds :: "int \<Rightarrow> int \<Rightarrow> int \<Rightarrow> int" where
  "backoff_seconds initial cap attempt = min (initial * 2 ^ nat (attempt - 1)) cap"

locale capped_backoff =
  fixes delay :: "int \<Rightarrow> ('c, timedelta) outcome"
    and initial :: int and cap :: int and admitted :: "int \<Rightarrow> bool"
  assumes delay_eq: "delay n =
      (if admitted n then Inr (seconds (backoff_seconds initial cap n)) else Inl ValueError)"
    and admitted_pos: "admitted n \<Longrightarrow> 1 \<le> n"
    and initial_pos: "0 < initial"
    and initial_le_cap: "initial \<le> cap"
begin

lemma delay_bounds:
  assumes "delay n = Inr d"
  shows "seconds initial \<le> d" and "d \<le> seconds cap"
proof -
  from assms have d: "d = seconds (backoff_seconds initial cap n)"
    by (simp add: delay_eq split: if_splits)
  have "initial \<le> initial * 2 ^ nat (n - 1)"
    using initial_pos by (simp add: mult_le_cancel_left1)
  then show "seconds initial \<le> d"
    using d initial_le_cap by (simp add: backoff_seconds_def min_def)
  show "d \<le> seconds cap"
    using d by (simp add: backoff_seconds_def)
qed

lemma delay_mono:
  assumes "delay m = Inr d" and "delay n = Inr e" and "m \<le> n"
  shows "d \<le> e"
proof -
  have "d = seconds (backoff_seconds initial cap m)" "e = seconds (backoff_seconds initial cap n)"
    using assms(1,2) by (simp_all add: delay_eq split: if_splits)
  moreover have "(2::int) ^ nat (m - 1) \<le> 2 ^ nat (n - 1)"
    using assms(3) by (simp add: power_increasing)
  then have "initial * 2 ^ nat (m - 1) \<le> initial * 2 ^ nat (n - 1)"
    using initial_pos by simp
  ultimately show ?thesis by (simp add: backoff_seconds_def)
qed

text \<open>Until the cap is reached every further attempt doubles the delay.\<close>

lemma delay_doubles:
  assumes "delay n = Inr d" and "delay (n + 1) = Inr e"
  shows "e = min (2 * d) (seconds cap)"
proof -
  have n: "1 \<le> n" and "d = seconds (backoff_seconds initial cap n)"
    "e = seconds (backoff_seconds initial cap (n + 1))"
    using assms admitted_pos by (auto simp: delay_eq split: if_splits)
  moreover have "nat (n + 1 - 1) = Suc (nat (n - 1))" using n by simp
  ultimately show ?thesis
    using initial_pos initial_le_cap by (auto simp: backoff_seconds_def min_def)
qed

lemma delay_defined_iff: "(\<exists>d. delay n = Inr d) \<longleftrightarrow> admitted n"
  by (simp add: delay_eq)

end

section \<open>The abstract lease machine\<close>

text \<open>
  What a client of a job queue may rely on: a job waits until it is due, is held until its lease
  expires, or is settled; each delivery is counted against a budget; time does not run backwards.
\<close>

datatype lease_phase = Waiting instant | Held instant | Settled

record lease_view =
  lv_phase :: lease_phase
  lv_deliveries :: int
  lv_budget :: int
  lv_clock :: instant

inductive lease_spec :: "lease_view \<Rightarrow> lease_view \<Rightarrow> bool" where
  spec_deliver: "lv_phase s = Waiting due \<Longrightarrow> due \<le> t \<Longrightarrow> lv_clock s \<le> t \<Longrightarrow> t < e \<Longrightarrow>
    lv_deliveries s < lv_budget s \<Longrightarrow>
    lease_spec s (s\<lparr>lv_phase := Held e, lv_deliveries := lv_deliveries s + 1, lv_clock := t\<rparr>)"
| spec_take_over: "lv_phase s = Held x \<Longrightarrow> x \<le> t \<Longrightarrow> lv_clock s \<le> t \<Longrightarrow> t < e \<Longrightarrow>
    lv_deliveries s < lv_budget s \<Longrightarrow>
    lease_spec s (s\<lparr>lv_phase := Held e, lv_deliveries := lv_deliveries s + 1, lv_clock := t\<rparr>)"
| spec_renew: "lv_phase s = Held x \<Longrightarrow> x \<le> e \<Longrightarrow> lv_clock s \<le> t \<Longrightarrow>
    lease_spec s (s\<lparr>lv_phase := Held e, lv_clock := t\<rparr>)"
| spec_postpone: "lv_phase s = Held x \<Longrightarrow> lv_deliveries s < lv_budget s \<Longrightarrow> lv_clock s \<le> t \<Longrightarrow>
    t \<le> due \<Longrightarrow> lease_spec s (s\<lparr>lv_phase := Waiting due, lv_clock := t\<rparr>)"
| spec_settle: "lv_phase s \<noteq> Settled \<Longrightarrow> lv_clock s \<le> t \<Longrightarrow>
    lease_spec s (s\<lparr>lv_phase := Settled, lv_clock := t\<rparr>)"
| spec_stay: "lease_spec s s"

text \<open>The guarantees of the abstract machine.\<close>

lemma lease_spec_budget:
  "lease_spec s s' \<Longrightarrow> lv_deliveries s \<le> lv_budget s \<Longrightarrow>
   lv_deliveries s' \<le> lv_budget s' \<and> lv_clock s \<le> lv_clock s' \<and> lv_deliveries s \<le> lv_deliveries s'"
  by (induction rule: lease_spec.induct) auto

lemma lease_spec_exclusive:
  "lease_spec s s' \<Longrightarrow> lv_phase s = Held x \<Longrightarrow> lv_deliveries s < lv_deliveries s' \<Longrightarrow> x \<le> lv_clock s'"
  by (induction rule: lease_spec.induct) auto

lemma lease_spec_settled: "lease_spec s s' \<Longrightarrow> lv_phase s = Settled \<Longrightarrow> s' = s"
  by (induction rule: lease_spec.induct) auto

end
