(* ===== verification/Canonical_Digest.thy ===== *)
theory Canonical_Digest
  imports Bridge_Prelude "HOL-Library.Word"
begin

text \<open>
  The two standard-library functions every fingerprint of the source is built from:
  \<open>json.dumps(payload, sort_keys=True, separators=(",", ":"))\<close> on the payload shapes that
  occur (null, booleans, integers, strings, arrays, objects), and
  \<open>hashlib.sha256(\<dots>).hexdigest()\<close>. Both are executable. The lemmas show that a digest always
  has the shape the \<open>_SHA256\<close> patterns demand, and that the canonical text determines the
  payload, for either escaping mode.
\<close>

unbundle bit_operations_syntax

section \<open>SHA-256\<close>

text \<open>
  The constants of the standard are the first 32 fractional bits of the cube roots of the
  first 64 primes, and of the square roots of the first 8 primes. They are computed: the
  integer root of \<open>p * 2 ^ (32 * k)\<close> is the root of \<open>p\<close> with 32 fractional bits, and the
  conversion to a word drops its integral part.
\<close>

definition small_primes :: "nat list" where
  "small_primes = filter (\<lambda>n. list_all (\<lambda>d. n mod d \<noteq> 0) [2..<n]) [2..<312]"

definition int_root :: "nat \<Rightarrow> nat \<Rightarrow> nat" where
  "int_root k n = foldl (\<lambda>r i. if (r + 2 ^ i) ^ k \<le> n then r + 2 ^ i else r) 0 (rev [0..<36])"

definition root_fraction :: "nat \<Rightarrow> nat \<Rightarrow> 32 word" where
  "root_fraction k p = of_nat (int_root k (p * 2 ^ (32 * k)))"

definition sha256_constants :: "32 word list" where
  "sha256_constants = map (root_fraction 3) small_primes"

type_synonym sha256_state =
  "32 word \<times> 32 word \<times> 32 word \<times> 32 word \<times> 32 word \<times> 32 word \<times> 32 word \<times> 32 word"

definition sha256_initial :: sha256_state where
  "sha256_initial =
     (root_fraction 2 2, root_fraction 2 3, root_fraction 2 5, root_fraction 2 7,
      root_fraction 2 11, root_fraction 2 13, root_fraction 2 17, root_fraction 2 19)"

definition small_sigma0 :: "32 word \<Rightarrow> 32 word" where
  "small_sigma0 x = word_rotr 7 x XOR word_rotr 18 x XOR drop_bit 3 x"

definition small_sigma1 :: "32 word \<Rightarrow> 32 word" where
  "small_sigma1 x = word_rotr 17 x XOR word_rotr 19 x XOR drop_bit 10 x"

definition big_sigma0 :: "32 word \<Rightarrow> 32 word" where
  "big_sigma0 x = word_rotr 2 x XOR word_rotr 13 x XOR word_rotr 22 x"

definition big_sigma1 :: "32 word \<Rightarrow> 32 word" where
  "big_sigma1 x = word_rotr 6 x XOR word_rotr 11 x XOR word_rotr 25 x"

definition schedule_next :: "32 word list \<Rightarrow> 32 word" where
  "schedule_next ws =
     (let n = length ws
      in small_sigma1 (ws ! (n - 2)) + ws ! (n - 7) + small_sigma0 (ws ! (n - 15)) + ws ! (n - 16))"

fun extend_schedule :: "nat \<Rightarrow> 32 word list \<Rightarrow> 32 word list" where
  "extend_schedule 0 ws = ws"
| "extend_schedule (Suc k) ws = extend_schedule k (ws @ [schedule_next ws])"

fun sha256_round :: "sha256_state \<Rightarrow> 32 word \<times> 32 word \<Rightarrow> sha256_state" where
  "sha256_round (a, b, c, d, e, f, g, h) (k, w) =
     (let t1 = h + big_sigma1 e + ((e AND f) XOR (NOT e AND g)) + k + w;
          t2 = big_sigma0 a + ((a AND b) XOR (a AND c) XOR (b AND c))
      in (t1 + t2, a, b, c, d + t1, e, f, g))"

fun add_states :: "sha256_state \<Rightarrow> sha256_state \<Rightarrow> sha256_state" where
  "add_states (a, b, c, d, e, f, g, h) (a', b', c', d', e', f', g', h') =
     (a + a', b + b', c + c', d + d', e + e', f + f', g + g', h + h')"

definition word_of_bytes :: "nat list \<Rightarrow> 32 word" where
  "word_of_bytes bs = foldl (\<lambda>w b. 256 * w + of_nat b) 0 bs"

fun group_words :: "nat list \<Rightarrow> 32 word list" where
  "group_words (a # b # c # d # r) = word_of_bytes [a, b, c, d] # group_words r"
| "group_words bs = []"

definition sha256_block :: "sha256_state \<Rightarrow> nat list \<Rightarrow> sha256_state" where
  "sha256_block st block =
     add_states st
       (foldl sha256_round st (zip sha256_constants (extend_schedule 48 (group_words block))))"

function sha256_blocks :: "sha256_state \<Rightarrow> nat list \<Rightarrow> sha256_state" where
  "sha256_blocks st bs =
     (if bs = [] then st else sha256_blocks (sha256_block st (take 64 bs)) (drop 64 bs))"
  by pat_completeness auto
termination
  by (relation "measure (\<lambda>(st, bs). length bs)") auto

declare sha256_blocks.simps [simp del]

definition big_endian64 :: "nat \<Rightarrow> nat list" where
  "big_endian64 n = map (\<lambda>i. (n div 256 ^ i) mod 256) [7, 6, 5, 4, 3, 2, 1, 0]"

definition sha256_padding :: "nat list \<Rightarrow> nat list" where
  "sha256_padding bs =
     bs @ 128 # replicate ((119 - length bs mod 64) mod 64) 0 @ big_endian64 (8 * length bs)"

definition hex_char :: "nat \<Rightarrow> char" where
  "hex_char d = (if d < 10 then char_of (48 + d) else char_of (87 + d))"

definition word_hex :: "32 word \<Rightarrow> string" where
  "word_hex w = map (\<lambda>i. hex_char ((unat w div 16 ^ i) mod 16)) [7, 6, 5, 4, 3, 2, 1, 0]"

fun state_hex :: "sha256_state \<Rightarrow> string" where
  "state_hex (a, b, c, d, e, f, g, h) =
     concat (map word_hex [a, b, c, d, e, f, g, h])"

definition sha256_hexdigest :: "nat list \<Rightarrow> string" where
  "sha256_hexdigest bs = state_hex (sha256_blocks sha256_initial (sha256_padding bs))"

text \<open>\<open>str.encode()\<close> for code points below 256.\<close>

definition utf8_bytes :: "string \<Rightarrow> nat list" where
  "utf8_bytes s =
     concat (map (\<lambda>c. if code c < 128 then [code c]
                      else [192 + code c div 64, 128 + code c mod 64]) s)"

definition sha256_text :: "string \<Rightarrow> string" where
  "sha256_text s = sha256_hexdigest (utf8_bytes s)"

lemma is_hex_hex_char: "d < 16 \<Longrightarrow> is_hex (hex_char d)"
  by (auto simp: is_hex_def is_digit_def hex_char_def code_def of_char_of)

lemma word_hex_shape: "length (word_hex w) = 8 \<and> list_all is_hex (word_hex w)"
  by (simp add: word_hex_def list_all_iff is_hex_hex_char)

lemma state_hex_shape: "is_sha256 (state_hex st)"
proof -
  obtain a b c d e f g h where "st = (a, b, c, d, e, f, g, h)" by (metis surj_pair)
  then show ?thesis
    by (simp add: is_sha256_def re_exactly_def word_hex_shape)
qed

lemma sha256_text_shape [simp]: "is_sha256 (sha256_text s)"
  by (simp add: sha256_text_def sha256_hexdigest_def state_hex_shape)

section \<open>Canonical JSON\<close>

datatype json =
    JNull
  | JBool bool
  | JInt int
  | JStr string
  | JArr "json list"
  | JObj "(string \<times> json) list"

definition unicode_escape :: "char \<Rightarrow> string" where
  "unicode_escape c = [CHR 0x5C, CHR ''u'', CHR ''0'', CHR ''0'',
     hex_char (code c div 16), hex_char (code c mod 16)]"

text \<open>
  The escapes shared by both modes, then \<open>ensure_ascii=True\<close> (everything outside the printable
  ASCII range is escaped) and \<open>ensure_ascii=False\<close> (only the control characters are).
\<close>

definition short_escape :: "char \<Rightarrow> string option" where
  "short_escape c =
     (if code c = 34 then Some [CHR 0x5C, CHR 0x22]
      else if code c = 92 then Some [CHR 0x5C, CHR 0x5C]
      else if code c = 10 then Some [CHR 0x5C, CHR ''n'']
      else if code c = 13 then Some [CHR 0x5C, CHR ''r'']
      else if code c = 9 then Some [CHR 0x5C, CHR ''t'']
      else if code c = 12 then Some [CHR 0x5C, CHR ''f'']
      else if code c = 8 then Some [CHR 0x5C, CHR ''b'']
      else None)"

definition escape_ascii :: "char \<Rightarrow> string" where
  "escape_ascii c =
     (case short_escape c of
        Some e \<Rightarrow> e
      | None \<Rightarrow> (if 32 \<le> code c \<and> code c \<le> 126 then [c] else unicode_escape c))"

definition escape_plain :: "char \<Rightarrow> string" where
  "escape_plain c =
     (case short_escape c of
        Some e \<Rightarrow> e
      | None \<Rightarrow> (if 32 \<le> code c then [c] else unicode_escape c))"

definition quote :: "(char \<Rightarrow> string) \<Rightarrow> string \<Rightarrow> string" where
  "quote esc s = CHR 0x22 # concat (map esc s) @ [CHR 0x22]"

fun join_with :: "char \<Rightarrow> string list \<Rightarrow> string" where
  "join_with sep [] = []"
| "join_with sep [w] = w"
| "join_with sep (w # v # ws) = w @ sep # join_with sep (v # ws)"

fun dumps :: "(char \<Rightarrow> string) \<Rightarrow> json \<Rightarrow> string" where
  "dumps esc JNull = ''null''"
| "dumps esc (JBool b) = (if b then ''true'' else ''false'')"
| "dumps esc (JInt i) = str_of_int i"
| "dumps esc (JStr s) = quote esc s"
| "dumps esc (JArr xs) = ''['' @ join_with (CHR '','') (map (dumps esc) xs) @ '']''"
| "dumps esc (JObj kvs) =
     ''{'' @ join_with (CHR '','')
               (map (\<lambda>(k, t). quote esc k @ CHR '':'' # t)
                 (sort_key fst (map (\<lambda>(k, v). (k, dumps esc v)) kvs))) @ ''}''"

text \<open>
  An optional field of a dumped model is \<open>null\<close> or its value. Integers of more than 4300 digits,
  for which CPython refuses the decimal conversion, are outside this rendering.
\<close>

definition optional_json :: "('a \<Rightarrow> json) \<Rightarrow> 'a option \<Rightarrow> json" where
  "optional_json f v = (case v of None \<Rightarrow> JNull | Some x \<Rightarrow> f x)"

text \<open>The fingerprint helpers of the modules: SHA-256 over the ASCII-escaped canonical text.\<close>

definition json_fingerprint :: "json \<Rightarrow> string" where
  "json_fingerprint payload = sha256_text (dumps escape_ascii payload)"

lemma json_fingerprint_shape [simp]: "is_sha256 (json_fingerprint p)"
  by (simp add: json_fingerprint_def)

section \<open>The canonical text determines the payload\<close>

text \<open>
  The payload with its objects sorted by key, and its rendering without sorting: together they
  are \<^const>\<open>dumps\<close>.
\<close>

fun canonical :: "json \<Rightarrow> json" where
  "canonical (JArr xs) = JArr (map canonical xs)"
| "canonical (JObj kvs) = JObj (sort_key fst (map (\<lambda>(k, v). (k, canonical v)) kvs))"
| "canonical j = j"

fun render :: "(char \<Rightarrow> string) \<Rightarrow> json \<Rightarrow> string" where
  "render esc JNull = ''null''"
| "render esc (JBool b) = (if b then ''true'' else ''false'')"
| "render esc (JInt i) = str_of_int i"
| "render esc (JStr s) = quote esc s"
| "render esc (JArr xs) = ''['' @ join_with (CHR '','') (map (render esc) xs) @ '']''"
| "render esc (JObj kvs) =
     ''{'' @ join_with (CHR '','') (map (\<lambda>(k, v). quote esc k @ CHR '':'' # render esc v) kvs) @ ''}''"

lemma insort_key_map_snd:
  "insort_key fst (k, f v) (map (\<lambda>(k, v). (k, f v)) kvs) =
   map (\<lambda>(k, v). (k, f v)) (insort_key fst (k, v) kvs)"
  by (induction kvs) auto

lemma sort_key_map_snd:
  "sort_key fst (map (\<lambda>(k, v). (k, f v)) kvs) = map (\<lambda>(k, v). (k, f v)) (sort_key fst kvs)"
  by (induction kvs) (auto simp: insort_key_map_snd)

lemma dumps_eq_render: "dumps esc j = render esc (canonical j)"
proof (induction j)
  case (JArr xs)
  then have "map (dumps esc) xs = map (render esc \<circ> canonical) xs" by simp
  then show ?case by (simp only: dumps.simps canonical.simps render.simps map_map)
next
  case (JObj kvs)
  then have "map (\<lambda>(k, v). (k, dumps esc v)) kvs
      = map (\<lambda>(k, v). (k, render esc v)) (map (\<lambda>(k, v). (k, canonical v)) kvs)"
    by (auto simp: comp_def intro!: map_cong)
  then have sorted: "sort_key fst (map (\<lambda>(k, v). (k, dumps esc v)) kvs)
      = map (\<lambda>(k, v). (k, render esc v)) (sort_key fst (map (\<lambda>(k, v). (k, canonical v)) kvs))"
    by (simp only: sort_key_map_snd [of "render esc"])
  show ?case
    unfolding dumps.simps canonical.simps render.simps sorted
    by (simp only: map_map comp_def case_prod_unfold fst_conv snd_conv)
qed simp_all

text \<open>Objects with the same canonical text have the same fields.\<close>

lemma canonical_member:
  assumes "canonical (JObj xs) = canonical (JObj ys)"
    and "distinct (map fst xs)" and "distinct (map fst ys)"
  shows "map_option canonical (map_of xs k) = map_option canonical (map_of ys k)"
proof -
  let ?f = "map (\<lambda>(k, v). (k, canonical v))"
  have "sort_key fst (?f xs) = sort_key fst (?f ys)" using assms(1) by simp
  then have "set (sort_key fst (?f xs)) = set (sort_key fst (?f ys))" by (rule arg_cong)
  then have "set (?f xs) = set (?f ys)" by (simp only: set_sort)
  moreover have keys: "map fst (?f zs) = map fst zs" for zs by (induction zs) auto
  have "distinct (map fst (?f xs)) \<and> distinct (map fst (?f ys))"
    unfolding keys using assms(2,3) by (rule conjI)
  ultimately have "map_of (?f xs) = map_of (?f ys)" using map_of_inject_set by blast
  then have "(map_option canonical \<circ> map_of xs) k = (map_option canonical \<circ> map_of ys) k"
    unfolding map_of_map by (rule fun_cong)
  then show ?thesis by (simp only: comp_apply)
qed

definition no_digit_start :: "string \<Rightarrow> bool" where
  "no_digit_start r \<longleftrightarrow> r = [] \<or> \<not> is_digit (hd r)"

lemma no_digit_start_simps [simp]:
  "no_digit_start []"
  "no_digit_start (CHR '','' # r)" "no_digit_start (CHR '']'' # r)"
  "no_digit_start (CHR ''}'' # r)"
  by (simp_all add: no_digit_start_def char_class_defs)

lemma digits_then_stop:
  assumes "list_all is_digit a" and "list_all is_digit b"
    and "no_digit_start r" and "no_digit_start r'" and "a @ r = b @ r'"
  shows "a = b \<and> r = r'"
proof -
  have take: "takeWhile is_digit (x @ y) = x" if "list_all is_digit x" "no_digit_start y" for x y
    using that by (induction x) (cases y; auto simp: no_digit_start_def)+
  have "a = b" using take [of a r] take [of b r'] assms by metis
  with assms(5) show ?thesis by simp
qed

lemma closing_not_digit: "\<not> is_digit (CHR '']'')" "\<not> is_digit (CHR ''}'')"
  by (simp_all add: char_class_defs)

lemma minus_not_digit: "\<not> is_digit (CHR ''-'')"
  by (simp add: char_class_defs)

lemma str_of_nat_head: "\<exists>c s. str_of_nat n = c # s \<and> is_digit c"
  using str_of_nat_nonempty [of n] str_of_nat_digits [of n] by (cases "str_of_nat n") auto

lemma str_of_int_prefix:
  assumes "str_of_int i @ r = str_of_int j @ r'" and "no_digit_start r" and "no_digit_start r'"
  shows "i = j \<and> r = r'"
proof -
  obtain c s where c: "str_of_nat (nat i) = c # s" "is_digit c" using str_of_nat_head by blast
  obtain d t where d: "str_of_nat (nat j) = d # t" "is_digit d" using str_of_nat_head by blast
  have signs: "i < 0 \<longleftrightarrow> j < 0"
    using assms(1) c d minus_not_digit by (auto simp: str_of_int_def split: if_splits)
  have "str_of_nat (nat \<bar>i\<bar>) @ r = str_of_nat (nat \<bar>j\<bar>) @ r'"
    using assms(1) signs by (auto simp: str_of_int_def split: if_splits)
  then have "str_of_nat (nat \<bar>i\<bar>) = str_of_nat (nat \<bar>j\<bar>) \<and> r = r'"
    by (rule digits_then_stop [OF str_of_nat_digits str_of_nat_digits assms(2,3)])
  then have "nat \<bar>i\<bar> = nat \<bar>j\<bar>" "r = r'" by (simp_all add: str_of_nat_inject)
  with signs show ?thesis by auto
qed

text \<open>Sequences between a separator and a closing bracket decode uniquely.\<close>

lemma join_with_Cons:
  "join_with sep (w # ws) @ e # r = w @ (if ws = [] then e # r else sep # join_with sep ws @ e # r)"
  by (cases ws) simp_all

lemma join_prefix:
  assumes one: "\<And>x y r r'. x \<in> set xs \<Longrightarrow> no_digit_start r \<Longrightarrow> no_digit_start r' \<Longrightarrow>
      f x @ r = f y @ r' \<Longrightarrow> x = y \<and> r = r'"
    and head: "\<And>y. f y \<noteq> [] \<and> hd (f y) \<noteq> e"
    and e: "e \<noteq> CHR '',''" "\<not> is_digit e"
    and eq: "join_with (CHR '','') (map f xs) @ e # r = join_with (CHR '','') (map f ys) @ e # r'"
  shows "xs = ys \<and> r = r'"
  using one eq
proof (induction xs arbitrary: ys)
  case Nil
  then show ?case
  proof (cases ys)
    case (Cons y ys')
    with Nil.prems(2) head [of y] show ?thesis
      by (cases "f y") (auto simp: join_with_Cons)
  qed simp
next
  case (Cons x xs)
  show ?case
  proof (cases ys)
    case Nil
    with Cons.prems(2) head [of x] show ?thesis
      by (cases "f x") (auto simp: join_with_Cons)
  next
    case (Cons y ys')
    let ?t = "if map f xs = [] then e # r else CHR '','' # join_with (CHR '','') (map f xs) @ e # r"
    let ?t' = "if map f ys' = [] then e # r' else CHR '','' # join_with (CHR '','') (map f ys') @ e # r'"
    have "f x @ ?t = f y @ ?t'"
      using Cons.prems(2) Cons by (simp only: list.map join_with_Cons)
    moreover have "no_digit_start (e # q)" for q
      using e by (simp add: no_digit_start_def)
    then have "no_digit_start ?t" "no_digit_start ?t'" by simp_all
    ultimately have xy: "x = y" "?t = ?t'"
      using Cons.prems(1) [of x ?t ?t' y] by auto
    show ?thesis
    proof (cases "xs = []")
      case True
      with xy e Cons show ?thesis by (auto split: if_splits)
    next
      case False
      with xy e have
        "join_with (CHR '','') (map f xs) @ e # r = join_with (CHR '','') (map f ys') @ e # r'"
        by (auto split: if_splits)
      then have "xs = ys' \<and> r = r'"
        by (rule Cons.IH [rotated]) (rule Cons.prems(1), auto)
      with xy Cons show ?thesis by simp
    qed
  qed
qed

text \<open>
  What the decoding argument needs of an escaping mode: escapes are prefix-free, and none of
  them starts with the closing quote.
\<close>

locale json_escaping =
  fixes esc :: "char \<Rightarrow> string"
  assumes esc_prefix: "esc c @ r = esc d @ r' \<Longrightarrow> c = d \<and> r = r'"
    and esc_head: "\<exists>a b. esc c = a # b \<and> a \<noteq> CHR 0x22"
begin

lemma quote_prefix:
  assumes "quote esc s @ r = quote esc t @ r'"
  shows "s = t \<and> r = r'"
proof -
  have "concat (map esc s) @ CHR 0x22 # r = concat (map esc t) @ CHR 0x22 # r' \<Longrightarrow> s = t \<and> r = r'"
  proof (induction s arbitrary: t)
    case Nil
    show ?case
    proof (cases t)
      case (Cons d t')
      with Nil esc_head [of d] show ?thesis by auto
    qed (use Nil in simp)
  next
    case (Cons c s)
    show ?case
    proof (cases t)
      case Nil
      with Cons.prems esc_head [of c] show ?thesis by auto
    next
      case (Cons d t')
      with Cons.prems esc_prefix [of c _ d] Cons.IH [of t'] show ?thesis by auto
    qed
  qed
  with assms show ?thesis by (simp add: quote_def)
qed

text \<open>The first character of a rendering tells the constructor.\<close>

lemma render_head:
  "\<exists>c s. render esc j = c # s \<and>
     (case j of JNull \<Rightarrow> c = CHR ''n'' | JBool b \<Rightarrow> c = (if b then CHR ''t'' else CHR ''f'')
      | JInt i \<Rightarrow> c = CHR ''-'' \<or> is_digit c | JStr t \<Rightarrow> c = CHR 0x22
      | JArr xs \<Rightarrow> c = CHR ''['' | JObj kvs \<Rightarrow> c = CHR ''{'')"
proof (cases j)
  case (JInt i)
  then show ?thesis
    using str_of_nat_head [of "nat i"] by (auto simp: str_of_int_def)
qed (simp_all add: quote_def)

lemma head_not_closing:
  "render esc j \<noteq> [] \<and> hd (render esc j) \<noteq> CHR '']''"
proof -
  have "\<not> is_digit (CHR '']'')" by (simp add: char_class_defs)
  then show ?thesis using render_head [of j] by (cases j) auto
qed

lemma same_head_same_kind:
  assumes "render esc x @ r = render esc y @ r'"
  shows "(x = JNull \<longleftrightarrow> y = JNull) \<and> (\<forall>b. x = JBool b \<longleftrightarrow> y = JBool b)
    \<and> ((\<exists>i. x = JInt i) \<longleftrightarrow> (\<exists>i. y = JInt i)) \<and> ((\<exists>s. x = JStr s) \<longleftrightarrow> (\<exists>s. y = JStr s))
    \<and> ((\<exists>xs. x = JArr xs) \<longleftrightarrow> (\<exists>xs. y = JArr xs)) \<and> ((\<exists>k. x = JObj k) \<longleftrightarrow> (\<exists>k. y = JObj k))"
proof -
  have nd: "\<not> is_digit (CHR ''n'')" "\<not> is_digit (CHR ''t'')" "\<not> is_digit (CHR ''f'')"
    "\<not> is_digit (CHR 0x22)" "\<not> is_digit (CHR ''['')" "\<not> is_digit (CHR ''{'')"
    by (simp_all add: char_class_defs)
  obtain c s where c: "render esc x = c # s" using render_head [of x] by blast
  obtain d t where d: "render esc y = d # t" using render_head [of y] by blast
  have "c = d" using assms c d by simp
  with render_head [of x] render_head [of y] c d nd show ?thesis
    by (cases x; cases y) (auto split: if_splits)
qed

lemma render_prefix:
  assumes "render esc x @ r = render esc y @ r'" and "no_digit_start r" and "no_digit_start r'"
  shows "x = y \<and> r = r'"
  using assms
proof (induction x arbitrary: y r r')
  case JNull
  then have "y = JNull" using same_head_same_kind [OF JNull.prems(1)] by metis
  with JNull show ?case by simp
next
  case (JBool b)
  have "y = JBool b" using same_head_same_kind [OF JBool.prems(1)] by metis
  with JBool show ?case by simp
next
  case (JInt i)
  then obtain j where "y = JInt j" using same_head_same_kind [OF JInt.prems(1)] by metis
  with JInt show ?case using str_of_int_prefix [of i r j r'] by simp
next
  case (JStr s)
  then obtain t where "y = JStr t" using same_head_same_kind [OF JStr.prems(1)] by metis
  with JStr show ?case using quote_prefix [of s r t r'] by simp
next
  case (JArr xs)
  then obtain ys where y: "y = JArr ys" using same_head_same_kind [OF JArr.prems(1)] by metis
  have "xs = ys \<and> r = r'"
  proof (rule join_prefix [of xs "render esc" "CHR '']''"])
    fix x z q q'
    assume "x \<in> set xs" "no_digit_start q" "no_digit_start q'" "render esc x @ q = render esc z @ q'"
    then show "x = z \<and> q = q'" using JArr.IH [of x q z q'] by simp
  qed (use JArr.prems(1) y head_not_closing in \<open>simp_all add: closing_not_digit\<close>)
  with y show ?case by simp
next
  case (JObj kvs)
  then obtain lws where y: "y = JObj lws" using same_head_same_kind [OF JObj.prems(1)] by metis
  let ?f = "\<lambda>(k, v). quote esc k @ CHR '':'' # render esc v"
  have "kvs = lws \<and> r = r'"
  proof (rule join_prefix [of kvs ?f "CHR ''}''"])
    fix x z q q'
    assume a: "x \<in> set kvs" "no_digit_start q" "no_digit_start q'" "?f x @ q = ?f z @ q'"
    obtain k v l w where kv: "x = (k, v)" "z = (l, w)" by (metis surj_pair)
    with a(4) have "k = l" "render esc v @ q = render esc w @ q'"
      using quote_prefix [of k "CHR '':'' # render esc v @ q" l "CHR '':'' # render esc w @ q'"]
      by auto
    with JObj.IH [of x v q w q'] a kv show "x = z \<and> q = q'" by auto
  next
    show "?f z \<noteq> [] \<and> hd (?f z) \<noteq> CHR ''}''" for z
      by (simp add: quote_def split: prod.splits)
  qed (use JObj.prems(1) y in \<open>simp_all add: closing_not_digit\<close>)
  with y show ?case by simp
qed

lemma dumps_inject: "dumps esc x = dumps esc y \<Longrightarrow> canonical x = canonical y"
  using render_prefix [of "canonical x" "[]" "canonical y" "[]"] by (simp add: dumps_eq_render)

end

subsection \<open>Both escaping modes qualify\<close>

lemma code_inject: "code c = code d \<longleftrightarrow> c = d"
  by (simp add: code_def)

lemma code_hex_char: "d < 16 \<Longrightarrow> code (hex_char d) = (if d < 10 then 48 + d else 87 + d)"
  by (auto simp: hex_char_def code_def of_char_of)

lemma hex_char_inject:
  assumes "m < 16" and "n < 16" and "hex_char m = hex_char n"
  shows "m = n"
proof -
  have "(if m < 10 then 48 + m else 87 + m) = (if n < 10 then 48 + n else 87 + n)"
    using assms by (metis code_hex_char)
  then show ?thesis by (simp split: if_splits)
qed

lemma code_bound: "code c < 256"
  by (simp add: code_def)

lemma unicode_escape_prefix:
  assumes "unicode_escape c @ r = unicode_escape d @ r'"
  shows "c = d \<and> r = r'"
proof -
  have "code c div 16 < 16" "code d div 16 < 16" using code_bound [of c] code_bound [of d] by auto
  then have "code c div 16 = code d div 16" "code c mod 16 = code d mod 16" "r = r'"
    using assms hex_char_inject by (auto simp: unicode_escape_def)
  moreover have "code c = code d"
    using calculation by (metis div_mult_mod_eq)
  ultimately show ?thesis by (simp add: code_inject)
qed

lemma short_escape_shape:
  assumes "short_escape c = Some e"
  shows "\<exists>x. e = [CHR 0x5C, x] \<and> x \<noteq> CHR ''u''"
  using assms by (auto simp: short_escape_def split: if_splits)

lemma short_escape_inject:
  assumes "short_escape c = Some e" and "short_escape d = Some e"
  shows "c = d"
  using assms unfolding code_inject [symmetric]
  by (auto simp: short_escape_def split: if_splits)

text \<open>An escape is a two-character escape, the character itself, or a unicode escape.\<close>

definition escapes_with :: "(char \<Rightarrow> string) \<Rightarrow> bool" where
  "escapes_with esc \<longleftrightarrow>
     (\<forall>c. (\<exists>e. short_escape c = Some e \<and> esc c = e)
        \<or> (short_escape c = None \<and> esc c = [c])
        \<or> esc c = unicode_escape c)"

lemma escapes_with_cases:
  assumes "escapes_with esc"
  obtains e where "short_escape c = Some e" "esc c = e"
  | "short_escape c = None" "esc c = [c]"
  | "esc c = unicode_escape c"
  using assms unfolding escapes_with_def by metis

lemma short_escape_None: "short_escape c = None \<Longrightarrow> c \<noteq> CHR 0x5C \<and> c \<noteq> CHR 0x22"
  by (auto simp: short_escape_def code_def split: if_splits)

lemma escapes_with_prefix:
  assumes "escapes_with esc" and "esc c @ r = esc d @ r'"
  shows "c = d \<and> r = r'"
proof -
  have u: "unicode_escape x = [CHR 0x5C, CHR ''u'', CHR ''0'', CHR ''0''] @
      [hex_char (code x div 16), hex_char (code x mod 16)]" for x
    by (simp add: unicode_escape_def)
  note cc = escapes_with_cases [OF assms(1), of c] and dc = escapes_with_cases [OF assms(1), of d]
  show ?thesis
  proof (cases rule: cc)
    case (1 e)
    then obtain x where x: "e = [CHR 0x5C, x]" "x \<noteq> CHR ''u''" using short_escape_shape by blast
    show ?thesis
    proof (cases rule: dc)
      case (1 e')
      then obtain y where "e' = [CHR 0x5C, y]" using short_escape_shape by blast
      with assms(2) 1 \<open>esc c = e\<close> x \<open>short_escape c = Some e\<close> short_escape_inject [of c e d]
      show ?thesis by auto
    next
      case 2
      with assms(2) \<open>esc c = e\<close> x short_escape_None [of d] show ?thesis by auto
    next
      case 3
      with assms(2) \<open>esc c = e\<close> x u [of d] show ?thesis by auto
    qed
  next
    case 2
    with short_escape_None have nc: "c \<noteq> CHR 0x5C" by blast
    show ?thesis
    proof (cases rule: dc)
      case (1 e')
      then obtain y where "e' = [CHR 0x5C, y]" using short_escape_shape by blast
      with assms(2) 1 2 nc show ?thesis by auto
    next
      case 2
      with assms(2) \<open>esc c = [c]\<close> show ?thesis by auto
    next
      case 3
      with assms(2) 2 nc u [of d] show ?thesis by auto
    qed
  next
    case 3
    show ?thesis
    proof (cases rule: dc)
      case (1 e')
      then obtain y where "e' = [CHR 0x5C, y]" "y \<noteq> CHR ''u''" using short_escape_shape by blast
      with assms(2) 1 3 u [of c] show ?thesis by auto
    next
      case 2
      with assms(2) 3 u [of c] short_escape_None [of d] show ?thesis by auto
    next
      case d: 3
      with assms(2) 3 unicode_escape_prefix show ?thesis by metis
    qed
  qed
qed

lemma escapes_with_head:
  assumes "escapes_with esc"
  shows "\<exists>a b. esc c = a # b \<and> a \<noteq> CHR 0x22"
proof -
  show ?thesis
    by (cases rule: escapes_with_cases [OF assms, of c])
      (auto dest: short_escape_shape short_escape_None simp: unicode_escape_def)
qed

lemma escape_modes: "escapes_with escape_ascii" "escapes_with escape_plain"
  by (auto simp: escapes_with_def escape_ascii_def escape_plain_def split: option.splits)

interpretation ascii_json: json_escaping escape_ascii
  by unfold_locales
    (fact escapes_with_prefix [OF escape_modes(1)] escapes_with_head [OF escape_modes(1)])+

interpretation plain_json: json_escaping escape_plain
  by unfold_locales
    (fact escapes_with_prefix [OF escape_modes(2)] escapes_with_head [OF escape_modes(2)])+

text \<open>Every field of an object can be read back from its canonical text.\<close>

lemma payload_fields_recovered:
  assumes "dumps escape_ascii (JObj xs) = dumps escape_ascii (JObj ys)"
    and "distinct (map fst xs)" and "distinct (map fst ys)"
  shows "map_option canonical (map_of xs k) = map_option canonical (map_of ys k)"
  using canonical_member [OF ascii_json.dumps_inject [OF assms(1)] assms(2,3)] .

section \<open>The size of canonical text\<close>

text \<open>An upper bound on the encoded size that needs no rendering.\<close>

fun json_weight :: "json \<Rightarrow> nat" where
  "json_weight JNull = 4"
| "json_weight (JBool b) = 5"
| "json_weight (JInt i) = length (str_of_int i)"
| "json_weight (JStr s) = 6 * length s + 2"
| "json_weight (JArr xs) = 2 + sum_list (map (\<lambda>x. json_weight x + 1) xs)"
| "json_weight (JObj kvs) = 2 + sum_list (map (\<lambda>(k, v). 6 * length k + json_weight v + 4) kvs)"

lemma length_escape_plain: "length (escape_plain c) \<le> 6"
  by (auto simp: escape_plain_def short_escape_def unicode_escape_def split: option.splits)

lemma length_quote: "length (quote escape_plain s) \<le> 6 * length s + 2"
proof -
  have "length (concat (map escape_plain s)) \<le> 6 * length s"
    using length_escape_plain by (induction s) (auto intro: add_mono)
  then show ?thesis by (simp add: quote_def)
qed

lemma length_join_with: "length (join_with c ws) \<le> sum_list (map (\<lambda>w. length w + 1) ws)"
  by (induction ws rule: join_with.induct) auto

lemma sum_list_insort_key:
  "sum_list (map f (insort_key g x xs)) = f x + sum_list (map (f :: 'a \<Rightarrow> nat) xs)"
  by (induction xs) auto

lemma sum_list_sort_key: "sum_list (map f (sort_key g xs)) = sum_list (map (f :: 'a \<Rightarrow> nat) xs)"
  by (induction xs) (auto simp: sum_list_insort_key)

lemma length_dumps: "length (dumps escape_plain v) \<le> json_weight v"
proof (induction v)
  case (JArr xs)
  have "sum_list (map (\<lambda>w. length w + 1) (map (dumps escape_plain) xs))
      \<le> sum_list (map (\<lambda>x. json_weight x + 1) xs)"
    unfolding map_map by (rule sum_list_mono) (simp add: JArr)
  then show ?case
    using length_join_with [of "CHR '',''" "map (dumps escape_plain) xs"] by (simp del: map_map)
next
  case (JObj kvs)
  let ?ts = "map (\<lambda>(k, v). (k, dumps escape_plain v)) kvs"
  let ?ws = "map (\<lambda>(k, t). quote escape_plain k @ CHR '':'' # t) (sort_key fst ?ts)"
  have "sum_list (map (\<lambda>w. length w + 1) ?ws)
      = sum_list (map ((\<lambda>w. length w + 1) \<circ> (\<lambda>(k, t). quote escape_plain k @ CHR '':'' # t)) ?ts)"
    by (simp only: map_map [symmetric] sum_list_sort_key) (simp only: map_map sum_list_sort_key o_assoc)
  also have "\<dots> \<le> sum_list (map (\<lambda>(k, v). 6 * length k + json_weight v + 4) kvs)"
    unfolding map_map
  proof (rule sum_list_mono)
    fix x assume x: "x \<in> set kvs"
    have "length (dumps escape_plain (snd x)) \<le> json_weight (snd x)"
      using JObj [OF x, of "snd x"] by (simp add: snds.simps)
    then show "((\<lambda>w. length w + 1) \<circ> (\<lambda>(k, t). quote escape_plain k @ CHR '':'' # t)
        \<circ> (\<lambda>(k, v). (k, dumps escape_plain v))) x \<le> (\<lambda>(k, v). 6 * length k + json_weight v + 4) x"
      using length_quote [of "fst x"] by (cases x) simp
  qed
  finally show ?case
    using length_join_with [of "CHR '',''" ?ws] by (simp del: map_map)
qed (use length_quote in simp_all)

lemma length_utf8_bytes: "length (utf8_bytes s) \<le> 2 * length s"
  by (induction s) (auto simp: utf8_bytes_def)

lemma encoded_size:
  assumes "2 * json_weight v \<le> n"
  shows "length (utf8_bytes (dumps escape_plain v)) \<le> n"
  using length_utf8_bytes [of "dumps escape_plain v"] length_dumps [of v] assms by linarith

end
