(* ===== verification/Background_Jobs.thy ===== *)
theory Background_Jobs
  imports Lease_Interface Canonical_Digest
begin

text \<open>
  The governed execution jobs of \<open>domain/background_jobs.py\<close>: the authorization envelope, the
  worker lease, the sanitized result and failure records, the durable job with its lifecycle
  validator, and the transition functions. Every transition rebuilds the job through the full
  validator (\<open>_replace_job\<close>), so a result of \<^const>\<open>Inr\<close> is a valid job; the work is in
  showing that the guards of the transitions are strong enough for the validator to accept.
\<close>

section \<open>Data\<close>

definition MAX_AUTHORIZATION_LIFETIME :: timedelta where "MAX_AUTHORIZATION_LIFETIME = hours 1"
definition MAX_LEASE_DURATION :: timedelta where "MAX_LEASE_DURATION = minutes 5"
definition MAX_RETRY_DELAY_SECONDS :: int where "MAX_RETRY_DELAY_SECONDS = 300"
definition INITIAL_RETRY_DELAY_SECONDS :: int where "INITIAL_RETRY_DELAY_SECONDS = 5"
definition UNCLASSIFIED_REJECTION_COUNT_CODE :: string where
  "UNCLASSIFIED_REJECTION_COUNT_CODE = ''unclassified_rejections''"
definition MAX_REJECTED_SOURCE_TOTAL :: int where "MAX_REJECTED_SOURCE_TOTAL = 2147483647"

lemmas job_constants =
  MAX_AUTHORIZATION_LIFETIME_def MAX_LEASE_DURATION_def MAX_RETRY_DELAY_SECONDS_def
  INITIAL_RETRY_DELAY_SECONDS_def MAX_REJECTED_SOURCE_TOTAL_def

datatype job_kind = EXECUTE_WORKFLOW_PREVIEW

fun job_kind_value :: "job_kind \<Rightarrow> string" where
  "job_kind_value EXECUTE_WORKFLOW_PREVIEW = ''execute_workflow_preview''"

datatype job_workflow_access_scope = SCOPE_OWNER | SCOPE_WORKSPACE

fun access_scope_value :: "job_workflow_access_scope \<Rightarrow> string" where
  "access_scope_value SCOPE_OWNER = ''owner''"
| "access_scope_value SCOPE_WORKSPACE = ''workspace''"

datatype job_status =
    J_QUEUED | J_LEASED | J_CANCEL_REQUESTED | J_RETRY_WAIT
  | J_SUCCEEDED | J_FAILED | J_CANCELLED | J_DEAD_LETTERED

fun job_status_is_terminal :: "job_status \<Rightarrow> bool" where
  "job_status_is_terminal s \<longleftrightarrow> s \<in> {J_SUCCEEDED, J_FAILED, J_CANCELLED, J_DEAD_LETTERED}"

datatype job_failure_code =
    JF_REGISTRY_UNAVAILABLE | JF_SOURCE_UNAVAILABLE | JF_SOURCE_TIMEOUT
  | JF_AUTHORIZATION_EXPIRED | JF_AUTHORIZATION_MISMATCH | JF_WORKFLOW_UNAVAILABLE
  | JF_WORKFLOW_STALE | JF_WORKFLOW_RETRY_REQUIRED | JF_REGISTRY_STALE
  | JF_SEMANTIC_CONTEXT_STALE | JF_PLAN_STALE | JF_SQL_POLICY_REJECTED
  | JF_SOURCE_POLICY_REJECTED | JF_RESULT_INVALID | JF_AMBIGUOUS_EXTERNAL_EFFECT
  | JF_UNEXPECTED_WORKER_FAILURE

datatype job_failure_disposition = JD_RETRY | JD_FAIL | JD_DEAD_LETTER

definition TRANSIENT_FAILURE_CODES :: "job_failure_code set" where
  "TRANSIENT_FAILURE_CODES = {JF_REGISTRY_UNAVAILABLE, JF_SOURCE_UNAVAILABLE, JF_SOURCE_TIMEOUT}"

definition DIRECT_DEAD_LETTER_CODES :: "job_failure_code set" where
  "DIRECT_DEAD_LETTER_CODES = {JF_AMBIGUOUS_EXTERNAL_EFFECT, JF_UNEXPECTED_WORKER_FAILURE}"

lemmas failure_code_sets = TRANSIENT_FAILURE_CODES_def DIRECT_DEAD_LETTER_CODES_def

datatype job_transition_error_code =
    JE_INVALID_STATE | JE_NOT_AVAILABLE | JE_ATTEMPTS_EXHAUSTED | JE_LEASE_MISMATCH
  | JE_LEASE_EXPIRED | JE_FENCING_MISMATCH | JE_TEMPORAL_CONFLICT | JE_TERMINAL_IMMUTABLE
  | JE_CANCELLATION_PENDING | JE_AUTHORIZATION_EXPIRED | JE_RESULT_MISMATCH

type_synonym 'a job_outcome = "(job_transition_error_code, 'a) outcome"

text \<open>\<open>WorkflowStage\<close> of \<open>domain/workflows.py\<close>; a job result must carry \<open>PUBLICATION_PROPOSED\<close>.\<close>

datatype workflow_stage =
    WS_CREATED | WS_CONTEXT_RETRIEVAL | WS_INTENT_RESOLUTION | WS_DECISION_REQUIRED
  | WS_SEMANTIC_RESOLUTION | WS_PLAN_READY | WS_VALIDATED | WS_EXECUTION | WS_EXECUTED
  | WS_PUBLICATION_PROPOSED | WS_PUBLICATION_COMPLETED | WS_COMPLETED | WS_FAILED

record job_execution_target_ref =
  et_workspace_id :: string
  et_connection_id :: string
  et_route_revision :: int
  et_route_fingerprint :: string
  et_target_fingerprint :: string

definition job_execution_target_ref_valid :: "job_execution_target_ref \<Rightarrow> bool" where
  "job_execution_target_ref_valid t \<longleftrightarrow>
     len_between 3 200 (et_workspace_id t) \<and> is_safe_id (et_workspace_id t)
     \<and> is_named_id (et_connection_id t)
     \<and> 1 \<le> et_route_revision t
     \<and> is_sha256 (et_route_fingerprint t) \<and> is_sha256 (et_target_fingerprint t)"

section \<open>Fingerprints\<close>

definition inert_id :: "string \<Rightarrow> string job_outcome" where
  "inert_id v = (if is_safe_id v then Inr v else Inl ValueError)"

definition sha256_value :: "string \<Rightarrow> string job_outcome" where
  "sha256_value v = (if is_sha256 v then Inr v else Inl ValueError)"

definition execution_target_json :: "job_execution_target_ref option \<Rightarrow> json" where
  "execution_target_json t =
     (case t of None \<Rightarrow> JNull
      | Some r \<Rightarrow> JObj
          [(''workspace_id'', JStr (et_workspace_id r)),
           (''connection_id'', JStr (et_connection_id r)),
           (''route_revision'', JInt (et_route_revision r)),
           (''route_fingerprint'', JStr (et_route_fingerprint r)),
           (''target_fingerprint'', JStr (et_target_fingerprint r))])"

text \<open>\<open>workflow_workspace_id or workspace_id\<close>: an absent or empty value selects the default.\<close>

definition or_default :: "string option \<Rightarrow> string \<Rightarrow> string" where
  "or_default v d = (case v of None \<Rightarrow> d | Some s \<Rightarrow> if s = [] then d else s)"

definition job_payload ::
  "string \<Rightarrow> string option \<Rightarrow> string \<Rightarrow> string \<Rightarrow> job_workflow_access_scope \<Rightarrow> job_kind \<Rightarrow> int \<Rightarrow>
   string \<Rightarrow> job_execution_target_ref option \<Rightarrow> json" where
  "job_payload workspace_id workflow_workspace_id workflow_id owner access_scope operation
     revision plan_fingerprint execution_target =
     JObj
       [(''workspace_id'', JStr workspace_id),
        (''workflow_workspace_id'', JStr (or_default workflow_workspace_id workspace_id)),
        (''workflow_id'', JStr workflow_id),
        (''workflow_owner_actor_id'', JStr owner),
        (''workflow_access_scope'', JStr (access_scope_value access_scope)),
        (''operation'', JStr (job_kind_value operation)),
        (''expected_workflow_revision'', JInt revision),
        (''expected_plan_fingerprint'', JStr plan_fingerprint),
        (''execution_target'', execution_target_json execution_target)]"

definition job_payload_fingerprint ::
  "string \<Rightarrow> string option \<Rightarrow> string \<Rightarrow> string \<Rightarrow> job_workflow_access_scope \<Rightarrow> job_kind \<Rightarrow> int \<Rightarrow>
   string \<Rightarrow> job_execution_target_ref option \<Rightarrow> string job_outcome" where
  "job_payload_fingerprint workspace_id workflow_workspace_id workflow_id owner access_scope
     operation revision plan_fingerprint execution_target =
     bindE (inert_id workspace_id) (\<lambda>_.
     bindE (inert_id (or_default workflow_workspace_id workspace_id)) (\<lambda>_.
     bindE (inert_id workflow_id) (\<lambda>_.
     bindE (inert_id owner) (\<lambda>_.
     bindE (sha256_value plan_fingerprint) (\<lambda>_.
     if revision < 1 then Inl ValueError
     else Inr (json_fingerprint
       (job_payload workspace_id workflow_workspace_id workflow_id owner access_scope operation
          revision plan_fingerprint execution_target)))))))"

definition job_request_payload :: "string \<Rightarrow> string \<Rightarrow> json" where
  "job_request_payload payload_fingerprint submitting_actor_id =
     JObj [(''payload_fingerprint'', JStr payload_fingerprint),
           (''submitting_actor_id'', JStr submitting_actor_id)]"

definition job_request_fingerprint :: "string \<Rightarrow> string \<Rightarrow> string job_outcome" where
  "job_request_fingerprint payload_fingerprint submitting_actor_id =
     bindE (sha256_value payload_fingerprint) (\<lambda>p.
     bindE (inert_id submitting_actor_id) (\<lambda>a.
     Inr (json_fingerprint (job_request_payload p a))))"

section \<open>Authorization\<close>

record job_authorization =
  ja_workspace_id :: string
  ja_workflow_workspace_id :: string
  ja_workflow_id :: string
  ja_workflow_owner_actor_id :: string
  ja_submitting_actor_id :: string
  ja_workflow_access_scope :: job_workflow_access_scope
  ja_operation :: job_kind
  ja_expected_workflow_revision :: int
  ja_expected_plan_fingerprint :: string
  ja_execution_target :: "job_execution_target_ref option"
  ja_authenticated_at :: instant
  ja_authorized_at :: instant
  ja_expires_at :: instant
  ja_payload_fingerprint :: string
  ja_request_fingerprint :: string

definition authorization_payload_fingerprint :: "job_authorization \<Rightarrow> string job_outcome" where
  "authorization_payload_fingerprint a =
     job_payload_fingerprint (ja_workspace_id a) (Some (ja_workflow_workspace_id a))
       (ja_workflow_id a) (ja_workflow_owner_actor_id a) (ja_workflow_access_scope a)
       (ja_operation a) (ja_expected_workflow_revision a) (ja_expected_plan_fingerprint a)
       (ja_execution_target a)"

definition job_authorization_valid :: "job_authorization \<Rightarrow> bool" where
  "job_authorization_valid a \<longleftrightarrow>
     (\<forall>v \<in> set [ja_workspace_id a, ja_workflow_workspace_id a, ja_workflow_id a,
               ja_workflow_owner_actor_id a, ja_submitting_actor_id a].
        len_between 3 200 v \<and> is_safe_id v)
     \<and> 1 \<le> ja_expected_workflow_revision a
     \<and> is_sha256 (ja_expected_plan_fingerprint a)
     \<and> is_sha256 (ja_payload_fingerprint a) \<and> is_sha256 (ja_request_fingerprint a)
     \<and> optional job_execution_target_ref_valid (ja_execution_target a)
     \<and> ja_authenticated_at a \<le> ja_authorized_at a \<and> ja_authorized_at a < ja_expires_at a
     \<and> ja_expires_at a - ja_authenticated_at a \<le> MAX_AUTHORIZATION_LIFETIME
     \<and> optional (\<lambda>t. et_workspace_id t = ja_workflow_workspace_id a) (ja_execution_target a)
     \<and> authorization_payload_fingerprint a = Inr (ja_payload_fingerprint a)
     \<and> job_request_fingerprint (ja_payload_fingerprint a) (ja_submitting_actor_id a)
         = Inr (ja_request_fingerprint a)"

definition create_job_authorization ::
  "string \<Rightarrow> string option \<Rightarrow> string \<Rightarrow> string \<Rightarrow> string \<Rightarrow> job_workflow_access_scope \<Rightarrow> int \<Rightarrow> string \<Rightarrow>
   job_execution_target_ref option \<Rightarrow> datetime \<Rightarrow> datetime \<Rightarrow> datetime \<Rightarrow> job_authorization job_outcome" where
  "create_job_authorization workspace_id workflow_workspace_id workflow_id owner submitter
     access_scope revision plan_fingerprint execution_target authenticated_at authorized_at
     expires_at =
     (let resolved = or_default workflow_workspace_id workspace_id in
      bindE (job_payload_fingerprint workspace_id (Some resolved) workflow_id owner access_scope
               EXECUTE_WORKFLOW_PREVIEW revision plan_fingerprint execution_target) (\<lambda>payload.
      bindE (job_request_fingerprint payload submitter) (\<lambda>request.
      case (authenticated_at, authorized_at, expires_at) of
        (Aware authenticated, Aware authorized, Aware expires) \<Rightarrow>
          construct_model job_authorization_valid
            \<lparr>ja_workspace_id = workspace_id, ja_workflow_workspace_id = resolved,
             ja_workflow_id = workflow_id, ja_workflow_owner_actor_id = owner,
             ja_submitting_actor_id = submitter, ja_workflow_access_scope = access_scope,
             ja_operation = EXECUTE_WORKFLOW_PREVIEW, ja_expected_workflow_revision = revision,
             ja_expected_plan_fingerprint = plan_fingerprint,
             ja_execution_target = execution_target, ja_authenticated_at = authenticated,
             ja_authorized_at = authorized, ja_expires_at = expires,
             ja_payload_fingerprint = payload, ja_request_fingerprint = request\<rparr>
      | _ \<Rightarrow> Inl ValidationError)))"

definition authorization_is_current :: "job_authorization \<Rightarrow> instant \<Rightarrow> bool" where
  "authorization_is_current a t \<longleftrightarrow> ja_authorized_at a \<le> t \<and> t < ja_expires_at a"

section \<open>Leases, results and failures\<close>

record job_lease =
  jl_job_id :: string
  jl_worker_id :: string
  jl_token_digest :: string
  jl_fencing_token :: int
  jl_attempt :: int
  jl_acquired_at :: instant
  jl_heartbeat_at :: instant
  jl_expires_at :: instant

definition job_lease_valid :: "job_lease \<Rightarrow> bool" where
  "job_lease_valid l \<longleftrightarrow>
     len_between 3 200 (jl_job_id l) \<and> is_safe_id (jl_job_id l)
     \<and> len_between 3 200 (jl_worker_id l) \<and> is_safe_id (jl_worker_id l)
     \<and> is_sha256 (jl_token_digest l)
     \<and> 1 \<le> jl_fencing_token l \<and> 1 \<le> jl_attempt l
     \<and> jl_acquired_at l \<le> jl_heartbeat_at l \<and> jl_heartbeat_at l < jl_expires_at l
     \<and> jl_expires_at l - jl_heartbeat_at l \<le> MAX_LEASE_DURATION
     \<and> jl_fencing_token l = jl_attempt l"

definition lease_is_current :: "job_lease \<Rightarrow> instant \<Rightarrow> bool" where
  "lease_is_current l t \<longleftrightarrow> jl_acquired_at l \<le> t \<and> t < jl_expires_at l"

record job_rejection_count =
  jrc_code :: string
  jrc_count :: int

definition is_safe_code :: "string \<Rightarrow> bool" where
  "is_safe_code s \<longleftrightarrow> re_head_run is_lower lower_digit_under 1 63 s"

definition job_rejection_count_valid :: "job_rejection_count \<Rightarrow> bool" where
  "job_rejection_count_valid r \<longleftrightarrow>
     1 \<le> jrc_count r \<and> jrc_count r \<le> 10000
     \<and> is_safe_code (jrc_code r) \<and> jrc_code r \<noteq> UNCLASSIFIED_REJECTION_COUNT_CODE"

record job_result_summary =
  jr_workflow_id :: string
  jr_workflow_revision :: int
  jr_stage :: workflow_stage
  jr_row_count :: int
  jr_preview_fingerprint :: string
  jr_rejected_count :: int
  jr_rejection_code_counts :: "job_rejection_count list"
  jr_truncated :: bool
  jr_completed_at :: instant

definition sampled_rejected_count :: "job_result_summary \<Rightarrow> int" where
  "sampled_rejected_count r = sum_list (map jrc_count (jr_rejection_code_counts r))"

definition unclassified_rejection_count :: "job_result_summary \<Rightarrow> int" where
  "unclassified_rejection_count r = jr_rejected_count r - sampled_rejected_count r"

definition rejection_counts_complete :: "job_result_summary \<Rightarrow> bool" where
  "rejection_counts_complete r \<longleftrightarrow> unclassified_rejection_count r = 0"

definition rejection_truncated :: "job_result_summary \<Rightarrow> bool" where
  "rejection_truncated r \<longleftrightarrow> \<not> rejection_counts_complete r"

definition job_result_summary_valid :: "job_result_summary \<Rightarrow> bool" where
  "job_result_summary_valid r \<longleftrightarrow>
     len_between 3 200 (jr_workflow_id r) \<and> is_safe_id (jr_workflow_id r)
     \<and> 1 \<le> jr_workflow_revision r
     \<and> 0 \<le> jr_row_count r \<and> jr_row_count r \<le> 10000
     \<and> is_sha256 (jr_preview_fingerprint r)
     \<and> 0 \<le> jr_rejected_count r \<and> jr_rejected_count r \<le> MAX_REJECTED_SOURCE_TOTAL
     \<and> length (jr_rejection_code_counts r) \<le> 64
     \<and> list_all job_rejection_count_valid (jr_rejection_code_counts r)
     \<and> canonical_sequence (map jrc_code (jr_rejection_code_counts r))
     \<and> jr_stage r = WS_PUBLICATION_PROPOSED
     \<and> sampled_rejected_count r \<le> jr_rejected_count r
     \<and> \<not> (rejection_truncated r \<and> \<not> jr_truncated r)
     \<and> length (jr_rejection_code_counts r) + (if rejection_truncated r then 1 else 0) \<le> 64"

record job_failure =
  jf_code :: job_failure_code
  jf_disposition :: job_failure_disposition
  jf_attempt :: int
  jf_occurred_at :: instant

definition job_failure_valid :: "job_failure \<Rightarrow> bool" where
  "job_failure_valid f \<longleftrightarrow>
     0 \<le> jf_attempt f \<and> jf_attempt f \<le> 10
     \<and> \<not> (jf_attempt f = 0
          \<and> \<not> (jf_code f = JF_AUTHORIZATION_EXPIRED \<and> jf_disposition f = JD_FAIL))
     \<and> \<not> (jf_code f \<in> DIRECT_DEAD_LETTER_CODES \<and> jf_disposition f \<noteq> JD_DEAD_LETTER)
     \<and> \<not> (jf_code f \<notin> DIRECT_DEAD_LETTER_CODES \<union> TRANSIENT_FAILURE_CODES
          \<and> jf_disposition f \<noteq> JD_FAIL)
     \<and> \<not> (jf_code f \<in> TRANSIENT_FAILURE_CODES
          \<and> jf_disposition f \<notin> {JD_RETRY, JD_DEAD_LETTER})"

definition classify_job_failure ::
  "job_failure_code \<Rightarrow> int \<Rightarrow> int \<Rightarrow> job_failure_disposition job_outcome" where
  "classify_job_failure c attempt max_attempts =
     (if \<not> (1 \<le> attempt \<and> attempt \<le> max_attempts \<and> max_attempts \<le> 10) then Inl ValueError
      else if c \<in> DIRECT_DEAD_LETTER_CODES then Inr JD_DEAD_LETTER
      else if c \<in> TRANSIENT_FAILURE_CODES then
        (if attempt < max_attempts then Inr JD_RETRY else Inr JD_DEAD_LETTER)
      else Inr JD_FAIL)"

definition job_retry_delay :: "int \<Rightarrow> timedelta job_outcome" where
  "job_retry_delay attempt =
     (if \<not> (1 \<le> attempt \<and> attempt \<le> 10) then Inl ValueError
      else Inr (seconds (min (INITIAL_RETRY_DELAY_SECONDS * 2 ^ nat (attempt - 1))
                             MAX_RETRY_DELAY_SECONDS)))"

section \<open>The durable job\<close>

record background_job =
  bj_id :: string
  bj_kind :: job_kind
  bj_status :: job_status
  bj_authorization :: job_authorization
  bj_connector_contract_version :: "int option"
  bj_idempotency_digest :: string
  bj_request_fingerprint :: string
  bj_max_attempts :: int
  bj_attempt_count :: int
  bj_last_fencing_token :: int
  bj_created_at :: instant
  bj_updated_at :: instant
  bj_available_at :: "instant option"
  bj_lease :: "job_lease option"
  bj_cancel_requested_at :: "instant option"
  bj_completed_at :: "instant option"
  bj_result :: "job_result_summary option"
  bj_failure :: "job_failure option"

abbreviation is_terminal :: "background_job \<Rightarrow> bool" where
  "is_terminal j \<equiv> job_status_is_terminal (bj_status j)"

text \<open>The field validators, the nested models, and the part of the lifecycle validator before
  the status table.\<close>

definition job_fields_valid :: "background_job \<Rightarrow> bool" where
  "job_fields_valid j \<longleftrightarrow>
     len_between 3 200 (bj_id j) \<and> is_safe_id (bj_id j)
     \<and> job_authorization_valid (bj_authorization j)
     \<and> optional (\<lambda>v. 1 \<le> v) (bj_connector_contract_version j)
     \<and> is_sha256 (bj_idempotency_digest j) \<and> is_sha256 (bj_request_fingerprint j)
     \<and> 1 \<le> bj_max_attempts j \<and> bj_max_attempts j \<le> 10
     \<and> 0 \<le> bj_attempt_count j \<and> bj_attempt_count j \<le> 10
     \<and> 0 \<le> bj_last_fencing_token j
     \<and> optional job_lease_valid (bj_lease j)
     \<and> optional job_result_summary_valid (bj_result j)
     \<and> optional job_failure_valid (bj_failure j)"

definition job_bindings_valid :: "background_job \<Rightarrow> bool" where
  "job_bindings_valid j \<longleftrightarrow>
     (let a = bj_authorization j in
      bj_kind j = ja_operation a
      \<and> \<not> (ja_execution_target a = None \<and> bj_connector_contract_version j \<noteq> None)
      \<and> bj_request_fingerprint j = ja_request_fingerprint a
      \<and> ja_authorized_at a \<le> bj_created_at j \<and> bj_created_at j < ja_expires_at a
      \<and> bj_created_at j \<le> bj_updated_at j
      \<and> bj_attempt_count j \<le> bj_max_attempts j
      \<and> bj_last_fencing_token j = bj_attempt_count j
      \<and> optional (\<lambda>c. bj_created_at j \<le> c \<and> c \<le> bj_updated_at j) (bj_cancel_requested_at j)
      \<and> optional (\<lambda>c. c = bj_updated_at j) (bj_completed_at j)
      \<and> optional (\<lambda>l. jl_job_id l = bj_id j \<and> jl_attempt l = bj_attempt_count j
            \<and> jl_fencing_token l = bj_last_fencing_token j
            \<and> bj_created_at j \<le> jl_acquired_at l \<and> jl_heartbeat_at l \<le> bj_updated_at j)
          (bj_lease j)
      \<and> optional (\<lambda>r. jr_workflow_id r = ja_workflow_id a
            \<and> ja_expected_workflow_revision a \<le> jr_workflow_revision r
            \<and> Some (jr_completed_at r) = bj_completed_at j) (bj_result j)
      \<and> optional (\<lambda>f. jf_attempt f = bj_attempt_count j \<and> jf_occurred_at f = bj_updated_at j)
          (bj_failure j)
      \<and> optional (\<lambda>f. \<not> (jf_code f = JF_AUTHORIZATION_EXPIRED
            \<and> jf_occurred_at f < ja_expires_at a)) (bj_failure j)
      \<and> optional (\<lambda>f. jf_attempt f \<ge> 1 \<longrightarrow>
            classify_job_failure (jf_code f) (jf_attempt f) (bj_max_attempts j)
              = Inr (jf_disposition f)) (bj_failure j))"

definition job_lifecycle_valid :: "background_job \<Rightarrow> bool" where
  "job_lifecycle_valid j \<longleftrightarrow>
     (case bj_status j of
        J_QUEUED \<Rightarrow>
          bj_attempt_count j = 0 \<and> bj_available_at j \<noteq> None \<and> bj_lease j = None
          \<and> bj_cancel_requested_at j = None \<and> bj_completed_at j = None
          \<and> bj_result j = None \<and> bj_failure j = None
      | J_LEASED \<Rightarrow>
          bj_attempt_count j \<ge> 1 \<and> bj_available_at j = None \<and> bj_lease j \<noteq> None
          \<and> bj_cancel_requested_at j = None \<and> bj_completed_at j = None
          \<and> bj_result j = None \<and> bj_failure j = None
      | J_CANCEL_REQUESTED \<Rightarrow>
          bj_attempt_count j \<ge> 1 \<and> bj_available_at j = None \<and> bj_lease j \<noteq> None
          \<and> bj_cancel_requested_at j \<noteq> None \<and> bj_completed_at j = None
          \<and> bj_result j = None \<and> bj_failure j = None
      | J_RETRY_WAIT \<Rightarrow>
          bj_attempt_count j \<ge> 1 \<and> bj_available_at j \<noteq> None \<and> bj_lease j = None
          \<and> bj_cancel_requested_at j = None \<and> bj_completed_at j = None
          \<and> bj_result j = None
          \<and> (case bj_failure j of None \<Rightarrow> False | Some f \<Rightarrow> jf_disposition f = JD_RETRY)
      | J_SUCCEEDED \<Rightarrow>
          bj_attempt_count j \<ge> 1 \<and> bj_available_at j = None \<and> bj_lease j = None
          \<and> bj_completed_at j \<noteq> None \<and> bj_result j \<noteq> None \<and> bj_failure j = None
      | J_FAILED \<Rightarrow>
          bj_available_at j = None \<and> bj_lease j = None \<and> bj_completed_at j \<noteq> None
          \<and> bj_result j = None
          \<and> (case bj_failure j of None \<Rightarrow> False | Some f \<Rightarrow> jf_disposition f = JD_FAIL)
      | J_CANCELLED \<Rightarrow>
          bj_available_at j = None \<and> bj_lease j = None \<and> bj_cancel_requested_at j \<noteq> None
          \<and> bj_completed_at j \<noteq> None \<and> bj_result j = None \<and> bj_failure j = None
      | J_DEAD_LETTERED \<Rightarrow>
          bj_attempt_count j \<ge> 1 \<and> bj_available_at j = None \<and> bj_lease j = None
          \<and> bj_completed_at j \<noteq> None \<and> bj_result j = None
          \<and> (case bj_failure j of None \<Rightarrow> False | Some f \<Rightarrow> jf_disposition f = JD_DEAD_LETTER))"

definition background_job_valid :: "background_job \<Rightarrow> bool" where
  "background_job_valid j \<longleftrightarrow>
     job_fields_valid j \<and> job_bindings_valid j \<and> job_lifecycle_valid j"

definition create_background_job ::
  "string \<Rightarrow> job_authorization \<Rightarrow> int option \<Rightarrow> string \<Rightarrow> int \<Rightarrow> datetime \<Rightarrow> background_job job_outcome"
where
  "create_background_job ident authorization contract_version digest max_attempts created_at =
     (case created_at of
        Naive _ \<Rightarrow> Inl ValidationError
      | Aware created \<Rightarrow>
          construct_model background_job_valid
            \<lparr>bj_id = ident, bj_kind = ja_operation authorization, bj_status = J_QUEUED,
             bj_authorization = authorization, bj_connector_contract_version = contract_version,
             bj_idempotency_digest = digest,
             bj_request_fingerprint = ja_request_fingerprint authorization,
             bj_max_attempts = max_attempts, bj_attempt_count = 0, bj_last_fencing_token = 0,
             bj_created_at = created, bj_updated_at = created, bj_available_at = Some created,
             bj_lease = None, bj_cancel_requested_at = None, bj_completed_at = None,
             bj_result = None, bj_failure = None\<rparr>)"

section \<open>Transitions\<close>

definition replace_job :: "background_job \<Rightarrow> background_job job_outcome" where
  "replace_job j = construct_model background_job_valid j"

definition raise_terminal :: "'a job_outcome" where
  "raise_terminal = Inl (Transition JE_TERMINAL_IMMUTABLE)"

definition monotonic_time :: "background_job \<Rightarrow> datetime \<Rightarrow> instant job_outcome" where
  "monotonic_time j value =
     bindE (require_aware value) (\<lambda>t.
     if t < bj_updated_at j then Inl (Transition JE_TEMPORAL_CONFLICT) else Inr t)"

definition digest_lease_token :: "string \<Rightarrow> string job_outcome" where
  "digest_lease_token token =
     (if \<not> (32 \<le> length token \<and> length token \<le> 512) \<or> \<not> list_all is_ascii token
         \<or> \<not> list_all is_printable token then Inl ValueError
      else Inr (sha256_text token))"

text \<open>
  A live lease: \<open>lease.worker_id != worker_id or not compare_digest(\<dots>)\<close> evaluates the digest,
  which may raise, only when the worker matches.
\<close>

definition require_active_lease ::
  "background_job \<Rightarrow> string \<Rightarrow> string \<Rightarrow> int \<Rightarrow> instant \<Rightarrow> job_lease job_outcome" where
  "require_active_lease j worker_id lease_token fencing_token at =
     (case bj_lease j of
        None \<Rightarrow> Inl (Transition JE_INVALID_STATE)
      | Some lease \<Rightarrow>
          if bj_status j \<notin> {J_LEASED, J_CANCEL_REQUESTED} then Inl (Transition JE_INVALID_STATE)
          else if jl_worker_id lease \<noteq> worker_id then Inl (Transition JE_LEASE_MISMATCH)
          else bindE (digest_lease_token lease_token) (\<lambda>digest.
            if jl_token_digest lease \<noteq> digest then Inl (Transition JE_LEASE_MISMATCH)
            else if jl_fencing_token lease \<noteq> fencing_token then Inl (Transition JE_FENCING_MISMATCH)
            else if \<not> lease_is_current lease at then Inl (Transition JE_LEASE_EXPIRED)
            else Inr lease))"

text \<open>The branch of \<open>claim_job\<close> that decides whether the job is due, and the next status.\<close>

definition claim_target ::
  "background_job \<Rightarrow> instant \<Rightarrow> (job_status \<times> instant option) job_outcome" where
  "claim_target j claimed =
     (if bj_status j \<in> {J_QUEUED, J_RETRY_WAIT} then
        (case bj_available_at j of
           None \<Rightarrow> Inl AssertionError
         | Some due \<Rightarrow>
             if claimed < due then Inl (Transition JE_NOT_AVAILABLE) else Inr (J_LEASED, None))
      else if bj_status j \<in> {J_LEASED, J_CANCEL_REQUESTED} then
        (case bj_lease j of
           None \<Rightarrow> Inl AssertionError
         | Some lease \<Rightarrow>
             if claimed < jl_expires_at lease then Inl (Transition JE_NOT_AVAILABLE)
             else Inr (bj_status j, bj_cancel_requested_at j))
      else Inl (Transition JE_INVALID_STATE))"

definition claim_job ::
  "background_job \<Rightarrow> string \<Rightarrow> string \<Rightarrow> datetime \<Rightarrow> datetime \<Rightarrow> background_job job_outcome" where
  "claim_job j worker_id lease_token claimed_at lease_expires_at =
     (if is_terminal j then raise_terminal else
      bindE (monotonic_time j claimed_at) (\<lambda>claimed.
      bindE (require_aware lease_expires_at) (\<lambda>expires.
      if expires \<le> claimed \<or> expires - claimed > MAX_LEASE_DURATION
      then Inl (Transition JE_TEMPORAL_CONFLICT)
      else if bj_attempt_count j \<ge> bj_max_attempts j
      then Inl (Transition JE_ATTEMPTS_EXHAUSTED)
      else bindE (claim_target j claimed) (\<lambda>(next_status, cancel_requested_at).
        let attempt = bj_attempt_count j + 1 in
        bindE (digest_lease_token lease_token) (\<lambda>digest.
        bindE (construct_model job_lease_valid
            \<lparr>jl_job_id = bj_id j, jl_worker_id = worker_id, jl_token_digest = digest,
             jl_fencing_token = bj_last_fencing_token j + 1, jl_attempt = attempt,
             jl_acquired_at = claimed, jl_heartbeat_at = claimed, jl_expires_at = expires\<rparr>)
        (\<lambda>lease.
        replace_job (j\<lparr>bj_status := next_status, bj_attempt_count := attempt,
          bj_last_fencing_token := jl_fencing_token lease, bj_updated_at := claimed,
          bj_available_at := None, bj_lease := Some lease,
          bj_cancel_requested_at := cancel_requested_at, bj_completed_at := None,
          bj_result := None, bj_failure := None\<rparr>)))))))"

definition heartbeat_job ::
  "background_job \<Rightarrow> string \<Rightarrow> string \<Rightarrow> int \<Rightarrow> datetime \<Rightarrow> datetime \<Rightarrow> background_job job_outcome" where
  "heartbeat_job j worker_id lease_token fencing_token heartbeat_at lease_expires_at =
     bindE (monotonic_time j heartbeat_at) (\<lambda>heartbeat.
     bindE (require_aware lease_expires_at) (\<lambda>expires.
     bindE (require_active_lease j worker_id lease_token fencing_token heartbeat) (\<lambda>lease.
     if expires \<le> jl_expires_at lease \<or> expires \<le> heartbeat
        \<or> expires - heartbeat > MAX_LEASE_DURATION
     then Inl (Transition JE_TEMPORAL_CONFLICT)
     else bindE (construct_model job_lease_valid
            (lease\<lparr>jl_heartbeat_at := heartbeat, jl_expires_at := expires\<rparr>)) (\<lambda>renewed.
       replace_job (j\<lparr>bj_updated_at := heartbeat, bj_lease := Some renewed\<rparr>)))))"

definition request_job_cancellation ::
  "background_job \<Rightarrow> datetime \<Rightarrow> background_job job_outcome" where
  "request_job_cancellation j requested_at =
     bindE (monotonic_time j requested_at) (\<lambda>requested.
     if bj_status j \<in> {J_CANCELLED, J_CANCEL_REQUESTED} then Inr j
     else if is_terminal j then raise_terminal
     else if bj_status j \<in> {J_QUEUED, J_RETRY_WAIT} then
       replace_job (j\<lparr>bj_status := J_CANCELLED, bj_updated_at := requested,
         bj_available_at := None, bj_lease := None, bj_cancel_requested_at := Some requested,
         bj_completed_at := Some requested, bj_result := None, bj_failure := None\<rparr>)
     else if bj_status j = J_LEASED then
       replace_job (j\<lparr>bj_status := J_CANCEL_REQUESTED, bj_updated_at := requested,
         bj_cancel_requested_at := Some requested\<rparr>)
     else Inl (Transition JE_INVALID_STATE))"

definition acknowledge_job_cancellation ::
  "background_job \<Rightarrow> string \<Rightarrow> string \<Rightarrow> int \<Rightarrow> datetime \<Rightarrow> background_job job_outcome" where
  "acknowledge_job_cancellation j worker_id lease_token fencing_token cancelled_at =
     bindE (monotonic_time j cancelled_at) (\<lambda>cancelled.
     if bj_status j \<noteq> J_CANCEL_REQUESTED then
       (if bj_status j = J_CANCELLED then Inr j
        else if is_terminal j then raise_terminal
        else Inl (Transition JE_INVALID_STATE))
     else bindE (require_active_lease j worker_id lease_token fencing_token cancelled) (\<lambda>_.
       replace_job (j\<lparr>bj_status := J_CANCELLED, bj_updated_at := cancelled,
         bj_available_at := None, bj_lease := None, bj_completed_at := Some cancelled,
         bj_result := None, bj_failure := None\<rparr>)))"

definition complete_job ::
  "background_job \<Rightarrow> string \<Rightarrow> string \<Rightarrow> int \<Rightarrow> job_result_summary \<Rightarrow> background_job job_outcome" where
  "complete_job j worker_id lease_token fencing_token result =
     (if bj_status j \<notin> {J_LEASED, J_CANCEL_REQUESTED} then
        (if is_terminal j then raise_terminal else Inl (Transition JE_INVALID_STATE))
      else bindE (monotonic_time j (Aware (jr_completed_at result))) (\<lambda>completed.
        bindE (require_active_lease j worker_id lease_token fencing_token completed) (\<lambda>_.
        if \<not> authorization_is_current (bj_authorization j) completed
        then Inl (Transition JE_AUTHORIZATION_EXPIRED)
        else if jr_workflow_id result \<noteq> ja_workflow_id (bj_authorization j)
          \<or> jr_workflow_revision result < ja_expected_workflow_revision (bj_authorization j)
        then Inl (Transition JE_RESULT_MISMATCH)
        else replace_job (j\<lparr>bj_status := J_SUCCEEDED, bj_updated_at := jr_completed_at result,
          bj_available_at := None, bj_lease := None,
          bj_completed_at := Some (jr_completed_at result), bj_result := Some result,
          bj_failure := None\<rparr>))))"

definition fail_job ::
  "background_job \<Rightarrow> string \<Rightarrow> string \<Rightarrow> int \<Rightarrow> job_failure_code \<Rightarrow> datetime \<Rightarrow> datetime option \<Rightarrow>
   background_job job_outcome" where
  "fail_job j worker_id lease_token fencing_token failure_code failed_at retry_at =
     bindE (monotonic_time j failed_at) (\<lambda>failed.
     if bj_status j \<notin> {J_LEASED, J_CANCEL_REQUESTED} then
       (if is_terminal j then raise_terminal else Inl (Transition JE_INVALID_STATE))
     else bindE (require_active_lease j worker_id lease_token fencing_token failed) (\<lambda>_.
     bindE (classify_job_failure failure_code (bj_attempt_count j) (bj_max_attempts j)) (\<lambda>disposition.
     if bj_status j = J_CANCEL_REQUESTED \<and> disposition = JD_RETRY
     then Inl (Transition JE_CANCELLATION_PENDING)
     else bindE (construct_model job_failure_valid
            \<lparr>jf_code = failure_code, jf_disposition = disposition, jf_attempt = bj_attempt_count j,
             jf_occurred_at = failed\<rparr>) (\<lambda>failure.
     if disposition = JD_RETRY then
       (case retry_at of
          None \<Rightarrow> Inl (Transition JE_TEMPORAL_CONFLICT)
        | Some at \<Rightarrow>
            bindE (require_aware at) (\<lambda>retry.
            bindE (job_retry_delay (bj_attempt_count j)) (\<lambda>delay.
            if retry \<noteq> failed + delay then Inl (Transition JE_TEMPORAL_CONFLICT)
            else replace_job (j\<lparr>bj_status := J_RETRY_WAIT, bj_updated_at := failed,
              bj_available_at := Some retry, bj_lease := None, bj_cancel_requested_at := None,
              bj_completed_at := None, bj_result := None, bj_failure := Some failure\<rparr>))))
     else if retry_at \<noteq> None then Inl (Transition JE_TEMPORAL_CONFLICT)
     else replace_job (j\<lparr>
       bj_status := (if disposition = JD_DEAD_LETTER then J_DEAD_LETTERED else J_FAILED),
       bj_updated_at := failed, bj_available_at := None, bj_lease := None,
       bj_completed_at := Some failed, bj_result := None, bj_failure := Some failure\<rparr>)))))"

definition expire_job_authorization ::
  "background_job \<Rightarrow> datetime \<Rightarrow> background_job job_outcome" where
  "expire_job_authorization j expired_at =
     bindE (monotonic_time j expired_at) (\<lambda>expired.
     if expired < ja_expires_at (bj_authorization j) then Inl (Transition JE_TEMPORAL_CONFLICT)
     else if bj_status j = J_FAILED
       \<and> (case bj_failure j of None \<Rightarrow> False | Some f \<Rightarrow> jf_code f = JF_AUTHORIZATION_EXPIRED)
     then Inr j
     else if is_terminal j then raise_terminal
     else bindE
       (if bj_status j \<in> {J_LEASED, J_CANCEL_REQUESTED} then
          (case bj_lease j of
             None \<Rightarrow> Inl AssertionError
           | Some lease \<Rightarrow>
               if expired < jl_expires_at lease then Inl (Transition JE_NOT_AVAILABLE) else Inr ())
        else if bj_status j \<notin> {J_QUEUED, J_RETRY_WAIT} then Inl (Transition JE_INVALID_STATE)
        else Inr ()) (\<lambda>_.
     bindE (construct_model job_failure_valid
         \<lparr>jf_code = JF_AUTHORIZATION_EXPIRED, jf_disposition = JD_FAIL,
          jf_attempt = bj_attempt_count j, jf_occurred_at = expired\<rparr>) (\<lambda>failure.
     replace_job (j\<lparr>bj_status := J_FAILED, bj_updated_at := expired, bj_available_at := None,
       bj_lease := None, bj_cancel_requested_at := bj_cancel_requested_at j,
       bj_completed_at := Some expired, bj_result := None, bj_failure := Some failure\<rparr>))))"

definition dead_letter_exhausted_lease ::
  "background_job \<Rightarrow> datetime \<Rightarrow> background_job job_outcome" where
  "dead_letter_exhausted_lease j expired_at =
     bindE (monotonic_time j expired_at) (\<lambda>expired.
     if bj_status j = J_DEAD_LETTERED
       \<and> (case bj_failure j of None \<Rightarrow> False | Some f \<Rightarrow> jf_code f = JF_AMBIGUOUS_EXTERNAL_EFFECT)
     then Inr j
     else if is_terminal j then raise_terminal
     else case bj_lease j of
       None \<Rightarrow> Inl (Transition JE_INVALID_STATE)
     | Some lease \<Rightarrow>
         if bj_status j \<notin> {J_LEASED, J_CANCEL_REQUESTED} then Inl (Transition JE_INVALID_STATE)
         else if expired < jl_expires_at lease then Inl (Transition JE_NOT_AVAILABLE)
         else if bj_attempt_count j < bj_max_attempts j then Inl (Transition JE_NOT_AVAILABLE)
         else bindE (construct_model job_failure_valid
             \<lparr>jf_code = JF_AMBIGUOUS_EXTERNAL_EFFECT, jf_disposition = JD_DEAD_LETTER,
              jf_attempt = bj_attempt_count j, jf_occurred_at = expired\<rparr>) (\<lambda>failure.
           replace_job (j\<lparr>bj_status := J_DEAD_LETTERED, bj_updated_at := expired,
             bj_available_at := None, bj_lease := None, bj_completed_at := Some expired,
             bj_result := None, bj_failure := Some failure\<rparr>)))"

section \<open>The invariant by status\<close>

text \<open>
  The validator regrouped: an envelope no transition writes, the clock and attempt counters,
  the bindings of the nested records, and for each status the fields it fixes.
\<close>

definition job_envelope_valid :: "background_job \<Rightarrow> bool" where
  "job_envelope_valid j \<longleftrightarrow>
     len_between 3 200 (bj_id j) \<and> is_safe_id (bj_id j)
     \<and> job_authorization_valid (bj_authorization j)
     \<and> optional (\<lambda>v. 1 \<le> v) (bj_connector_contract_version j)
     \<and> is_sha256 (bj_idempotency_digest j) \<and> is_sha256 (bj_request_fingerprint j)
     \<and> 1 \<le> bj_max_attempts j \<and> bj_max_attempts j \<le> 10
     \<and> bj_kind j = ja_operation (bj_authorization j)
     \<and> \<not> (ja_execution_target (bj_authorization j) = None
          \<and> bj_connector_contract_version j \<noteq> None)
     \<and> bj_request_fingerprint j = ja_request_fingerprint (bj_authorization j)
     \<and> ja_authorized_at (bj_authorization j) \<le> bj_created_at j
     \<and> bj_created_at j < ja_expires_at (bj_authorization j)"

definition job_clock_valid :: "background_job \<Rightarrow> bool" where
  "job_clock_valid j \<longleftrightarrow>
     bj_created_at j \<le> bj_updated_at j \<and> 0 \<le> bj_attempt_count j
     \<and> bj_attempt_count j \<le> bj_max_attempts j \<and> bj_last_fencing_token j = bj_attempt_count j"

definition lease_bound :: "background_job \<Rightarrow> job_lease \<Rightarrow> bool" where
  "lease_bound j l \<longleftrightarrow> job_lease_valid l \<and> jl_job_id l = bj_id j
     \<and> jl_attempt l = bj_attempt_count j
     \<and> bj_created_at j \<le> jl_acquired_at l \<and> jl_heartbeat_at l \<le> bj_updated_at j"

definition failure_bound :: "background_job \<Rightarrow> job_failure \<Rightarrow> bool" where
  "failure_bound j f \<longleftrightarrow> job_failure_valid f \<and> jf_attempt f = bj_attempt_count j
     \<and> jf_occurred_at f = bj_updated_at j
     \<and> (jf_code f = JF_AUTHORIZATION_EXPIRED \<longrightarrow> ja_expires_at (bj_authorization j) \<le> jf_occurred_at f)
     \<and> (jf_attempt f \<ge> 1 \<longrightarrow> classify_job_failure (jf_code f) (jf_attempt f) (bj_max_attempts j)
              = Inr (jf_disposition f))"

definition result_bound :: "background_job \<Rightarrow> job_result_summary \<Rightarrow> bool" where
  "result_bound j r \<longleftrightarrow> job_result_summary_valid r
     \<and> jr_workflow_id r = ja_workflow_id (bj_authorization j)
     \<and> ja_expected_workflow_revision (bj_authorization j) \<le> jr_workflow_revision r
     \<and> jr_completed_at r = bj_updated_at j"

definition cancel_bound :: "background_job \<Rightarrow> bool" where
  "cancel_bound j \<longleftrightarrow>
     optional (\<lambda>c. bj_created_at j \<le> c \<and> c \<le> bj_updated_at j) (bj_cancel_requested_at j)"

lemmas job_valid_defs =
  background_job_valid_def job_fields_valid_def job_bindings_valid_def job_lifecycle_valid_def
  Let_def
lemmas job_part_defs = job_envelope_valid_def job_clock_valid_def lease_bound_def failure_bound_def
  result_bound_def cancel_bound_def

lemma lease_bound_fence: "lease_bound j l \<Longrightarrow> jl_fencing_token l = bj_attempt_count j"
  by (simp add: lease_bound_def job_lease_valid_def)

lemma valid_queued:
  "bj_status j = J_QUEUED \<Longrightarrow> background_job_valid j \<longleftrightarrow>
     job_envelope_valid j \<and> job_clock_valid j \<and> bj_attempt_count j = 0
     \<and> (\<exists>t. bj_available_at j = Some t) \<and> bj_lease j = None \<and> bj_cancel_requested_at j = None
     \<and> bj_completed_at j = None \<and> bj_result j = None \<and> bj_failure j = None"
  by (auto simp: job_valid_defs job_part_defs)

lemma valid_leased:
  "bj_status j = J_LEASED \<Longrightarrow> background_job_valid j \<longleftrightarrow>
     job_envelope_valid j \<and> job_clock_valid j \<and> 1 \<le> bj_attempt_count j
     \<and> bj_available_at j = None \<and> (\<exists>l. bj_lease j = Some l \<and> lease_bound j l)
     \<and> bj_cancel_requested_at j = None
     \<and> bj_completed_at j = None \<and> bj_result j = None \<and> bj_failure j = None"
  by (cases "bj_lease j") (auto simp: job_valid_defs job_part_defs job_lease_valid_def)
lemma valid_cancel_requested:
  "bj_status j = J_CANCEL_REQUESTED \<Longrightarrow> background_job_valid j \<longleftrightarrow>
     job_envelope_valid j \<and> job_clock_valid j \<and> cancel_bound j \<and> 1 \<le> bj_attempt_count j
     \<and> bj_available_at j = None \<and> (\<exists>l. bj_lease j = Some l \<and> lease_bound j l)
     \<and> bj_cancel_requested_at j \<noteq> None
     \<and> bj_completed_at j = None \<and> bj_result j = None \<and> bj_failure j = None"
  by (cases "bj_lease j"; cases "bj_cancel_requested_at j")
    (auto simp: job_valid_defs job_part_defs job_lease_valid_def)

lemma valid_retry_wait:
  "bj_status j = J_RETRY_WAIT \<Longrightarrow> background_job_valid j \<longleftrightarrow>
     job_envelope_valid j \<and> job_clock_valid j \<and> 1 \<le> bj_attempt_count j
     \<and> (\<exists>t. bj_available_at j = Some t) \<and> bj_lease j = None \<and> bj_cancel_requested_at j = None
     \<and> bj_completed_at j = None \<and> bj_result j = None
     \<and> (\<exists>f. bj_failure j = Some f \<and> failure_bound j f \<and> jf_disposition f = JD_RETRY)"
  by (cases "bj_failure j") (auto simp: job_valid_defs job_part_defs)

lemma valid_succeeded:
  "bj_status j = J_SUCCEEDED \<Longrightarrow> background_job_valid j \<longleftrightarrow>
     job_envelope_valid j \<and> job_clock_valid j \<and> cancel_bound j \<and> 1 \<le> bj_attempt_count j
     \<and> bj_available_at j = None \<and> bj_lease j = None
     \<and> bj_completed_at j = Some (bj_updated_at j)
     \<and> (\<exists>r. bj_result j = Some r \<and> result_bound j r) \<and> bj_failure j = None"
  by (cases "bj_result j"; cases "bj_completed_at j"; cases "bj_cancel_requested_at j")
    (auto simp: job_valid_defs job_part_defs)

lemma valid_failed:
  "bj_status j = J_FAILED \<Longrightarrow> background_job_valid j \<longleftrightarrow>
     job_envelope_valid j \<and> job_clock_valid j \<and> cancel_bound j
     \<and> bj_available_at j = None \<and> bj_lease j = None
     \<and> bj_completed_at j = Some (bj_updated_at j) \<and> bj_result j = None
     \<and> (\<exists>f. bj_failure j = Some f \<and> failure_bound j f \<and> jf_disposition f = JD_FAIL)"
  by (cases "bj_failure j"; cases "bj_completed_at j"; cases "bj_cancel_requested_at j")
    (auto simp: job_valid_defs job_part_defs)

lemma valid_cancelled:
  "bj_status j = J_CANCELLED \<Longrightarrow> background_job_valid j \<longleftrightarrow>
     job_envelope_valid j \<and> job_clock_valid j \<and> cancel_bound j
     \<and> bj_available_at j = None \<and> bj_lease j = None \<and> bj_cancel_requested_at j \<noteq> None
     \<and> bj_completed_at j = Some (bj_updated_at j) \<and> bj_result j = None \<and> bj_failure j = None"
  by (cases "bj_completed_at j"; cases "bj_cancel_requested_at j")
    (auto simp: job_valid_defs job_part_defs)

lemma valid_dead_lettered:
  "bj_status j = J_DEAD_LETTERED \<Longrightarrow> background_job_valid j \<longleftrightarrow>
     job_envelope_valid j \<and> job_clock_valid j \<and> cancel_bound j \<and> 1 \<le> bj_attempt_count j
     \<and> bj_available_at j = None \<and> bj_lease j = None
     \<and> bj_completed_at j = Some (bj_updated_at j) \<and> bj_result j = None
     \<and> (\<exists>f. bj_failure j = Some f \<and> failure_bound j f \<and> jf_disposition f = JD_DEAD_LETTER)"
  by (cases "bj_failure j"; cases "bj_completed_at j"; cases "bj_cancel_requested_at j")
    (auto simp: job_valid_defs job_part_defs)

lemmas valid_by_status =
  valid_queued valid_leased valid_cancel_requested valid_retry_wait valid_succeeded
  valid_failed valid_cancelled valid_dead_lettered

lemma valid_job_common:
  assumes "background_job_valid j"
  shows "job_envelope_valid j" and "job_clock_valid j" and "cancel_bound j"
  using assms by (cases "bj_status j"; simp add: valid_by_status cancel_bound_def)+

text \<open>The immutable envelope ignores every field a transition writes.\<close>

lemma envelope_update [simp]:
  "job_envelope_valid (j\<lparr>bj_status := s\<rparr>) = job_envelope_valid j"
  "job_envelope_valid (j\<lparr>bj_attempt_count := n\<rparr>) = job_envelope_valid j"
  "job_envelope_valid (j\<lparr>bj_last_fencing_token := n\<rparr>) = job_envelope_valid j"
  "job_envelope_valid (j\<lparr>bj_updated_at := t\<rparr>) = job_envelope_valid j"
  "job_envelope_valid (j\<lparr>bj_available_at := a\<rparr>) = job_envelope_valid j"
  "job_envelope_valid (j\<lparr>bj_lease := l\<rparr>) = job_envelope_valid j"
  "job_envelope_valid (j\<lparr>bj_cancel_requested_at := c\<rparr>) = job_envelope_valid j"
  "job_envelope_valid (j\<lparr>bj_completed_at := c\<rparr>) = job_envelope_valid j"
  "job_envelope_valid (j\<lparr>bj_result := r\<rparr>) = job_envelope_valid j"
  "job_envelope_valid (j\<lparr>bj_failure := f\<rparr>) = job_envelope_valid j"
  by (simp_all add: job_envelope_valid_def)

section \<open>What each transition does on a valid job\<close>

text \<open>
  The equations below evaluate every transition on a valid job, with the constructor calls and
  assertions gone: the guards leave the validator nothing to reject.
\<close>

lemma monotonic_time_Aware [simp]:
  "monotonic_time j (Aware t) = (if t < bj_updated_at j then Inl (Transition JE_TEMPORAL_CONFLICT) else Inr t)"
  by (simp add: monotonic_time_def)

lemma monotonic_time_Naive [simp]: "monotonic_time j (Naive t) = Inl ValueError"
  by (simp add: monotonic_time_def)

definition token_ok :: "string \<Rightarrow> bool" where
  "token_ok tok \<longleftrightarrow> 32 \<le> length tok \<and> length tok \<le> 512 \<and> list_all is_ascii tok \<and> list_all is_printable tok"

lemma digest_lease_token_eq:
  "digest_lease_token tok = (if token_ok tok then Inr (sha256_text tok) else Inl ValueError)"
  by (auto simp: digest_lease_token_def token_ok_def)

lemma replace_valid: "background_job_valid j \<Longrightarrow> replace_job j = Inr j"
  by (simp add: replace_job_def construct_model_def)

text \<open>When a job that is not terminal may be delivered, and the lease and job a delivery makes.\<close>

definition due_at :: "background_job \<Rightarrow> instant" where
  "due_at j = (if bj_status j \<in> {J_QUEUED, J_RETRY_WAIT} then the (bj_available_at j)
               else jl_expires_at (the (bj_lease j)))"

definition claim_lease :: "background_job \<Rightarrow> string \<Rightarrow> string \<Rightarrow> instant \<Rightarrow> instant \<Rightarrow> job_lease" where
  "claim_lease j w tok t e =
     \<lparr>jl_job_id = bj_id j, jl_worker_id = w, jl_token_digest = sha256_text tok,
      jl_fencing_token = bj_last_fencing_token j + 1, jl_attempt = bj_attempt_count j + 1,
      jl_acquired_at = t, jl_heartbeat_at = t, jl_expires_at = e\<rparr>"

definition claimed_job :: "background_job \<Rightarrow> job_lease \<Rightarrow> background_job" where
  "claimed_job j l =
     j\<lparr>bj_status := (if bj_status j = J_CANCEL_REQUESTED then J_CANCEL_REQUESTED else J_LEASED),
       bj_attempt_count := bj_attempt_count j + 1,
       bj_last_fencing_token := bj_last_fencing_token j + 1, bj_updated_at := jl_acquired_at l,
       bj_available_at := None, bj_lease := Some l, bj_completed_at := None,
       bj_result := None, bj_failure := None\<rparr>"

lemma claim_target_eq:
  assumes "background_job_valid j" and "\<not> is_terminal j"
  shows "claim_target j t =
    (if t < due_at j then Inl (Transition JE_NOT_AVAILABLE)
     else Inr (if bj_status j = J_CANCEL_REQUESTED then J_CANCEL_REQUESTED else J_LEASED,
               bj_cancel_requested_at j))"
  using assms
  by (cases "bj_status j") (auto simp: claim_target_def due_at_def valid_by_status)

lemma claim_lease_valid:
  assumes "background_job_valid j" and "t < e" and "e - t \<le> MAX_LEASE_DURATION"
  shows "job_lease_valid (claim_lease j w tok t e) \<longleftrightarrow> is_safe_id w"
  using assms valid_job_common [OF assms(1)]
  by (auto simp: job_lease_valid_def claim_lease_def job_envelope_valid_def job_clock_valid_def)

lemma claimed_job_valid:
  assumes v: "background_job_valid j" and "\<not> is_terminal j" "bj_updated_at j \<le> t"
    and "bj_attempt_count j < bj_max_attempts j"
    and l: "job_lease_valid (claim_lease j w tok t e)"
  shows "background_job_valid (claimed_job j (claim_lease j w tok t e))"
  using valid_job_common [OF v] assms
  by (cases "bj_status j")
    (auto simp: valid_by_status job_clock_valid_def lease_bound_def cancel_bound_def
      claimed_job_def claim_lease_def)

lemma claim_job_eq:
  assumes v: "background_job_valid j"
  shows "claim_job j w tok (Aware t) (Aware e) =
    (if is_terminal j then Inl (Transition JE_TERMINAL_IMMUTABLE)
     else if t < bj_updated_at j \<or> e \<le> t \<or> e - t > MAX_LEASE_DURATION
     then Inl (Transition JE_TEMPORAL_CONFLICT)
     else if bj_max_attempts j \<le> bj_attempt_count j then Inl (Transition JE_ATTEMPTS_EXHAUSTED)
     else if t < due_at j then Inl (Transition JE_NOT_AVAILABLE)
     else if \<not> token_ok tok then Inl ValueError
     else if \<not> is_safe_id w then Inl ValidationError
     else Inr (claimed_job j (claim_lease j w tok t e)))"
proof (cases "is_terminal j \<or> t < bj_updated_at j \<or> e \<le> t \<or> e - t > MAX_LEASE_DURATION
    \<or> bj_max_attempts j \<le> bj_attempt_count j \<or> t < due_at j \<or> \<not> token_ok tok")
  case True
  then show ?thesis
    by (auto simp: claim_job_def raise_terminal_def claim_target_eq [OF v] digest_lease_token_eq)
next
  case False
  let ?l = "claim_lease j w tok t e"
  have l: "job_lease_valid ?l \<longleftrightarrow> is_safe_id w" using False claim_lease_valid [OF v] by simp
  have k: "background_job_valid (claimed_job j ?l)" if "is_safe_id w"
    using claimed_job_valid [OF v] False l that by simp
  show ?thesis using False l k
    by (simp add: claim_job_def claim_target_eq [OF v] digest_lease_token_eq Let_def
        construct_model_def replace_job_def claim_lease_def claimed_job_def)
qed

definition holds_lease :: "background_job \<Rightarrow> string \<Rightarrow> string \<Rightarrow> int \<Rightarrow> instant \<Rightarrow> job_lease \<Rightarrow> bool" where
  "holds_lease j w tok fence t l \<longleftrightarrow>
     bj_status j \<in> {J_LEASED, J_CANCEL_REQUESTED} \<and> bj_lease j = Some l \<and> jl_worker_id l = w
     \<and> digest_lease_token tok = Inr (jl_token_digest l) \<and> jl_fencing_token l = fence
     \<and> lease_is_current l t"

lemma require_active_lease_eq_Inr [outcome_simps]:
  "require_active_lease j w tok fence t = Inr l \<longleftrightarrow> holds_lease j w tok fence t l"
  by (auto simp: require_active_lease_def holds_lease_def bindE_eq_Inr split: option.splits)

lemma require_active_lease_errors:
  "require_active_lease j w tok fence t = Inl x \<Longrightarrow> x \<noteq> ValidationError \<and> x \<noteq> AssertionError"
  by (auto simp: require_active_lease_def bindE_eq_Inl digest_lease_token_eq split: option.splits if_splits)

lemma holds_lease_bound:
  assumes "background_job_valid j" and "holds_lease j w tok fence t l"
  shows "lease_bound j l" and "fence = bj_attempt_count j" and "1 \<le> bj_attempt_count j"
  using assms lease_bound_fence [of j l]
  by (auto simp: holds_lease_def valid_by_status)



text \<open>Jobs that a transition closes: the fields every terminal update writes.\<close>

definition closed_job ::
  "background_job \<Rightarrow> job_status \<Rightarrow> instant \<Rightarrow> instant option \<Rightarrow> job_failure option \<Rightarrow> background_job" where
  "closed_job j s t c f =
     j\<lparr>bj_status := s, bj_updated_at := t, bj_available_at := None, bj_lease := None,
       bj_cancel_requested_at := c, bj_completed_at := Some t, bj_result := None,
       bj_failure := f\<rparr>"

lemma closed_job_keep:
  "closed_job j s t (bj_cancel_requested_at j) f =
     j\<lparr>bj_status := s, bj_updated_at := t, bj_available_at := None, bj_lease := None,
       bj_completed_at := Some t, bj_result := None, bj_failure := f\<rparr>"
  by (simp add: closed_job_def)

lemma closed_job_sel [simp]:
  "bj_status (closed_job j s t c f) = s" "bj_available_at (closed_job j s t c f) = None"
  "bj_lease (closed_job j s t c f) = None" "bj_cancel_requested_at (closed_job j s t c f) = c"
  "bj_completed_at (closed_job j s t c f) = Some t" "bj_updated_at (closed_job j s t c f) = t"
  "bj_result (closed_job j s t c f) = None" "bj_failure (closed_job j s t c f) = f"
  "bj_attempt_count (closed_job j s t c f) = bj_attempt_count j"
  "bj_last_fencing_token (closed_job j s t c f) = bj_last_fencing_token j"
  "bj_max_attempts (closed_job j s t c f) = bj_max_attempts j"
  "bj_created_at (closed_job j s t c f) = bj_created_at j"
  "bj_authorization (closed_job j s t c f) = bj_authorization j"
  "job_envelope_valid (closed_job j s t c f) = job_envelope_valid j"
  by (simp_all add: closed_job_def)

lemma closed_job_valid:
  assumes v: "background_job_valid j" and t: "bj_updated_at j \<le> t"
    and c: "c = bj_cancel_requested_at j \<or> c = Some t"
    and s: "s = J_CANCELLED \<and> c \<noteq> None \<and> f = None
      \<or> (\<exists>x. f = Some x \<and> job_failure_valid x \<and> jf_attempt x = bj_attempt_count j
          \<and> jf_occurred_at x = t
          \<and> (jf_code x = JF_AUTHORIZATION_EXPIRED \<longrightarrow> ja_expires_at (bj_authorization j) \<le> t)
          \<and> (1 \<le> jf_attempt x \<longrightarrow> classify_job_failure (jf_code x) (jf_attempt x) (bj_max_attempts j)
               = Inr (jf_disposition x))
          \<and> (s = J_FAILED \<and> jf_disposition x = JD_FAIL
             \<or> s = J_DEAD_LETTERED \<and> jf_disposition x = JD_DEAD_LETTER \<and> 1 \<le> bj_attempt_count j))"
  shows "background_job_valid (closed_job j s t c f)"
proof -
  have cb: "cancel_bound (closed_job j s t c f)" and cl: "job_clock_valid (closed_job j s t c f)"
    using valid_job_common [OF v] t c
    by (auto simp: cancel_bound_def job_clock_valid_def split: option.splits)
  show ?thesis
    using s by (elim disjE exE conjE) (use valid_job_common(1) [OF v] cb cl in
      \<open>simp_all add: valid_by_status failure_bound_def\<close>)
qed

lemma request_job_cancellation_eq:
  assumes v: "background_job_valid j"
  shows "request_job_cancellation j (Aware t) =
    (if t < bj_updated_at j then Inl (Transition JE_TEMPORAL_CONFLICT)
     else case bj_status j of
       J_CANCELLED \<Rightarrow> Inr j | J_CANCEL_REQUESTED \<Rightarrow> Inr j
     | J_QUEUED \<Rightarrow> Inr (closed_job j J_CANCELLED t (Some t) None)
     | J_RETRY_WAIT \<Rightarrow> Inr (closed_job j J_CANCELLED t (Some t) None)
     | J_LEASED \<Rightarrow> Inr (j\<lparr>bj_status := J_CANCEL_REQUESTED, bj_updated_at := t,
                          bj_cancel_requested_at := Some t\<rparr>)
     | _ \<Rightarrow> Inl (Transition JE_TERMINAL_IMMUTABLE))"
proof (cases "t < bj_updated_at j")
  case False
  have closed: "background_job_valid (closed_job j J_CANCELLED t (Some t) None)"
    using closed_job_valid [OF v] False by simp
  have marked: "background_job_valid (j\<lparr>bj_status := J_CANCEL_REQUESTED, bj_updated_at := t,
      bj_cancel_requested_at := Some t\<rparr>)" if "bj_status j = J_LEASED"
    using valid_job_common [OF v] v that False
    by (auto simp: valid_by_status cancel_bound_def job_clock_valid_def lease_bound_def)
  show ?thesis
    using False closed marked
    by (cases "bj_status j")
      (simp_all add: request_job_cancellation_def raise_terminal_def replace_job_def construct_model_def
        closed_job_def)
qed (simp add: request_job_cancellation_def)


definition succeeded_job :: "background_job \<Rightarrow> job_result_summary \<Rightarrow> background_job" where
  "succeeded_job j r =
     j\<lparr>bj_status := J_SUCCEEDED, bj_updated_at := jr_completed_at r, bj_available_at := None,
       bj_lease := None, bj_completed_at := Some (jr_completed_at r), bj_result := Some r,
       bj_failure := None\<rparr>"

lemma complete_job_eq:
  assumes v: "background_job_valid j" and r: "job_result_summary_valid r"
  shows "complete_job j w tok fence r =
    (if is_terminal j then Inl (Transition JE_TERMINAL_IMMUTABLE)
     else if bj_status j \<notin> {J_LEASED, J_CANCEL_REQUESTED} then Inl (Transition JE_INVALID_STATE)
     else if jr_completed_at r < bj_updated_at j then Inl (Transition JE_TEMPORAL_CONFLICT)
     else bindE (require_active_lease j w tok fence (jr_completed_at r)) (\<lambda>_.
       if \<not> authorization_is_current (bj_authorization j) (jr_completed_at r)
       then Inl (Transition JE_AUTHORIZATION_EXPIRED)
       else if jr_workflow_id r \<noteq> ja_workflow_id (bj_authorization j)
         \<or> jr_workflow_revision r < ja_expected_workflow_revision (bj_authorization j)
       then Inl (Transition JE_RESULT_MISMATCH)
       else Inr (succeeded_job j r)))"
proof (cases "bj_status j \<notin> {J_LEASED, J_CANCEL_REQUESTED} \<or> jr_completed_at r < bj_updated_at j")
  case True
  then show ?thesis by (auto simp: complete_job_def raise_terminal_def)
next
  case False
  have "background_job_valid (succeeded_job j r)"
    if "jr_workflow_id r = ja_workflow_id (bj_authorization j)"
      "ja_expected_workflow_revision (bj_authorization j) \<le> jr_workflow_revision r"
    using False valid_job_common [OF v] v r that
    by (auto simp: valid_by_status succeeded_job_def job_clock_valid_def cancel_bound_def
        result_bound_def split: option.splits)
  with False show ?thesis
    by (auto simp: complete_job_def replace_job_def construct_model_def succeeded_job_def bindE_def
        split: sum.splits)
qed

text \<open>The classification agrees with the closed failure classes.\<close>

definition job_disposition :: "job_failure_code \<Rightarrow> int \<Rightarrow> int \<Rightarrow> job_failure_disposition" where
  "job_disposition c n m =
     (if c \<in> DIRECT_DEAD_LETTER_CODES then JD_DEAD_LETTER
      else if c \<in> TRANSIENT_FAILURE_CODES then (if n < m then JD_RETRY else JD_DEAD_LETTER)
      else JD_FAIL)"

definition job_failure_of :: "background_job \<Rightarrow> job_failure_code \<Rightarrow> instant \<Rightarrow> job_failure" where
  "job_failure_of j c t =
     \<lparr>jf_code = c, jf_disposition = job_disposition c (bj_attempt_count j) (bj_max_attempts j),
      jf_attempt = bj_attempt_count j, jf_occurred_at = t\<rparr>"

lemma classify_eq:
  assumes "background_job_valid j" and "1 \<le> bj_attempt_count j"
  shows "classify_job_failure c (bj_attempt_count j) (bj_max_attempts j) =
    Inr (job_disposition c (bj_attempt_count j) (bj_max_attempts j))"
  using valid_job_common [OF assms(1)] assms(2)
  by (simp add: classify_job_failure_def job_disposition_def job_clock_valid_def
      job_envelope_valid_def)

lemma job_failure_of_valid:
  assumes "background_job_valid j" and "1 \<le> bj_attempt_count j"
  shows "job_failure_valid (job_failure_of j c t)"
  using valid_job_common [OF assms(1)] assms(2)
  by (auto simp: job_failure_of_def job_failure_valid_def job_disposition_def failure_code_sets
      job_clock_valid_def job_envelope_valid_def)




lemma failed_job_valid:
  assumes v: "background_job_valid j" and n: "1 \<le> bj_attempt_count j" "bj_updated_at j \<le> t"
    and d: "job_disposition c (bj_attempt_count j) (bj_max_attempts j) = d" "d \<noteq> JD_RETRY"
  shows "background_job_valid (closed_job j (if d = JD_DEAD_LETTER then J_DEAD_LETTERED else J_FAILED)
      t (bj_cancel_requested_at j) (Some (job_failure_of j c t)))
    \<longleftrightarrow> \<not> (c = JF_AUTHORIZATION_EXPIRED \<and> t < ja_expires_at (bj_authorization j))"
    (is "background_job_valid ?k \<longleftrightarrow> _")
proof
  assume "background_job_valid ?k"
  then show "\<not> (c = JF_AUTHORIZATION_EXPIRED \<and> t < ja_expires_at (bj_authorization j))"
    by (auto simp: valid_by_status failure_bound_def job_failure_of_def split: if_splits)
next
  assume "\<not> (c = JF_AUTHORIZATION_EXPIRED \<and> t < ja_expires_at (bj_authorization j))"
  then show "background_job_valid ?k"
    using job_failure_of_valid [OF v n(1), of c t] classify_eq [OF v n(1), of c] n d
    by (intro closed_job_valid [OF v n(2)])
      (cases d; auto simp: job_failure_of_def)+
qed



lemma dead_letter_exhausted_lease_eq:
  assumes v: "background_job_valid j"
  shows "dead_letter_exhausted_lease j (Aware t) =
    (if t < bj_updated_at j then Inl (Transition JE_TEMPORAL_CONFLICT)
     else if bj_status j = J_DEAD_LETTERED
       \<and> (\<exists>f. bj_failure j = Some f \<and> jf_code f = JF_AMBIGUOUS_EXTERNAL_EFFECT)
     then Inr j
     else if is_terminal j then Inl (Transition JE_TERMINAL_IMMUTABLE)
     else case bj_lease j of
       None \<Rightarrow> Inl (Transition JE_INVALID_STATE)
     | Some l \<Rightarrow>
         if t < jl_expires_at l \<or> bj_attempt_count j < bj_max_attempts j
         then Inl (Transition JE_NOT_AVAILABLE)
         else Inr (closed_job j J_DEAD_LETTERED t (bj_cancel_requested_at j)
                (Some (job_failure_of j JF_AMBIGUOUS_EXTERNAL_EFFECT t))))"
proof (cases "t < bj_updated_at j \<or> bj_status j \<notin> {J_LEASED, J_CANCEL_REQUESTED}")
  case True
  then show ?thesis
    using v by (cases "bj_status j"; cases "bj_failure j")
      (auto simp: dead_letter_exhausted_lease_def raise_terminal_def valid_queued valid_retry_wait)
next
  case False
  then have n: "1 \<le> bj_attempt_count j" and u: "bj_updated_at j \<le> t" and st: "\<not> is_terminal j"
    and l: "\<exists>l. bj_lease j = Some l"
    using v by (auto simp: valid_by_status)
  have "job_disposition JF_AMBIGUOUS_EXTERNAL_EFFECT (bj_attempt_count j) (bj_max_attempts j) = JD_DEAD_LETTER"
    by (simp add: job_disposition_def failure_code_sets)
  with failed_job_valid [OF v n u this] job_failure_of_valid [OF v n, of JF_AMBIGUOUS_EXTERNAL_EFFECT t]
  show ?thesis
    using False st l
    by (auto simp: dead_letter_exhausted_lease_def construct_model_def replace_job_def closed_job_keep
        job_failure_of_def)
qed
lemma created_job:
  assumes "create_background_job i a v d m t = Inr j"
  shows "background_job_valid j" and "bj_status j = J_QUEUED" and "bj_attempt_count j = 0"
    and "bj_max_attempts j = m" and "bj_authorization j = a"
  using assms by (auto simp: create_background_job_def construct_model_eq_Inr split: datetime.splits)

section \<open>Commands and runs\<close>

text \<open>One delivery to the stored job: the transition functions with their arguments.\<close>

datatype job_command =
    Claim string string datetime datetime
  | Heartbeat string string int datetime datetime
  | Request_Cancellation datetime
  | Acknowledge_Cancellation string string int datetime
  | Complete string string int job_result_summary
  | Fail string string int job_failure_code datetime "datetime option"
  | Expire_Authorization datetime
  | Dead_Letter_Exhausted datetime

fun run_job_command :: "job_command \<Rightarrow> background_job \<Rightarrow> background_job job_outcome" where
  "run_job_command (Claim w tok t e) j = claim_job j w tok t e"
| "run_job_command (Heartbeat w tok f t e) j = heartbeat_job j w tok f t e"
| "run_job_command (Request_Cancellation t) j = request_job_cancellation j t"
| "run_job_command (Acknowledge_Cancellation w tok f t) j = acknowledge_job_cancellation j w tok f t"
| "run_job_command (Complete w tok f r) j = complete_job j w tok f r"
| "run_job_command (Fail w tok f c t r) j = fail_job j w tok f c t r"
| "run_job_command (Expire_Authorization t) j = expire_job_authorization j t"
| "run_job_command (Dead_Letter_Exhausted t) j = dead_letter_exhausted_lease j t"

fun is_claim :: "job_command \<Rightarrow> bool" where
  "is_claim (Claim w tok t e) = True"
| "is_claim c = False"

fun presented_token :: "job_command \<Rightarrow> int option" where
  "presented_token (Heartbeat w tok f t e) = Some f"
| "presented_token (Acknowledge_Cancellation w tok f t) = Some f"
| "presented_token (Complete w tok f r) = Some f"
| "presented_token (Fail w tok f c t r) = Some f"
| "presented_token c = None"

text \<open>Every command but a claim leaves the job as it is or moves a live job forward in time
  with its counters unchanged.\<close>

definition moves_on :: "background_job \<Rightarrow> background_job \<Rightarrow> bool" where
  "moves_on j k \<longleftrightarrow> background_job_valid k \<and> \<not> is_terminal j \<and> bj_updated_at j \<le> bj_updated_at k
     \<and> bj_attempt_count k = bj_attempt_count j \<and> bj_max_attempts k = bj_max_attempts j
     \<and> bj_authorization k = bj_authorization j \<and> bj_id k = bj_id j
     \<and> bj_created_at k = bj_created_at j"

lemma monotonic_time_eq_Inr: "monotonic_time j d = Inr t \<longleftrightarrow> d = Aware t \<and> bj_updated_at j \<le> t"
  by (cases d) auto

lemma replace_job_eq_Inr: "replace_job j = Inr k \<longleftrightarrow> k = j \<and> background_job_valid j"
  by (simp add: replace_job_def outcome_simps)

lemma raise_terminal_not_Inr [simp]: "raise_terminal \<noteq> Inr k"
  by (simp add: raise_terminal_def)

lemma returns_replace_job [returns_intros]:
  "(background_job_valid k \<Longrightarrow> P k) \<Longrightarrow> returns P (replace_job k)"
  by (simp add: returns_def replace_job_eq_Inr)

lemma returns_raise_terminal [returns_intros]: "returns P raise_terminal"
  by (simp add: returns_def)

lemma claim_returns:
  "returns (\<lambda>k. background_job_valid k \<and> (\<exists>t e. ca = Aware t \<and> le = Aware e)) (claim_job j w tok ca le)"
  unfolding claim_job_def
  by (intro returns_intros) (auto simp: monotonic_time_eq_Inr require_aware_eq_Inr)

lemma heartbeat_moves: "returns (moves_on j) (heartbeat_job j w tok f t e)"
  unfolding heartbeat_job_def
  by (intro returns_intros)
    (auto simp: moves_on_def monotonic_time_eq_Inr require_active_lease_eq_Inr holds_lease_def)

lemma request_moves: "returns (\<lambda>k. k = j \<or> moves_on j k) (request_job_cancellation j t)"
  unfolding request_job_cancellation_def
  by (intro returns_intros) (auto simp: moves_on_def monotonic_time_eq_Inr)

lemma acknowledge_moves:
  "returns (\<lambda>k. k = j \<or> moves_on j k) (acknowledge_job_cancellation j w tok f t)"
  unfolding acknowledge_job_cancellation_def
  by (intro returns_intros) (auto simp: moves_on_def monotonic_time_eq_Inr)

lemma complete_moves: "returns (moves_on j) (complete_job j w tok f r)"
  unfolding complete_job_def
  by (intro returns_intros) (auto simp: moves_on_def split: if_splits)

lemma fail_moves: "returns (moves_on j) (fail_job j w tok f c t r)"
  unfolding fail_job_def
  by (intro returns_intros) (auto simp: moves_on_def monotonic_time_eq_Inr)

lemma expire_moves: "returns (\<lambda>k. k = j \<or> moves_on j k) (expire_job_authorization j t)"
  unfolding expire_job_authorization_def
  by (intro returns_intros) (auto simp: moves_on_def monotonic_time_eq_Inr)

lemma dead_letter_moves: "returns (\<lambda>k. k = j \<or> moves_on j k) (dead_letter_exhausted_lease j t)"
  unfolding dead_letter_exhausted_lease_def
  by (intro returns_intros) (auto simp: moves_on_def monotonic_time_eq_Inr)

lemmas command_moves = heartbeat_moves request_moves acknowledge_moves complete_moves fail_moves
  expire_moves dead_letter_moves

lemma progress_moves:
  assumes "run_job_command c j = Inr k" and "\<not> is_claim c"
  shows "k = j \<or> moves_on j k"
  using assms by (cases c) (auto dest: command_moves [THEN returnsD])

lemma claim_job_Inr:
  assumes "background_job_valid j" and "claim_job j w tok ca le = Inr k"
  obtains t e where "ca = Aware t" "le = Aware e" "\<not> is_terminal j" "bj_updated_at j \<le> t" "t < e"
    "e - t \<le> MAX_LEASE_DURATION" "bj_attempt_count j < bj_max_attempts j" "due_at j \<le> t"
    "token_ok tok" "is_safe_id w" "k = claimed_job j (claim_lease j w tok t e)"
    "background_job_valid k"
proof -
  obtain t e where ca: "ca = Aware t" "le = Aware e" and v: "background_job_valid k"
    using claim_returns [THEN returnsD, OF assms(2)] by blast
  show thesis
    using assms(2) unfolding ca claim_job_eq [OF assms(1)]
    by (intro that [OF ca _ _ _ _ _ _ _ _ _ v])
      (simp_all split: if_splits del: job_status_is_terminal.simps)
qed

definition job_claim :: "background_job \<Rightarrow> background_job \<Rightarrow> bool" where
  "job_claim j k \<longleftrightarrow> (\<exists>w tok t e. claim_job j w tok t e = Inr k)"

definition job_progress :: "background_job \<Rightarrow> background_job \<Rightarrow> bool" where
  "job_progress j k \<longleftrightarrow> (\<exists>c. \<not> is_claim c \<and> run_job_command c j = Inr k)"

text \<open>A worker's write with the given token goes through.\<close>

definition job_accepts :: "background_job \<Rightarrow> int \<Rightarrow> bool" where
  "job_accepts j f \<longleftrightarrow>
     (\<exists>c k. presented_token c = Some f \<and> run_job_command c j = Inr k \<and> k \<noteq> j)"

definition token_held :: "background_job \<Rightarrow> int \<Rightarrow> bool" where
  "token_held j f \<longleftrightarrow> (\<exists>w tok t l. holds_lease j w tok f t l)"

lemma token_heldI: "require_active_lease j w tok f t = Inr l \<Longrightarrow> token_held j f"
  by (auto simp: token_held_def require_active_lease_eq_Inr)

lemma worker_write_needs_lease:
  "returns (\<lambda>k. token_held j f) (heartbeat_job j w tok f t e)"
  "returns (\<lambda>k. k = j \<or> token_held j f) (acknowledge_job_cancellation j w tok f t)"
  "returns (\<lambda>k. token_held j f) (complete_job j w tok f r)"
  "returns (\<lambda>k. token_held j f) (fail_job j w tok f c t u)"
  unfolding heartbeat_job_def acknowledge_job_cancellation_def complete_job_def fail_job_def
  by (intro returns_intros; auto dest: token_heldI)+

lemma accepts_token_held:
  assumes "job_accepts j f"
  shows "token_held j f"
proof -
  obtain c k where c: "presented_token c = Some f" "run_job_command c j = Inr k" "k \<noteq> j"
    using assms by (auto simp: job_accepts_def)
  then show ?thesis
    by (cases c) (auto dest: worker_write_needs_lease [THEN returnsD])
qed

lemma token_held_fence:
  "background_job_valid j \<Longrightarrow> token_held j f \<Longrightarrow> f = bj_attempt_count j"
  unfolding token_held_def using holds_lease_bound(2) by blast

lemma claim_step:
  assumes "background_job_valid j" and "job_claim j k"
  shows "background_job_valid k" and "\<not> is_terminal j"
    and "bj_attempt_count k = bj_attempt_count j + 1" and "bj_max_attempts k = bj_max_attempts j"
    and "bj_last_fencing_token k = bj_last_fencing_token j + 1"
    and "due_at j \<le> bj_updated_at k" and "bj_updated_at j \<le> bj_updated_at k"
    and "bj_status k \<in> {J_LEASED, J_CANCEL_REQUESTED}"
    and "bj_cancel_requested_at k = bj_cancel_requested_at j"
    and "bj_authorization k = bj_authorization j"
proof -
  obtain w tok ca le where "claim_job j w tok ca le = Inr k"
    using assms(2) by (auto simp: job_claim_def)
  then obtain t e where *: "\<not> is_terminal j" "bj_updated_at j \<le> t" "due_at j \<le> t"
    "background_job_valid k" and k: "k = claimed_job j (claim_lease j w tok t e)"
    by (rule claim_job_Inr [OF assms(1)])
  show "background_job_valid k" "\<not> is_terminal j" by fact+
  show "bj_attempt_count k = bj_attempt_count j + 1" "bj_max_attempts k = bj_max_attempts j"
    "bj_last_fencing_token k = bj_last_fencing_token j + 1"
    "due_at j \<le> bj_updated_at k" "bj_updated_at j \<le> bj_updated_at k"
    "bj_status k \<in> {J_LEASED, J_CANCEL_REQUESTED}"
    "bj_cancel_requested_at k = bj_cancel_requested_at j"
    "bj_authorization k = bj_authorization j"
    using * unfolding k by (simp_all add: claimed_job_def claim_lease_def)
qed

lemma progress_step:
  assumes "background_job_valid j" and "job_progress j k"
  shows "background_job_valid k" and "is_terminal j \<Longrightarrow> k = j"
    and "bj_attempt_count k = bj_attempt_count j" and "bj_max_attempts k = bj_max_attempts j"
    and "bj_updated_at j \<le> bj_updated_at k"
proof -
  obtain c where "k = j \<or> moves_on j k"
    using assms(2) progress_moves by (auto simp: job_progress_def)
  then show "background_job_valid k" "is_terminal j \<Longrightarrow> k = j"
    "bj_attempt_count k = bj_attempt_count j" "bj_max_attempts k = bj_max_attempts j"
    "bj_updated_at j \<le> bj_updated_at k"
    using assms(1) unfolding moves_on_def by (metis order_refl)+
qed

lemma valid_fence: "background_job_valid j \<Longrightarrow> bj_last_fencing_token j = bj_attempt_count j"
  using valid_job_common by (simp add: job_clock_valid_def)

interpretation job_leases: fenced_lease background_job_valid job_claim job_progress
  bj_last_fencing_token bj_max_attempts job_accepts is_terminal
proof
  fix j k t
  assume v: "background_job_valid j"
  show "0 \<le> bj_last_fencing_token j \<and> bj_last_fencing_token j \<le> bj_max_attempts j"
    using valid_job_common [OF v] by (simp add: job_clock_valid_def)
  show "t = bj_last_fencing_token j" if "job_accepts j t"
    using token_held_fence [OF v accepts_token_held [OF that]] valid_fence [OF v] by simp
  show "bj_last_fencing_token k = bj_last_fencing_token j" if "job_progress j k"
    using progress_step [OF v that] valid_fence v by simp
  show "background_job_valid k" "bj_last_fencing_token k = bj_last_fencing_token j + 1"
    "bj_max_attempts k = bj_max_attempts j" if "job_claim j k"
    by (fact claim_step [OF v that])+
  show "background_job_valid k" "bj_max_attempts k = bj_max_attempts j" if "job_progress j k"
    by (fact progress_step [OF v that])+
  show "\<not> job_claim j k" if "is_terminal j"
    using claim_step(2) [OF v] that by blast
  show "k = j" if "is_terminal j" "job_progress j k"
    by (rule progress_step(2) [OF v that(2,1)])
qed

interpretation job_backoff: capped_backoff job_retry_delay INITIAL_RETRY_DELAY_SECONDS
  MAX_RETRY_DELAY_SECONDS "\<lambda>n. 1 \<le> n \<and> n \<le> 10"
  by unfold_locales (auto simp: job_retry_delay_def backoff_seconds_def job_constants)
section \<open>Properties\<close>

lemma success_inside_window:
  "returns (\<lambda>k. authorization_is_current (bj_authorization k) (bj_updated_at k)) (complete_job j w tok f r)"
  unfolding complete_job_def by (intro returns_intros) (auto split: if_splits)

lemma only_complete_succeeds:
  "returns (\<lambda>k. bj_status k \<noteq> J_SUCCEEDED) (heartbeat_job j w tok f t e)"
  "returns (\<lambda>k. k = j \<or> bj_status k \<noteq> J_SUCCEEDED) (request_job_cancellation j t)"
  "returns (\<lambda>k. k = j \<or> bj_status k \<noteq> J_SUCCEEDED) (acknowledge_job_cancellation j w tok f t)"
  "returns (\<lambda>k. bj_status k \<noteq> J_SUCCEEDED) (fail_job j w tok f c t u)"
  "returns (\<lambda>k. k = j \<or> bj_status k \<noteq> J_SUCCEEDED) (expire_job_authorization j t)"
  "returns (\<lambda>k. k = j \<or> bj_status k \<noteq> J_SUCCEEDED) (dead_letter_exhausted_lease j t)"
  unfolding heartbeat_job_def acknowledge_job_cancellation_def request_job_cancellation_def
    fail_job_def expire_job_authorization_def dead_letter_exhausted_lease_def
  by (intro returns_intros; auto simp: require_active_lease_eq_Inr holds_lease_def)+

lemma progress_success:
  assumes "job_progress j k" and "bj_status k = J_SUCCEEDED"
  shows "k = j \<or> authorization_is_current (bj_authorization k) (bj_updated_at k)"
proof -
  obtain c where "\<not> is_claim c" "run_job_command c j = Inr k"
    using assms(1) by (auto simp: job_progress_def)
  then show ?thesis
    using assms(2) success_inside_window [THEN returnsD] only_complete_succeeds [THEN returnsD]
    by (cases c) (simp, metis run_job_command.simps)+
qed

lemma run_success_window:
  assumes "lease_run job_claim job_progress j n k" and "background_job_valid j"
    and "bj_status j \<noteq> J_SUCCEEDED"
  shows "bj_status k = J_SUCCEEDED \<Longrightarrow> authorization_is_current (bj_authorization k) (bj_updated_at k)"
  using assms
proof (induction)
  case (run_claim j n k l)
  then show ?case using claim_step(8) [OF _ run_claim.hyps(2)] job_leases.run_valid by fastforce
next
  case (run_progress j n k l)
  then show ?case using progress_success by blast
qed simp

lemma run_authorization:
  assumes "lease_run job_claim job_progress j n k" and "background_job_valid j"
  shows "bj_authorization k = bj_authorization j"
  using assms
proof (induction)
  case (run_claim j n k l)
  then show ?case using claim_step(10) [OF _ run_claim.hyps(2)] job_leases.run_valid by fastforce
next
  case (run_progress j n k l)
  then obtain c where "k = l \<or> moves_on k l"
    using progress_moves job_leases.run_valid by (fastforce simp: job_progress_def)
  then show ?case using run_progress by (auto simp: moves_on_def)
qed simp

lemma cancel_kept:
  "returns (\<lambda>k. bj_cancel_requested_at k = bj_cancel_requested_at j) (heartbeat_job j w tok f t e)"
  "background_job_valid j \<Longrightarrow> bj_cancel_requested_at j = Some c \<Longrightarrow>
     returns (\<lambda>k. bj_cancel_requested_at k = bj_cancel_requested_at j) (request_job_cancellation j t)"
  "returns (\<lambda>k. bj_cancel_requested_at k = bj_cancel_requested_at j) (acknowledge_job_cancellation j w tok f t)"
  "returns (\<lambda>k. bj_cancel_requested_at k = bj_cancel_requested_at j) (complete_job j w tok f r)"
  "background_job_valid j \<Longrightarrow> bj_cancel_requested_at j = Some c \<Longrightarrow>
     returns (\<lambda>k. bj_cancel_requested_at k = bj_cancel_requested_at j) (fail_job j w tok f d t u)"
  "returns (\<lambda>k. bj_cancel_requested_at k = bj_cancel_requested_at j) (expire_job_authorization j t)"
  "returns (\<lambda>k. bj_cancel_requested_at k = bj_cancel_requested_at j) (dead_letter_exhausted_lease j t)"
  unfolding heartbeat_job_def acknowledge_job_cancellation_def request_job_cancellation_def
    complete_job_def fail_job_def expire_job_authorization_def dead_letter_exhausted_lease_def
  by (intro returns_intros; auto simp: valid_by_status)+

lemma progress_keeps_cancel:
  assumes "background_job_valid j" and "job_progress j k" and "bj_cancel_requested_at j = Some c"
  shows "bj_cancel_requested_at k = Some c"
proof -
  obtain d where "\<not> is_claim d" "run_job_command d j = Inr k"
    using assms(2) by (auto simp: job_progress_def)
  then have "bj_cancel_requested_at k = bj_cancel_requested_at j"
    by (cases d) (auto dest: cancel_kept(1,3,4,6,7) [THEN returnsD]
        cancel_kept(2,5) [OF assms(1,3), THEN returnsD])
  then show ?thesis using assms(3) by simp
qed

text \<open>Property C10. A cancellation request is never lost: whatever deliveries, heartbeats,
  failures and clean-ups follow an accepted request, the job keeps its timestamp, and no run
  brings it back to a state in which further work is scheduled.\<close>

theorem cancellation_request_survives:
  assumes "lease_run job_claim job_progress j n k" and "background_job_valid j"
    and "bj_cancel_requested_at j = Some c"
  shows "bj_cancel_requested_at k = Some c \<and> bj_status k \<notin> {J_QUEUED, J_LEASED, J_RETRY_WAIT}"
proof -
  have "bj_cancel_requested_at k = Some c"
    using assms
  proof (induction)
    case (run_claim j n k l)
    then show ?case using claim_step(9) [OF _ run_claim.hyps(2)] job_leases.run_valid by fastforce
  next
    case (run_progress j n k l)
    then show ?case
      using progress_keeps_cancel [OF _ run_progress.hyps(2)] job_leases.run_valid by fastforce
  qed simp
  moreover have "background_job_valid k" using job_leases.run_valid assms(1,2) .
  ultimately show ?thesis by (auto simp: valid_by_status)
qed

text \<open>Property C7. A job only ever succeeds inside its authorization window: in every run from
  a submitted job, a succeeded job still carries the very authorization reserved at submission, and
  was completed at an instant at which that authorization was current.\<close>

theorem success_requires_current_authorization:
  assumes "create_background_job i a v d m t = Inr j"
    and "lease_run job_claim job_progress j n k" and "bj_status k = J_SUCCEEDED"
  shows "bj_authorization k = a \<and> authorization_is_current a (bj_updated_at k)
    \<and> bj_completed_at k = Some (bj_updated_at k)"
proof -
  note j = created_job [OF assms(1)]
  then have "background_job_valid k" using job_leases.run_valid assms(2) by blast
  then show ?thesis
    using run_success_window [OF assms(2)] run_authorization [OF assms(2)] j assms(3)
    by (simp add: valid_by_status)
qed
text \<open>What a claim does, on every branch: a valid job is delivered exactly when it
  is not terminal, the clock has not gone back, the lease lasts at most five minutes, a delivery
  attempt remains, and the job is due or its previous lease has expired; the delivery advances
  the fence by one and keeps a pending cancellation. Otherwise the first failing guard decides
  the error, and no assertion or validator is ever hit for a well-formed worker.\<close>

lemma claim_job_behaviour:
  assumes "background_job_valid j"
  shows "claim_job j w tok (Aware t) (Aware e) =
    (if is_terminal j then Inl (Transition JE_TERMINAL_IMMUTABLE)
     else if t < bj_updated_at j \<or> e \<le> t \<or> e - t > MAX_LEASE_DURATION
     then Inl (Transition JE_TEMPORAL_CONFLICT)
     else if bj_max_attempts j \<le> bj_attempt_count j then Inl (Transition JE_ATTEMPTS_EXHAUSTED)
     else if t < due_at j then Inl (Transition JE_NOT_AVAILABLE)
     else if \<not> token_ok tok then Inl ValueError
     else if \<not> is_safe_id w then Inl ValidationError
     else Inr (claimed_job j (claim_lease j w tok t e)))"
  by (rule claim_job_eq [OF assms])

lemma lease_check_no_crash [fails_intros]:
  "fails (\<lambda>e. \<not> crash e) (require_active_lease j w tok f t)"
  unfolding require_active_lease_def digest_lease_token_def
  by (intro fails_intros) simp_all

lemma lease_check_typed [fails_intros]:
  "(\<And>e. \<not> crash e \<Longrightarrow> Q e) \<Longrightarrow> fails Q (require_active_lease j w tok f t)"
  using lease_check_no_crash by (auto simp: fails_def)









text \<open>Deliveries are bounded and counted: in every run from a submitted job the
  stored job is valid, its fence and attempt count equal the number of deliveries made, and
  that number never exceeds the configured maximum.\<close>

lemma job_deliveries_bounded:
  assumes "create_background_job i a v d m t = Inr j"
    and "lease_run job_claim job_progress j n k"
  shows "background_job_valid k \<and> bj_attempt_count k = int n \<and> bj_last_fencing_token k = int n
    \<and> int n \<le> m \<and> m \<le> 10"
proof -
  note j = created_job [OF assms(1)]
  have k: "background_job_valid k" by (rule job_leases.run_valid [OF assms(2) j(1)])
  have "bj_last_fencing_token k = int n"
    using job_leases.run_accounts [OF assms(2) j(1)] valid_fence [OF j(1)] j(3) by simp
  then show ?thesis
    using job_leases.deliveries_bounded(2) [OF assms(2) j(1)] valid_fence [OF k] k j
      valid_job_common(1) [OF j(1)] by (simp add: job_envelope_valid_def)
qed

text \<open>Property C6. A worker whose job was delivered again is fenced off: a heartbeat, completion,
  failure or cancellation acknowledgement that presents a token handed out before the last
  delivery never changes the job.\<close>

theorem stale_worker_is_fenced:
  assumes "lease_run job_claim job_progress j n k" and "background_job_valid j" and "0 < n"
    and "presented_token c = Some f" and "f \<le> bj_last_fencing_token j"
  shows "(\<exists>e. run_job_command c k = Inl e) \<or> run_job_command c k = Inr k"
  using job_leases.stale_token_refused [OF assms(1-3,5)] assms(4)
  by (cases "run_job_command c k") (auto simp: job_accepts_def)

text \<open>A terminal job is immutable: no sequence of commands changes it, and none
  delivers it again.\<close>

lemma terminal_job_is_immutable:
  assumes "background_job_valid j" and "is_terminal j"
    and "lease_run job_claim job_progress j n k"
  shows "k = j \<and> n = 0"
  by (rule job_leases.settled_forever [OF assms(3,1,2)])

text \<open>Leases are exclusive: as long as the holder of a lease could still write, no
  worker can claim the job.\<close>

lemma live_lease_is_exclusive:
  assumes "background_job_valid j" and "require_active_lease j w tok f t = Inr l" and "x \<le> t"
  shows "claim_job j w' tok' (Aware x) le \<noteq> Inr k"
proof
  assume "claim_job j w' tok' (Aware x) le = Inr k"
  then have "due_at j \<le> x" by (rule claim_job_Inr [OF assms(1)]) simp
  moreover have "due_at j = jl_expires_at l" "t < jl_expires_at l"
    using assms(2) by (auto simp: require_active_lease_eq_Inr holds_lease_def due_at_def lease_is_current_def)
  ultimately show False using assms(3) by simp
qed

text \<open>Property C9. No live job is ever stuck: at some instant after any given one, a valid job
  that is not terminal can either be delivered to a well-formed worker or, when its attempts
  are used up, be closed by the clean-up of exhausted leases.\<close>

theorem live_job_is_never_stuck:
  assumes "background_job_valid j" and "\<not> is_terminal j" and "is_safe_id w" and "token_ok tok"
  shows "\<exists>t \<ge> T. (\<exists>e k. claim_job j w tok (Aware t) (Aware e) = Inr k)
    \<or> (\<exists>k. dead_letter_exhausted_lease j (Aware t) = Inr k \<and> bj_status k = J_DEAD_LETTERED)"
proof -
  define t where "t = max T (max (bj_updated_at j) (due_at j))"
  have t: "T \<le> t" "bj_updated_at j \<le> t" "due_at j \<le> t" by (simp_all add: t_def)
  show ?thesis
  proof (cases "bj_attempt_count j < bj_max_attempts j")
    case True
    then have "\<exists>k. claim_job j w tok (Aware t) (Aware (t + MAX_LEASE_DURATION)) = Inr k"
      using assms t by (simp add: claim_job_eq [OF assms(1)] job_constants)
    then show ?thesis using t(1) by blast
  next
    case False
    have st: "bj_status j = J_LEASED \<or> bj_status j = J_CANCEL_REQUESTED"
      using assms(1,2) False
      by (cases "bj_status j") (auto simp: valid_by_status failure_bound_def classify_job_failure_def
          job_envelope_valid_def job_clock_valid_def split: if_splits)
    then obtain l where "bj_lease j = Some l" "jl_expires_at l \<le> t"
      using assms(1) t by (auto simp: valid_by_status due_at_def)
    then have "dead_letter_exhausted_lease j (Aware t) = Inr (closed_job j J_DEAD_LETTERED t
        (bj_cancel_requested_at j) (Some (job_failure_of j JF_AMBIGUOUS_EXTERNAL_EFFECT t)))"
      using st False t by (auto simp: dead_letter_exhausted_lease_eq [OF assms(1)])
    then show ?thesis using t(1) by fastforce
  qed
qed

lemma execution_target_json_inject:
  assumes "canonical (execution_target_json t) = canonical (execution_target_json u)"
  shows "t = u"
proof (cases "t = None \<or> u = None")
  case True
  with assms show ?thesis by (auto simp: execution_target_json_def split: option.splits)
next
  case False
  then obtain a b where "t = Some a" "u = Some b" by auto
  with assms have *: "canonical (JObj
          [(''workspace_id'', JStr (et_workspace_id a)),
           (''connection_id'', JStr (et_connection_id a)),
           (''route_revision'', JInt (et_route_revision a)),
           (''route_fingerprint'', JStr (et_route_fingerprint a)),
           (''target_fingerprint'', JStr (et_target_fingerprint a))]) = canonical (JObj
          [(''workspace_id'', JStr (et_workspace_id b)),
           (''connection_id'', JStr (et_connection_id b)),
           (''route_revision'', JInt (et_route_revision b)),
           (''route_fingerprint'', JStr (et_route_fingerprint b)),
           (''target_fingerprint'', JStr (et_target_fingerprint b))])"
    by (simp only: execution_target_json_def option.case)
  note field = canonical_member [OF *, simplified]
  have "a = b"
    using field [of "''workspace_id''"] field [of "''connection_id''"]
      field [of "''route_revision''"] field [of "''route_fingerprint''"]
      field [of "''target_fingerprint''"]
    by (cases a; cases b) simp
  then show ?thesis by (simp add: \<open>t = Some a\<close> \<open>u = Some b\<close>)
qed

lemma enum_values_inject:
  "access_scope_value x = access_scope_value y \<longleftrightarrow> x = y"
  "job_kind_value m = job_kind_value n \<longleftrightarrow> m = n"
  by (cases x; cases y; cases m; cases n; simp)+

text \<open>The fingerprinted payload binds the whole executable request: two payloads
  have the same canonical text only if the submitting scope, the workflow scope, the workflow,
  its owner, the access scope, the operation, the expected revision, the plan fingerprint and
  the execution target all agree. The payload fingerprint is the SHA-256 of that text.\<close>

lemma job_payload_binds_request:
  "dumps escape_ascii (job_payload ws wws fl ow sc op rv pl tg)
     = dumps escape_ascii (job_payload ws' wws' fl' ow' sc' op' rv' pl' tg') \<longleftrightarrow>
   ws = ws' \<and> or_default wws ws = or_default wws' ws' \<and> fl = fl' \<and> ow = ow' \<and> sc = sc' \<and> op = op'
   \<and> rv = rv' \<and> pl = pl' \<and> tg = tg'"
proof
  assume eq: "dumps escape_ascii (job_payload ws wws fl ow sc op rv pl tg)
     = dumps escape_ascii (job_payload ws' wws' fl' ow' sc' op' rv' pl' tg')"
  note field = payload_fields_recovered [OF eq [unfolded job_payload_def], simplified]
  have "canonical (execution_target_json tg) = canonical (execution_target_json tg')"
    using field [of "''execution_target''"] by simp
  then have "tg = tg'" by (rule execution_target_json_inject)
  then show "ws = ws' \<and> or_default wws ws = or_default wws' ws' \<and> fl = fl' \<and> ow = ow' \<and> sc = sc'
      \<and> op = op' \<and> rv = rv' \<and> pl = pl' \<and> tg = tg'"
    using field [of "''workspace_id''"] field [of "''workflow_workspace_id''"]
      field [of "''workflow_id''"] field [of "''workflow_owner_actor_id''"]
      field [of "''workflow_access_scope''"] field [of "''operation''"]
      field [of "''expected_workflow_revision''"] field [of "''expected_plan_fingerprint''"]
    by (simp add: enum_values_inject)
qed (auto simp: job_payload_def)
section \<open>A concrete job\<close>

definition sample_token :: string where "sample_token = replicate 32 (CHR ''k'')"

definition sample_payload :: json where
  "sample_payload = job_payload ''workspace-1'' (Some ''workspace-1'') ''workflow-1'' ''owner-1''
     SCOPE_OWNER EXECUTE_WORKFLOW_PREVIEW 1 (sha256_text ''plan'') None"

definition sample_authorization :: job_authorization where
  "sample_authorization =
     \<lparr>ja_workspace_id = ''workspace-1'', ja_workflow_workspace_id = ''workspace-1'',
      ja_workflow_id = ''workflow-1'', ja_workflow_owner_actor_id = ''owner-1'',
      ja_submitting_actor_id = ''owner-1'', ja_workflow_access_scope = SCOPE_OWNER,
      ja_operation = EXECUTE_WORKFLOW_PREVIEW, ja_expected_workflow_revision = 1,
      ja_expected_plan_fingerprint = sha256_text ''plan'', ja_execution_target = None,
      ja_authenticated_at = 0, ja_authorized_at = 0, ja_expires_at = minutes 30,
      ja_payload_fingerprint = json_fingerprint sample_payload,
      ja_request_fingerprint =
        json_fingerprint (job_request_payload (json_fingerprint sample_payload) ''owner-1'')\<rparr>"

definition sample_job :: background_job where
  "sample_job =
     \<lparr>bj_id = ''job-1'', bj_kind = EXECUTE_WORKFLOW_PREVIEW, bj_status = J_QUEUED,
      bj_authorization = sample_authorization, bj_connector_contract_version = None,
      bj_idempotency_digest = sha256_text ''key'',
      bj_request_fingerprint = ja_request_fingerprint sample_authorization,
      bj_max_attempts = 2, bj_attempt_count = 0, bj_last_fencing_token = 0,
      bj_created_at = 0, bj_updated_at = 0, bj_available_at = Some 0,
      bj_lease = None, bj_cancel_requested_at = None, bj_completed_at = None,
      bj_result = None, bj_failure = None\<rparr>"

lemma sample_token_ok: "token_ok sample_token"
  by (simp add: token_ok_def sample_token_def list_all_iff char_class_defs)

lemma sample_ids:
  "is_safe_id ''workspace-1''" "is_safe_id ''workflow-1''" "is_safe_id ''owner-1''"
  "is_safe_id ''job-1''" "is_safe_id ''worker-1''" "is_safe_id ''worker-2''"
  by (simp_all add: is_safe_id_def re_head_run_def class_defs char_class_defs)

lemma sample_authorization_valid: "job_authorization_valid sample_authorization"
  by (simp add: job_authorization_valid_def sample_authorization_def sample_ids job_constants
      authorization_payload_fingerprint_def job_payload_fingerprint_def job_request_fingerprint_def
      inert_id_def sha256_value_def or_default_def sample_payload_def)

lemma sample_job_created:
  "create_background_job ''job-1'' sample_authorization None (sha256_text ''key'') 2 (Aware 0)
     = Inr sample_job"
proof -
  have "job_envelope_valid sample_job"
    using sample_authorization_valid
    by (simp add: job_envelope_valid_def sample_job_def sample_ids sample_authorization_def)
  then have "background_job_valid sample_job"
    by (simp add: valid_queued job_clock_valid_def sample_job_def)
  then show ?thesis
    by (simp add: create_background_job_def construct_model_def sample_job_def sample_authorization_def)
qed

lemma sample_job_valid: "background_job_valid sample_job"
  by (rule created_job(1) [OF sample_job_created])

text \<open>Two deliveries, the second after the first lease expired; a cancellation in between; a
  completion of the first delivery.\<close>

definition sample_leased :: background_job where
  "sample_leased = claimed_job sample_job (claim_lease sample_job ''worker-1'' sample_token 0 (minutes 5))"

definition sample_releases :: background_job where
  "sample_releases =
     claimed_job sample_leased (claim_lease sample_leased ''worker-2'' sample_token (minutes 5) (minutes 9))"

lemma sample_claim:
  "claim_job sample_job ''worker-1'' sample_token (Aware 0) (Aware (minutes 5)) = Inr sample_leased"
  unfolding claim_job_eq [OF sample_job_valid]
  by (simp add: sample_leased_def sample_token_ok sample_ids due_at_def sample_job_def job_constants)

lemma sample_run: "lease_run job_claim job_progress sample_job 1 sample_leased"
  by (rule run_single_claim) (use sample_claim in \<open>auto simp: job_claim_def\<close>)

lemma sample_leased_valid: "background_job_valid sample_leased"
  by (rule job_leases.run_valid [OF sample_run sample_job_valid])

lemma sample_lease: "bj_lease sample_leased = Some (claim_lease sample_job ''worker-1'' sample_token 0 (minutes 5))"
  by (simp add: sample_leased_def claimed_job_def)

lemma sample_reclaim:
  "claim_job sample_leased ''worker-2'' sample_token (Aware (minutes 5)) (Aware (minutes 9)) = Inr sample_releases"
  unfolding claim_job_eq [OF sample_leased_valid]
  by (simp add: sample_releases_def sample_token_ok sample_ids due_at_def sample_leased_def
      claimed_job_def claim_lease_def sample_job_def job_constants)

lemma sample_rerun: "lease_run job_claim job_progress sample_leased 1 sample_releases"
  by (rule run_single_claim) (use sample_reclaim in \<open>auto simp: job_claim_def\<close>)

lemma sample_active:
  "require_active_lease sample_leased ''worker-1'' sample_token 1 60000000
     = Inr (claim_lease sample_job ''worker-1'' sample_token 0 (minutes 5))"
  by (simp add: require_active_lease_def sample_leased_def claimed_job_def claim_lease_def
      sample_job_def digest_lease_token_eq sample_token_ok lease_is_current_def)

definition sample_result :: job_result_summary where
  "sample_result =
     \<lparr>jr_workflow_id = ''workflow-1'', jr_workflow_revision = 1, jr_stage = WS_PUBLICATION_PROPOSED,
      jr_row_count = 10, jr_preview_fingerprint = sha256_text ''rows'', jr_rejected_count = 2,
      jr_rejection_code_counts = [\<lparr>jrc_code = ''null_value'', jrc_count = 2\<rparr>],
      jr_truncated = False, jr_completed_at = minutes 1\<rparr>"

lemma sample_result_valid: "job_result_summary_valid sample_result"
  by (simp add: job_result_summary_valid_def sample_result_def sample_ids job_constants
      job_rejection_count_valid_def is_safe_code_def re_head_run_def class_defs char_class_defs
      UNCLASSIFIED_REJECTION_COUNT_CODE_def canonical_sequence_def sampled_rejected_count_def
      rejection_truncated_def rejection_counts_complete_def unclassified_rejection_count_def)

definition sample_succeeded :: background_job where
  "sample_succeeded = succeeded_job sample_leased sample_result"

lemma sample_complete:
  "complete_job sample_leased ''worker-1'' sample_token 1 sample_result = Inr sample_succeeded"
  unfolding complete_job_eq [OF sample_leased_valid sample_result_valid]
  using sample_active
  by (simp add: sample_succeeded_def sample_leased_def claimed_job_def claim_lease_def
      sample_job_def sample_result_def authorization_is_current_def sample_authorization_def)

lemma sample_success_run: "lease_run job_claim job_progress sample_job 1 sample_succeeded"
proof (rule run_progress [OF sample_run])
  have "run_job_command (Complete ''worker-1'' sample_token 1 sample_result) sample_leased
      = Inr sample_succeeded"
    by (simp add: sample_complete)
  then show "job_progress sample_leased sample_succeeded"
    unfolding job_progress_def by (metis is_claim.simps(5))
qed

definition sample_cancelling :: background_job where
  "sample_cancelling = sample_leased\<lparr>bj_status := J_CANCEL_REQUESTED, bj_updated_at := minutes 1,
     bj_cancel_requested_at := Some (minutes 1)\<rparr>"

lemma sample_cancelling_valid: "background_job_valid sample_cancelling"
proof -
  have "request_job_cancellation sample_leased (Aware (minutes 1)) = Inr sample_cancelling"
    unfolding request_job_cancellation_eq [OF sample_leased_valid]
    by (simp add: sample_cancelling_def sample_leased_def claimed_job_def claim_lease_def sample_job_def)
  then show ?thesis using request_moves [THEN returnsD] sample_leased_valid
    by (fastforce simp: moves_on_def)
qed

definition sample_cancel_again :: background_job where
  "sample_cancel_again =
     claimed_job sample_cancelling (claim_lease sample_cancelling ''worker-2'' sample_token (minutes 5) (minutes 9))"

lemma sample_cancel_run: "lease_run job_claim job_progress sample_cancelling 1 sample_cancel_again"
proof (rule run_single_claim)
  have "claim_job sample_cancelling ''worker-2'' sample_token (Aware (minutes 5)) (Aware (minutes 9))
      = Inr sample_cancel_again"
    unfolding claim_job_eq [OF sample_cancelling_valid]
    by (simp add: sample_cancel_again_def sample_cancelling_def sample_token_ok sample_ids due_at_def
        sample_leased_def claimed_job_def claim_lease_def sample_job_def job_constants)
  then show "job_claim sample_cancelling sample_cancel_again" by (auto simp: job_claim_def)
qed

section \<open>Witnesses\<close>

lemma claim_job_behaviour_witness:
  "claim_job sample_job ''worker-1'' sample_token (Aware 0) (Aware (minutes 5)) = Inr sample_leased"
  unfolding claim_job_behaviour [OF sample_job_valid]
  by (simp add: sample_leased_def sample_token_ok sample_ids due_at_def sample_job_def job_constants)


lemma job_deliveries_bounded_witness:
  "background_job_valid sample_succeeded \<and> bj_attempt_count sample_succeeded = 1"
  using job_deliveries_bounded [OF sample_job_created sample_success_run] by simp

theorem stale_worker_is_fenced_witness:
  "(\<exists>e. run_job_command (Heartbeat ''worker-1'' sample_token 1 (Aware (minutes 6)) (Aware (minutes 7)))
          sample_releases = Inl e)
   \<or> run_job_command (Heartbeat ''worker-1'' sample_token 1 (Aware (minutes 6)) (Aware (minutes 7)))
          sample_releases = Inr sample_releases"
  by (rule stale_worker_is_fenced [OF sample_rerun sample_leased_valid, where f = 1])
    (simp_all add: sample_leased_def claimed_job_def sample_job_def)

lemma terminal_job_is_immutable_witness:
  "is_terminal sample_succeeded \<and> lease_run job_claim job_progress sample_succeeded 0 sample_succeeded"
proof -
  have v: "background_job_valid sample_succeeded"
    by (rule job_leases.run_valid [OF sample_success_run sample_job_valid])
  have t: "is_terminal sample_succeeded" by (simp add: sample_succeeded_def succeeded_job_def)
  show ?thesis
    using terminal_job_is_immutable [OF v t run_start] t by (simp add: run_start)
qed

lemma live_lease_is_exclusive_witness:
  "claim_job sample_leased ''worker-2'' sample_token (Aware (minutes 1)) (Aware (minutes 2)) \<noteq> Inr sample_leased"
  by (rule live_lease_is_exclusive [OF sample_leased_valid sample_active]) simp

theorem live_job_is_never_stuck_witness:
  "\<exists>t \<ge> 7. (\<exists>e k. claim_job sample_job ''worker-1'' sample_token (Aware t) (Aware e) = Inr k)
    \<or> (\<exists>k. dead_letter_exhausted_lease sample_job (Aware t) = Inr k \<and> bj_status k = J_DEAD_LETTERED)"
  by (rule live_job_is_never_stuck [OF sample_job_valid _ sample_ids(5) sample_token_ok])
    (simp add: sample_job_def)

theorem cancellation_request_survives_witness:
  "bj_cancel_requested_at sample_cancel_again = Some (minutes 1)"
  using cancellation_request_survives [OF sample_cancel_run sample_cancelling_valid]
  by (simp add: sample_cancelling_def)

theorem success_requires_current_authorization_witness:
  "bj_authorization sample_succeeded = sample_authorization
    \<and> authorization_is_current sample_authorization (bj_updated_at sample_succeeded)"
  using success_requires_current_authorization [OF sample_job_created sample_success_run]
  by (simp add: sample_succeeded_def succeeded_job_def)

section \<open>Refinement of the abstract lease machine\<close>

definition job_view :: "background_job \<Rightarrow> lease_view" where
  "job_view j =
     \<lparr>lv_phase = (if is_terminal j then Settled
        else case bj_lease j of Some l \<Rightarrow> Held (jl_expires_at l) | None \<Rightarrow> Waiting (the (bj_available_at j))),
      lv_deliveries = bj_attempt_count j, lv_budget = bj_max_attempts j, lv_clock = bj_updated_at j\<rparr>"

lemma job_settles:
  assumes "moves_on j k" and "is_terminal k"
  shows "lease_spec (job_view j) (job_view k)"
proof -
  have "job_view k = (job_view j)\<lparr>lv_phase := Settled, lv_clock := bj_updated_at k\<rparr>"
    using assms by (simp add: job_view_def moves_on_def)
  moreover have "lv_phase (job_view j) \<noteq> Settled" "lv_clock (job_view j) \<le> bj_updated_at k"
    using assms(1) by (simp_all add: job_view_def moves_on_def split: option.split)
  ultimately show ?thesis using spec_settle by metis
qed

lemma job_renews:
  assumes "moves_on j k" and "bj_lease j = Some l" and "bj_lease k = Some m" and "\<not> is_terminal k"
    and "jl_expires_at l \<le> jl_expires_at m"
  shows "lease_spec (job_view j) (job_view k)"
proof -
  have "job_view k = (job_view j)\<lparr>lv_phase := Held (jl_expires_at m), lv_clock := bj_updated_at k\<rparr>"
    using assms by (simp add: job_view_def moves_on_def)
  moreover have "lv_phase (job_view j) = Held (jl_expires_at l)" "lv_clock (job_view j) \<le> bj_updated_at k"
    using assms(1,2) by (simp_all add: job_view_def moves_on_def)
  ultimately show ?thesis using spec_renew assms(5) by metis
qed

lemma heartbeat_shape:
  "returns (\<lambda>k. \<exists>l m. bj_lease j = Some l \<and> bj_lease k = Some m \<and> jl_expires_at l \<le> jl_expires_at m
     \<and> bj_status k = bj_status j) (heartbeat_job j w tok f t e)"
  unfolding heartbeat_job_def
  by (intro returns_intros) (auto simp: require_active_lease_eq_Inr holds_lease_def
      construct_model_eq_Inr)

lemma request_shape:
  "returns (\<lambda>k. k = j \<or> is_terminal k \<or> bj_status j = J_LEASED \<and> bj_lease k = bj_lease j
     \<and> bj_status k = J_CANCEL_REQUESTED) (request_job_cancellation j t)"
  unfolding request_job_cancellation_def by (intro returns_intros) simp_all

lemma closing_shapes:
  "returns (\<lambda>k. k = j \<or> is_terminal k) (acknowledge_job_cancellation j w tok f t)"
  "returns (\<lambda>k. is_terminal k) (complete_job j w tok f r)"
  "returns (\<lambda>k. k = j \<or> is_terminal k) (expire_job_authorization j t)"
  "returns (\<lambda>k. k = j \<or> is_terminal k) (dead_letter_exhausted_lease j t)"
  unfolding acknowledge_job_cancellation_def complete_job_def expire_job_authorization_def
    dead_letter_exhausted_lease_def
  by (intro returns_intros; simp)+

lemma fail_shape:
  "returns (\<lambda>k. is_terminal k \<or> (\<exists>l. bj_lease j = Some l) \<and> bj_lease k = None
     \<and> bj_status k = J_RETRY_WAIT \<and> (\<exists>u. bj_available_at k = Some u \<and> bj_updated_at k \<le> u)
     \<and> bj_attempt_count j < bj_max_attempts j) (fail_job j w tok f c t r)"
  unfolding fail_job_def
  by (intro returns_intros)
    (auto simp: require_active_lease_eq_Inr holds_lease_def classify_job_failure_def job_retry_delay_def
      job_constants split: if_splits)


lemma job_postpones:
  assumes "moves_on j k" and "bj_lease j = Some l" and "bj_lease k = None" and "bj_status k = J_RETRY_WAIT"
    and "bj_available_at k = Some u" and "bj_updated_at k \<le> u" and "bj_attempt_count j < bj_max_attempts j"
  shows "lease_spec (job_view j) (job_view k)"
proof -
  have "job_view k = (job_view j)\<lparr>lv_phase := Waiting u, lv_clock := bj_updated_at k\<rparr>"
    using assms by (simp add: job_view_def moves_on_def)
  moreover have "lv_phase (job_view j) = Held (jl_expires_at l)" "lv_clock (job_view j) \<le> bj_updated_at k"
    "lv_deliveries (job_view j) < lv_budget (job_view j)"
    using assms(1,2,7) by (simp_all add: job_view_def moves_on_def)
  ultimately show ?thesis using spec_postpone assms(6) by metis
qed

lemma leased_has_lease: "background_job_valid j \<Longrightarrow> bj_status j = J_LEASED \<Longrightarrow> \<exists>l. bj_lease j = Some l"
  by (auto simp: valid_leased)

lemma job_progress_refines:
  assumes v: "background_job_valid j" and c: "run_job_command c j = Inr k" "\<not> is_claim c"
  shows "lease_spec (job_view j) (job_view k)"
proof (cases "k = j")
  case False
  then have m: "moves_on j k" using progress_moves [OF c] by blast
  show ?thesis
  proof (cases "is_terminal k")
    case True
    then show ?thesis by (rule job_settles [OF m])
  next
    case live: False
    show ?thesis
    proof (cases c)
      case (Heartbeat w tok f t e)
      then obtain l m' where "bj_lease j = Some l" "bj_lease k = Some m'" "jl_expires_at l \<le> jl_expires_at m'"
        using c(1) heartbeat_shape [THEN returnsD] by fastforce
      then show ?thesis using job_renews [OF m] live by blast
    next
      case (Request_Cancellation t)
      then have "bj_status j = J_LEASED" "bj_lease k = bj_lease j"
        using c(1) False live request_shape [THEN returnsD] by fastforce+
      then show ?thesis using job_renews [OF m _ _ live] leased_has_lease [OF v] by fastforce
    next
      case (Fail w tok f fc t r)
      then show ?thesis
        using c(1) live fail_shape [THEN returnsD] job_postpones [OF m] by (metis run_job_command.simps)
    qed (use c False live closing_shapes [THEN returnsD] in fastforce)+
  qed
qed (simp add: spec_stay)

lemma job_claim_refines:
  assumes v: "background_job_valid j" and c: "claim_job j w tok ca le = Inr k"
  shows "lease_spec (job_view j) (job_view k)"
proof -
  obtain t e where *: "\<not> is_terminal j" "bj_updated_at j \<le> t" "t < e" "due_at j \<le> t"
    "bj_attempt_count j < bj_max_attempts j" "k = claimed_job j (claim_lease j w tok t e)"
    by (rule claim_job_Inr [OF v c])
  have k: "job_view k = (job_view j)\<lparr>lv_phase := Held e,
      lv_deliveries := lv_deliveries (job_view j) + 1, lv_clock := t\<rparr>"
    by (simp add: job_view_def *(6) claimed_job_def claim_lease_def)
  show ?thesis
  proof (cases "bj_lease j")
    case None
    then have "lv_phase (job_view j) = Waiting (due_at j)"
      using v *(1) by (cases "bj_status j") (auto simp: job_view_def due_at_def valid_by_status)
    then show ?thesis
      unfolding k by (rule spec_deliver) (use * in \<open>simp_all add: job_view_def\<close>)
  next
    case (Some l)
    then have "lv_phase (job_view j) = Held (due_at j)"
      using v *(1) by (cases "bj_status j") (auto simp: job_view_def due_at_def valid_by_status)
    then show ?thesis
      unfolding k by (rule spec_take_over) (use * in \<open>simp_all add: job_view_def\<close>)
  qed
qed

lemma background_job_refines:
  assumes "background_job_valid j" and "run_job_command c j = Inr k"
  shows "lease_spec (job_view j) (job_view k)"
proof (cases "is_claim c")
  case True
  then show ?thesis using assms job_claim_refines by (cases c) simp_all
qed (rule job_progress_refines [OF assms])

section \<open>Termination\<close>













end
