(* ===== verification/Governance.thy ===== *)
theory Governance
  imports Transformations
begin

text \<open>
  The governed vocabulary: logical and physical references (\<open>domain/concepts.py\<close>,
  \<open>domain/fields.py\<close>), human decisions (\<open>domain/decisions.py\<close>) and evidence-bearing column
  mappings (\<open>domain/mappings.py\<close>). A reference is the string its root model wraps; a
  confidence score is the exact value of its float.
\<close>

section \<open>References\<close>

definition DOT :: char where "DOT = CHR ''.''"

definition segments :: "string \<Rightarrow> string list" where
  "segments s = split_on DOT s"

text \<open>\<open>^I$\<close>, \<open>^I\.I$\<close>, and \<open>^I\.I(\.I)+$\<close> for the identifier pattern \<open>I\<close>.\<close>

definition is_logical_model_ref :: "string \<Rightarrow> bool" where
  "is_logical_model_ref s \<longleftrightarrow> is_identifier s"

definition is_logical_field_ref :: "string \<Rightarrow> bool" where
  "is_logical_field_ref s \<longleftrightarrow> length (segments s) = 2 \<and> list_all is_identifier (segments s)"

definition is_physical_dataset_ref :: "string \<Rightarrow> bool" where
  "is_physical_dataset_ref s \<longleftrightarrow> length (segments s) = 2 \<and> list_all is_identifier (segments s)"

definition is_physical_field_ref :: "string \<Rightarrow> bool" where
  "is_physical_field_ref s \<longleftrightarrow> 3 \<le> length (segments s) \<and> list_all is_identifier (segments s)"

text \<open>\<open>s.split(".", 1)[0]\<close>, \<open>s.rsplit(".", 1)[0]\<close> and \<open>s.rsplit(".", 1)[1]\<close>; a string without a
  dot has no last component (the source would raise \<open>IndexError\<close>), which no reference is.\<close>

definition first_component :: "string \<Rightarrow> string" where
  "first_component s = takeWhile (\<lambda>c. c \<noteq> DOT) s"

definition last_component :: "string \<Rightarrow> string option" where
  "last_component s = (if DOT \<in> set s then Some (rev (takeWhile (\<lambda>c. c \<noteq> DOT) (rev s))) else None)"

definition without_last_component :: "string \<Rightarrow> string" where
  "without_last_component s =
     (if DOT \<in> set s then rev (tl (dropWhile (\<lambda>c. c \<noteq> DOT) (rev s))) else s)"

section \<open>Physical fields\<close>

record field_profile =
  fp_row_count :: int
  fp_null_count :: int
  fp_distinct_count :: int
  fp_minimum_length :: "int option"
  fp_maximum_length :: "int option"

definition field_profile_valid :: "field_profile \<Rightarrow> bool" where
  "field_profile_valid p \<longleftrightarrow>
     0 \<le> fp_row_count p \<and> 0 \<le> fp_null_count p \<and> 0 \<le> fp_distinct_count p
     \<and> optional (\<lambda>n. 0 \<le> n) (fp_minimum_length p) \<and> optional (\<lambda>n. 0 \<le> n) (fp_maximum_length p)
     \<and> (let non_null = fp_row_count p - fp_null_count p in
        0 \<le> non_null \<and> fp_distinct_count p \<le> non_null)
     \<and> (case (fp_minimum_length p, fp_maximum_length p) of
          (Some lo, Some hi) \<Rightarrow> lo \<le> hi | _ \<Rightarrow> True)"

record physical_field =
  pf_id :: string
  pf_dataset :: string
  pf_field_path :: "string list"
  pf_native_type :: string
  pf_description :: "string option"
  pf_glossary_terms :: "string list"
  pf_profile :: "field_profile option"

fun join_dots :: "string list \<Rightarrow> string" where
  "join_dots [] = []"
| "join_dots [s] = s"
| "join_dots (s # t # r) = s @ DOT # join_dots (t # r)"

definition physical_field_valid :: "physical_field \<Rightarrow> bool" where
  "physical_field_valid f \<longleftrightarrow>
     is_physical_field_ref (pf_id f) \<and> is_physical_dataset_ref (pf_dataset f)
     \<and> pf_field_path f \<noteq> [] \<and> list_all is_identifier (pf_field_path f)
     \<and> pf_native_type f \<noteq> [] \<and> \<not> blank (pf_native_type f)
     \<and> optional (\<lambda>d. \<not> blank d) (pf_description f)
     \<and> list_all (\<lambda>t. \<not> blank t) (pf_glossary_terms f)
     \<and> optional field_profile_valid (pf_profile f)
     \<and> pf_id f = join_dots (pf_dataset f # pf_field_path f)"

section \<open>Decisions\<close>

datatype approval_status = PROPOSED | NEEDS_REVIEW | APPROVED | REJECTED

datatype decision_action =
  ACTION_APPROVE | ACTION_EDIT | ACTION_REJECT | ACTION_MARK_DIFFERENT_CONCEPT

datatype decision_target_type =
    TARGET_LOGICAL_MODEL | TARGET_CANONICAL_FIELD | TARGET_COLUMN_MAPPING
  | TARGET_JOIN_CONTRACT | TARGET_CATALOG_PUBLICATION

record decision_record =
  dr_id :: string
  dr_target_type :: decision_target_type
  dr_target_id :: string
  dr_action :: decision_action
  dr_status :: approval_status
  dr_actor :: string
  dr_decided_at :: datetime
  dr_source_version :: int
  dr_resulting_version :: int
  dr_rationale :: string
  dr_evidence :: "string list"
  dr_risks :: "string list"

fun required_status :: "decision_action \<Rightarrow> approval_status" where
  "required_status ACTION_APPROVE = APPROVED"
| "required_status ACTION_REJECT = REJECTED"
| "required_status ACTION_MARK_DIFFERENT_CONCEPT = REJECTED"
| "required_status ACTION_EDIT = NEEDS_REVIEW"

fun is_aware :: "datetime \<Rightarrow> bool" where
  "is_aware (Aware t) = True"
| "is_aware (Naive t) = False"

definition decision_record_valid :: "decision_record \<Rightarrow> bool" where
  "decision_record_valid d \<longleftrightarrow>
     (\<forall>t \<in> set [dr_id d, dr_target_id d, dr_actor d, dr_rationale d]. t \<noteq> [] \<and> \<not> blank t)
     \<and> 1 \<le> dr_source_version d \<and> 1 \<le> dr_resulting_version d
     \<and> list_all (\<lambda>e. \<not> blank e) (dr_evidence d) \<and> list_all (\<lambda>e. \<not> blank e) (dr_risks d)
     \<and> is_aware (dr_decided_at d)
     \<and> dr_status d = required_status (dr_action d)"

section \<open>Logical models\<close>

datatype canonical_type = CT_STRING | CT_INTEGER | CT_DECIMAL | CT_BOOLEAN | CT_DATE | CT_TIMESTAMP

record canonical_field =
  cf_id :: string
  cf_canonical_name :: string
  cf_canonical_type :: canonical_type
  cf_definition :: string
  cf_format_policy :: "identifier_plan option"

definition canonical_field_valid :: "canonical_field \<Rightarrow> bool" where
  "canonical_field_valid f \<longleftrightarrow>
     is_logical_field_ref (cf_id f)
     \<and> cf_canonical_name f \<noteq> [] \<and> is_identifier (cf_canonical_name f)
     \<and> cf_definition f \<noteq> [] \<and> \<not> blank (cf_definition f)
     \<and> optional identifier_plan_valid (cf_format_policy f)
     \<and> last_component (cf_id f) = Some (cf_canonical_name f)
     \<and> \<not> (cf_format_policy f \<noteq> None \<and> cf_canonical_type f \<noteq> CT_STRING)"

record logical_model =
  lm_id :: string
  lm_name :: string
  lm_description :: string
  lm_fields :: "string list"
  lm_status :: approval_status
  lm_version :: int

definition starts_with :: "string \<Rightarrow> string \<Rightarrow> bool" where
  "starts_with p s \<longleftrightarrow> take (length p) s = p"

definition logical_model_valid :: "logical_model \<Rightarrow> bool" where
  "logical_model_valid m \<longleftrightarrow>
     is_logical_model_ref (lm_id m)
     \<and> lm_name m \<noteq> [] \<and> is_identifier (lm_name m)
     \<and> lm_description m \<noteq> [] \<and> \<not> blank (lm_description m)
     \<and> lm_fields m \<noteq> [] \<and> list_all is_logical_field_ref (lm_fields m)
     \<and> 1 \<le> lm_version m
     \<and> lm_id m = lm_name m
     \<and> list_all (starts_with (lm_id m @ [DOT])) (lm_fields m)
     \<and> length (lm_fields m) = card (set (lm_fields m))"

section \<open>Column mappings\<close>

fun confidence_valid :: "real_value \<Rightarrow> bool" where
  "confidence_valid (Finite q) \<longleftrightarrow> 0 \<le> q \<and> q \<le> 1"
| "confidence_valid v \<longleftrightarrow> False"

record column_mapping =
  cm_logical_field :: string
  cm_physical_field :: string
  cm_confidence :: real_value
  cm_status :: approval_status
  cm_evidence :: "string list"
  cm_risks :: "string list"
  cm_transformation_plan :: transformation_plan
  cm_version :: int

definition column_mapping_valid :: "column_mapping \<Rightarrow> bool" where
  "column_mapping_valid m \<longleftrightarrow>
     is_logical_field_ref (cm_logical_field m) \<and> is_physical_field_ref (cm_physical_field m)
     \<and> confidence_valid (cm_confidence m)
     \<and> cm_evidence m \<noteq> [] \<and> list_all (\<lambda>e. \<not> blank e) (cm_evidence m)
     \<and> list_all (\<lambda>e. \<not> blank e) (cm_risks m)
     \<and> transformation_plan_valid (cm_transformation_plan m)
     \<and> 1 \<le> cm_version m"

record mapping_plan =
  mp_version :: int
  mp_mappings :: "column_mapping list"

text \<open>
  The loop of the plan validator: the set of seen pairs, and the dictionary of approved
  meanings that \<open>setdefault\<close> fills.
\<close>

fun mapping_loop ::
  "(string \<times> string) set \<Rightarrow> (string \<rightharpoonup> string) \<Rightarrow> column_mapping list \<Rightarrow> bool" where
  "mapping_loop pairs approved [] = True"
| "mapping_loop pairs approved (m # ms) =
     (let pair = (cm_physical_field m, cm_logical_field m) in
      if pair \<in> pairs then False
      else if cm_status m = APPROVED then
        (case approved (cm_physical_field m) of
           None \<Rightarrow> mapping_loop (insert pair pairs)
                     (approved(cm_physical_field m \<mapsto> cm_logical_field m)) ms
         | Some previous \<Rightarrow>
             if previous \<noteq> cm_logical_field m then False
             else mapping_loop (insert pair pairs) approved ms)
      else mapping_loop (insert pair pairs) approved ms)"

definition mapping_plan_valid :: "mapping_plan \<Rightarrow> bool" where
  "mapping_plan_valid p \<longleftrightarrow>
     1 \<le> mp_version p \<and> mp_mappings p \<noteq> [] \<and> list_all column_mapping_valid (mp_mappings p)
     \<and> mapping_loop {} Map.empty (mp_mappings p)"

section \<open>Reference components\<close>

lemma split_on_no_sep: "c \<notin> set s \<Longrightarrow> split_on c s = [s]"
  by (induction s) auto

lemma split_on_append: "c \<notin> set s \<Longrightarrow> split_on c (s @ c # r) = s # split_on c r"
  by (induction s) auto

lemma identifier_no_dot: "is_identifier s \<Longrightarrow> DOT \<notin> set s"
proof
  assume "is_identifier s" and "DOT \<in> set s"
  then have "ident_part DOT" using identifier_chars by (auto simp: list_all_iff)
  moreover have "\<not> ident_part DOT" by (simp add: ident_part_def DOT_def char_class_defs)
  ultimately show False by simp
qed

lemma segments_join_dots:
  "xs \<noteq> [] \<Longrightarrow> list_all is_identifier xs \<Longrightarrow> segments (join_dots xs) = xs"
proof (induction xs rule: join_dots.induct)
  case (2 s)
  then show ?case by (simp add: segments_def split_on_no_sep identifier_no_dot)
next
  case (3 s t r)
  then show ?case by (simp add: segments_def split_on_append identifier_no_dot)
qed simp

lemma join_dots_Cons: "join_dots ((c # w) # ws) = c # join_dots (w # ws)"
  by (cases ws) simp_all

lemma join_dots_split: "join_dots (split_on DOT s) = s"
proof (induction s)
  case (Cons c s)
  then show ?case
    by (cases "split_on DOT s") (auto simp: split_on_nonempty join_dots_Cons split: list.splits)
qed simp

lemma join_dots_append:
  "xs \<noteq> [] \<Longrightarrow> ys \<noteq> [] \<Longrightarrow> join_dots (xs @ ys) = join_dots (join_dots xs # ys)"
  by (induction xs rule: join_dots.induct) (auto simp: neq_Nil_conv)

section \<open>What the mapping loop decides\<close>

definition mapping_pair :: "column_mapping \<Rightarrow> string \<times> string" where
  "mapping_pair m = (cm_physical_field m, cm_logical_field m)"

definition approved_mappings :: "column_mapping list \<Rightarrow> column_mapping list" where
  "approved_mappings ms = filter (\<lambda>m. cm_status m = APPROVED) ms"

text \<open>No two approved mappings give one physical field two meanings.\<close>

definition unambiguous :: "column_mapping list \<Rightarrow> bool" where
  "unambiguous ms \<longleftrightarrow>
     (\<forall>m \<in> set (approved_mappings ms). \<forall>n \<in> set (approved_mappings ms).
        cm_physical_field m = cm_physical_field n \<longrightarrow> cm_logical_field m = cm_logical_field n)"

text \<open>The dictionary agrees with every approved mapping still to come.\<close>

definition agrees :: "(string \<rightharpoonup> string) \<Rightarrow> column_mapping list \<Rightarrow> bool" where
  "agrees approved ms \<longleftrightarrow>
     (\<forall>m \<in> set (approved_mappings ms). \<forall>l. approved (cm_physical_field m) = Some l \<longrightarrow>
        l = cm_logical_field m)"

lemma functional_insert:
  "(\<forall>m \<in> insert a A. \<forall>n \<in> insert a A. f m = f n \<longrightarrow> g m = g n) \<longleftrightarrow>
   (\<forall>m \<in> A. \<forall>n \<in> A. f m = f n \<longrightarrow> g m = g n) \<and> (\<forall>n \<in> A. f n = f a \<longrightarrow> g n = g a)"
  (is "?L \<longleftrightarrow> ?R1 \<and> ?R2")
proof
  show "?L \<Longrightarrow> ?R1 \<and> ?R2" by blast
  assume R: "?R1 \<and> ?R2"
  show ?L
  proof (intro ballI impI)
    fix m n
    assume mn: "m \<in> insert a A" "n \<in> insert a A" "f m = f n"
    then consider "m = a" "n = a" | "m = a" "n \<in> A" | "m \<in> A" "n = a" | "m \<in> A" "n \<in> A" by blast
    then show "g m = g n" using R mn(3) by cases metis+
  qed
qed

lemma unambiguous_Cons:
  assumes "cm_status m = APPROVED"
  shows "unambiguous (m # ms) \<longleftrightarrow> unambiguous ms \<and> (\<forall>n \<in> set (approved_mappings ms).
    cm_physical_field n = cm_physical_field m \<longrightarrow> cm_logical_field n = cm_logical_field m)"
proof -
  have "set (approved_mappings (m # ms)) = insert m (set (approved_mappings ms))"
    using assms by (simp add: approved_mappings_def)
  then show ?thesis unfolding unambiguous_def by (simp only: functional_insert)
qed

lemma agrees_Cons:
  assumes "cm_status m = APPROVED"
  shows "agrees a (m # ms) \<longleftrightarrow>
    (\<forall>l. a (cm_physical_field m) = Some l \<longrightarrow> l = cm_logical_field m) \<and> agrees a ms"
  using assms by (simp add: agrees_def approved_mappings_def)

lemma agrees_update:
  assumes "a (cm_physical_field m) = None"
  shows "agrees (a(cm_physical_field m \<mapsto> cm_logical_field m)) ms \<longleftrightarrow> agrees a ms
    \<and> (\<forall>n \<in> set (approved_mappings ms).
         cm_physical_field n = cm_physical_field m \<longrightarrow> cm_logical_field n = cm_logical_field m)"
proof -
  have key: "(\<forall>l. (a(cm_physical_field m \<mapsto> cm_logical_field m)) (cm_physical_field n) = Some l \<longrightarrow>
      l = cm_logical_field n) \<longleftrightarrow>
    (\<forall>l. a (cm_physical_field n) = Some l \<longrightarrow> l = cm_logical_field n)
    \<and> (cm_physical_field n = cm_physical_field m \<longrightarrow> cm_logical_field n = cm_logical_field m)" for n
    using assms by (cases "cm_physical_field n = cm_physical_field m") auto
  show ?thesis unfolding agrees_def key by blast
qed

lemma mapping_loop_iff:
  "mapping_loop pairs approved ms \<longleftrightarrow>
     distinct (map mapping_pair ms) \<and> set (map mapping_pair ms) \<inter> pairs = {}
     \<and> unambiguous ms \<and> agrees approved ms"
proof (induction pairs approved ms rule: mapping_loop.induct)
  case (1 pairs approved)
  then show ?case by (simp add: unambiguous_def agrees_def approved_mappings_def)
next
  case (2 pairs approved m ms)
  let ?p = "(cm_physical_field m, cm_logical_field m)"
  show ?case
  proof (cases "?p \<in> pairs")
    case True
    then show ?thesis by (simp add: mapping_pair_def)
  next
    case fresh: False
    let ?ms = "map mapping_pair ms"
    have pairs: "distinct (map mapping_pair (m # ms)) \<and> set (map mapping_pair (m # ms)) \<inter> pairs = {}
        \<longleftrightarrow> distinct ?ms \<and> set ?ms \<inter> insert ?p pairs = {}"
      using fresh by (auto simp: mapping_pair_def)
    show ?thesis
    proof (cases "cm_status m = APPROVED")
      case False
      then have "unambiguous (m # ms) = unambiguous ms" "agrees approved (m # ms) = agrees approved ms"
        by (simp_all add: unambiguous_def agrees_def approved_mappings_def)
      moreover have "mapping_loop pairs approved (m # ms) = mapping_loop (insert ?p pairs) approved ms"
        using fresh False by simp
      ultimately show ?thesis using 2(3) [OF refl fresh False] pairs by argo
    next
      case ok: True
      show ?thesis
      proof (cases "approved (cm_physical_field m)")
        case None
        let ?a = "approved(cm_physical_field m \<mapsto> cm_logical_field m)"
        have "unambiguous (m # ms) \<and> agrees approved (m # ms) \<longleftrightarrow> unambiguous ms \<and> agrees ?a ms"
          using unambiguous_Cons [OF ok] agrees_Cons [OF ok] agrees_update [of approved m, OF None] None
          by auto
        moreover have "mapping_loop pairs approved (m # ms) = mapping_loop (insert ?p pairs) ?a ms"
          using fresh ok None by simp
        ultimately show ?thesis using 2(1) [OF refl fresh ok None] pairs by argo
      next
        case (Some l)
        show ?thesis
        proof (cases "l = cm_logical_field m")
          case True
          have "unambiguous (m # ms) \<and> agrees approved (m # ms) \<longleftrightarrow> unambiguous ms \<and> agrees approved ms"
            using unambiguous_Cons [OF ok] agrees_Cons [OF ok] Some True by (auto simp: agrees_def)
          moreover have "mapping_loop pairs approved (m # ms) = mapping_loop (insert ?p pairs) approved ms"
            using fresh ok Some True by simp
          moreover have "mapping_loop (insert ?p pairs) approved ms \<longleftrightarrow>
              distinct ?ms \<and> set ?ms \<inter> insert ?p pairs = {} \<and> unambiguous ms \<and> agrees approved ms"
            using 2(2) [OF refl fresh ok Some] True by simp
          ultimately show ?thesis using pairs by argo
        next
          case False
          then show ?thesis using agrees_Cons [OF ok] fresh ok Some by simp
        qed
      qed
    qed
  qed
qed

section \<open>Properties\<close>

text \<open>Property C11. The one-pass validator of a mapping plan decides exactly the governance rule it
  stands for: no physical-to-logical pair is listed twice, and no physical field has two
  different approved meanings.\<close>

theorem mapping_plan_valid_iff:
  "mapping_plan_valid p \<longleftrightarrow>
     1 \<le> mp_version p \<and> mp_mappings p \<noteq> [] \<and> list_all column_mapping_valid (mp_mappings p)
     \<and> distinct (map mapping_pair (mp_mappings p)) \<and> unambiguous (mp_mappings p)"
  by (auto simp: mapping_plan_valid_def mapping_loop_iff agrees_def)

text \<open>Property C12. The identity of a physical field encodes its location and nothing else: from the
  identifier alone one reads back the schema-qualified dataset (the first two components) and
  the field path (the rest), so two fields with the same identifier are the same place.\<close>

theorem physical_field_id_decodes:
  assumes "physical_field_valid f"
  shows "pf_dataset f = join_dots (take 2 (segments (pf_id f)))
    \<and> pf_field_path f = drop 2 (segments (pf_id f))"
proof -
  let ?d = "segments (pf_dataset f)" and ?p = "pf_field_path f"
  have d: "length ?d = 2" "list_all is_identifier ?d" and p: "?p \<noteq> []" "list_all is_identifier ?p"
    and f: "pf_id f = join_dots (pf_dataset f # ?p)"
    using assms by (simp_all add: physical_field_valid_def is_physical_dataset_ref_def)
  have "?d \<noteq> []" using d(1) by auto
  then have "pf_id f = join_dots (?d @ ?p)"
    using f p(1) join_dots_append [of ?d ?p] by (simp add: segments_def join_dots_split)
  then have "segments (pf_id f) = ?d @ ?p"
    using segments_join_dots [of "?d @ ?p"] d p by simp
  then show ?thesis using d(1) by (simp add: segments_def join_dots_split)
qed

definition sample_field :: physical_field where
  "sample_field =
     \<lparr>pf_id = ''crm.customers.id'', pf_dataset = ''crm.customers'', pf_field_path = [''id''],
      pf_native_type = ''integer'', pf_description = None, pf_glossary_terms = [],
      pf_profile = None\<rparr>"

theorem physical_field_id_decodes_witness:
  "physical_field_valid sample_field
   \<and> pf_dataset sample_field = join_dots (take 2 (segments (pf_id sample_field)))"
proof -
  have "physical_field_valid sample_field"
    by (simp add: physical_field_valid_def sample_field_def is_physical_field_ref_def
        is_physical_dataset_ref_def segments_def DOT_def is_identifier_def re_head_star_def
        class_defs blank_def strip_def lstrip_def char_class_defs)
  then show ?thesis using physical_field_id_decodes by blast
qed

end
