(* ===== verification/Joins.thy ===== *)
theory Joins
  imports Governance Canonical_Digest
begin

text \<open>
  Relationship evidence and governed join contracts (\<open>domain/joins.py\<close>): proposals, aggregate
  profiles, the cardinality classifier, contracts and contract sets, with the JSON dumps of
  proposals and profiles that the profile jobs fingerprint. The floating-point confidence
  scoring of candidates (\<open>score_join_candidate\<close> and its signals) is not modelled; the two
  constants the classifier itself uses are kept as the exact values of their doubles.
\<close>

section \<open>Data\<close>

datatype cardinality = ONE_TO_ONE | ONE_TO_MANY | MANY_TO_ONE | MANY_TO_MANY
datatype join_type = JOIN_INNER | JOIN_LEFT
datatype fanout_policy =
    FANOUT_NONE | REQUIRE_DISTINCT_FOR_LEFT_ENTITY_METRICS | PRE_AGGREGATE_RIGHT_SIDE
  | REQUIRE_EXPLICIT_MITIGATION
datatype declared_relationship =
  DECLARED_NONE | LEFT_FOREIGN_KEY_TO_RIGHT | RIGHT_FOREIGN_KEY_TO_LEFT

fun join_type_value :: "join_type \<Rightarrow> string" where
  "join_type_value JOIN_INNER = ''inner''"
| "join_type_value JOIN_LEFT = ''left''"

fun declared_relationship_value :: "declared_relationship \<Rightarrow> string" where
  "declared_relationship_value DECLARED_NONE = ''none''"
| "declared_relationship_value LEFT_FOREIGN_KEY_TO_RIGHT = ''left_foreign_key_to_right''"
| "declared_relationship_value RIGHT_FOREIGN_KEY_TO_LEFT = ''right_foreign_key_to_left''"

record normalized_join_key =
  jk_logical_field :: string
  jk_physical_field :: string
  jk_transformation_plan :: transformation_plan

definition normalized_join_key_valid :: "normalized_join_key \<Rightarrow> bool" where
  "normalized_join_key_valid k \<longleftrightarrow>
     is_logical_field_ref (jk_logical_field k) \<and> is_physical_field_ref (jk_physical_field k)
     \<and> transformation_plan_valid (jk_transformation_plan k)"

record join_proposal =
  jp_id :: string
  jp_left_key :: normalized_join_key
  jp_right_key :: normalized_join_key
  jp_default_join_type :: join_type

definition join_proposal_valid :: "join_proposal \<Rightarrow> bool" where
  "join_proposal_valid p \<longleftrightarrow>
     jp_id p \<noteq> [] \<and> is_identifier (jp_id p)
     \<and> normalized_join_key_valid (jp_left_key p) \<and> normalized_join_key_valid (jp_right_key p)
     \<and> first_component (jk_logical_field (jp_left_key p))
         \<noteq> first_component (jk_logical_field (jp_right_key p))
     \<and> without_last_component (jk_physical_field (jp_left_key p))
         \<noteq> without_last_component (jk_physical_field (jp_right_key p))"

record relationship_profile =
  rp_left_row_count :: int
  rp_right_row_count :: int
  rp_left_null_count :: int
  rp_right_null_count :: int
  rp_left_invalid_count :: int
  rp_right_invalid_count :: int
  rp_left_distinct_valid :: int
  rp_right_distinct_valid :: int
  rp_matching_distinct_keys :: int
  rp_left_max_multiplicity :: int
  rp_right_max_multiplicity :: int
  rp_declared_relationship :: declared_relationship
  rp_reader_user :: "string option"
  rp_transaction_read_only :: "bool option"
  rp_statement_timeout_ms :: "int option"

text \<open>The loop body for one side of the profile.\<close>

definition side_possible :: "int \<Rightarrow> int \<Rightarrow> int \<Rightarrow> int \<Rightarrow> int \<Rightarrow> bool" where
  "side_possible rows nulls invalid distinct_keys maximum \<longleftrightarrow>
     (let valid = rows - nulls - invalid in
      \<not> (nulls + invalid > rows \<or> distinct_keys > valid)
      \<and> \<not> ((distinct_keys = 0 \<and> maximum \<noteq> 0) \<or> maximum > valid)
      \<and> \<not> (distinct_keys > 0 \<and> maximum < 1))"

definition relationship_profile_valid :: "relationship_profile \<Rightarrow> bool" where
  "relationship_profile_valid p \<longleftrightarrow>
     (\<forall>n \<in> set [rp_left_row_count p, rp_right_row_count p, rp_left_null_count p,
               rp_right_null_count p, rp_left_invalid_count p, rp_right_invalid_count p,
               rp_left_distinct_valid p, rp_right_distinct_valid p, rp_matching_distinct_keys p,
               rp_left_max_multiplicity p, rp_right_max_multiplicity p]. 0 \<le> n)
     \<and> optional (\<lambda>t. 1 \<le> t) (rp_statement_timeout_ms p)
     \<and> side_possible (rp_left_row_count p) (rp_left_null_count p) (rp_left_invalid_count p)
         (rp_left_distinct_valid p) (rp_left_max_multiplicity p)
     \<and> side_possible (rp_right_row_count p) (rp_right_null_count p) (rp_right_invalid_count p)
         (rp_right_distinct_valid p) (rp_right_max_multiplicity p)
     \<and> rp_matching_distinct_keys p \<le> min (rp_left_distinct_valid p) (rp_right_distinct_valid p)"

definition left_duplicate_rows :: "relationship_profile \<Rightarrow> int" where
  "left_duplicate_rows p =
     max 0 (rp_left_row_count p - rp_left_null_count p - rp_left_invalid_count p
            - rp_left_distinct_valid p)"

definition right_duplicate_rows :: "relationship_profile \<Rightarrow> int" where
  "right_duplicate_rows p =
     max 0 (rp_right_row_count p - rp_right_null_count p - rp_right_invalid_count p
            - rp_right_distinct_valid p)"

section \<open>Cardinality\<close>

record cardinality_assessment =
  ca_cardinality :: cardinality
  ca_confidence :: real_value
  ca_evidence :: "string list"
  ca_risks :: "string list"

definition cardinality_assessment_valid :: "cardinality_assessment \<Rightarrow> bool" where
  "cardinality_assessment_valid a \<longleftrightarrow> confidence_valid (ca_confidence a) \<and> ca_evidence a \<noteq> []"

text \<open>The doubles \<open>0.98\<close>, \<open>0.90\<close> and \<open>0.98 - 0.15\<close>, the only value the subtraction produces.\<close>

definition CONFIDENCE_DECLARED :: rat where
  "CONFIDENCE_DECLARED = 2206763817411543 / 2251799813685248"
definition CONFIDENCE_OBSERVED :: rat where
  "CONFIDENCE_OBSERVED = 8106479329266893 / 9007199254740992"
definition CONFIDENCE_CONTRADICTED :: rat where
  "CONFIDENCE_CONTRADICTED = 7475975381435023 / 9007199254740992"

definition dict_from_keys :: "'a list \<Rightarrow> 'a list" where
  "dict_from_keys xs = rev (remdups (rev xs))"

definition observed_cardinality :: "relationship_profile \<Rightarrow> cardinality" where
  "observed_cardinality p =
     (let left_many = rp_left_max_multiplicity p > 1; right_many = rp_right_max_multiplicity p > 1
      in if left_many \<and> right_many then MANY_TO_MANY
         else if left_many then MANY_TO_ONE
         else if right_many then ONE_TO_MANY
         else ONE_TO_ONE)"

text \<open>The branch on the declared relationship: the cardinality, the second evidence line and the
  risks so far.\<close>

definition declared_branch :: "relationship_profile \<Rightarrow> cardinality \<times> string \<times> string list" where
  "declared_branch p =
     (let left_many = rp_left_max_multiplicity p > 1; right_many = rp_right_max_multiplicity p > 1
      in case rp_declared_relationship p of
        LEFT_FOREIGN_KEY_TO_RIGHT \<Rightarrow>
          (if right_many then MANY_TO_MANY else MANY_TO_ONE,
           ''declared foreign key: left key references the unique right key'',
           if right_many then
             [''observed right duplicates conflict with the declared referenced key'']
           else if \<not> left_many then
             [''left keys are currently unique, but the declared foreign key permits many-to-one'']
           else [])
      | RIGHT_FOREIGN_KEY_TO_LEFT \<Rightarrow>
          (if left_many then MANY_TO_MANY else ONE_TO_MANY,
           ''declared foreign key: right key references the unique left key'',
           if left_many then
             [''observed left duplicates conflict with the declared referenced key'']
           else if \<not> right_many then
             [''right keys are currently unique, but the declared foreign key permits one-to-many'']
           else [])
      | DECLARED_NONE \<Rightarrow>
          (observed_cardinality p, ''no declared foreign key connects the proposed keys'', []))"

definition classify_cardinality :: "relationship_profile \<Rightarrow> cardinality_assessment" where
  "classify_cardinality p =
     (let (cardinality, evidence, risks) = declared_branch p;
          confidence = (if rp_declared_relationship p \<noteq> DECLARED_NONE
                        then (if risks \<noteq> [] then CONFIDENCE_CONTRADICTED else CONFIDENCE_DECLARED)
                        else CONFIDENCE_OBSERVED);
          risks = (if cardinality = MANY_TO_MANY
                   then risks @ [''many-to-many execution is unsupported in the MVP''] else risks)
      in \<lparr>ca_cardinality = cardinality, ca_confidence = Finite (max 0 confidence),
          ca_evidence =
            [''observed multiplicity: left max='' @ str_of_int (rp_left_max_multiplicity p)
               @ '', right max='' @ str_of_int (rp_right_max_multiplicity p), evidence],
          ca_risks = dict_from_keys risks\<rparr>)"

section \<open>Contracts\<close>

record join_contract =
  jc_id :: string
  jc_left_key :: normalized_join_key
  jc_right_key :: normalized_join_key
  jc_cardinality :: cardinality
  jc_default_join_type :: join_type
  jc_fanout_policy :: fanout_policy
  jc_status :: approval_status
  jc_version :: int
  jc_evidence :: "string list"
  jc_risks :: "string list"
  jc_approval_decision_id :: "string option"

text \<open>\<open>not self.approval_decision_id\<close> holds for an absent and for an empty identifier.\<close>

definition falsy :: "string option \<Rightarrow> bool" where
  "falsy v \<longleftrightarrow> v = None \<or> v = Some []"

definition relationship_safe :: "join_contract \<Rightarrow> bool" where
  "relationship_safe c \<longleftrightarrow>
     first_component (jk_logical_field (jc_left_key c))
       \<noteq> first_component (jk_logical_field (jc_right_key c))
     \<and> (case jc_cardinality c of
          ONE_TO_MANY \<Rightarrow>
            jc_fanout_policy c = REQUIRE_DISTINCT_FOR_LEFT_ENTITY_METRICS \<and> jc_risks c \<noteq> []
        | MANY_TO_MANY \<Rightarrow> jc_status c \<noteq> APPROVED \<and> jc_fanout_policy c \<noteq> FANOUT_NONE
        | _ \<Rightarrow> jc_fanout_policy c = FANOUT_NONE)
     \<and> \<not> (jc_status c = APPROVED \<and> falsy (jc_approval_decision_id c))
     \<and> \<not> (jc_status c \<noteq> APPROVED \<and> jc_approval_decision_id c \<noteq> None)"

definition join_contract_valid :: "join_contract \<Rightarrow> bool" where
  "join_contract_valid c \<longleftrightarrow>
     jc_id c \<noteq> [] \<and> is_identifier (jc_id c)
     \<and> normalized_join_key_valid (jc_left_key c) \<and> normalized_join_key_valid (jc_right_key c)
     \<and> 1 \<le> jc_version c
     \<and> jc_evidence c \<noteq> [] \<and> list_all (\<lambda>e. \<not> blank e) (jc_evidence c)
     \<and> list_all (\<lambda>e. \<not> blank e) (jc_risks c)
     \<and> relationship_safe c"

record join_contract_set =
  jcs_version :: int
  jcs_contracts :: "join_contract list"

definition contract_models :: "join_contract \<Rightarrow> string list" where
  "contract_models c =
     [first_component (jk_logical_field (jc_left_key c)),
      first_component (jk_logical_field (jc_right_key c))]"

definition join_contract_set_valid :: "join_contract_set \<Rightarrow> bool" where
  "join_contract_set_valid s \<longleftrightarrow>
     1 \<le> jcs_version s
     \<and> 1 \<le> length (jcs_contracts s) \<and> length (jcs_contracts s) \<le> 2
     \<and> list_all join_contract_valid (jcs_contracts s)
     \<and> length (map jc_id (jcs_contracts s)) = card (set (map jc_id (jcs_contracts s)))
     \<and> card (set (concat (map contract_models (jcs_contracts s)))) \<le> 3"

section \<open>JSON dumps\<close>

text \<open>
  \<open>model_dump(mode="json")\<close> of a proposal and of a profile. A value map may hold floats, whose
  text is not modelled, so a plan with a value map has no dump here; the code that dumps
  proposals refuses such plans.
\<close>

fun step_json :: "transformation_step \<Rightarrow> json option" where
  "step_json IdentityStep = Some (JObj [(''operation'', JStr ''identity'')])"
| "step_json TrimStep = Some (JObj [(''operation'', JStr ''trim'')])"
| "step_json EmptyToNullStep = Some (JObj [(''operation'', JStr ''empty_to_null'')])"
| "step_json (ValidateRegexStep p) =
     Some (JObj [(''operation'', JStr ''validate_regex''), (''pattern'', JStr p)])"
| "step_json ValidateFiniteStep = Some (JObj [(''operation'', JStr ''validate_finite'')])"
| "step_json ValidateIntegralStep = Some (JObj [(''operation'', JStr ''validate_integral'')])"
| "step_json StripLeadingZerosStep = Some (JObj [(''operation'', JStr ''strip_leading_zeros'')])"
| "step_json (PadLeftStep n) =
     Some (JObj [(''operation'', JStr ''pad_left''), (''length'', JInt n),
                 (''fill_character'', JStr ''0'')])"
| "step_json CastIntegerToStringStep =
     Some (JObj [(''operation'', JStr ''cast_integer_to_string'')])"
| "step_json CastTimestampToDateStep =
     Some (JObj [(''operation'', JStr ''cast_timestamp_to_date'')])"
| "step_json (ParseDateStep f) =
     Some (JObj [(''operation'', JStr ''parse_date''), (''format'', JStr f)])"
| "step_json (NormalizeDecimalScaleStep n) =
     Some (JObj [(''operation'', JStr ''normalize_decimal_scale''), (''scale'', JInt n)])"
| "step_json (MapValuesStep es) = None"
| "step_json PreserveNullStep = Some (JObj [(''operation'', JStr ''preserve_null'')])"
| "step_json RejectInvalidStep = Some (JObj [(''operation'', JStr ''reject_invalid'')])"

fun step_list_json :: "transformation_step list \<Rightarrow> json list option" where
  "step_list_json [] = Some []"
| "step_list_json (s # r) =
     (case (step_json s, step_list_json r) of (Some j, Some js) \<Rightarrow> Some (j # js) | _ \<Rightarrow> None)"

definition plan_json :: "transformation_plan \<Rightarrow> json option" where
  "plan_json p =
     map_option (\<lambda>js. JObj [(''version'', JInt (tp_version p)), (''steps'', JArr js)])
       (step_list_json (tp_steps p))"

definition join_key_json :: "normalized_join_key \<Rightarrow> json option" where
  "join_key_json k =
     map_option (\<lambda>j. JObj [(''logical_field'', JStr (jk_logical_field k)),
                            (''physical_field'', JStr (jk_physical_field k)),
                            (''transformation_plan'', j)])
       (plan_json (jk_transformation_plan k))"

definition proposal_json :: "join_proposal \<Rightarrow> json option" where
  "proposal_json p =
     (case (join_key_json (jp_left_key p), join_key_json (jp_right_key p)) of
        (Some l, Some r) \<Rightarrow>
          Some (JObj [(''id'', JStr (jp_id p)), (''left_key'', l), (''right_key'', r),
                      (''default_join_type'', JStr (join_type_value (jp_default_join_type p)))])
      | _ \<Rightarrow> None)"

definition profile_json :: "relationship_profile \<Rightarrow> json" where
  "profile_json p =
     JObj [(''left_row_count'', JInt (rp_left_row_count p)),
           (''right_row_count'', JInt (rp_right_row_count p)),
           (''left_null_count'', JInt (rp_left_null_count p)),
           (''right_null_count'', JInt (rp_right_null_count p)),
           (''left_invalid_count'', JInt (rp_left_invalid_count p)),
           (''right_invalid_count'', JInt (rp_right_invalid_count p)),
           (''left_distinct_valid'', JInt (rp_left_distinct_valid p)),
           (''right_distinct_valid'', JInt (rp_right_distinct_valid p)),
           (''matching_distinct_keys'', JInt (rp_matching_distinct_keys p)),
           (''left_max_multiplicity'', JInt (rp_left_max_multiplicity p)),
           (''right_max_multiplicity'', JInt (rp_right_max_multiplicity p)),
           (''declared_relationship'',
              JStr (declared_relationship_value (rp_declared_relationship p))),
           (''reader_user'', optional_json JStr (rp_reader_user p)),
           (''transaction_read_only'', optional_json JBool (rp_transaction_read_only p)),
           (''statement_timeout_ms'', optional_json JInt (rp_statement_timeout_ms p))]"

section \<open>Value maps and dumps\<close>

fun is_value_map :: "transformation_step \<Rightarrow> bool" where
  "is_value_map (MapValuesStep es) \<longleftrightarrow> True"
| "is_value_map s \<longleftrightarrow> False"

definition has_value_map :: "transformation_plan \<Rightarrow> bool" where
  "has_value_map p \<longleftrightarrow> list_ex is_value_map (tp_steps p)"

lemma step_json_None: "step_json s = None \<longleftrightarrow> is_value_map s"
  by (cases s) simp_all

lemma step_list_json_None: "step_list_json ss = None \<longleftrightarrow> list_ex is_value_map ss"
proof (induction ss)
  case (Cons s r)
  then show ?case
    by (cases "step_json s"; cases "step_list_json r") (auto simp: step_json_None [symmetric])
qed simp

lemma plan_json_None: "plan_json p = None \<longleftrightarrow> has_value_map p"
  by (simp add: plan_json_def has_value_map_def step_list_json_None)

section \<open>Profiles of real key columns\<close>

text \<open>How often the most frequent key of a column occurs.\<close>

definition max_multiplicity :: "'a list \<Rightarrow> nat" where
  "max_multiplicity xs = foldr max (map (\<lambda>x. count_list xs x) xs) 0"

lemma count_list_le_max: "x \<in> set xs \<Longrightarrow> count_list xs x \<le> max_multiplicity xs"
proof -
  have "x \<in> set ys \<Longrightarrow> f x \<le> foldr max (map f ys) (0::nat)" for ys and f
    by (induction ys) auto
  then show "x \<in> set xs \<Longrightarrow> count_list xs x \<le> max_multiplicity xs"
    by (simp add: max_multiplicity_def)
qed

lemma max_multiplicity_attained:
  "xs \<noteq> [] \<Longrightarrow> \<exists>x \<in> set xs. max_multiplicity xs = count_list xs x"
proof -
  have "ys \<noteq> [] \<Longrightarrow> \<exists>x \<in> set ys. foldr max (map f ys) (0::nat) = f x" for ys and f
  proof (induction ys)
    case (Cons y ys)
    then show ?case by (cases "ys = []") (auto simp: max_def)
  qed simp
  then show "xs \<noteq> [] \<Longrightarrow> \<exists>x \<in> set xs. max_multiplicity xs = count_list xs x"
    by (simp add: max_multiplicity_def)
qed

lemma count_plus_distinct:
  "x \<in> set xs \<Longrightarrow> count_list xs x + card (set xs) \<le> length xs + 1"
proof (induction xs)
  case (Cons y ys)
  show ?case
  proof (cases "x \<in> set ys")
    case True
    have "card (insert y (set ys)) \<le> Suc (card (set ys))" by (rule card_insert_le_m1) simp_all
    then show ?thesis
      using Cons.IH [OF True] True by (cases "x = y") (auto simp: insert_absorb)
  next
    case False
    have "card (set ys) \<le> length ys" by (rule card_length)
    moreover have "count_list ys x = 0" using False by (simp add: count_list_0_iff)
    moreover have "x = y" using Cons.prems False by simp
    ultimately show ?thesis using False by simp
  qed
qed simp

lemma max_multiplicity_bounds:
  "max_multiplicity xs + card (set xs) \<le> length xs + 1"
  "max_multiplicity xs \<le> length xs"
  "xs \<noteq> [] \<Longrightarrow> 1 \<le> max_multiplicity xs"
proof -
  show 1: "max_multiplicity xs + card (set xs) \<le> length xs + 1"
    using max_multiplicity_attained [of xs] count_plus_distinct
    by (cases "xs = []") (auto simp: max_multiplicity_def)
  show "max_multiplicity xs \<le> length xs"
  proof (cases "xs = []")
    case False
    then have "1 \<le> card (set xs)" by (simp add: Suc_leI card_gt_0_iff)
    with 1 show ?thesis by linarith
  qed (simp add: max_multiplicity_def)
  show "1 \<le> max_multiplicity xs" if "xs \<noteq> []"
    using count_list_le_max [of "hd xs" xs] that by (cases xs) auto
qed

text \<open>The profile of two actual key columns: the valid normalized keys of each side, and how many
  rows were null or invalid.\<close>

definition profile_of ::
  "'a list \<Rightarrow> nat \<Rightarrow> nat \<Rightarrow> 'a list \<Rightarrow> nat \<Rightarrow> nat \<Rightarrow> declared_relationship \<Rightarrow> relationship_profile" where
  "profile_of ls lnull linv rs rnull rinv rel =
     \<lparr>rp_left_row_count = int (length ls + lnull + linv),
      rp_right_row_count = int (length rs + rnull + rinv),
      rp_left_null_count = int lnull, rp_right_null_count = int rnull,
      rp_left_invalid_count = int linv, rp_right_invalid_count = int rinv,
      rp_left_distinct_valid = int (card (set ls)), rp_right_distinct_valid = int (card (set rs)),
      rp_matching_distinct_keys = int (card (set ls \<inter> set rs)),
      rp_left_max_multiplicity = int (max_multiplicity ls),
      rp_right_max_multiplicity = int (max_multiplicity rs),
      rp_declared_relationship = rel, rp_reader_user = None, rp_transaction_read_only = None,
      rp_statement_timeout_ms = None\<rparr>"

lemma side_of_column:
  "side_possible (int (length xs + n + i)) (int n) (int i) (int (card (set xs)))
     (int (max_multiplicity xs))"
proof -
  have "card (set xs) = 0 \<longleftrightarrow> xs = []" by simp
  then show ?thesis
    using max_multiplicity_bounds [of xs] card_length [of xs]
    by (cases "xs = []") (auto simp: side_possible_def Let_def max_multiplicity_def)
qed

lemma classified_many:
  shows classified_left_many: "1 < rp_left_max_multiplicity p \<Longrightarrow>
      ca_cardinality (classify_cardinality p) \<in> {MANY_TO_ONE, MANY_TO_MANY}"
    and classified_right_many: "1 < rp_right_max_multiplicity p \<Longrightarrow>
      ca_cardinality (classify_cardinality p) \<in> {ONE_TO_MANY, MANY_TO_MANY}"
  by (cases "rp_declared_relationship p";
      auto simp: classify_cardinality_def declared_branch_def observed_cardinality_def Let_def)+

section \<open>Properties\<close>

text \<open>Property C13. The cardinality classifier never understates the fan-out it has observed: a side
  whose keys repeat is always classified as a many side, whatever foreign key is declared.\<close>

theorem classification_covers_observation:
  "(1 < rp_left_max_multiplicity p \<longrightarrow>
      ca_cardinality (classify_cardinality p) \<in> {MANY_TO_ONE, MANY_TO_MANY})
   \<and> (1 < rp_right_max_multiplicity p \<longrightarrow>
      ca_cardinality (classify_cardinality p) \<in> {ONE_TO_MANY, MANY_TO_MANY})"
  using classified_many by blast

text \<open>An approved join contract whose cardinality came from the classifier is protected
  against fan-out: its profile has a unique side, its approval names a decision, and if right
  rows repeat per key the contract forces distinct counting of left entities.\<close>

lemma approved_join_is_fanout_safe:
  assumes "join_contract_valid c" and "jc_status c = APPROVED"
    and "jc_cardinality c = ca_cardinality (classify_cardinality p)"
  shows "(rp_left_max_multiplicity p \<le> 1 \<or> rp_right_max_multiplicity p \<le> 1)
    \<and> (\<exists>d. jc_approval_decision_id c = Some d \<and> d \<noteq> [])
    \<and> (1 < rp_right_max_multiplicity p \<longrightarrow>
         jc_fanout_policy c = REQUIRE_DISTINCT_FOR_LEFT_ENTITY_METRICS \<and> jc_risks c \<noteq> [])"
proof -
  have safe: "relationship_safe c" using assms(1) by (simp add: join_contract_valid_def)
  then have "jc_cardinality c \<noteq> MANY_TO_MANY" "\<not> falsy (jc_approval_decision_id c)"
    using assms(2) by (auto simp: relationship_safe_def)
  moreover have "jc_cardinality c = ONE_TO_MANY \<Longrightarrow>
      jc_fanout_policy c = REQUIRE_DISTINCT_FOR_LEFT_ENTITY_METRICS \<and> jc_risks c \<noteq> []"
    using safe by (simp add: relationship_safe_def)
  ultimately show ?thesis
    using classified_left_many [of p] classified_right_many [of p] assms(3)
    by (auto simp: falsy_def not_less [symmetric])
qed

text \<open>The profile validator never refuses genuine evidence: the aggregates of any two
  key columns, with any numbers of null and invalid rows, pass it.\<close>

lemma genuine_profile_accepted:
  "relationship_profile_valid (profile_of ls lnull linv rs rnull rinv rel)"
proof -
  have "card (set ls \<inter> set rs) \<le> card (set ls)" "card (set ls \<inter> set rs) \<le> card (set rs)"
    by (simp_all add: card_mono)
  then show ?thesis
    using side_of_column [of ls lnull linv] side_of_column [of rs rnull rinv]
    by (simp add: relationship_profile_valid_def profile_of_def)
qed

text \<open>The converse fails.\<close>

definition impossible_profile :: relationship_profile where
  "impossible_profile =
     \<lparr>rp_left_row_count = 3, rp_right_row_count = 1, rp_left_null_count = 0,
      rp_right_null_count = 0, rp_left_invalid_count = 0, rp_right_invalid_count = 0,
      rp_left_distinct_valid = 3, rp_right_distinct_valid = 1, rp_matching_distinct_keys = 1,
      rp_left_max_multiplicity = 3, rp_right_max_multiplicity = 1,
      rp_declared_relationship = DECLARED_NONE, rp_reader_user = None,
      rp_transaction_read_only = None, rp_statement_timeout_ms = None\<rparr>"

text \<open>The profile validator accepts aggregates that no key columns produce: it bounds
  the largest multiplicity by the number of valid rows alone, so three distinct keys in three
  rows pass although one of them claims to occur three times.\<close>

lemma validator_admits_impossible_profile:
  "relationship_profile_valid impossible_profile
   \<and> profile_of (ls :: string list) lnull linv rs rnull rinv rel \<noteq> impossible_profile"
proof
  show "relationship_profile_valid impossible_profile"
    by (simp add: relationship_profile_valid_def impossible_profile_def side_possible_def)
  show "profile_of ls lnull linv rs rnull rinv rel \<noteq> impossible_profile"
  proof
    assume "profile_of ls lnull linv rs rnull rinv rel = impossible_profile"
    then have "length ls + lnull + linv = 3" "lnull = 0" "linv = 0" "card (set ls) = 3"
      "max_multiplicity ls = 3"
      by (simp_all add: profile_of_def impossible_profile_def)
    then show False using max_multiplicity_bounds(1) [of ls] by simp
  qed
qed

section \<open>Witnesses\<close>

definition sample_key :: "string \<Rightarrow> string \<Rightarrow> normalized_join_key" where
  "sample_key l p = \<lparr>jk_logical_field = l, jk_physical_field = p,
     jk_transformation_plan = \<lparr>tp_version = 1, tp_steps = [TrimStep]\<rparr>\<rparr>"

definition sample_contract :: join_contract where
  "sample_contract =
     \<lparr>jc_id = ''customer_orders'', jc_left_key = sample_key ''customer.id'' ''crm.customers.id'',
      jc_right_key = sample_key ''orders.customer'' ''erp.orders.customer'',
      jc_cardinality = ONE_TO_MANY, jc_default_join_type = JOIN_INNER,
      jc_fanout_policy = REQUIRE_DISTINCT_FOR_LEFT_ENTITY_METRICS, jc_status = APPROVED,
      jc_version = 1, jc_evidence = [''fk''], jc_risks = [''fanout''],
      jc_approval_decision_id = Some ''decision-1''\<rparr>"

definition sample_orders_profile :: relationship_profile where
  "sample_orders_profile = profile_of [''1'', ''2''] 0 0 [''1'', ''1'', ''2''] 0 0 DECLARED_NONE"

lemmas reference_eval =
  is_logical_field_ref_def is_physical_field_ref_def segments_def DOT_def is_identifier_def
  re_head_star_def class_defs char_class_defs

lemma sample_keys_valid:
  "normalized_join_key_valid (sample_key ''customer.id'' ''crm.customers.id'')"
  "normalized_join_key_valid (sample_key ''orders.customer'' ''erp.orders.customer'')"
  by (simp_all add: normalized_join_key_valid_def sample_key_def transformation_plan_valid_def
      is_strip_step_def is_pad_step_def reference_eval)

lemma sample_contract_valid: "join_contract_valid sample_contract"
proof -
  have "relationship_safe sample_contract"
    by (simp add: relationship_safe_def sample_contract_def sample_key_def falsy_def
        first_component_def DOT_def)
  moreover have "is_identifier ''customer_orders''"
    by (simp add: is_identifier_def re_head_star_def class_defs char_class_defs)
  moreover have "\<not> blank ''fk''" "\<not> blank ''fanout''"
    by (simp_all add: blank_iff char_class_defs)
  ultimately show ?thesis
    using sample_keys_valid by (simp add: join_contract_valid_def sample_contract_def)
qed

lemma sample_orders_multiplicity:
  "rp_right_max_multiplicity sample_orders_profile = 2"
  "rp_left_max_multiplicity sample_orders_profile = 1"
  by (simp_all add: sample_orders_profile_def profile_of_def max_multiplicity_def)

theorem classification_covers_observation_witness:
  "1 < rp_right_max_multiplicity sample_orders_profile
   \<and> ca_cardinality (classify_cardinality sample_orders_profile) \<in> {ONE_TO_MANY, MANY_TO_MANY}"
  using classification_covers_observation [of sample_orders_profile] sample_orders_multiplicity
  by simp

lemma approved_join_is_fanout_safe_witness:
  "jc_fanout_policy sample_contract = REQUIRE_DISTINCT_FOR_LEFT_ENTITY_METRICS
   \<and> rp_left_max_multiplicity sample_orders_profile \<le> 1"
proof -
  have "jc_cardinality sample_contract = ca_cardinality (classify_cardinality sample_orders_profile)"
    by (simp add: sample_contract_def classify_cardinality_def declared_branch_def
        observed_cardinality_def Let_def sample_orders_profile_def profile_of_def
        max_multiplicity_def)
  then show ?thesis
    using approved_join_is_fanout_safe [OF sample_contract_valid] sample_orders_multiplicity
    by (simp add: sample_contract_def)
qed

end
