(* ===== verification/Profile_Jobs.thy ===== *)
theory Profile_Jobs
  imports Lease_Interface Joins
begin

text \<open>
  The aggregate-profiling jobs of \<open>domain/semantic_profile_jobs.py\<close>: the value-free proposal and
  result boundaries, the job with its lifecycle validator, and the transitions request, claim,
  heartbeat, complete, fail and reclaim. Unlike the execution jobs, an expired lease is first
  reclaimed and only then claimed again, and every transition must advance the stored time.
\<close>

section \<open>Data\<close>

definition MAX_PROPOSAL_BYTES :: nat where "MAX_PROPOSAL_BYTES = 65536"
definition MAX_RESULT_BYTES :: nat where "MAX_RESULT_BYTES = 16384"
definition PROFILE_MAX_LEASE_DURATION :: timedelta where "PROFILE_MAX_LEASE_DURATION = minutes 5"
definition MAX_RETENTION :: timedelta where "MAX_RETENTION = days 366"
definition PROFILE_INITIAL_RETRY_DELAY_SECONDS :: int where
  "PROFILE_INITIAL_RETRY_DELAY_SECONDS = 5"
definition PROFILE_MAX_RETRY_DELAY_SECONDS :: int where "PROFILE_MAX_RETRY_DELAY_SECONDS = 300"
definition MAX_ROUTE_REVISION :: int where "MAX_ROUTE_REVISION = 9223372036854775807"

lemmas profile_constants =
  PROFILE_MAX_LEASE_DURATION_def MAX_RETENTION_def PROFILE_INITIAL_RETRY_DELAY_SECONDS_def
  PROFILE_MAX_RETRY_DELAY_SECONDS_def

definition PROTECTED_KEYS :: "string list" where
  "PROTECTED_KEYS =
     [''raw_value'', ''source_row'', ''sample_value'', ''sql'', ''parameters'', ''prompt'',
      ''token'', ''dsn'', ''password'', ''secret'', ''api_key'', ''access_token'',
      ''authorization'', ''credential'', ''connection_string'', ''client_secret'']"

datatype profile_job_status = S_REQUESTED | S_LEASED | S_RETRY_WAIT | S_COMPLETED | S_FAILED

fun profile_status_is_terminal :: "profile_job_status \<Rightarrow> bool" where
  "profile_status_is_terminal s \<longleftrightarrow> s \<in> {S_COMPLETED, S_FAILED}"

datatype profile_failure_code =
    SF_SOURCE_UNAVAILABLE | SF_SOURCE_TIMEOUT | SF_LEASE_EXPIRED | SF_SHUTDOWN_REQUESTED
  | SF_SOURCE_CONNECTION_MISMATCH | SF_PROPOSAL_INVALID | SF_EVIDENCE_INVALID
  | SF_UNEXPECTED_WORKER_FAILURE

datatype profile_failure_disposition = SD_RETRY | SD_FAIL

definition RETRYABLE_FAILURES :: "profile_failure_code set" where
  "RETRYABLE_FAILURES =
     {SF_SOURCE_UNAVAILABLE, SF_SOURCE_TIMEOUT, SF_LEASE_EXPIRED, SF_SHUTDOWN_REQUESTED}"

datatype profile_transition_error_code =
    SE_INVALID_STATE | SE_NOT_AVAILABLE | SE_ATTEMPTS_EXHAUSTED | SE_LEASE_MISMATCH
  | SE_LEASE_EXPIRED | SE_FENCING_MISMATCH | SE_TEMPORAL_CONFLICT | SE_TERMINAL_IMMUTABLE
  | SE_RESULT_MISMATCH

type_synonym 'a profile_outcome = "(profile_transition_error_code, 'a) outcome"

section \<open>Text and JSON boundaries\<close>

definition is_scan_id :: "string \<Rightarrow> bool" where
  "is_scan_id s \<longleftrightarrow> starts_with ''scan_'' s \<and> is_sha256 (drop 5 s)"

definition is_profile_job_id :: "string \<Rightarrow> bool" where
  "is_profile_job_id s \<longleftrightarrow> starts_with ''profile_job_'' s \<and> is_sha256 (drop 12 s)"

definition bounded_text :: "nat \<Rightarrow> string \<Rightarrow> bool" where
  "bounded_text maximum_bytes s \<longleftrightarrow>
     \<not> blank s \<and> strip s = s \<and> length (utf8_bytes s) \<le> maximum_bytes
     \<and> \<not> list_ex (\<lambda>c. code c < 32 \<or> code c = 127) s"

text \<open>\<open>str.casefold\<close> on ASCII keys; every key of a dumped model is an ASCII identifier.\<close>

definition casefold_char :: "char \<Rightarrow> char" where
  "casefold_char c = (if is_upper c then char_of (code c + 32) else c)"

definition ends_with :: "string \<Rightarrow> string \<Rightarrow> bool" where
  "ends_with suffix s \<longleftrightarrow> length suffix \<le> length s \<and> drop (length s - length suffix) s = suffix"

definition protected_key :: "string \<Rightarrow> bool" where
  "protected_key k \<longleftrightarrow>
     (let normalized = map casefold_char k
      in normalized \<in> set PROTECTED_KEYS \<or> ends_with ''_api_key'' normalized)"

fun no_protected_keys :: "json \<Rightarrow> bool" where
  "no_protected_keys (JObj kvs) \<longleftrightarrow>
     list_all (\<lambda>(k, v). \<not> protected_key k \<and> no_protected_keys v) kvs"
| "no_protected_keys (JArr vs) \<longleftrightarrow> list_all no_protected_keys vs"
| "no_protected_keys v \<longleftrightarrow> True"

definition canonical_json :: "json \<Rightarrow> string" where
  "canonical_json v = dumps escape_plain v"

definition validate_join_profile_proposal :: "join_proposal \<Rightarrow> bool" where
  "validate_join_profile_proposal p \<longleftrightarrow>
     join_proposal_valid p
     \<and> (case proposal_json p of None \<Rightarrow> False | Some payload \<Rightarrow> no_protected_keys payload)
     \<and> \<not> has_value_map (jk_transformation_plan (jp_left_key p))
     \<and> \<not> has_value_map (jk_transformation_plan (jp_right_key p))"

record semantic_join_profile_proposal =
  spp_connection_id :: string
  spp_proposal :: join_proposal

definition semantic_join_profile_proposal_valid :: "semantic_join_profile_proposal \<Rightarrow> bool" where
  "semantic_join_profile_proposal_valid p \<longleftrightarrow>
     is_named_id (spp_connection_id p) \<and> join_proposal_valid (spp_proposal p)
     \<and> validate_join_profile_proposal (spp_proposal p)"

definition profile_proposal_json :: "semantic_join_profile_proposal \<Rightarrow> json option" where
  "profile_proposal_json p =
     map_option (\<lambda>j. JObj [(''connection_id'', JStr (spp_connection_id p)), (''proposal'', j)])
       (proposal_json (spp_proposal p))"

definition validate_semantic_join_profile_proposal ::
  "semantic_join_profile_proposal \<Rightarrow> semantic_join_profile_proposal profile_outcome" where
  "validate_semantic_join_profile_proposal p =
     bindE (construct_model semantic_join_profile_proposal_valid p) (\<lambda>checked.
     case profile_proposal_json checked of
       None \<Rightarrow> Inl ValidationError
     | Some payload \<Rightarrow>
         if \<not> no_protected_keys payload then Inl ValueError
         else if MAX_PROPOSAL_BYTES < length (utf8_bytes (canonical_json payload))
         then Inl ValueError
         else Inr checked)"

definition canonical_semantic_join_profile_proposal_json ::
  "semantic_join_profile_proposal \<Rightarrow> string profile_outcome" where
  "canonical_semantic_join_profile_proposal_json p =
     bindE (validate_semantic_join_profile_proposal p) (\<lambda>checked.
     case profile_proposal_json checked of
       None \<Rightarrow> Inl ValidationError
     | Some payload \<Rightarrow> Inr (canonical_json payload))"

definition semantic_join_profile_proposal_fingerprint ::
  "semantic_join_profile_proposal \<Rightarrow> string profile_outcome" where
  "semantic_join_profile_proposal_fingerprint p =
     bindE (canonical_semantic_join_profile_proposal_json p) (\<lambda>text. Inr (sha256_text text))"

definition validate_semantic_join_profile_result ::
  "relationship_profile \<Rightarrow> relationship_profile profile_outcome" where
  "validate_semantic_join_profile_result p =
     bindE (construct_model relationship_profile_valid p) (\<lambda>checked.
     if \<not> no_protected_keys (profile_json checked) then Inl ValueError
     else if MAX_RESULT_BYTES < length (utf8_bytes (canonical_json (profile_json checked)))
     then Inl ValueError
     else Inr checked)"

definition semantic_join_profile_result_fingerprint ::
  "relationship_profile \<Rightarrow> string profile_outcome" where
  "semantic_join_profile_result_fingerprint p =
     bindE (validate_semantic_join_profile_result p) (\<lambda>checked.
     Inr (sha256_text (canonical_json (profile_json checked))))"

definition profile_job_id_text :: "string \<Rightarrow> string \<Rightarrow> string \<Rightarrow> string" where
  "profile_job_id_text workspace scan_id fingerprint =
     ''semantic_join_profile_job_v1|'' @ workspace @ ''|'' @ scan_id @ ''|'' @ fingerprint"

definition semantic_join_profile_job_id ::
  "string \<Rightarrow> string \<Rightarrow> string \<Rightarrow> string profile_outcome" where
  "semantic_join_profile_job_id workspace_id scan_id proposal_fingerprint =
     (if \<not> bounded_text 200 workspace_id then Inl ValueError
      else if \<not> is_scan_id scan_id then Inl ValueError
      else if \<not> is_sha256 proposal_fingerprint then Inl ValueError
      else Inr (''profile_job_''
             @ sha256_text (profile_job_id_text workspace_id scan_id proposal_fingerprint)))"

definition validate_semantic_join_profile_workspace_id :: "string \<Rightarrow> string profile_outcome" where
  "validate_semantic_join_profile_workspace_id w =
     (if bounded_text 200 w then Inr w else Inl ValueError)"

definition digest_semantic_join_profile_capability :: "string \<Rightarrow> string profile_outcome" where
  "digest_semantic_join_profile_capability capability =
     (if \<not> (32 \<le> length capability \<and> length capability \<le> 512)
         \<or> \<not> list_all is_ascii capability \<or> \<not> list_all is_printable capability
         \<or> card (set capability) < 8
      then Inl ValueError else Inr (sha256_text capability))"

section \<open>Leases, failures and results\<close>

record profile_lease =
  sl_job_id :: string
  sl_worker_id :: string
  sl_capability_digest :: string
  sl_fencing_token :: int
  sl_attempt :: int
  sl_acquired_at :: instant
  sl_heartbeat_at :: instant
  sl_expires_at :: instant

definition profile_lease_valid :: "profile_lease \<Rightarrow> bool" where
  "profile_lease_valid l \<longleftrightarrow>
     is_profile_job_id (sl_job_id l) \<and> is_named_id (sl_worker_id l)
     \<and> is_sha256 (sl_capability_digest l)
     \<and> 1 \<le> sl_fencing_token l \<and> 1 \<le> sl_attempt l \<and> sl_attempt l \<le> 100
     \<and> sl_acquired_at l \<le> sl_heartbeat_at l \<and> sl_heartbeat_at l < sl_expires_at l
     \<and> sl_expires_at l - sl_heartbeat_at l \<le> PROFILE_MAX_LEASE_DURATION
     \<and> sl_fencing_token l = sl_attempt l"

definition profile_lease_is_current :: "profile_lease \<Rightarrow> instant \<Rightarrow> bool" where
  "profile_lease_is_current l t \<longleftrightarrow> sl_acquired_at l \<le> t \<and> t < sl_expires_at l"

record profile_failure =
  sf_code :: profile_failure_code
  sf_disposition :: profile_failure_disposition
  sf_attempt :: int
  sf_occurred_at :: instant

definition profile_failure_valid :: "profile_failure \<Rightarrow> bool" where
  "profile_failure_valid f \<longleftrightarrow> 1 \<le> sf_attempt f \<and> sf_attempt f \<le> 100"

record profile_result =
  sr_profile :: relationship_profile
  sr_fingerprint :: string
  sr_completed_at :: instant

definition profile_result_valid :: "profile_result \<Rightarrow> bool" where
  "profile_result_valid r \<longleftrightarrow>
     relationship_profile_valid (sr_profile r) \<and> is_sha256 (sr_fingerprint r)
     \<and> semantic_join_profile_result_fingerprint (sr_profile r) = Inr (sr_fingerprint r)"

definition create_profile_result ::
  "relationship_profile \<Rightarrow> instant \<Rightarrow> profile_result profile_outcome" where
  "create_profile_result profile completed_at =
     bindE (validate_semantic_join_profile_result profile) (\<lambda>checked.
     bindE (semantic_join_profile_result_fingerprint checked) (\<lambda>fingerprint.
     construct_model profile_result_valid
       \<lparr>sr_profile = checked, sr_fingerprint = fingerprint, sr_completed_at = completed_at\<rparr>))"

record profile_target_ref =
  st_workspace_id :: string
  st_connection_id :: string
  st_route_revision :: int
  st_route_fingerprint :: string
  st_target_fingerprint :: string

definition profile_target_ref_valid :: "profile_target_ref \<Rightarrow> bool" where
  "profile_target_ref_valid t \<longleftrightarrow>
     len_between 1 200 (st_workspace_id t) \<and> bounded_text 200 (st_workspace_id t)
     \<and> is_named_id (st_connection_id t)
     \<and> 1 \<le> st_route_revision t \<and> st_route_revision t \<le> MAX_ROUTE_REVISION
     \<and> is_sha256 (st_route_fingerprint t) \<and> is_sha256 (st_target_fingerprint t)"

definition classify_semantic_join_profile_failure ::
  "profile_failure_code \<Rightarrow> int \<Rightarrow> int \<Rightarrow> profile_failure_disposition profile_outcome" where
  "classify_semantic_join_profile_failure c attempt max_attempts =
     (if \<not> (1 \<le> attempt \<and> attempt \<le> max_attempts \<and> max_attempts \<le> 100) then Inl ValueError
      else if c \<in> RETRYABLE_FAILURES \<and> attempt < max_attempts then Inr SD_RETRY
      else Inr SD_FAIL)"

definition semantic_join_profile_retry_delay :: "int \<Rightarrow> timedelta profile_outcome" where
  "semantic_join_profile_retry_delay attempt =
     (if \<not> (1 \<le> attempt \<and> attempt \<le> 100) then Inl ValueError
      else Inr (seconds (min (PROFILE_INITIAL_RETRY_DELAY_SECONDS * 2 ^ nat (attempt - 1))
                             PROFILE_MAX_RETRY_DELAY_SECONDS)))"

section \<open>The job\<close>

record profile_job =
  sj_job_id :: string
  sj_workspace_id :: string
  sj_scan_id :: string
  sj_connection_id :: string
  sj_execution_target :: "profile_target_ref option"
  sj_connector_contract_version :: "int option"
  sj_proposal :: join_proposal
  sj_proposal_fingerprint :: string
  sj_status :: profile_job_status
  sj_max_attempts :: int
  sj_attempts :: int
  sj_available_at :: instant
  sj_fencing_token :: int
  sj_lease :: "profile_lease option"
  sj_failure :: "profile_failure option"
  sj_result :: "profile_result option"
  sj_requested_at :: instant
  sj_updated_at :: instant
  sj_completed_at :: "instant option"
  sj_retain_until :: "instant option"

abbreviation profile_terminal :: "profile_job \<Rightarrow> bool" where
  "profile_terminal j \<equiv> profile_status_is_terminal (sj_status j)"

definition bound_proposal :: "profile_job \<Rightarrow> semantic_join_profile_proposal" where
  "bound_proposal j = \<lparr>spp_connection_id = sj_connection_id j, spp_proposal = sj_proposal j\<rparr>"

definition profile_job_fields_valid :: "profile_job \<Rightarrow> bool" where
  "profile_job_fields_valid j \<longleftrightarrow>
     is_profile_job_id (sj_job_id j)
     \<and> len_between 1 200 (sj_workspace_id j) \<and> bounded_text 200 (sj_workspace_id j)
     \<and> is_scan_id (sj_scan_id j) \<and> is_named_id (sj_connection_id j)
     \<and> optional profile_target_ref_valid (sj_execution_target j)
     \<and> optional (\<lambda>v. 1 \<le> v \<and> v \<le> MAX_ROUTE_REVISION) (sj_connector_contract_version j)
     \<and> join_proposal_valid (sj_proposal j) \<and> is_sha256 (sj_proposal_fingerprint j)
     \<and> 1 \<le> sj_max_attempts j \<and> sj_max_attempts j \<le> 100
     \<and> 0 \<le> sj_attempts j \<and> sj_attempts j \<le> 100 \<and> 0 \<le> sj_fencing_token j
     \<and> optional profile_lease_valid (sj_lease j) \<and> optional profile_failure_valid (sj_failure j)
     \<and> optional profile_result_valid (sj_result j)"

definition profile_target_bound :: "profile_job \<Rightarrow> bool" where
  "profile_target_bound j \<longleftrightarrow>
     (case sj_execution_target j of
        None \<Rightarrow> profile_terminal j \<and> sj_connector_contract_version j = None
      | Some t \<Rightarrow> st_workspace_id t = sj_workspace_id j \<and> st_connection_id t = sj_connection_id j)
     \<and> \<not> (sj_status j \<noteq> S_REQUESTED \<and> sj_execution_target j \<noteq> None
          \<and> sj_connector_contract_version j = None)"

definition profile_identity_valid :: "profile_job \<Rightarrow> bool" where
  "profile_identity_valid j \<longleftrightarrow>
     semantic_join_profile_proposal_valid (bound_proposal j)
     \<and> validate_semantic_join_profile_proposal (bound_proposal j) = Inr (bound_proposal j)
     \<and> semantic_join_profile_proposal_fingerprint (bound_proposal j)
         = Inr (sj_proposal_fingerprint j)
     \<and> semantic_join_profile_job_id (sj_workspace_id j) (sj_scan_id j) (sj_proposal_fingerprint j)
         = Inr (sj_job_id j)"

definition profile_terminal_times :: "profile_job \<Rightarrow> bool" where
  "profile_terminal_times j \<longleftrightarrow>
     (if profile_terminal j then
        (case (sj_completed_at j, sj_retain_until j) of
           (Some c, Some r) \<Rightarrow> sj_updated_at j = c \<and> c \<le> r \<and> r - c \<le> MAX_RETENTION
         | _ \<Rightarrow> False)
      else sj_completed_at j = None \<and> sj_retain_until j = None)"

definition profile_bindings_valid :: "profile_job \<Rightarrow> bool" where
  "profile_bindings_valid j \<longleftrightarrow>
     sj_attempts j \<le> sj_max_attempts j \<and> sj_fencing_token j = sj_attempts j
     \<and> sj_requested_at j \<le> sj_updated_at j \<and> sj_requested_at j \<le> sj_available_at j
     \<and> profile_terminal_times j
     \<and> optional (\<lambda>l. sl_job_id l = sj_job_id j \<and> sl_attempt l = sj_attempts j
          \<and> sl_fencing_token l = sj_fencing_token j \<and> sl_heartbeat_at l = sj_updated_at j)
         (sj_lease j)
     \<and> optional (\<lambda>f. sf_attempt f = sj_attempts j \<and> sf_occurred_at f = sj_updated_at j
          \<and> classify_semantic_join_profile_failure (sf_code f) (sj_attempts j) (sj_max_attempts j)
              = Inr (sf_disposition f)) (sj_failure j)"

definition profile_lifecycle_valid :: "profile_job \<Rightarrow> bool" where
  "profile_lifecycle_valid j \<longleftrightarrow>
     (let no_terminal = (sj_completed_at j = None \<and> sj_retain_until j = None \<and> sj_result j = None)
      in case sj_status j of
        S_REQUESTED \<Rightarrow>
          sj_attempts j = 0 \<and> sj_fencing_token j = 0 \<and> sj_lease j = None \<and> sj_failure j = None
          \<and> no_terminal
      | S_LEASED \<Rightarrow> sj_attempts j \<ge> 1 \<and> sj_lease j \<noteq> None \<and> sj_failure j = None \<and> no_terminal
      | S_RETRY_WAIT \<Rightarrow>
          sj_attempts j \<ge> 1 \<and> sj_lease j = None
          \<and> (case sj_failure j of None \<Rightarrow> False | Some f \<Rightarrow> sf_disposition f = SD_RETRY)
          \<and> no_terminal
      | S_COMPLETED \<Rightarrow>
          sj_lease j = None \<and> sj_failure j = None
          \<and> (case sj_result j of None \<Rightarrow> False | Some r \<Rightarrow> Some (sr_completed_at r) = sj_completed_at j)
      | S_FAILED \<Rightarrow>
          sj_lease j = None
          \<and> (case sj_failure j of None \<Rightarrow> False | Some f \<Rightarrow> sf_disposition f = SD_FAIL)
          \<and> sj_result j = None)"

definition profile_job_valid :: "profile_job \<Rightarrow> bool" where
  "profile_job_valid j \<longleftrightarrow>
     profile_job_fields_valid j \<and> profile_target_bound j \<and> profile_identity_valid j
     \<and> profile_bindings_valid j \<and> profile_lifecycle_valid j"

definition requested_profile_job ::
  "string \<Rightarrow> string \<Rightarrow> semantic_join_profile_proposal \<Rightarrow> profile_target_ref \<Rightarrow> datetime \<Rightarrow> int \<Rightarrow>
   int option \<Rightarrow> profile_job profile_outcome" where
  "requested_profile_job workspace_id scan_id proposal target requested_at max_attempts version =
     bindE (validate_semantic_join_profile_proposal proposal) (\<lambda>checked.
     bindE (construct_model profile_target_ref_valid target) (\<lambda>checked_target.
     bindE (validate_semantic_join_profile_workspace_id workspace_id) (\<lambda>workspace.
     if st_workspace_id checked_target \<noteq> workspace
        \<or> st_connection_id checked_target \<noteq> spp_connection_id checked
     then Inl ValueError
     else bindE (semantic_join_profile_proposal_fingerprint checked) (\<lambda>fingerprint.
     bindE (semantic_join_profile_job_id workspace scan_id fingerprint) (\<lambda>job_id.
     case requested_at of
       Naive _ \<Rightarrow> Inl ValidationError
     | Aware requested \<Rightarrow>
         construct_model profile_job_valid
           \<lparr>sj_job_id = job_id, sj_workspace_id = workspace, sj_scan_id = scan_id,
            sj_connection_id = spp_connection_id checked,
            sj_execution_target = Some checked_target, sj_connector_contract_version = version,
            sj_proposal = spp_proposal checked, sj_proposal_fingerprint = fingerprint,
            sj_status = S_REQUESTED, sj_max_attempts = max_attempts, sj_attempts = 0,
            sj_available_at = requested, sj_fencing_token = 0, sj_lease = None,
            sj_failure = None, sj_result = None, sj_requested_at = requested,
            sj_updated_at = requested, sj_completed_at = None, sj_retain_until = None\<rparr>)))))"

definition semantic_join_profile_source_matches ::
  "profile_job \<Rightarrow> string \<Rightarrow> string \<Rightarrow> bool profile_outcome" where
  "semantic_join_profile_source_matches j expected_workspace_id expected_connection_id =
     bindE (validate_semantic_join_profile_workspace_id expected_workspace_id) (\<lambda>workspace.
     bindE (construct_model is_named_id expected_connection_id) (\<lambda>connection.
     Inr (sj_workspace_id j = workspace \<and> sj_connection_id j = connection
       \<and> (case sj_execution_target j of None \<Rightarrow> False
          | Some t \<Rightarrow> st_workspace_id t = workspace \<and> st_connection_id t = connection))))"

section \<open>Transitions\<close>

definition replace_profile_job :: "profile_job \<Rightarrow> profile_job \<Rightarrow> profile_job profile_outcome" where
  "replace_profile_job j changed =
     (if profile_terminal j then Inl (Transition SE_TERMINAL_IMMUTABLE)
      else construct_model profile_job_valid changed)"

definition transition_time :: "profile_job \<Rightarrow> datetime \<Rightarrow> instant profile_outcome" where
  "transition_time j value =
     bindE (require_aware value) (\<lambda>t.
     if t \<le> sj_updated_at j then Inl (Transition SE_TEMPORAL_CONFLICT) else Inr t)"

definition retention_time :: "instant \<Rightarrow> datetime \<Rightarrow> instant profile_outcome" where
  "retention_time completed value =
     bindE (require_aware value) (\<lambda>retained.
     if retained < completed \<or> retained - completed > MAX_RETENTION
     then Inl (Transition SE_TEMPORAL_CONFLICT) else Inr retained)"

definition require_active_profile_lease ::
  "profile_job \<Rightarrow> string \<Rightarrow> string \<Rightarrow> int \<Rightarrow> datetime \<Rightarrow> profile_lease profile_outcome" where
  "require_active_profile_lease j worker_id capability fencing_token checked_at =
     (case sj_lease j of
        None \<Rightarrow> Inl (Transition SE_INVALID_STATE)
      | Some lease \<Rightarrow>
          if sj_status j \<noteq> S_LEASED then Inl (Transition SE_INVALID_STATE)
          else if sl_worker_id lease \<noteq> worker_id then Inl (Transition SE_LEASE_MISMATCH)
          else bindE (digest_semantic_join_profile_capability capability) (\<lambda>digest.
            if sl_capability_digest lease \<noteq> digest then Inl (Transition SE_LEASE_MISMATCH)
            else if sl_fencing_token lease \<noteq> fencing_token
            then Inl (Transition SE_FENCING_MISMATCH)
            else bindE (require_aware checked_at) (\<lambda>t.
              if \<not> profile_lease_is_current lease t then Inl (Transition SE_LEASE_EXPIRED)
              else Inr lease)))"

text \<open>Only the typed transition errors are caught; a malformed capability or timestamp still raises.\<close>

definition semantic_join_profile_claim_matches ::
  "profile_job \<Rightarrow> string \<Rightarrow> string \<Rightarrow> int \<Rightarrow> datetime \<Rightarrow> bool profile_outcome" where
  "semantic_join_profile_claim_matches j worker_id capability fencing_token checked_at =
     (case require_active_profile_lease j worker_id capability fencing_token checked_at of
        Inr lease \<Rightarrow> Inr True
      | Inl (Transition c) \<Rightarrow> Inr False
      | Inl e \<Rightarrow> Inl e)"

definition claim_semantic_join_profile_job ::
  "profile_job \<Rightarrow> string \<Rightarrow> string \<Rightarrow> datetime \<Rightarrow> datetime \<Rightarrow> profile_job profile_outcome" where
  "claim_semantic_join_profile_job j worker_id capability claimed_at lease_expires_at =
     (if profile_terminal j then Inl (Transition SE_TERMINAL_IMMUTABLE)
      else if sj_execution_target j = None \<or> sj_connector_contract_version j = None
      then Inl (Transition SE_INVALID_STATE)
      else bindE (transition_time j claimed_at) (\<lambda>claimed.
        if sj_status j \<notin> {S_REQUESTED, S_RETRY_WAIT} \<or> sj_lease j \<noteq> None
        then Inl (Transition SE_INVALID_STATE)
        else if claimed < sj_available_at j then Inl (Transition SE_NOT_AVAILABLE)
        else if sj_attempts j \<ge> sj_max_attempts j then Inl (Transition SE_ATTEMPTS_EXHAUSTED)
        else bindE (require_aware lease_expires_at) (\<lambda>expires.
        if expires \<le> claimed \<or> expires - claimed > PROFILE_MAX_LEASE_DURATION
        then Inl (Transition SE_TEMPORAL_CONFLICT)
        else bindE (digest_semantic_join_profile_capability capability) (\<lambda>digest.
        bindE (construct_model profile_lease_valid
            \<lparr>sl_job_id = sj_job_id j, sl_worker_id = worker_id, sl_capability_digest = digest,
             sl_fencing_token = sj_fencing_token j + 1, sl_attempt = sj_attempts j + 1,
             sl_acquired_at = claimed, sl_heartbeat_at = claimed, sl_expires_at = expires\<rparr>)
        (\<lambda>lease.
        replace_profile_job j (j\<lparr>sj_status := S_LEASED, sj_attempts := sj_attempts j + 1,
          sj_fencing_token := sl_fencing_token lease, sj_updated_at := claimed,
          sj_lease := Some lease, sj_failure := None\<rparr>))))))"

definition heartbeat_semantic_join_profile_job ::
  "profile_job \<Rightarrow> string \<Rightarrow> string \<Rightarrow> int \<Rightarrow> datetime \<Rightarrow> datetime \<Rightarrow> profile_job profile_outcome" where
  "heartbeat_semantic_join_profile_job j worker_id capability fencing_token heartbeat_at
     lease_expires_at =
     bindE (transition_time j heartbeat_at) (\<lambda>heartbeat.
     bindE (require_active_profile_lease j worker_id capability fencing_token (Aware heartbeat))
       (\<lambda>lease.
     bindE (require_aware lease_expires_at) (\<lambda>expires.
     if expires \<le> sl_expires_at lease \<or> expires \<le> heartbeat
        \<or> expires - heartbeat > PROFILE_MAX_LEASE_DURATION
     then Inl (Transition SE_TEMPORAL_CONFLICT)
     else bindE (construct_model profile_lease_valid
            (lease\<lparr>sl_heartbeat_at := heartbeat, sl_expires_at := expires\<rparr>)) (\<lambda>renewed.
       replace_profile_job j (j\<lparr>sj_updated_at := heartbeat, sj_lease := Some renewed\<rparr>)))))"

definition complete_semantic_join_profile_job ::
  "profile_job \<Rightarrow> string \<Rightarrow> string \<Rightarrow> int \<Rightarrow> relationship_profile \<Rightarrow> datetime \<Rightarrow> datetime \<Rightarrow>
   profile_job profile_outcome" where
  "complete_semantic_join_profile_job j worker_id capability fencing_token profile completed_at
     retain_until =
     bindE (transition_time j completed_at) (\<lambda>completed.
     bindE (require_active_profile_lease j worker_id capability fencing_token (Aware completed))
       (\<lambda>_.
     bindE (retention_time completed retain_until) (\<lambda>retained.
     bindE (create_profile_result profile completed) (\<lambda>result.
     replace_profile_job j (j\<lparr>sj_status := S_COMPLETED, sj_available_at := completed,
       sj_updated_at := completed, sj_lease := None, sj_failure := None, sj_result := Some result,
       sj_completed_at := Some completed, sj_retain_until := Some retained\<rparr>)))))"

definition fail_semantic_join_profile_job ::
  "profile_job \<Rightarrow> string \<Rightarrow> string \<Rightarrow> int \<Rightarrow> profile_failure_code \<Rightarrow> datetime \<Rightarrow> datetime option \<Rightarrow>
   datetime option \<Rightarrow> profile_job profile_outcome" where
  "fail_semantic_join_profile_job j worker_id capability fencing_token failure_code failed_at
     retry_at retain_until =
     bindE (transition_time j failed_at) (\<lambda>failed.
     bindE (require_active_profile_lease j worker_id capability fencing_token (Aware failed)) (\<lambda>_.
     bindE (classify_semantic_join_profile_failure failure_code (sj_attempts j) (sj_max_attempts j))
       (\<lambda>disposition.
     bindE (construct_model profile_failure_valid
         \<lparr>sf_code = failure_code, sf_disposition = disposition, sf_attempt = sj_attempts j,
          sf_occurred_at = failed\<rparr>) (\<lambda>failure.
     if disposition = SD_RETRY then
       (case (retry_at, retain_until) of
          (Some retry_value, None) \<Rightarrow>
            bindE (require_aware retry_value) (\<lambda>retry.
            if retry \<le> failed then Inl (Transition SE_TEMPORAL_CONFLICT)
            else replace_profile_job j (j\<lparr>sj_status := S_RETRY_WAIT, sj_available_at := retry,
              sj_updated_at := failed, sj_lease := None, sj_failure := Some failure\<rparr>))
        | _ \<Rightarrow> Inl (Transition SE_TEMPORAL_CONFLICT))
     else
       (case (retry_at, retain_until) of
          (None, Some until) \<Rightarrow>
            bindE (retention_time failed until) (\<lambda>retained.
            replace_profile_job j (j\<lparr>sj_status := S_FAILED, sj_available_at := failed,
              sj_updated_at := failed, sj_lease := None, sj_failure := Some failure,
              sj_completed_at := Some failed, sj_retain_until := Some retained\<rparr>))
        | _ \<Rightarrow> Inl (Transition SE_TEMPORAL_CONFLICT))))))"

definition reclaim_expired_semantic_join_profile_job ::
  "profile_job \<Rightarrow> datetime \<Rightarrow> datetime option \<Rightarrow> profile_job profile_outcome" where
  "reclaim_expired_semantic_join_profile_job j reclaimed_at retain_until =
     bindE (transition_time j reclaimed_at) (\<lambda>reclaimed.
     case sj_lease j of
       None \<Rightarrow> Inl (Transition SE_INVALID_STATE)
     | Some lease \<Rightarrow>
         if sj_status j \<noteq> S_LEASED then Inl (Transition SE_INVALID_STATE)
         else if reclaimed < sl_expires_at lease then Inl (Transition SE_LEASE_EXPIRED)
         else bindE (classify_semantic_join_profile_failure SF_LEASE_EXPIRED (sj_attempts j)
                       (sj_max_attempts j)) (\<lambda>disposition.
         bindE (construct_model profile_failure_valid
             \<lparr>sf_code = SF_LEASE_EXPIRED, sf_disposition = disposition,
              sf_attempt = sj_attempts j, sf_occurred_at = reclaimed\<rparr>) (\<lambda>failure.
         if disposition = SD_RETRY then
           (if retain_until \<noteq> None then Inl (Transition SE_TEMPORAL_CONFLICT)
            else bindE (semantic_join_profile_retry_delay (sj_attempts j)) (\<lambda>delay.
              replace_profile_job j (j\<lparr>sj_status := S_RETRY_WAIT,
                sj_available_at := reclaimed + delay, sj_updated_at := reclaimed,
                sj_lease := None, sj_failure := Some failure\<rparr>)))
         else
           (case retain_until of
              None \<Rightarrow> Inl (Transition SE_TEMPORAL_CONFLICT)
            | Some until \<Rightarrow>
                bindE (retention_time reclaimed until) (\<lambda>retained.
                replace_profile_job j (j\<lparr>sj_status := S_FAILED, sj_available_at := reclaimed,
                  sj_updated_at := reclaimed, sj_lease := None, sj_failure := Some failure,
                  sj_completed_at := Some reclaimed, sj_retain_until := Some retained\<rparr>))))))"

section \<open>The invariant by status\<close>

definition profile_envelope_valid :: "profile_job \<Rightarrow> bool" where
  "profile_envelope_valid j \<longleftrightarrow>
     is_profile_job_id (sj_job_id j)
     \<and> len_between 1 200 (sj_workspace_id j) \<and> bounded_text 200 (sj_workspace_id j)
     \<and> is_scan_id (sj_scan_id j) \<and> is_named_id (sj_connection_id j)
     \<and> optional profile_target_ref_valid (sj_execution_target j)
     \<and> optional (\<lambda>v. 1 \<le> v \<and> v \<le> MAX_ROUTE_REVISION) (sj_connector_contract_version j)
     \<and> join_proposal_valid (sj_proposal j) \<and> is_sha256 (sj_proposal_fingerprint j)
     \<and> 1 \<le> sj_max_attempts j \<and> sj_max_attempts j \<le> 100
     \<and> profile_identity_valid j"

definition profile_clock_valid :: "profile_job \<Rightarrow> bool" where
  "profile_clock_valid j \<longleftrightarrow>
     0 \<le> sj_attempts j \<and> sj_attempts j \<le> sj_max_attempts j \<and> sj_fencing_token j = sj_attempts j
     \<and> sj_requested_at j \<le> sj_updated_at j \<and> sj_requested_at j \<le> sj_available_at j"

definition profile_route_bound :: "profile_job \<Rightarrow> bool" where
  "profile_route_bound j \<longleftrightarrow>
     (\<exists>t. sj_execution_target j = Some t \<and> st_workspace_id t = sj_workspace_id j
        \<and> st_connection_id t = sj_connection_id j)"

definition profile_route_pinned :: "profile_job \<Rightarrow> bool" where
  "profile_route_pinned j \<longleftrightarrow> profile_route_bound j \<and> sj_connector_contract_version j \<noteq> None"

definition profile_lease_bound :: "profile_job \<Rightarrow> profile_lease \<Rightarrow> bool" where
  "profile_lease_bound j l \<longleftrightarrow> profile_lease_valid l \<and> sl_job_id l = sj_job_id j
     \<and> sl_attempt l = sj_attempts j \<and> sl_heartbeat_at l = sj_updated_at j"

definition profile_failure_bound :: "profile_job \<Rightarrow> profile_failure \<Rightarrow> bool" where
  "profile_failure_bound j f \<longleftrightarrow> profile_failure_valid f \<and> sf_attempt f = sj_attempts j
     \<and> sf_occurred_at f = sj_updated_at j
     \<and> classify_semantic_join_profile_failure (sf_code f) (sj_attempts j) (sj_max_attempts j)
         = Inr (sf_disposition f)"

definition profile_open :: "profile_job \<Rightarrow> bool" where
  "profile_open j \<longleftrightarrow> sj_completed_at j = None \<and> sj_retain_until j = None \<and> sj_result j = None"

definition profile_closed :: "profile_job \<Rightarrow> bool" where
  "profile_closed j \<longleftrightarrow>
     sj_completed_at j = Some (sj_updated_at j)
     \<and> (\<exists>r. sj_retain_until j = Some r \<and> sj_updated_at j \<le> r
          \<and> r - sj_updated_at j \<le> MAX_RETENTION)
     \<and> (profile_route_pinned j
        \<or> sj_execution_target j = None \<and> sj_connector_contract_version j = None)"

lemmas profile_valid_defs =
  profile_job_valid_def profile_job_fields_valid_def profile_bindings_valid_def
  profile_lifecycle_valid_def profile_target_bound_def profile_terminal_times_def Let_def

lemmas profile_part_defs =
  profile_envelope_valid_def profile_clock_valid_def profile_route_bound_def
  profile_route_pinned_def profile_lease_bound_def profile_failure_bound_def profile_open_def
  profile_closed_def

lemma profile_valid_requested:
  "sj_status j = S_REQUESTED \<Longrightarrow> profile_job_valid j \<longleftrightarrow>
     profile_envelope_valid j \<and> profile_clock_valid j \<and> profile_route_bound j \<and> profile_open j
     \<and> sj_attempts j = 0 \<and> sj_lease j = None \<and> sj_failure j = None"
  by (cases "sj_execution_target j") (auto simp: profile_valid_defs profile_part_defs)

lemma profile_valid_leased:
  "sj_status j = S_LEASED \<Longrightarrow> profile_job_valid j \<longleftrightarrow>
     profile_envelope_valid j \<and> profile_clock_valid j \<and> profile_route_pinned j \<and> profile_open j
     \<and> 1 \<le> sj_attempts j \<and> (\<exists>l. sj_lease j = Some l \<and> profile_lease_bound j l)
     \<and> sj_failure j = None"
  by (cases "sj_execution_target j"; cases "sj_lease j")
    (auto simp: profile_valid_defs profile_part_defs profile_lease_valid_def)

lemma profile_valid_retry_wait:
  "sj_status j = S_RETRY_WAIT \<Longrightarrow> profile_job_valid j \<longleftrightarrow>
     profile_envelope_valid j \<and> profile_clock_valid j \<and> profile_route_pinned j \<and> profile_open j
     \<and> 1 \<le> sj_attempts j \<and> sj_lease j = None
     \<and> (\<exists>f. sj_failure j = Some f \<and> profile_failure_bound j f \<and> sf_disposition f = SD_RETRY)"
  by (cases "sj_execution_target j"; cases "sj_failure j")
    (auto simp: profile_valid_defs profile_part_defs)

lemma profile_valid_completed:
  "sj_status j = S_COMPLETED \<Longrightarrow> profile_job_valid j \<longleftrightarrow>
     profile_envelope_valid j \<and> profile_clock_valid j \<and> profile_closed j
     \<and> sj_lease j = None \<and> sj_failure j = None
     \<and> (\<exists>r. sj_result j = Some r \<and> profile_result_valid r \<and> sr_completed_at r = sj_updated_at j)"
  by (cases "sj_execution_target j"; cases "sj_result j"; cases "sj_completed_at j";
      cases "sj_retain_until j")
    (auto simp: profile_valid_defs profile_part_defs)

lemma profile_valid_failed:
  "sj_status j = S_FAILED \<Longrightarrow> profile_job_valid j \<longleftrightarrow>
     profile_envelope_valid j \<and> profile_clock_valid j \<and> profile_closed j
     \<and> sj_lease j = None \<and> sj_result j = None
     \<and> (\<exists>f. sj_failure j = Some f \<and> profile_failure_bound j f \<and> sf_disposition f = SD_FAIL)"
  by (cases "sj_execution_target j"; cases "sj_failure j"; cases "sj_completed_at j";
      cases "sj_retain_until j")
    (auto simp: profile_valid_defs profile_part_defs)

lemmas profile_valid_by_status =
  profile_valid_requested profile_valid_leased profile_valid_retry_wait profile_valid_completed
  profile_valid_failed

lemma profile_valid_common:
  assumes "profile_job_valid j"
  shows "profile_envelope_valid j" and "profile_clock_valid j"
  using assms by (cases "sj_status j"; simp add: profile_valid_by_status)+

lemma profile_envelope_update [simp]:
  "profile_envelope_valid (j\<lparr>sj_status := s\<rparr>) = profile_envelope_valid j"
  "profile_envelope_valid (j\<lparr>sj_attempts := n\<rparr>) = profile_envelope_valid j"
  "profile_envelope_valid (j\<lparr>sj_available_at := t\<rparr>) = profile_envelope_valid j"
  "profile_envelope_valid (j\<lparr>sj_fencing_token := n\<rparr>) = profile_envelope_valid j"
  "profile_envelope_valid (j\<lparr>sj_lease := l\<rparr>) = profile_envelope_valid j"
  "profile_envelope_valid (j\<lparr>sj_failure := f\<rparr>) = profile_envelope_valid j"
  "profile_envelope_valid (j\<lparr>sj_result := r\<rparr>) = profile_envelope_valid j"
  "profile_envelope_valid (j\<lparr>sj_updated_at := t\<rparr>) = profile_envelope_valid j"
  "profile_envelope_valid (j\<lparr>sj_completed_at := c\<rparr>) = profile_envelope_valid j"
  "profile_envelope_valid (j\<lparr>sj_retain_until := c\<rparr>) = profile_envelope_valid j"
  by (simp_all add: profile_envelope_valid_def profile_identity_valid_def bound_proposal_def)


section \<open>What each transition does on a valid job\<close>

lemma transition_time_simps [simp]:
  "transition_time j (Aware t) =
     (if t \<le> sj_updated_at j then Inl (Transition SE_TEMPORAL_CONFLICT) else Inr t)"
  "transition_time j (Naive t) = Inl ValueError"
  by (simp_all add: transition_time_def)

lemma transition_time_eq_Inr: "transition_time j d = Inr t \<longleftrightarrow> d = Aware t \<and> sj_updated_at j < t"
  by (cases d) auto

definition capability_ok :: "string \<Rightarrow> bool" where
  "capability_ok c \<longleftrightarrow> 32 \<le> length c \<and> length c \<le> 512 \<and> list_all is_ascii c
     \<and> list_all is_printable c \<and> 8 \<le> card (set c)"

lemma capability_digest_eq:
  "digest_semantic_join_profile_capability c =
     (if capability_ok c then Inr (sha256_text c) else Inl ValueError)"
  by (auto simp: digest_semantic_join_profile_capability_def capability_ok_def)

definition profile_holds ::
  "profile_job \<Rightarrow> string \<Rightarrow> string \<Rightarrow> int \<Rightarrow> instant \<Rightarrow> profile_lease \<Rightarrow> bool" where
  "profile_holds j w cap fence t l \<longleftrightarrow>
     sj_status j = S_LEASED \<and> sj_lease j = Some l \<and> sl_worker_id l = w
     \<and> digest_semantic_join_profile_capability cap = Inr (sl_capability_digest l)
     \<and> sl_fencing_token l = fence \<and> profile_lease_is_current l t"

lemma require_active_profile_lease_eq_Inr:
  "require_active_profile_lease j w cap fence (Aware t) = Inr l \<longleftrightarrow> profile_holds j w cap fence t l"
  by (auto simp: require_active_profile_lease_def profile_holds_def bindE_eq_Inr split: option.splits)

lemma profile_holds_bound:
  assumes "profile_job_valid j" and "profile_holds j w cap fence t l"
  shows "profile_lease_bound j l" and "fence = sj_attempts j" and "1 \<le> sj_attempts j"
    and "profile_route_pinned j" and "profile_open j" and "sj_failure j = None"
  using assms by (auto simp: profile_holds_def profile_valid_leased profile_lease_bound_def
      profile_lease_valid_def)

definition profile_claim_lease :: "profile_job \<Rightarrow> string \<Rightarrow> string \<Rightarrow> instant \<Rightarrow> instant \<Rightarrow> profile_lease" where
  "profile_claim_lease j w cap t e =
     \<lparr>sl_job_id = sj_job_id j, sl_worker_id = w, sl_capability_digest = sha256_text cap,
      sl_fencing_token = sj_fencing_token j + 1, sl_attempt = sj_attempts j + 1,
      sl_acquired_at = t, sl_heartbeat_at = t, sl_expires_at = e\<rparr>"

definition profile_claimed :: "profile_job \<Rightarrow> profile_lease \<Rightarrow> profile_job" where
  "profile_claimed j l =
     j\<lparr>sj_status := S_LEASED, sj_attempts := sj_attempts j + 1,
       sj_fencing_token := sl_fencing_token l, sj_updated_at := sl_acquired_at l,
       sj_lease := Some l, sj_failure := None\<rparr>"

lemma profile_waiting_attempts:
  assumes "profile_job_valid j" and "sj_status j \<in> {S_REQUESTED, S_RETRY_WAIT}"
  shows "sj_attempts j < sj_max_attempts j"
  using assms
  by (auto simp: profile_valid_by_status profile_envelope_valid_def profile_failure_bound_def
      classify_semantic_join_profile_failure_def split: if_splits)

lemma profile_claim_valid:
  assumes v: "profile_job_valid j" and s: "sj_status j \<in> {S_REQUESTED, S_RETRY_WAIT}"
    and r: "sj_connector_contract_version j \<noteq> None" and t: "sj_updated_at j < t" "t < e"
    "e - t \<le> PROFILE_MAX_LEASE_DURATION" and w: "is_named_id w"
  shows "profile_lease_valid (profile_claim_lease j w cap t e)"
    and "profile_job_valid (profile_claimed j (profile_claim_lease j w cap t e))"
proof -
  note c = profile_valid_common [OF v] and n = profile_waiting_attempts [OF v s]
  show l: "profile_lease_valid (profile_claim_lease j w cap t e)"
    using c n t w by (auto simp: profile_lease_valid_def profile_claim_lease_def
        profile_envelope_valid_def profile_clock_valid_def)
  have "profile_route_bound j" "profile_open j"
    using v s by (auto simp: profile_valid_by_status profile_route_pinned_def)
  with c n t r l show "profile_job_valid (profile_claimed j (profile_claim_lease j w cap t e))"
    by (auto simp: profile_valid_leased profile_claimed_def profile_clock_valid_def
        profile_route_pinned_def profile_route_bound_def profile_open_def profile_lease_bound_def
        profile_claim_lease_def)
qed

lemma profile_live_target:
  "profile_job_valid j \<Longrightarrow> \<not> profile_terminal j \<Longrightarrow> \<exists>t. sj_execution_target j = Some t"
  by (cases "sj_status j")
    (auto simp: profile_valid_by_status profile_route_pinned_def profile_route_bound_def)

lemma profile_claim_eq:
  assumes v: "profile_job_valid j"
  shows "claim_semantic_join_profile_job j w cap (Aware t) (Aware e) =
    (if profile_terminal j then Inl (Transition SE_TERMINAL_IMMUTABLE)
     else if sj_connector_contract_version j = None then Inl (Transition SE_INVALID_STATE)
     else if t \<le> sj_updated_at j then Inl (Transition SE_TEMPORAL_CONFLICT)
     else if sj_status j = S_LEASED then Inl (Transition SE_INVALID_STATE)
     else if t < sj_available_at j then Inl (Transition SE_NOT_AVAILABLE)
     else if e \<le> t \<or> e - t > PROFILE_MAX_LEASE_DURATION then Inl (Transition SE_TEMPORAL_CONFLICT)
     else if \<not> capability_ok cap then Inl ValueError
     else if \<not> is_named_id w then Inl ValidationError
     else Inr (profile_claimed j (profile_claim_lease j w cap t e)))"
proof (cases "profile_terminal j")
  case True
  then show ?thesis by (simp add: claim_semantic_join_profile_job_def)
next
  case st: False
  obtain target where tg: "sj_execution_target j = Some target"
    using profile_live_target [OF v st] by blast
  show ?thesis
  proof (cases "sj_status j = S_LEASED \<or> sj_connector_contract_version j = None
      \<or> t \<le> sj_updated_at j")
    case True
    then consider "sj_connector_contract_version j = None"
      | "sj_connector_contract_version j \<noteq> None" "t \<le> sj_updated_at j"
      | "sj_connector_contract_version j \<noteq> None" "\<not> t \<le> sj_updated_at j" "sj_status j = S_LEASED"
      by argo
    then show ?thesis using st tg by cases (simp_all add: claim_semantic_join_profile_job_def)
  next
    case False
    then have s: "sj_status j \<in> {S_REQUESTED, S_RETRY_WAIT}"
      using st by (cases "sj_status j") simp_all
    have free: "sj_lease j = None" using v s by (auto simp: profile_valid_by_status)
    have bad: "\<not> is_named_id w \<Longrightarrow> \<not> profile_lease_valid (profile_claim_lease j w cap t e)"
      by (simp add: profile_lease_valid_def profile_claim_lease_def)
    have good: "profile_lease_valid (profile_claim_lease j w cap t e)
        \<and> profile_job_valid (profile_claimed j (profile_claim_lease j w cap t e))"
      if "t < e" "e - t \<le> PROFILE_MAX_LEASE_DURATION" "is_named_id w"
      using profile_claim_valid [OF v s _ _ that] False by simp
    obtain ver where ver: "sj_connector_contract_version j = Some ver" using False by auto
    show ?thesis
      using False ver s st tg free bad good profile_waiting_attempts [OF v s]
      by (simp add: claim_semantic_join_profile_job_def capability_digest_eq construct_model_def
          replace_profile_job_def profile_claimed_def profile_claim_lease_def not_le not_less
          del: profile_status_is_terminal.simps)
  qed
qed


definition profile_renewed :: "profile_job \<Rightarrow> profile_lease \<Rightarrow> instant \<Rightarrow> instant \<Rightarrow> profile_job" where
  "profile_renewed j l t e =
     j\<lparr>sj_updated_at := t, sj_lease := Some (l\<lparr>sl_heartbeat_at := t, sl_expires_at := e\<rparr>)\<rparr>"

lemma profile_heartbeat_eq:
  assumes v: "profile_job_valid j"
  shows "heartbeat_semantic_join_profile_job j w cap fence (Aware t) (Aware e) =
    (if t \<le> sj_updated_at j then Inl (Transition SE_TEMPORAL_CONFLICT)
     else bindE (require_active_profile_lease j w cap fence (Aware t)) (\<lambda>l.
       if e \<le> sl_expires_at l \<or> e - t > PROFILE_MAX_LEASE_DURATION
       then Inl (Transition SE_TEMPORAL_CONFLICT) else Inr (profile_renewed j l t e)))"
proof (cases "require_active_profile_lease j w cap fence (Aware t)")
  case (Inl x)
  then show ?thesis by (simp add: heartbeat_semantic_join_profile_job_def)
next
  case (Inr l)
  then have h: "profile_holds j w cap fence t l" by (simp add: require_active_profile_lease_eq_Inr)
  note b = profile_holds_bound [OF v h] and c = profile_valid_common [OF v]
  have t: "t < sl_expires_at l" "sl_acquired_at l \<le> t" and st: "sj_status j = S_LEASED"
    using h by (simp_all add: profile_holds_def profile_lease_is_current_def)
  let ?l = "l\<lparr>sl_heartbeat_at := t, sl_expires_at := e\<rparr>"
  have l: "profile_lease_valid ?l"
    if "sl_expires_at l < e" "e - t \<le> PROFILE_MAX_LEASE_DURATION"
    using b that t by (auto simp: profile_lease_bound_def profile_lease_valid_def)
  have k: "profile_job_valid (profile_renewed j l t e)"
    if "sl_expires_at l < e" "e - t \<le> PROFILE_MAX_LEASE_DURATION" "sj_updated_at j < t"
    using b c l [OF that(1,2)] that st
    by (auto simp: profile_renewed_def profile_valid_leased profile_clock_valid_def
        profile_lease_bound_def profile_open_def profile_route_pinned_def profile_route_bound_def)
  show ?thesis
    using Inr l k t st
    by (auto simp: heartbeat_semantic_join_profile_job_def construct_model_def
        replace_profile_job_def profile_renewed_def not_le not_less)
qed

text \<open>Closing and rescheduling updates of a leased job.\<close>

definition profile_ended ::
  "profile_job \<Rightarrow> profile_job_status \<Rightarrow> instant \<Rightarrow> instant \<Rightarrow> profile_failure option \<Rightarrow>
   profile_result option \<Rightarrow> profile_job" where
  "profile_ended j s t r f x =
     j\<lparr>sj_status := s, sj_available_at := t, sj_updated_at := t, sj_lease := None,
       sj_failure := f, sj_result := x, sj_completed_at := Some t, sj_retain_until := Some r\<rparr>"

definition profile_retrying :: "profile_job \<Rightarrow> instant \<Rightarrow> instant \<Rightarrow> profile_failure \<Rightarrow> profile_job" where
  "profile_retrying j t due f =
     j\<lparr>sj_status := S_RETRY_WAIT, sj_available_at := due, sj_updated_at := t, sj_lease := None,
       sj_failure := Some f\<rparr>"

definition profile_disposition :: "profile_failure_code \<Rightarrow> int \<Rightarrow> int \<Rightarrow> profile_failure_disposition" where
  "profile_disposition c n m = (if c \<in> RETRYABLE_FAILURES \<and> n < m then SD_RETRY else SD_FAIL)"

definition profile_failure_of :: "profile_job \<Rightarrow> profile_failure_code \<Rightarrow> instant \<Rightarrow> profile_failure" where
  "profile_failure_of j c t =
     \<lparr>sf_code = c, sf_disposition = profile_disposition c (sj_attempts j) (sj_max_attempts j),
      sf_attempt = sj_attempts j, sf_occurred_at = t\<rparr>"

text \<open>A valid leased job: what the closing transitions may rely on.\<close>

lemma profile_leased_facts:
  assumes "profile_job_valid j" and "sj_status j = S_LEASED"
  shows "1 \<le> sj_attempts j" and "sj_attempts j \<le> sj_max_attempts j" and "sj_max_attempts j \<le> 100"
    and "profile_route_pinned j" and "profile_open j" and "\<exists>l. sj_lease j = Some l"
    and "sj_requested_at j \<le> sj_updated_at j"
  using assms by (auto simp: profile_valid_leased profile_clock_valid_def profile_envelope_valid_def)

lemma profile_classify_eq:
  assumes "profile_job_valid j" and "sj_status j = S_LEASED"
  shows "classify_semantic_join_profile_failure c (sj_attempts j) (sj_max_attempts j) =
    Inr (profile_disposition c (sj_attempts j) (sj_max_attempts j))"
    and "profile_failure_valid (profile_failure_of j c t)"
  using profile_leased_facts [OF assms]
  by (simp_all add: classify_semantic_join_profile_failure_def profile_disposition_def
      profile_failure_valid_def profile_failure_of_def)

lemma profile_retrying_valid:
  assumes v: "profile_job_valid j" and st: "sj_status j = S_LEASED"
    and t: "sj_updated_at j < t" "t \<le> due"
    and d: "profile_disposition c (sj_attempts j) (sj_max_attempts j) = SD_RETRY"
  shows "profile_job_valid (profile_retrying j t due (profile_failure_of j c t))"
  using profile_leased_facts [OF v st] profile_valid_common [OF v] profile_classify_eq [OF v st] t d
  by (auto simp: profile_retrying_def profile_valid_retry_wait profile_clock_valid_def
      profile_failure_bound_def profile_failure_of_def profile_failure_valid_def profile_open_def
      profile_route_pinned_def
      profile_route_bound_def)

lemma profile_failed_valid:
  assumes v: "profile_job_valid j" and st: "sj_status j = S_LEASED"
    and t: "sj_updated_at j < t" "t \<le> r" "r - t \<le> MAX_RETENTION"
    and d: "profile_disposition c (sj_attempts j) (sj_max_attempts j) = SD_FAIL"
  shows "profile_job_valid (profile_ended j S_FAILED t r (Some (profile_failure_of j c t)) None)"
  using profile_leased_facts [OF v st] profile_valid_common [OF v] profile_classify_eq [OF v st] t d
  by (auto simp: profile_ended_def profile_valid_failed profile_clock_valid_def
      profile_failure_bound_def profile_failure_of_def profile_failure_valid_def profile_closed_def
      profile_route_pinned_def
      profile_route_bound_def)

lemma profile_completed_valid:
  assumes v: "profile_job_valid j" and st: "sj_status j = S_LEASED"
    and t: "sj_updated_at j < t" "t \<le> r" "r - t \<le> MAX_RETENTION"
    and x: "profile_result_valid x" "sr_completed_at x = t"
  shows "profile_job_valid (profile_ended j S_COMPLETED t r None (Some x))"
  using profile_leased_facts [OF v st] profile_valid_common [OF v] t x
  by (auto simp: profile_ended_def profile_valid_completed profile_clock_valid_def
      profile_closed_def profile_route_pinned_def profile_route_bound_def)

text \<open>The result boundary: a dumped profile never carries a protected key.\<close>

lemma protected_key_names:
  "list_all (\<lambda>k. \<not> protected_key k)
     [''left_row_count'', ''right_row_count'', ''left_null_count'', ''right_null_count'',
      ''left_invalid_count'', ''right_invalid_count'', ''left_distinct_valid'',
      ''right_distinct_valid'', ''matching_distinct_keys'', ''left_max_multiplicity'',
      ''right_max_multiplicity'', ''declared_relationship'', ''reader_user'',
      ''transaction_read_only'', ''statement_timeout_ms'', ''operation'', ''pattern'', ''length'',
      ''fill_character'', ''format'', ''scale'', ''version'', ''steps'', ''logical_field'',
      ''physical_field'', ''transformation_plan'', ''id'', ''left_key'', ''right_key'',
      ''default_join_type'', ''connection_id'', ''proposal'']"
  by code_simp

lemmas unprotected_keys [simp] = protected_key_names [simplified]

lemma profile_json_value_free: "no_protected_keys (profile_json p)"
  by (simp add: profile_json_def optional_json_def split: option.split)

definition profile_result_of :: "relationship_profile \<Rightarrow> instant \<Rightarrow> profile_result" where
  "profile_result_of p t =
     \<lparr>sr_profile = p, sr_fingerprint = sha256_text (canonical_json (profile_json p)),
      sr_completed_at = t\<rparr>"

definition result_fits :: "relationship_profile \<Rightarrow> bool" where
  "result_fits p \<longleftrightarrow> length (utf8_bytes (canonical_json (profile_json p))) \<le> MAX_RESULT_BYTES"

lemma result_fingerprint_eq:
  "semantic_join_profile_result_fingerprint p =
     (if \<not> relationship_profile_valid p then Inl ValidationError
      else if \<not> result_fits p then Inl ValueError
      else Inr (sha256_text (canonical_json (profile_json p))))"
  by (simp add: semantic_join_profile_result_fingerprint_def construct_model_def
      validate_semantic_join_profile_result_def profile_json_value_free result_fits_def)

lemma create_profile_result_eq:
  "create_profile_result p t =
     (if \<not> relationship_profile_valid p then Inl ValidationError
      else if \<not> result_fits p then Inl ValueError else Inr (profile_result_of p t))"
  by (simp add: create_profile_result_def result_fingerprint_eq construct_model_def result_fits_def
      validate_semantic_join_profile_result_def profile_json_value_free profile_result_of_def
      profile_result_valid_def)

lemma profile_result_of_valid:
  "relationship_profile_valid p \<Longrightarrow> result_fits p \<Longrightarrow> profile_result_valid (profile_result_of p t)"
  by (simp add: profile_result_valid_def profile_result_of_def result_fingerprint_eq)

text \<open>A retention date the code accepts.\<close>

definition retention_ok :: "instant \<Rightarrow> instant \<Rightarrow> bool" where
  "retention_ok t r \<longleftrightarrow> t \<le> r \<and> r - t \<le> MAX_RETENTION"

lemma retention_time_Aware [simp]:
  "retention_time t (Aware r) =
     (if retention_ok t r then Inr r else Inl (Transition SE_TEMPORAL_CONFLICT))"
  "retention_time t (Naive n) = Inl ValueError"
  by (auto simp: retention_time_def retention_ok_def)

lemma profile_complete_eq:
  assumes v: "profile_job_valid j"
  shows "complete_semantic_join_profile_job j w cap fence p (Aware t) (Aware r) =
    (if t \<le> sj_updated_at j then Inl (Transition SE_TEMPORAL_CONFLICT)
     else bindE (require_active_profile_lease j w cap fence (Aware t)) (\<lambda>_.
       if \<not> retention_ok t r then Inl (Transition SE_TEMPORAL_CONFLICT)
       else if \<not> relationship_profile_valid p then Inl ValidationError
       else if \<not> result_fits p then Inl ValueError
       else Inr (profile_ended j S_COMPLETED t r None (Some (profile_result_of p t)))))"
proof (cases "require_active_profile_lease j w cap fence (Aware t)")
  case (Inl x)
  then show ?thesis by (simp add: complete_semantic_join_profile_job_def)
next
  case (Inr l)
  then have st: "sj_status j = S_LEASED"
    by (simp add: require_active_profile_lease_eq_Inr profile_holds_def)
  have "profile_job_valid (profile_ended j S_COMPLETED t r None (Some (profile_result_of p t)))"
    if "sj_updated_at j < t" "retention_ok t r" "relationship_profile_valid p" "result_fits p"
    using that profile_completed_valid [OF v st, of t r "profile_result_of p t"]
    by (simp add: retention_ok_def profile_result_of_valid) (simp add: profile_result_of_def)
  then show ?thesis
    using Inr st
    by (simp add: complete_semantic_join_profile_job_def create_profile_result_eq
        replace_profile_job_def construct_model_def profile_ended_def not_le)
qed

lemma profile_ended_without_result:
  "sj_result j = None \<Longrightarrow> profile_ended j s t r f None =
     j\<lparr>sj_status := s, sj_available_at := t, sj_updated_at := t, sj_lease := None,
       sj_failure := f, sj_completed_at := Some t, sj_retain_until := Some r\<rparr>"
  by (cases j) (simp add: profile_ended_def)

text \<open>How a leased job ends or is rescheduled after a failure.\<close>

definition profile_failing ::
  "profile_job \<Rightarrow> profile_failure_code \<Rightarrow> instant \<Rightarrow> instant option \<Rightarrow> instant option \<Rightarrow>
   profile_job profile_outcome" where
  "profile_failing j c t retry until =
     (case (profile_disposition c (sj_attempts j) (sj_max_attempts j), retry, until) of
        (SD_RETRY, Some due, None) \<Rightarrow>
          if due \<le> t then Inl (Transition SE_TEMPORAL_CONFLICT)
          else Inr (profile_retrying j t due (profile_failure_of j c t))
      | (SD_FAIL, None, Some r) \<Rightarrow>
          if \<not> retention_ok t r then Inl (Transition SE_TEMPORAL_CONFLICT)
          else Inr (profile_ended j S_FAILED t r (Some (profile_failure_of j c t)) None)
      | _ \<Rightarrow> Inl (Transition SE_TEMPORAL_CONFLICT))"

lemma profile_fail_eq:
  assumes v: "profile_job_valid j"
  shows "fail_semantic_join_profile_job j w cap fence c (Aware t) (map_option Aware retry)
      (map_option Aware until) =
    (if t \<le> sj_updated_at j then Inl (Transition SE_TEMPORAL_CONFLICT)
     else bindE (require_active_profile_lease j w cap fence (Aware t)) (\<lambda>_.
       profile_failing j c t retry until))"
proof (cases "require_active_profile_lease j w cap fence (Aware t)")
  case (Inl x)
  then show ?thesis by (simp add: fail_semantic_join_profile_job_def)
next
  case (Inr l)
  then have st: "sj_status j = S_LEASED"
    by (simp add: require_active_profile_lease_eq_Inr profile_holds_def)
  note cl = profile_classify_eq [OF v st] and n = profile_leased_facts(1-3) [OF v st] and open_ = profile_leased_facts(5) [OF v st]
  have res: "sj_result j = None" using open_ by (simp add: profile_open_def)
  show ?thesis
  proof (cases "profile_disposition c (sj_attempts j) (sj_max_attempts j)")
    case SD_RETRY
    then show ?thesis
      using Inr st cl(1) n profile_retrying_valid [OF v st _ _ SD_RETRY, of t]
      by (cases retry; cases until)
        (auto simp: fail_semantic_join_profile_job_def profile_failing_def construct_model_def
          replace_profile_job_def profile_failure_valid_def profile_failure_of_def profile_retrying_def not_le)
  next
    case SD_FAIL
    then show ?thesis
      using Inr st cl(1) n res profile_failed_valid [OF v st _ _ _ SD_FAIL, of t]
      by (cases retry; cases until)
        (auto simp: fail_semantic_join_profile_job_def profile_failing_def construct_model_def
          replace_profile_job_def profile_failure_valid_def profile_failure_of_def profile_ended_without_result [OF res] not_le retention_ok_def)
  qed
qed

lemma profile_reclaim_eq:
  assumes v: "profile_job_valid j"
  shows "reclaim_expired_semantic_join_profile_job j (Aware t) (map_option Aware until) =
    (if t \<le> sj_updated_at j then Inl (Transition SE_TEMPORAL_CONFLICT)
     else case sj_lease j of None \<Rightarrow> Inl (Transition SE_INVALID_STATE)
     | Some l \<Rightarrow>
       if t < sl_expires_at l then Inl (Transition SE_LEASE_EXPIRED)
       else if sj_attempts j < sj_max_attempts j then
         (if until \<noteq> None then Inl (Transition SE_TEMPORAL_CONFLICT)
          else Inr (profile_retrying j t
            (t + seconds (backoff_seconds PROFILE_INITIAL_RETRY_DELAY_SECONDS
              PROFILE_MAX_RETRY_DELAY_SECONDS (sj_attempts j))) (profile_failure_of j SF_LEASE_EXPIRED t)))
       else profile_failing j SF_LEASE_EXPIRED t None until)"
proof (cases "sj_lease j")
  case None
  then show ?thesis by (simp add: reclaim_expired_semantic_join_profile_job_def)
next
  case (Some l)
  then have st: "sj_status j = S_LEASED"
    using v by (cases "sj_status j") (simp_all add: profile_valid_by_status)
  note cl = profile_classify_eq [OF v st] and n = profile_leased_facts(1-3) [OF v st]
  have res: "sj_result j = None"
    using profile_leased_facts(5) [OF v st] by (simp add: profile_open_def)
  have delay: "semantic_join_profile_retry_delay (sj_attempts j) =
      Inr (seconds (backoff_seconds PROFILE_INITIAL_RETRY_DELAY_SECONDS
        PROFILE_MAX_RETRY_DELAY_SECONDS (sj_attempts j)))"
    using n by (simp add: semantic_join_profile_retry_delay_def backoff_seconds_def)
  show ?thesis
  proof (cases "sj_attempts j < sj_max_attempts j")
    case True
    then have d: "profile_disposition SF_LEASE_EXPIRED (sj_attempts j) (sj_max_attempts j) = SD_RETRY"
      by (simp add: profile_disposition_def RETRYABLE_FAILURES_def)
    have "0 \<le> seconds (backoff_seconds PROFILE_INITIAL_RETRY_DELAY_SECONDS
        PROFILE_MAX_RETRY_DELAY_SECONDS (sj_attempts j))"
      by (simp add: backoff_seconds_def profile_constants)
    then show ?thesis
      using Some st cl(1) n d delay True profile_retrying_valid [OF v st _ _ d, of t]
      by (auto simp: reclaim_expired_semantic_join_profile_job_def construct_model_def
          replace_profile_job_def profile_failure_valid_def profile_failure_of_def profile_retrying_def not_le)
  next
    case False
    then have d: "profile_disposition SF_LEASE_EXPIRED (sj_attempts j) (sj_max_attempts j) = SD_FAIL"
      by (simp add: profile_disposition_def)
    show ?thesis
      using Some st cl(1) n res d False profile_failed_valid [OF v st _ _ _ d, of t]
      by (cases until)
        (auto simp: reclaim_expired_semantic_join_profile_job_def profile_failing_def construct_model_def
          replace_profile_job_def profile_failure_valid_def profile_failure_of_def profile_ended_without_result [OF res] not_le retention_ok_def)
  qed
qed

section \<open>Commands and runs\<close>

datatype profile_command =
    PClaim string string datetime datetime
  | PHeartbeat string string int datetime datetime
  | PComplete string string int relationship_profile datetime datetime
  | PFail string string int profile_failure_code datetime "datetime option" "datetime option"
  | PReclaim datetime "datetime option"

fun run_profile_command :: "profile_command \<Rightarrow> profile_job \<Rightarrow> profile_job profile_outcome" where
  "run_profile_command (PClaim w cap t e) j = claim_semantic_join_profile_job j w cap t e"
| "run_profile_command (PHeartbeat w cap f t e) j = heartbeat_semantic_join_profile_job j w cap f t e"
| "run_profile_command (PComplete w cap f p t r) j = complete_semantic_join_profile_job j w cap f p t r"
| "run_profile_command (PFail w cap f c t u r) j = fail_semantic_join_profile_job j w cap f c t u r"
| "run_profile_command (PReclaim t r) j = reclaim_expired_semantic_join_profile_job j t r"

fun is_profile_claim :: "profile_command \<Rightarrow> bool" where
  "is_profile_claim (PClaim w cap t e) \<longleftrightarrow> True"
| "is_profile_claim c \<longleftrightarrow> False"

fun profile_token :: "profile_command \<Rightarrow> int option" where
  "profile_token (PHeartbeat w cap f t e) = Some f"
| "profile_token (PComplete w cap f p t r) = Some f"
| "profile_token (PFail w cap f c t u r) = Some f"
| "profile_token c = None"

text \<open>What any other transition than a claim does to the delivery account, and to the clock.\<close>

definition profile_moves :: "profile_job \<Rightarrow> profile_job \<Rightarrow> bool" where
  "profile_moves j k \<longleftrightarrow>
     profile_job_valid k \<and> \<not> profile_terminal j \<and> sj_attempts k = sj_attempts j
     \<and> sj_max_attempts k = sj_max_attempts j \<and> sj_updated_at j < sj_updated_at k
     \<and> sj_proposal_fingerprint k = sj_proposal_fingerprint j \<and> sj_job_id k = sj_job_id j"

lemma returns_replace_profile_job [returns_intros]:
  "(\<not> profile_terminal j \<Longrightarrow> profile_job_valid k \<Longrightarrow> P k) \<Longrightarrow> returns P (replace_profile_job j k)"
  by (simp add: returns_def replace_profile_job_def construct_model_eq_Inr)

lemma returns_profile_disposition [returns_intros]:
  "returns P (classify_semantic_join_profile_failure c n m)" if "P SD_RETRY" "P SD_FAIL"
  using that by (simp add: returns_def classify_semantic_join_profile_failure_def)

lemma profile_command_moves:
  "returns (profile_moves j) (heartbeat_semantic_join_profile_job j w cap f t e)"
  "returns (profile_moves j) (complete_semantic_join_profile_job j w cap f p t r)"
  "returns (profile_moves j) (fail_semantic_join_profile_job j w cap f c t u q)"
  "returns (profile_moves j) (reclaim_expired_semantic_join_profile_job j t q)"
  unfolding heartbeat_semantic_join_profile_job_def complete_semantic_join_profile_job_def
    fail_semantic_join_profile_job_def reclaim_expired_semantic_join_profile_job_def
  by (intro returns_intros; auto simp: transition_time_eq_Inr profile_moves_def)+

definition profile_claim :: "profile_job \<Rightarrow> profile_job \<Rightarrow> bool" where
  "profile_claim j k \<longleftrightarrow> (\<exists>w cap t e. claim_semantic_join_profile_job j w cap t e = Inr k)"

definition profile_progress :: "profile_job \<Rightarrow> profile_job \<Rightarrow> bool" where
  "profile_progress j k \<longleftrightarrow> (\<exists>c. \<not> is_profile_claim c \<and> run_profile_command c j = Inr k)"

definition profile_accepts :: "profile_job \<Rightarrow> int \<Rightarrow> bool" where
  "profile_accepts j f \<longleftrightarrow> (\<exists>c k. profile_token c = Some f \<and> run_profile_command c j = Inr k)"

lemma profile_progress_moves: "profile_progress j k \<Longrightarrow> profile_moves j k"
  unfolding profile_progress_def
  by (elim exE conjE, rename_tac c, case_tac c)
    (auto dest: profile_command_moves [THEN returnsD])

lemma claim_profile_returns:
  "returns (\<lambda>k. \<exists>x y. t = Aware x \<and> e = Aware y) (claim_semantic_join_profile_job j w cap t e)"
  unfolding claim_semantic_join_profile_job_def
  by (intro returns_intros) (cases t; cases e; auto simp: transition_time_eq_Inr)+

lemma profile_claim_step:
  assumes v: "profile_job_valid j" and c: "claim_semantic_join_profile_job j w cap ca le = Inr k"
  obtains t e where "ca = Aware t" "le = Aware e" "k = profile_claimed j (profile_claim_lease j w cap t e)"
    "profile_job_valid k" "sj_status j \<in> {S_REQUESTED, S_RETRY_WAIT}" "sj_updated_at j < t"
    "sj_available_at j \<le> t" "t < e" "e - t \<le> PROFILE_MAX_LEASE_DURATION"
    "sj_attempts j < sj_max_attempts j"
proof -
  obtain t e where te: "ca = Aware t" "le = Aware e" using claim_profile_returns [THEN returnsD, OF c] by blast
  note eq = c [unfolded te profile_claim_eq [OF v]]
  have facts: "\<not> profile_terminal j" "sj_connector_contract_version j \<noteq> None" "sj_updated_at j < t"
    "sj_status j \<noteq> S_LEASED" "sj_available_at j \<le> t" "t < e" "e - t \<le> PROFILE_MAX_LEASE_DURATION"
    "is_named_id w" "k = profile_claimed j (profile_claim_lease j w cap t e)"
    using eq by (simp_all split: if_splits del: profile_status_is_terminal.simps)
  have s: "sj_status j \<in> {S_REQUESTED, S_RETRY_WAIT}" using facts(1,4) by (cases "sj_status j") simp_all
  show thesis
    using that [OF te facts(9) _ s facts(3,5,6,7) profile_waiting_attempts [OF v s]]
      profile_claim_valid(2) [OF v s facts(2,3,6,7,8)] facts(9) by simp
qed

lemma profile_claim_account:
  assumes "profile_job_valid j" and "profile_claim j k"
  shows "profile_job_valid k" and "\<not> profile_terminal j" and "sj_attempts k = sj_attempts j + 1"
    and "sj_max_attempts k = sj_max_attempts j" and "sj_updated_at j < sj_updated_at k"
    and "sj_status j \<noteq> S_LEASED"
proof -
  obtain w cap ca le where "claim_semantic_join_profile_job j w cap ca le = Inr k"
    using assms(2) by (auto simp: profile_claim_def)
  then obtain t e where *: "k = profile_claimed j (profile_claim_lease j w cap t e)"
    "profile_job_valid k" "sj_status j \<in> {S_REQUESTED, S_RETRY_WAIT}" "sj_updated_at j < t"
    by (rule profile_claim_step [OF assms(1)])
  show "profile_job_valid k" by fact
  show "\<not> profile_terminal j" "sj_status j \<noteq> S_LEASED" using *(3) by auto
  show "sj_attempts k = sj_attempts j + 1" "sj_max_attempts k = sj_max_attempts j"
    "sj_updated_at j < sj_updated_at k"
    using *(4) by (simp_all add: *(1) profile_claimed_def profile_claim_lease_def)
qed

definition profile_held :: "profile_job \<Rightarrow> int \<Rightarrow> bool" where
  "profile_held j f \<longleftrightarrow> (\<exists>w cap x l. profile_holds j w cap f x l)"

lemma profile_write_needs_lease:
  "returns (\<lambda>k. profile_held j f) (heartbeat_semantic_join_profile_job j w cap f t e)"
  "returns (\<lambda>k. profile_held j f) (complete_semantic_join_profile_job j w cap f p t r)"
  "returns (\<lambda>k. profile_held j f) (fail_semantic_join_profile_job j w cap f c t u q)"
  unfolding heartbeat_semantic_join_profile_job_def complete_semantic_join_profile_job_def
    fail_semantic_join_profile_job_def
  by (intro returns_intros; auto simp: require_active_profile_lease_eq_Inr profile_held_def)+

lemma profile_accepts_fence:
  assumes "profile_job_valid j" and "profile_accepts j f"
  shows "f = sj_attempts j"
proof -
  obtain c k where "profile_token c = Some f" "run_profile_command c j = Inr k"
    using assms(2) by (auto simp: profile_accepts_def)
  then have "profile_held j f"
    by (cases c) (auto dest: profile_write_needs_lease [THEN returnsD])
  then show ?thesis using profile_holds_bound(2) [OF assms(1)] by (auto simp: profile_held_def)
qed

lemma profile_fence_account: "profile_job_valid j \<Longrightarrow> sj_fencing_token j = sj_attempts j"
  using profile_valid_common by (simp add: profile_clock_valid_def)

interpretation profile_leases: fenced_lease profile_job_valid profile_claim profile_progress
  sj_fencing_token sj_max_attempts profile_accepts profile_terminal
proof
  fix j k t
  assume v: "profile_job_valid j"
  show "0 \<le> sj_fencing_token j \<and> sj_fencing_token j \<le> sj_max_attempts j"
    using profile_valid_common [OF v] by (simp add: profile_clock_valid_def)
  show "t = sj_fencing_token j" if "profile_accepts j t"
    using profile_accepts_fence [OF v that] profile_fence_account [OF v] by simp
  show "profile_job_valid k" "sj_max_attempts k = sj_max_attempts j" if "profile_progress j k"
    using profile_progress_moves [OF that] by (simp_all add: profile_moves_def)
  show "sj_fencing_token k = sj_fencing_token j" if "profile_progress j k"
    using profile_progress_moves [OF that] v by (simp add: profile_moves_def profile_fence_account)
  show "profile_job_valid k" "sj_max_attempts k = sj_max_attempts j" if "profile_claim j k"
    by (fact profile_claim_account [OF v that])+
  show "sj_fencing_token k = sj_fencing_token j + 1" if "profile_claim j k"
    using profile_claim_account [OF v that] v by (simp add: profile_fence_account)
  show "\<not> profile_claim j k" if "profile_terminal j"
    using profile_claim_account(2) [OF v] that by blast
  show "k = j" if "profile_terminal j" "profile_progress j k"
    using profile_progress_moves [OF that(2)] that(1) by (simp add: profile_moves_def)
qed

interpretation profile_backoff: capped_backoff semantic_join_profile_retry_delay
  PROFILE_INITIAL_RETRY_DELAY_SECONDS PROFILE_MAX_RETRY_DELAY_SECONDS "\<lambda>n. 1 \<le> n \<and> n \<le> 100"
  by unfold_locales
    (auto simp: semantic_join_profile_retry_delay_def backoff_seconds_def profile_constants)

section \<open>Properties\<close>

fun malformed_profile_command :: "profile_command \<Rightarrow> bool" where
  "malformed_profile_command (PClaim w cap t e) \<longleftrightarrow> \<not> is_named_id w"
| "malformed_profile_command (PComplete w cap f p t r) \<longleftrightarrow> \<not> relationship_profile_valid p"
| "malformed_profile_command c \<longleftrightarrow> False"

lemma profile_lease_check_no_crash [fails_intros]:
  "fails (\<lambda>e. \<not> crash e) (require_active_profile_lease j w cap f t)"
  unfolding require_active_profile_lease_def digest_semantic_join_profile_capability_def
  by (intro fails_intros) simp_all

lemma profile_claim_no_crash:
  assumes "profile_job_valid j" and "is_named_id w"
  shows "fails (\<lambda>e. \<not> crash e) (claim_semantic_join_profile_job j w cap t e)"
proof (cases "\<exists>x y. t = Aware x \<and> e = Aware y")
  case True
  then obtain x y where "t = Aware x" "e = Aware y" by blast
  then show ?thesis
    using assms(2) by (simp only: profile_claim_eq [OF assms(1)]) (intro fails_intros; simp)
next
  case False
  then show ?thesis
    by (cases t; cases e) (auto simp: claim_semantic_join_profile_job_def fails_def)
qed

lemma profile_heartbeat_no_crash:
  assumes "profile_job_valid j"
  shows "fails (\<lambda>e. \<not> crash e) (heartbeat_semantic_join_profile_job j w cap f t e)"
proof (cases "\<exists>x y. t = Aware x \<and> e = Aware y")
  case True
  then obtain x y where "t = Aware x" "e = Aware y" by blast
  then show ?thesis by (simp only: profile_heartbeat_eq [OF assms]) (intro fails_intros; simp)
next
  case False
  have "fails (\<lambda>e. \<not> crash e) (require_active_profile_lease j w cap f t)" by (intro fails_intros)
  with False show ?thesis
    by (cases t; cases e)
      (auto simp: heartbeat_semantic_join_profile_job_def fails_def bindE_eq_Inl split: if_splits)
qed

lemma profile_complete_no_crash:
  assumes "profile_job_valid j" and "relationship_profile_valid p"
  shows "fails (\<lambda>e. \<not> crash e) (complete_semantic_join_profile_job j w cap f p t r)"
proof (cases "\<exists>x y. t = Aware x \<and> r = Aware y")
  case True
  then obtain x y where "t = Aware x" "r = Aware y" by blast
  then show ?thesis
    using assms(2) by (simp only: profile_complete_eq [OF assms(1)]) (intro fails_intros; simp)
next
  case False
  have "fails (\<lambda>e. \<not> crash e) (require_active_profile_lease j w cap f t)" by (intro fails_intros)
  with False show ?thesis
    by (cases t; cases r)
      (auto simp: complete_semantic_join_profile_job_def fails_def bindE_eq_Inl split: if_splits)
qed

lemma profile_failing_no_crash [fails_intros]:
  "fails (\<lambda>e. \<not> crash e) (profile_failing j c t u r)"
  by (cases "profile_disposition c (sj_attempts j) (sj_max_attempts j)"; cases u; cases r)
    (auto simp: profile_failing_def fails_def)

lemma datetime_option_cases:
  obtains "d = map_option Aware None" | x where "d = map_option Aware (Some x)"
  | n where "d = Some (Naive n)"
proof (cases d)
  case (Some a)
  then show ?thesis using that by (cases a) simp_all
qed (use that in simp)

lemma profile_fail_no_crash:
  assumes v: "profile_job_valid j"
  shows "fails (\<lambda>e. \<not> crash e) (fail_semantic_join_profile_job j w cap f c t u r)"
proof (cases t)
  case (Aware x)
  have aware: "fails (\<lambda>e. \<not> crash e) (fail_semantic_join_profile_job j w cap f c (Aware x)
      (map_option Aware a) (map_option Aware b))" for a b
    by (simp only: profile_fail_eq [OF v]) (intro fails_intros; simp)
  have naive: "fails (\<lambda>e. \<not> crash e) (fail_semantic_join_profile_job j w cap f c (Aware x) u r)"
    if "u = Some (Naive n) \<or> r = Some (Naive n)" for n
  proof (cases "require_active_profile_lease j w cap f (Aware x)")
    case (Inl e)
    have "fails (\<lambda>e. \<not> crash e) (require_active_profile_lease j w cap f (Aware x))"
      by (intro fails_intros)
    with Inl show ?thesis by (simp add: fail_semantic_join_profile_job_def fails_def)
  next
    case (Inr l)
    then have st: "sj_status j = S_LEASED"
      by (simp add: require_active_profile_lease_eq_Inr profile_holds_def)
    show ?thesis
      using that Inr profile_classify_eq(1) [OF v st] profile_leased_facts(1-3) [OF v st]
      by (cases "profile_disposition c (sj_attempts j) (sj_max_attempts j)")
        (auto simp: fail_semantic_join_profile_job_def fails_def construct_model_def
          profile_failure_valid_def split: option.splits)
  qed
  show ?thesis
    unfolding Aware
    by (cases u rule: datetime_option_cases; cases r rule: datetime_option_cases)
      (use aware naive in blast)+
qed (simp add: fail_semantic_join_profile_job_def fails_def)

lemma profile_reclaim_no_crash:
  assumes v: "profile_job_valid j"
  shows "fails (\<lambda>e. \<not> crash e) (reclaim_expired_semantic_join_profile_job j t r)"
proof (cases t)
  case (Aware x)
  have aware: "fails (\<lambda>e. \<not> crash e)
      (reclaim_expired_semantic_join_profile_job j (Aware x) (map_option Aware b))" for b
    by (simp only: profile_reclaim_eq [OF v]) (intro fails_intros; simp)
  have naive: "fails (\<lambda>e. \<not> crash e) (reclaim_expired_semantic_join_profile_job j (Aware x) r)"
    if "r = Some (Naive n)" for n
  proof (cases "sj_status j = S_LEASED")
    case True
    then show ?thesis
      using that profile_classify_eq(1) [OF v True] profile_leased_facts(1-3) [OF v True]
      by (cases "profile_disposition SF_LEASE_EXPIRED (sj_attempts j) (sj_max_attempts j)")
        (auto simp: reclaim_expired_semantic_join_profile_job_def fails_def construct_model_def
          profile_failure_valid_def split: option.splits)
  qed (auto simp: reclaim_expired_semantic_join_profile_job_def fails_def split: option.splits)
  show ?thesis
    unfolding Aware by (cases r rule: datetime_option_cases) (use aware naive in blast)+
qed (simp add: reclaim_expired_semantic_join_profile_job_def fails_def)

text \<open>No transition of a valid profiling job crashes: with a well-formed worker and
  a valid profile every refusal is a typed transition error or the \<open>ValueError\<close> of a malformed
  capability, timestamp or oversized result.\<close>

lemma profile_commands_never_crash:
  assumes "profile_job_valid j" and "\<not> malformed_profile_command c"
    and "run_profile_command c j = Inl e"
  shows "\<not> crash e"
proof -
  have "fails (\<lambda>e. \<not> crash e) (run_profile_command c j)"
    using assms(1,2) profile_claim_no_crash profile_heartbeat_no_crash profile_complete_no_crash
      profile_fail_no_crash profile_reclaim_no_crash
    by (cases c) (simp_all del: crash.simps)
  then show ?thesis using assms(3) by (rule failsD)
qed

lemma requested_profile_job_created:
  assumes "requested_profile_job ws scan p tg t m v = Inr j"
  shows "profile_job_valid j" and "sj_attempts j = 0" and "sj_max_attempts j = m"
    and "sj_status j = S_REQUESTED" and "sj_connector_contract_version j = v"
    and "Aware (sj_updated_at j) = t"
  using assms
  by (cases t; auto simp: requested_profile_job_def bindE_eq_Inr construct_model_eq_Inr
      split: if_splits)+

text \<open>The delivery account of a profiling job: in every run from a requested job the
  stored job is valid, its attempts and its fence equal the number of deliveries made, that
  number stays within the requested maximum of at most a hundred, and the profile a completed job
  carries is a valid one with its own fingerprint.\<close>

lemma profile_run_account:
  assumes "requested_profile_job ws scan p tg t m v = Inr j"
    and "lease_run profile_claim profile_progress j n k"
  shows "profile_job_valid k \<and> sj_attempts k = int n \<and> sj_fencing_token k = int n \<and> int n \<le> m
    \<and> m \<le> 100
    \<and> (sj_status k = S_COMPLETED \<longrightarrow> (\<exists>r. sj_result k = Some r
        \<and> relationship_profile_valid (sr_profile r)
        \<and> sr_fingerprint r = sha256_text (canonical_json (profile_json (sr_profile r)))))"
proof -
  note j = requested_profile_job_created [OF assms(1)]
  have k: "profile_job_valid k" by (rule profile_leases.run_valid [OF assms(2) j(1)])
  have f: "sj_fencing_token k = int n"
    using profile_leases.run_accounts [OF assms(2) j(1)] profile_fence_account [OF j(1)] j(2) by simp
  have r: "\<exists>r. sj_result k = Some r \<and> relationship_profile_valid (sr_profile r)
        \<and> sr_fingerprint r = sha256_text (canonical_json (profile_json (sr_profile r)))"
    if "sj_status k = S_COMPLETED"
    using k that by (auto simp: profile_valid_completed profile_result_valid_def
        result_fingerprint_eq split: if_splits)
  show ?thesis
    using f r k j profile_leases.deliveries_bounded(2) [OF assms(2) j(1)]
      profile_fence_account [OF k] profile_valid_common(1) [OF j(1)]
    by (simp add: profile_envelope_valid_def)
qed

text \<open>A profiling worker whose lease was reclaimed and handed out again is fenced off:
  no heartbeat, completion or failure report with its token succeeds in any later state.\<close>

lemma stale_profile_worker_is_fenced:
  assumes "lease_run profile_claim profile_progress j n k" and "profile_job_valid j" and "0 < n"
    and "profile_token c = Some f" and "f \<le> sj_fencing_token j"
  shows "\<exists>e. run_profile_command c k = Inl e"
  using profile_leases.stale_token_refused [OF assms(1-3,5)] assms(4)
  by (cases "run_profile_command c k") (auto simp: profile_accepts_def)

text \<open>Which live profiling jobs can still move: after any instant a valid job that is
  not terminal can be claimed by a well-formed worker or reclaimed from an expired lease exactly
  when its connector contract version is pinned; a request recorded without one is never
  delivered.\<close>

lemma live_profile_job_moves_iff_pinned:
  assumes "profile_job_valid j" and "\<not> profile_terminal j" and "is_named_id w" and "capability_ok cap"
  shows "(\<exists>t \<ge> T. \<exists>k. (\<exists>e. claim_semantic_join_profile_job j w cap (Aware t) (Aware e) = Inr k)
      \<or> (\<exists>r. reclaim_expired_semantic_join_profile_job j (Aware t) r = Inr k))
    \<longleftrightarrow> sj_connector_contract_version j \<noteq> None"
proof (cases "sj_status j = S_LEASED")
  case True
  then obtain l where l: "sj_lease j = Some l" and pinned: "sj_connector_contract_version j \<noteq> None"
    using assms(1) by (auto simp: profile_valid_leased profile_route_pinned_def)
  define t where "t = max T (max (sj_updated_at j + 1) (sl_expires_at l))"
  have "\<exists>b k. reclaim_expired_semantic_join_profile_job j (Aware t) (map_option Aware b) = Inr k"
  proof (cases "sj_attempts j < sj_max_attempts j")
    case True
    then show ?thesis
      using l by (intro exI [of _ None]) (simp only: profile_reclaim_eq [OF assms(1)], simp add: t_def)
  next
    case False
    then show ?thesis
      using l by (intro exI [of _ "Some t"]) (simp only: profile_reclaim_eq [OF assms(1)],
          simp add: t_def profile_failing_def profile_disposition_def retention_ok_def
          profile_constants)
  qed
  moreover have "T \<le> t" by (simp add: t_def)
  ultimately show ?thesis using pinned by blast
next
  case False
  then have s: "sj_status j \<in> {S_REQUESTED, S_RETRY_WAIT}"
    using assms(2) by (cases "sj_status j") simp_all
  then have free: "sj_lease j = None" using assms(1) by (auto simp: profile_valid_by_status)
  then have none: "reclaim_expired_semantic_join_profile_job j (Aware t) r \<noteq> Inr k" for t r k
    by (simp add: reclaim_expired_semantic_join_profile_job_def)
  define t where "t = max T (max (sj_updated_at j + 1) (sj_available_at j))"
  have "\<exists>k. claim_semantic_join_profile_job j w cap (Aware t) (Aware (t + minutes 5)) = Inr k"
    if "sj_connector_contract_version j \<noteq> None"
    using that assms(2-4) False
    by (simp add: profile_claim_eq [OF assms(1)] t_def profile_constants del: profile_status_is_terminal.simps)
  moreover have "T \<le> t" by (simp add: t_def)
  moreover have "claim_semantic_join_profile_job j w cap (Aware x) (Aware e) \<noteq> Inr k"
    if "sj_connector_contract_version j = None" for x e k
    using that assms(2) by (simp add: profile_claim_eq [OF assms(1)] del: profile_status_is_terminal.simps)
  ultimately show ?thesis using none by metis
qed

lemma step_json_value_free: "step_json s = Some v \<Longrightarrow> no_protected_keys v"
  by (cases s) (auto)

lemma step_list_json_value_free: "step_list_json ss = Some vs \<Longrightarrow> list_all no_protected_keys vs"
  by (induction ss arbitrary: vs) (auto split: option.splits dest: step_json_value_free)

lemma join_key_json_value_free: "join_key_json k = Some v \<Longrightarrow> no_protected_keys v"
  by (auto simp: join_key_json_def plan_json_def dest: step_list_json_value_free)

lemma proposal_json_value_free: "proposal_json p = Some v \<Longrightarrow> no_protected_keys v"
  by (auto simp: proposal_json_def dest: join_key_json_value_free split: option.splits)

lemma proposal_json_None:
  "proposal_json p = None \<longleftrightarrow>
     has_value_map (jk_transformation_plan (jp_left_key p))
     \<or> has_value_map (jk_transformation_plan (jp_right_key p))"
  by (auto simp: proposal_json_def join_key_json_def plan_json_None [symmetric] split: option.splits)

lemma proposal_boundary:
  "(\<exists>q. validate_semantic_join_profile_proposal p = Inr q) \<longleftrightarrow>
     is_named_id (spp_connection_id p) \<and> join_proposal_valid (spp_proposal p)
     \<and> \<not> has_value_map (jk_transformation_plan (jp_left_key (spp_proposal p)))
     \<and> \<not> has_value_map (jk_transformation_plan (jp_right_key (spp_proposal p)))
     \<and> length (utf8_bytes (canonical_json (the (profile_proposal_json p)))) \<le> MAX_PROPOSAL_BYTES"
proof (cases "proposal_json (spp_proposal p)")
  case None
  then show ?thesis
    using proposal_json_None [of "spp_proposal p"]
    by (auto simp: validate_semantic_join_profile_proposal_def bindE_eq_Inr construct_model_eq_Inr
        semantic_join_profile_proposal_valid_def validate_join_profile_proposal_def)
next
  case (Some v)
  then show ?thesis
    using proposal_json_None [of "spp_proposal p"] proposal_json_value_free [OF Some]
    by (auto simp: validate_semantic_join_profile_proposal_def bindE_eq_Inr construct_model_eq_Inr
        semantic_join_profile_proposal_valid_def validate_join_profile_proposal_def
        profile_proposal_json_def)
qed

text \<open>The proposal boundary, exactly: a profiling proposal is accepted if and only if
  its connection and join are well-formed, neither key maps literal values, and its canonical
  text fits the byte limit. The scan for protected keys never rejects anything more, because no
  key a join proposal dumps is a protected one.\<close>

lemma proposal_boundary_exact:
  "(\<exists>q. validate_semantic_join_profile_proposal p = Inr q) \<longleftrightarrow>
     is_named_id (spp_connection_id p) \<and> join_proposal_valid (spp_proposal p)
     \<and> \<not> has_value_map (jk_transformation_plan (jp_left_key (spp_proposal p)))
     \<and> \<not> has_value_map (jk_transformation_plan (jp_right_key (spp_proposal p)))
     \<and> length (utf8_bytes (canonical_json (the (profile_proposal_json p)))) \<le> MAX_PROPOSAL_BYTES"
  by (rule proposal_boundary)

lemma is_scan_id_length: "is_scan_id s \<Longrightarrow> length s = 69"
  by (auto simp: is_scan_id_def is_sha256_def re_exactly_def starts_with_def)

text \<open>The digested identity text of a profiling job separates workspace, scan and
  proposal: although workspaces may contain the separator, two texts of well-formed parts are
  equal only if all three parts are.\<close>

lemma profile_job_id_text_inject:
  assumes "is_scan_id s" and "is_scan_id s'" and "is_sha256 f" and "is_sha256 f'"
    and "profile_job_id_text w s f = profile_job_id_text w' s' f'"
  shows "w = w' \<and> s = s' \<and> f = f'"
proof -
  have "length f = length f'" "length s = length s'"
    using assms(1-4) by (simp_all add: is_scan_id_length is_sha256_def re_exactly_def)
  then show ?thesis using assms(5) by (auto simp: profile_job_id_text_def)
qed

section \<open>A concrete job\<close>

definition sample_join :: join_proposal where
  "sample_join =
     \<lparr>jp_id = ''customer_orders'', jp_left_key = sample_key ''customer.id'' ''crm.customers.id'',
      jp_right_key = sample_key ''orders.customer'' ''erp.orders.customer'',
      jp_default_join_type = JOIN_INNER\<rparr>"

definition sample_proposal :: semantic_join_profile_proposal where
  "sample_proposal = \<lparr>spp_connection_id = ''warehouse'', spp_proposal = sample_join\<rparr>"

lemma sample_join_valid: "join_proposal_valid sample_join"
  using sample_keys_valid
  by (simp add: sample_join_def join_proposal_valid_def sample_key_def first_component_def
      without_last_component_def reference_eval)

lemma sample_proposal_size:
  "length (utf8_bytes (canonical_json (the (profile_proposal_json sample_proposal)))) \<le> MAX_PROPOSAL_BYTES"
  unfolding canonical_json_def
  by (rule encoded_size) (simp add: sample_proposal_def sample_join_def sample_key_def
      profile_proposal_json_def proposal_json_def join_key_json_def plan_json_def
      MAX_PROPOSAL_BYTES_def str_of_int_def str_of_nat.simps)

lemma sample_profile_ids:
  "is_named_id ''warehouse''" "is_named_id ''worker-one''" "is_named_id ''worker-two''"
  by (simp_all add: is_named_id_def re_head_run_def class_defs char_class_defs)

lemma sample_proposal_accepted: "validate_semantic_join_profile_proposal sample_proposal = Inr sample_proposal"
proof -
  have "\<exists>q. validate_semantic_join_profile_proposal sample_proposal = Inr q"
    unfolding proposal_boundary
    using sample_join_valid sample_proposal_size sample_profile_ids(1)
    by (simp add: sample_proposal_def sample_join_def sample_key_def has_value_map_def)
  then show ?thesis
    by (auto simp: validate_semantic_join_profile_proposal_def bindE_eq_Inr construct_model_eq_Inr
        split: option.splits if_splits)
qed

definition sample_scan :: string where "sample_scan = ''scan_'' @ sha256_text ''scan''"

definition sample_target :: profile_target_ref where
  "sample_target = \<lparr>st_workspace_id = ''workspace-1'', st_connection_id = ''warehouse'',
     st_route_revision = 1, st_route_fingerprint = sha256_text ''route'',
     st_target_fingerprint = sha256_text ''target''\<rparr>"

definition sample_fingerprint :: string where
  "sample_fingerprint = sha256_text (canonical_json (the (profile_proposal_json sample_proposal)))"

definition sample_profile_job :: profile_job where
  "sample_profile_job =
     \<lparr>sj_job_id = ''profile_job_'' @ sha256_text (profile_job_id_text ''workspace-1'' sample_scan sample_fingerprint),
      sj_workspace_id = ''workspace-1'', sj_scan_id = sample_scan, sj_connection_id = ''warehouse'',
      sj_execution_target = Some sample_target, sj_connector_contract_version = Some 1,
      sj_proposal = sample_join, sj_proposal_fingerprint = sample_fingerprint,
      sj_status = S_REQUESTED, sj_max_attempts = 2, sj_attempts = 0, sj_available_at = 0,
      sj_fencing_token = 0, sj_lease = None, sj_failure = None, sj_result = None,
      sj_requested_at = 0, sj_updated_at = 0, sj_completed_at = None, sj_retain_until = None\<rparr>"

lemma sample_fingerprint_computed:
  "semantic_join_profile_proposal_fingerprint sample_proposal = Inr sample_fingerprint"
proof -
  obtain v where "profile_proposal_json sample_proposal = Some v"
    using sample_proposal_accepted
    by (auto simp: validate_semantic_join_profile_proposal_def bindE_eq_Inr construct_model_eq_Inr
        split: option.splits)
  then show ?thesis
    by (simp add: semantic_join_profile_proposal_fingerprint_def sample_proposal_accepted
        canonical_semantic_join_profile_proposal_json_def sample_fingerprint_def)
qed

lemma sample_workspace: "bounded_text 200 ''workspace-1''" "len_between 1 200 ''workspace-1''"
  by (simp_all add: bounded_text_def blank_def strip_def lstrip_def utf8_bytes_def
      char_class_defs len_between_def)

lemma sample_scan_valid: "is_scan_id sample_scan"
  by (simp add: is_scan_id_def sample_scan_def starts_with_def)

lemma sample_identity:
  "semantic_join_profile_job_id ''workspace-1'' sample_scan sample_fingerprint
     = Inr (sj_job_id sample_profile_job)"
  by (simp add: semantic_join_profile_job_id_def sample_workspace sample_scan_valid
      sample_fingerprint_def sample_profile_job_def)

lemma sample_target_valid: "profile_target_ref_valid sample_target"
  by (simp add: profile_target_ref_valid_def sample_target_def sample_workspace [simplified]
      sample_profile_ids      MAX_ROUTE_REVISION_def)

lemma sample_profile_job_valid: "profile_job_valid sample_profile_job"
proof -
  have "bound_proposal sample_profile_job = sample_proposal"
    by (simp add: bound_proposal_def sample_profile_job_def sample_proposal_def)
  moreover have "semantic_join_profile_proposal_valid sample_proposal"
    using sample_proposal_accepted
    by (auto simp: validate_semantic_join_profile_proposal_def bindE_eq_Inr construct_model_eq_Inr)
  moreover have "sj_workspace_id sample_profile_job = ''workspace-1''"
    "sj_scan_id sample_profile_job = sample_scan"
    "sj_proposal_fingerprint sample_profile_job = sample_fingerprint"
    by (simp_all add: sample_profile_job_def)
  ultimately have "profile_identity_valid sample_profile_job"
    by (simp add: profile_identity_valid_def sample_proposal_accepted sample_fingerprint_computed
        sample_identity)
  moreover have "is_profile_job_id (sj_job_id sample_profile_job)"
    by (simp add: is_profile_job_id_def sample_profile_job_def starts_with_def)
  ultimately have "profile_envelope_valid sample_profile_job"
    using sample_join_valid sample_target_valid sample_scan_valid sample_workspace sample_profile_ids
    by (simp add: profile_envelope_valid_def) (simp add: sample_profile_job_def
        sample_fingerprint_def MAX_ROUTE_REVISION_def)
  then show ?thesis
    by (simp add: profile_valid_requested sample_profile_job_def profile_clock_valid_def
        profile_route_bound_def profile_open_def sample_target_def)
qed

lemma sample_profile_job_requested:
  "requested_profile_job ''workspace-1'' sample_scan sample_proposal sample_target (Aware 0) 2 (Some 1)
     = Inr sample_profile_job"
  using sample_profile_job_valid sample_identity
  by (simp add: requested_profile_job_def sample_proposal_accepted sample_fingerprint_computed
      construct_model_def sample_target_valid validate_semantic_join_profile_workspace_id_def
      sample_workspace)
    (simp add: sample_target_def sample_proposal_def sample_profile_job_def)

text \<open>A delivery, its expiry and reclaim, and the second delivery.\<close>

definition sample_capability :: string where
  "sample_capability = ''0123456789abcdef0123456789abcdef''"

definition sample_profile_leased :: profile_job where
  "sample_profile_leased = profile_claimed sample_profile_job
     (profile_claim_lease sample_profile_job ''worker-one'' sample_capability (minutes 1) (minutes 3))"

definition sample_profile_reclaimed :: profile_job where
  "sample_profile_reclaimed = profile_retrying sample_profile_leased (minutes 3)
     (minutes 3 + seconds 5) (profile_failure_of sample_profile_leased SF_LEASE_EXPIRED (minutes 3))"

definition sample_profile_releases :: profile_job where
  "sample_profile_releases = profile_claimed sample_profile_reclaimed
     (profile_claim_lease sample_profile_reclaimed ''worker-two'' sample_capability (minutes 4) (minutes 6))"

lemma sample_capability_ok: "capability_ok sample_capability"
  by (simp add: capability_ok_def sample_capability_def char_class_defs card_insert_if)

lemma sample_profile_claim:
  "claim_semantic_join_profile_job sample_profile_job ''worker-one'' sample_capability
     (Aware (minutes 1)) (Aware (minutes 3)) = Inr sample_profile_leased"
  unfolding profile_claim_eq [OF sample_profile_job_valid]
  by (simp add: sample_profile_leased_def sample_capability_ok sample_profile_ids
      sample_profile_job_def profile_constants)

lemma sample_profile_run: "lease_run profile_claim profile_progress sample_profile_job 1 sample_profile_leased"
  by (rule run_single_claim) (use sample_profile_claim in \<open>auto simp: profile_claim_def\<close>)

lemma sample_profile_leased_valid: "profile_job_valid sample_profile_leased"
  by (rule profile_leases.run_valid [OF sample_profile_run sample_profile_job_valid])

lemmas sample_profile_fields = sample_profile_leased_def profile_claimed_def profile_claim_lease_def
  sample_profile_job_def

lemma sample_profile_reclaim:
  "run_profile_command (PReclaim (Aware (minutes 3)) None) sample_profile_leased = Inr sample_profile_reclaimed"
  using profile_reclaim_eq [OF sample_profile_leased_valid, of "minutes 3" None]
  by (simp add: sample_profile_reclaimed_def)
    (simp add: sample_profile_fields backoff_seconds_def profile_constants)

lemma sample_profile_reclaimed_valid: "profile_job_valid sample_profile_reclaimed"
  using sample_profile_reclaim profile_command_moves(4) [THEN returnsD] by (fastforce simp: profile_moves_def)

lemma sample_profile_reclaim_claim:
  "claim_semantic_join_profile_job sample_profile_reclaimed ''worker-two'' sample_capability
     (Aware (minutes 4)) (Aware (minutes 6)) = Inr sample_profile_releases"
  unfolding profile_claim_eq [OF sample_profile_reclaimed_valid]
  by (simp add: sample_profile_releases_def sample_capability_ok sample_profile_ids
      sample_profile_reclaimed_def profile_retrying_def sample_profile_fields profile_constants)

lemma sample_profile_rerun:
  "lease_run profile_claim profile_progress sample_profile_leased 1 sample_profile_releases"
proof -
  have p: "profile_progress sample_profile_leased sample_profile_reclaimed"
    unfolding profile_progress_def using sample_profile_reclaim by (metis is_profile_claim.simps(5))
  have c: "profile_claim sample_profile_reclaimed sample_profile_releases"
    unfolding profile_claim_def using sample_profile_reclaim_claim by blast
  have "lease_run profile_claim profile_progress sample_profile_leased 0 sample_profile_reclaimed"
    using p by (rule run_single_progress)
  from run_claim [OF this c] show ?thesis by simp
qed

section \<open>Witnesses\<close>

lemma profile_commands_never_crash_witness:
  "\<not> crash (Transition SE_INVALID_STATE)
   \<and> run_profile_command (PReclaim (Aware 9) None) sample_profile_job = Inl (Transition SE_INVALID_STATE)"
proof -
  have *: "run_profile_command (PReclaim (Aware 9) None) sample_profile_job = Inl (Transition SE_INVALID_STATE)"
    by (simp add: reclaim_expired_semantic_join_profile_job_def sample_profile_job_def)
  then show ?thesis using profile_commands_never_crash [OF sample_profile_job_valid _ *] by simp
qed

lemma profile_run_account_witness:
  "profile_job_valid sample_profile_leased \<and> sj_fencing_token sample_profile_leased = 1"
  using profile_run_account [OF sample_profile_job_requested sample_profile_run] by simp

lemma stale_profile_worker_is_fenced_witness:
  "\<exists>e. run_profile_command (PHeartbeat ''worker-one'' sample_capability 1 (Aware (minutes 5))
     (Aware (minutes 7))) sample_profile_releases = Inl e"
  by (rule stale_profile_worker_is_fenced [OF sample_profile_rerun sample_profile_leased_valid, where f = 1])
    (simp_all add: sample_profile_fields)

lemma live_profile_job_moves_iff_pinned_witness:
  "\<exists>t \<ge> 7. \<exists>k. (\<exists>e. claim_semantic_join_profile_job sample_profile_job ''worker-one''
       sample_capability (Aware t) (Aware e) = Inr k)
     \<or> (\<exists>r. reclaim_expired_semantic_join_profile_job sample_profile_job (Aware t) r = Inr k)"
  by (subst live_profile_job_moves_iff_pinned [OF sample_profile_job_valid _ sample_profile_ids(2)
      sample_capability_ok]) (simp_all add: sample_profile_job_def)

lemma profile_job_id_text_inject_witness:
  "profile_job_id_text ''a|b'' sample_scan sample_fingerprint
     \<noteq> profile_job_id_text ''a'' sample_scan sample_fingerprint"
  using profile_job_id_text_inject [OF sample_scan_valid sample_scan_valid, of sample_fingerprint
      sample_fingerprint "''a|b''" "''a''"]
  by (auto simp: sample_fingerprint_def)

section \<open>Refinement of the abstract lease machine\<close>

definition profile_view :: "profile_job \<Rightarrow> lease_view" where
  "profile_view j =
     \<lparr>lv_phase = (if profile_terminal j then Settled
        else case sj_lease j of Some l \<Rightarrow> Held (sl_expires_at l) | None \<Rightarrow> Waiting (sj_available_at j)),
      lv_deliveries = sj_attempts j, lv_budget = sj_max_attempts j, lv_clock = sj_updated_at j\<rparr>"

lemma profile_settles:
  assumes "profile_moves j k" and "profile_terminal k"
  shows "lease_spec (profile_view j) (profile_view k)"
proof -
  have "profile_view k = (profile_view j)\<lparr>lv_phase := Settled, lv_clock := sj_updated_at k\<rparr>"
    using assms by (simp add: profile_view_def profile_moves_def)
  moreover have "lv_phase (profile_view j) \<noteq> Settled" "lv_clock (profile_view j) \<le> sj_updated_at k"
    using assms(1) by (simp_all add: profile_view_def profile_moves_def split: option.split)
  ultimately show ?thesis using spec_settle by metis
qed

lemma profile_renews:
  assumes "profile_moves j k" and "sj_lease j = Some l" and "sj_lease k = Some m" and "\<not> profile_terminal k"
    and "sl_expires_at l \<le> sl_expires_at m"
  shows "lease_spec (profile_view j) (profile_view k)"
proof -
  have "profile_view k = (profile_view j)\<lparr>lv_phase := Held (sl_expires_at m), lv_clock := sj_updated_at k\<rparr>"
    using assms by (simp add: profile_view_def profile_moves_def)
  moreover have "lv_phase (profile_view j) = Held (sl_expires_at l)" "lv_clock (profile_view j) \<le> sj_updated_at k"
    using assms(1,2) by (simp_all add: profile_view_def profile_moves_def)
  ultimately show ?thesis using spec_renew assms(5) by metis
qed

text \<open>The retry of a failed or reclaimed delivery keeps a future due time and a free attempt.\<close>

definition rescheduled :: "profile_job \<Rightarrow> profile_job \<Rightarrow> bool" where
  "rescheduled j k \<longleftrightarrow> (\<exists>l. sj_lease j = Some l) \<and> sj_lease k = None \<and> sj_status k = S_RETRY_WAIT
     \<and> sj_updated_at k \<le> sj_available_at k \<and> sj_attempts j < sj_max_attempts j"

lemma profile_postpones:
  assumes m: "profile_moves j k" and r: "rescheduled j k"
  shows "lease_spec (profile_view j) (profile_view k)"
proof -
  obtain l where l: "sj_lease j = Some l" using r by (auto simp: rescheduled_def)
  have "profile_view k = (profile_view j)\<lparr>lv_phase := Waiting (sj_available_at k), lv_clock := sj_updated_at k\<rparr>"
    using m r by (simp add: profile_view_def profile_moves_def rescheduled_def)
  moreover have "lv_phase (profile_view j) = Held (sl_expires_at l)" "lv_clock (profile_view j) \<le> sj_updated_at k"
    "lv_deliveries (profile_view j) < lv_budget (profile_view j)"
    using m r l by (simp_all add: profile_view_def profile_moves_def rescheduled_def)
  ultimately show ?thesis using spec_postpone r by (metis rescheduled_def)
qed

lemma profile_shapes:
  "returns (\<lambda>k. \<exists>l m. sj_lease j = Some l \<and> sj_lease k = Some m \<and> sl_expires_at l \<le> sl_expires_at m)
     (heartbeat_semantic_join_profile_job j w cap f t e)"
  "returns (\<lambda>k. profile_terminal k) (complete_semantic_join_profile_job j w cap f p t r)"
  unfolding heartbeat_semantic_join_profile_job_def complete_semantic_join_profile_job_def
  by (intro returns_intros; auto simp: construct_model_eq_Inr require_active_profile_lease_def
      bindE_eq_Inr split: option.splits if_splits)+

lemma classify_retry:
  "classify_semantic_join_profile_failure c n m = Inr SD_RETRY \<Longrightarrow> 1 \<le> n \<and> n < m \<and> m \<le> 100"
  by (auto simp: classify_semantic_join_profile_failure_def split: if_splits)

lemma profile_delay_nonneg: "semantic_join_profile_retry_delay n = Inr d \<Longrightarrow> 0 \<le> d"
  using profile_backoff.delay_bounds(1) by (fastforce simp: profile_constants)

lemma profile_fail_shape:
  assumes "profile_job_valid j"
  shows "returns (\<lambda>k. profile_terminal k \<or> rescheduled j k) (fail_semantic_join_profile_job j w cap f c t u r)"
    and "returns (\<lambda>k. profile_terminal k \<or> rescheduled j k) (reclaim_expired_semantic_join_profile_job j t r)"
proof -
  show "returns (\<lambda>k. profile_terminal k \<or> rescheduled j k) (fail_semantic_join_profile_job j w cap f c t u r)"
    unfolding fail_semantic_join_profile_job_def require_active_profile_lease_def
    by (intro returns_bindE returns_if returns_Inl returns_prod returns_option returns_replace_profile_job)
      (auto simp: rescheduled_def bindE_eq_Inr dest: classify_retry split: option.splits)
  show "returns (\<lambda>k. profile_terminal k \<or> rescheduled j k) (reclaim_expired_semantic_join_profile_job j t r)"
    unfolding reclaim_expired_semantic_join_profile_job_def
    by (intro returns_bindE returns_if returns_Inl returns_option returns_replace_profile_job)
      (auto simp: rescheduled_def dest: classify_retry profile_delay_nonneg)
qed

lemma profile_job_refines:
  assumes v: "profile_job_valid j" and c: "run_profile_command c j = Inr k"
  shows "lease_spec (profile_view j) (profile_view k)"
proof (cases c)
  case (PClaim w cap ca le)
  then obtain t e where *: "k = profile_claimed j (profile_claim_lease j w cap t e)"
    "sj_status j \<in> {S_REQUESTED, S_RETRY_WAIT}" "sj_updated_at j < t" "sj_available_at j \<le> t" "t < e"
    "sj_attempts j < sj_max_attempts j"
    using c by (auto elim: profile_claim_step [OF v])
  have k: "profile_view k = (profile_view j)\<lparr>lv_phase := Held e,
      lv_deliveries := lv_deliveries (profile_view j) + 1, lv_clock := t\<rparr>"
    by (simp add: profile_view_def *(1) profile_claimed_def profile_claim_lease_def)
  have "sj_lease j = None" using v *(2) by (auto simp: profile_valid_by_status)
  then have "lv_phase (profile_view j) = Waiting (sj_available_at j)"
    using *(2) by (auto simp: profile_view_def)
  then show ?thesis
    unfolding k by (rule spec_deliver) (use * in \<open>simp_all add: profile_view_def\<close>)
next
  case (PHeartbeat w cap f t e)
  then have m: "profile_moves j k" using c profile_command_moves [THEN returnsD] by simp
  obtain l m' where "sj_lease j = Some l" "sj_lease k = Some m'" "sl_expires_at l \<le> sl_expires_at m'"
    using PHeartbeat c profile_shapes(1) [THEN returnsD] by fastforce
  moreover have "\<not> profile_terminal k"
    using m \<open>sj_lease k = Some m'\<close>
    by (cases "sj_status k") (auto simp: profile_moves_def profile_valid_by_status)
  ultimately show ?thesis using profile_renews [OF m] by blast
next
  case (PComplete w cap f p t r)
  then show ?thesis
    using c profile_command_moves [THEN returnsD] profile_shapes(2) [THEN returnsD] profile_settles by simp
next
  case (PFail w cap f fc t u r)
  then have "profile_moves j k" "profile_terminal k \<or> rescheduled j k"
    using c profile_command_moves [THEN returnsD] profile_fail_shape [OF v, THEN returnsD] by simp_all
  then show ?thesis using profile_settles profile_postpones by blast
next
  case (PReclaim t r)
  then have "profile_moves j k" "profile_terminal k \<or> rescheduled j k"
    using c profile_command_moves [THEN returnsD] profile_fail_shape [OF v, THEN returnsD] by simp_all
  then show ?thesis using profile_settles profile_postpones by blast
qed

end
