(* ===== verification/Publication_Candidates.thy ===== *)
theory Publication_Candidates
  imports Canonical_Digest
begin

text \<open>
  The contracts of \<open>domain/registry_publication.py\<close> that a publication job carries: the registry
  scope and its DataHub target, the candidate assembled before a human authorizes it, its compact
  manifest, the authorization and the read-back receipt.

  A registry snapshot appears here by the fields these contracts read: its identity, its sources,
  the provenance decisions, the asset and source proposal of its bindings and its fingerprint. The validator of
  the snapshot itself belongs to \<open>domain/semantic_registry.py\<close>. Dumped timestamps are rendered by
  pydantic; their text is the parameter \<open>iso_text\<close>.
\<close>

section \<open>Scopes and targets\<close>

record registry_scope =
  sc_workspace_id :: string
  sc_catalog_scope :: string
  sc_registry_id :: string

definition scope_char :: "char \<Rightarrow> bool" where
  "scope_char c \<longleftrightarrow> lower_digit_dash c \<or> c = CHR ''.'' \<or> c = CHR '':''"

definition is_catalog_scope :: "string \<Rightarrow> bool" where
  "is_catalog_scope s \<longleftrightarrow> re_head_run is_lower scope_char 2 119 s"

definition is_registry_id :: "string \<Rightarrow> bool" where
  "is_registry_id s \<longleftrightarrow> re_head_run is_lower lower_digit_under 2 79 s"

definition registry_scope_valid :: "registry_scope \<Rightarrow> bool" where
  "registry_scope_valid s \<longleftrightarrow>
     len_between 1 200 (sc_workspace_id s) \<and> \<not> blank (sc_workspace_id s)
     \<and> is_catalog_scope (sc_catalog_scope s) \<and> is_registry_id (sc_registry_id s)"

definition scope_json :: "registry_scope \<Rightarrow> json" where
  "scope_json s =
     JObj [(''workspace_id'', JStr (sc_workspace_id s)),
           (''catalog_scope'', JStr (sc_catalog_scope s)),
           (''registry_id'', JStr (sc_registry_id s))]"

definition semantic_registry_scope_fingerprint :: "registry_scope \<Rightarrow> string" where
  "semantic_registry_scope_fingerprint s = json_fingerprint (scope_json s)"

definition datahub_registry_document_id :: "registry_scope \<Rightarrow> int \<Rightarrow> ('c, string) outcome" where
  "datahub_registry_document_id scope version =
     (if version < 1 then Inl ValueError
      else Inr (''schemabridge-semantic-registry-'' @ sc_registry_id scope @ ''-v''
             @ str_of_int version @ ''-w'' @ take 24 (sha256_text (sc_workspace_id scope))))"

definition datahub_registry_document_urn :: "registry_scope \<Rightarrow> int \<Rightarrow> ('c, string) outcome" where
  "datahub_registry_document_urn scope version =
     bindE (datahub_registry_document_id scope version) (\<lambda>i. Inr (''urn:li:document:'' @ i))"

section \<open>Registry snapshots as publication reads them\<close>

datatype artifact_kind = LOGICAL_MODELS | PHYSICAL_MAPPINGS | JOIN_CONTRACTS

fun artifact_kind_value :: "artifact_kind \<Rightarrow> string" where
  "artifact_kind_value LOGICAL_MODELS = ''logical_models''"
| "artifact_kind_value PHYSICAL_MAPPINGS = ''physical_mappings''"
| "artifact_kind_value JOIN_CONTRACTS = ''join_contracts''"

record artifact_provenance =
  ap_kind :: artifact_kind
  ap_source :: string
  ap_decision_ids :: "string list"

record physical_binding =
  pb_observed_datahub_asset_urn :: string
  pb_source_proposal_id :: string
  pb_source_proposal_fingerprint :: string

record registry_snapshot =
  rs_format_version :: int
  rs_registry_id :: string
  rs_version :: int
  rs_source :: string
  rs_catalog_scope :: string
  rs_context_source :: string
  rs_provenance :: "artifact_provenance list"
  rs_physical_bindings :: "physical_binding list"
  rs_fingerprint :: string

definition semantic_registry_decision_ids :: "registry_snapshot \<Rightarrow> string list" where
  "semantic_registry_decision_ids r = sort (remdups (concat (map ap_decision_ids (rs_provenance r))))"

definition observed_registry_related_asset_urns ::
  "registry_snapshot \<Rightarrow> ('c, string list) outcome" where
  "observed_registry_related_asset_urns r =
     (if rs_format_version r \<noteq> 2 \<or> rs_physical_bindings r = [] then Inl ValueError
      else Inr (sort (remdups (map pb_observed_datahub_asset_urn (rs_physical_bindings r)))))"

record registry_base =
  rb_registry_version :: "int option"
  rb_registry_fingerprint :: "string option"
  rb_activation_generation :: "int option"
  rb_active_pointer_fingerprint :: "string option"

definition registry_base_valid :: "registry_base \<Rightarrow> bool" where
  "registry_base_valid b \<longleftrightarrow>
     optional (\<lambda>v. 1 \<le> v) (rb_registry_version b)
     \<and> optional (\<lambda>v. 1 \<le> v) (rb_activation_generation b)
     \<and> optional is_sha256 (rb_registry_fingerprint b)
     \<and> optional is_sha256 (rb_active_pointer_fingerprint b)
     \<and> (let absent = [rb_registry_version b = None, rb_registry_fingerprint b = None,
                      rb_activation_generation b = None, rb_active_pointer_fingerprint b = None]
        in \<not> (list_ex Not absent \<and> \<not> list_all Not absent))"

definition next_registry_version :: "registry_base \<Rightarrow> int" where
  "next_registry_version b =
     (case rb_registry_version b of None \<Rightarrow> 1 | Some v \<Rightarrow> v + 1)"

definition base_json :: "registry_base \<Rightarrow> json" where
  "base_json b =
     JObj [(''registry_version'', optional_json JInt (rb_registry_version b)),
           (''registry_fingerprint'', optional_json JStr (rb_registry_fingerprint b)),
           (''activation_generation'', optional_json JInt (rb_activation_generation b)),
           (''active_pointer_fingerprint'', optional_json JStr (rb_active_pointer_fingerprint b))]"

section \<open>Candidates and manifests\<close>

definition candidate_id_payload :: "string \<Rightarrow> string \<Rightarrow> json" where
  "candidate_id_payload proposal_id proposal_fingerprint =
     JObj [(''contract'', JStr ''registry_publication_candidate_v1''),
           (''proposal_id'', JStr proposal_id),
           (''proposal_fingerprint'', JStr proposal_fingerprint)]"

definition registry_publication_candidate_id :: "string \<Rightarrow> string \<Rightarrow> string" where
  "registry_publication_candidate_id proposal_id proposal_fingerprint =
     ''registry-candidate-'' @ json_fingerprint (candidate_id_payload proposal_id proposal_fingerprint)"

definition candidate_identity_payload ::
  "string \<Rightarrow> registry_scope \<Rightarrow> string \<Rightarrow> string \<Rightarrow> registry_base \<Rightarrow> int \<Rightarrow> string \<Rightarrow> string \<Rightarrow>
   string list \<Rightarrow> string list \<Rightarrow> json" where
  "candidate_identity_payload i scope pid pfp base version rfp target review active =
     JObj [(''contract'', JStr ''publishable_registry_version_v1''), (''id'', JStr i),
           (''scope'', scope_json scope), (''source_proposal_id'', JStr pid),
           (''source_proposal_fingerprint'', JStr pfp), (''base_registry'', base_json base),
           (''registry_version'', JInt version), (''registry_fingerprint'', JStr rfp),
           (''target'', JStr target), (''review_decision_ids'', JArr (map JStr review)),
           (''active_decision_ids'', JArr (map JStr active))]"

record publishable_version =
  pv_id :: string
  pv_scope :: registry_scope
  pv_source_proposal_id :: string
  pv_source_proposal_fingerprint :: string
  pv_base_registry :: registry_base
  pv_registry :: registry_snapshot
  pv_target :: string
  pv_review_decision_ids :: "string list"
  pv_active_decision_ids :: "string list"
  pv_fingerprint :: string

definition decisions_canonical :: "nat \<Rightarrow> string list \<Rightarrow> bool" where
  "decisions_canonical maximum ds \<longleftrightarrow>
     len_between 2 maximum ds \<and> canonical_sequence ds \<and> \<not> list_ex blank ds"

definition source_bound :: "registry_scope \<Rightarrow> registry_snapshot \<Rightarrow> bool" where
  "source_bound scope r \<longleftrightarrow>
     (case (datahub_registry_document_id scope (rs_version r) :: (unit, string) outcome) of
        Inl e \<Rightarrow> False
      | Inr i \<Rightarrow>
          (let expected_source = ''datahub:'' @ i in
           rs_source r = expected_source
           \<and> rs_context_source r = expected_source @ ''/logical-context''
           \<and> list_all (\<lambda>p. ap_source p = expected_source @ ''/'' @ artifact_kind_value (ap_kind p))
               (rs_provenance r)))"

definition publishable_version_valid :: "publishable_version \<Rightarrow> bool" where
  "publishable_version_valid c \<longleftrightarrow>
     len_between 3 200 (pv_id c) \<and> \<not> blank (pv_id c) \<and> registry_scope_valid (pv_scope c)
     \<and> len_between 3 200 (pv_source_proposal_id c) \<and> \<not> blank (pv_source_proposal_id c)
     \<and> is_sha256 (pv_source_proposal_fingerprint c) \<and> registry_base_valid (pv_base_registry c)
     \<and> len_between 3 500 (pv_target c) \<and> \<not> blank (pv_target c)
     \<and> decisions_canonical 2001 (pv_review_decision_ids c)
     \<and> decisions_canonical 2000 (pv_active_decision_ids c) \<and> is_sha256 (pv_fingerprint c)
     \<and> pv_id c = registry_publication_candidate_id (pv_source_proposal_id c)
          (pv_source_proposal_fingerprint c)
     \<and> rs_format_version (pv_registry c) = 2
     \<and> rs_registry_id (pv_registry c) = sc_registry_id (pv_scope c)
     \<and> rs_catalog_scope (pv_registry c) = sc_catalog_scope (pv_scope c)
     \<and> rs_version (pv_registry c) = next_registry_version (pv_base_registry c)
     \<and> (Inr (pv_target c) :: (unit, string) outcome)
          = datahub_registry_document_urn (pv_scope c) (rs_version (pv_registry c))
     \<and> pv_active_decision_ids c = semantic_registry_decision_ids (pv_registry c)
     \<and> set (pv_active_decision_ids c) \<subseteq> set (pv_review_decision_ids c)
     \<and> pv_fingerprint c = json_fingerprint (candidate_identity_payload (pv_id c) (pv_scope c)
          (pv_source_proposal_id c) (pv_source_proposal_fingerprint c) (pv_base_registry c)
          (rs_version (pv_registry c)) (rs_fingerprint (pv_registry c)) (pv_target c)
          (pv_review_decision_ids c) (pv_active_decision_ids c))
     \<and> source_bound (pv_scope c) (pv_registry c)"

record candidate_manifest =
  cm_id :: string
  cm_scope :: registry_scope
  cm_source_proposal_id :: string
  cm_source_proposal_fingerprint :: string
  cm_base_registry :: registry_base
  cm_registry_version :: int
  cm_registry_fingerprint :: string
  cm_target :: string
  cm_review_decision_ids :: "string list"
  cm_active_decision_ids :: "string list"
  cm_fingerprint :: string

definition candidate_manifest_valid :: "candidate_manifest \<Rightarrow> bool" where
  "candidate_manifest_valid m \<longleftrightarrow>
     len_between 3 200 (cm_id m) \<and> registry_scope_valid (cm_scope m)
     \<and> len_between 3 200 (cm_source_proposal_id m)
     \<and> is_sha256 (cm_source_proposal_fingerprint m) \<and> registry_base_valid (cm_base_registry m)
     \<and> 1 \<le> cm_registry_version m \<and> is_sha256 (cm_registry_fingerprint m)
     \<and> len_between 3 500 (cm_target m)
     \<and> decisions_canonical 2001 (cm_review_decision_ids m)
     \<and> decisions_canonical 2000 (cm_active_decision_ids m) \<and> is_sha256 (cm_fingerprint m)
     \<and> cm_id m = registry_publication_candidate_id (cm_source_proposal_id m)
          (cm_source_proposal_fingerprint m)
     \<and> cm_registry_version m = next_registry_version (cm_base_registry m)
     \<and> (Inr (cm_target m) :: (unit, string) outcome)
          = datahub_registry_document_urn (cm_scope m) (cm_registry_version m)
     \<and> set (cm_active_decision_ids m) \<subseteq> set (cm_review_decision_ids m)
     \<and> cm_fingerprint m = json_fingerprint (candidate_identity_payload (cm_id m) (cm_scope m)
          (cm_source_proposal_id m) (cm_source_proposal_fingerprint m) (cm_base_registry m)
          (cm_registry_version m) (cm_registry_fingerprint m) (cm_target m)
          (cm_review_decision_ids m) (cm_active_decision_ids m))"

definition manifest :: "publishable_version \<Rightarrow> ('c, candidate_manifest) outcome" where
  "manifest c =
     construct_model candidate_manifest_valid
       \<lparr>cm_id = pv_id c, cm_scope = pv_scope c, cm_source_proposal_id = pv_source_proposal_id c,
        cm_source_proposal_fingerprint = pv_source_proposal_fingerprint c,
        cm_base_registry = pv_base_registry c, cm_registry_version = rs_version (pv_registry c),
        cm_registry_fingerprint = rs_fingerprint (pv_registry c), cm_target = pv_target c,
        cm_review_decision_ids = pv_review_decision_ids c,
        cm_active_decision_ids = pv_active_decision_ids c, cm_fingerprint = pv_fingerprint c\<rparr>"

definition create_publishable_registry_version ::
  "registry_scope \<Rightarrow> string \<Rightarrow> string \<Rightarrow> registry_base \<Rightarrow> registry_snapshot \<Rightarrow> string list \<Rightarrow>
   ('c, publishable_version) outcome" where
  "create_publishable_registry_version scope pid pfp base registry review =
     (let active = semantic_registry_decision_ids registry;
          i = registry_publication_candidate_id pid pfp
      in bindE (datahub_registry_document_urn scope (rs_version registry)) (\<lambda>target.
         let review_ids = sort (remdups review);
             fingerprint = json_fingerprint (candidate_identity_payload i scope pid pfp base
               (rs_version registry) (rs_fingerprint registry) target review_ids active)
         in construct_model publishable_version_valid
              \<lparr>pv_id = i, pv_scope = scope, pv_source_proposal_id = pid,
               pv_source_proposal_fingerprint = pfp, pv_base_registry = base,
               pv_registry = registry, pv_target = target, pv_review_decision_ids = review_ids,
               pv_active_decision_ids = active, pv_fingerprint = fingerprint\<rparr>))"

section \<open>Authorizations\<close>

definition MAX_AUTHENTICATION_AGE :: timedelta where "MAX_AUTHENTICATION_AGE = minutes 15"
definition PUBLICATION_AUTHORIZATION_LIFETIME :: timedelta where
  "PUBLICATION_AUTHORIZATION_LIFETIME = minutes 15"

datatype confirmation = PUBLISH_EXACT_OBSERVED_REGISTRY_VERSION

fun confirmation_value :: "confirmation \<Rightarrow> string" where
  "confirmation_value PUBLISH_EXACT_OBSERVED_REGISTRY_VERSION =
     ''publish-exact-observed-registry-version''"

record publication_authorization =
  pa_id :: string
  pa_candidate_id :: string
  pa_candidate_fingerprint :: string
  pa_scope :: registry_scope
  pa_source_proposal_id :: string
  pa_source_proposal_fingerprint :: string
  pa_registry_fingerprint :: string
  pa_target :: string
  pa_active_decision_ids :: "string list"
  pa_actor_id :: string
  pa_authenticated_at :: instant
  pa_approved_at :: instant
  pa_expires_at :: instant
  pa_confirmation :: confirmation

definition authorization_json ::
  "(instant \<Rightarrow> string) \<Rightarrow> publication_authorization \<Rightarrow> json" where
  "authorization_json iso_text a =
     JObj [(''candidate_id'', JStr (pa_candidate_id a)),
           (''candidate_fingerprint'', JStr (pa_candidate_fingerprint a)),
           (''scope'', scope_json (pa_scope a)),
           (''source_proposal_id'', JStr (pa_source_proposal_id a)),
           (''source_proposal_fingerprint'', JStr (pa_source_proposal_fingerprint a)),
           (''registry_fingerprint'', JStr (pa_registry_fingerprint a)),
           (''target'', JStr (pa_target a)),
           (''active_decision_ids'', JArr (map JStr (pa_active_decision_ids a))),
           (''actor_id'', JStr (pa_actor_id a)),
           (''authenticated_at'', JStr (iso_text (pa_authenticated_at a))),
           (''approved_at'', JStr (iso_text (pa_approved_at a))),
           (''expires_at'', JStr (iso_text (pa_expires_at a))),
           (''confirmation'', JStr (confirmation_value (pa_confirmation a)))]"

definition registry_publication_authorization_id ::
  "(instant \<Rightarrow> string) \<Rightarrow> publication_authorization \<Rightarrow> string" where
  "registry_publication_authorization_id iso_text a =
     ''registry-authorization-''
       @ json_fingerprint (JObj [(''contract'', JStr ''registry_publication_authorization_v1''),
           (''payload'', authorization_json iso_text a)])"

definition publication_authorization_valid ::
  "(instant \<Rightarrow> string) \<Rightarrow> publication_authorization \<Rightarrow> bool" where
  "publication_authorization_valid iso_text a \<longleftrightarrow>
     len_between 3 200 (pa_id a) \<and> \<not> blank (pa_id a)
     \<and> len_between 3 200 (pa_candidate_id a) \<and> \<not> blank (pa_candidate_id a)
     \<and> is_sha256 (pa_candidate_fingerprint a) \<and> registry_scope_valid (pa_scope a)
     \<and> len_between 3 200 (pa_source_proposal_id a) \<and> \<not> blank (pa_source_proposal_id a)
     \<and> is_sha256 (pa_source_proposal_fingerprint a) \<and> is_sha256 (pa_registry_fingerprint a)
     \<and> len_between 3 500 (pa_target a) \<and> \<not> blank (pa_target a)
     \<and> decisions_canonical 2000 (pa_active_decision_ids a)
     \<and> len_between 1 200 (pa_actor_id a) \<and> \<not> blank (pa_actor_id a)
     \<and> pa_authenticated_at a \<le> pa_approved_at a \<and> pa_approved_at a < pa_expires_at a
     \<and> pa_approved_at a - pa_authenticated_at a \<le> MAX_AUTHENTICATION_AGE
     \<and> pa_expires_at a - pa_approved_at a \<le> PUBLICATION_AUTHORIZATION_LIFETIME
     \<and> pa_confirmation a = PUBLISH_EXACT_OBSERVED_REGISTRY_VERSION
     \<and> pa_id a = registry_publication_authorization_id iso_text a"

definition publication_authorization_is_current ::
  "publication_authorization \<Rightarrow> datetime \<Rightarrow> ('c, bool) outcome" where
  "publication_authorization_is_current a d =
     bindE (require_aware d) (\<lambda>t. Inr (pa_approved_at a \<le> t \<and> t < pa_expires_at a))"

definition create_publication_authorization ::
  "(instant \<Rightarrow> string) \<Rightarrow> publishable_version \<Rightarrow> string \<Rightarrow> instant \<Rightarrow> instant \<Rightarrow> instant \<Rightarrow>
   confirmation \<Rightarrow> ('c, publication_authorization) outcome" where
  "create_publication_authorization iso_text c actor authenticated_at approved_at expires_at confirm =
     (let provisional =
        \<lparr>pa_id = ''registry-authorization-placeholder'', pa_candidate_id = pv_id c,
         pa_candidate_fingerprint = pv_fingerprint c, pa_scope = pv_scope c,
         pa_source_proposal_id = pv_source_proposal_id c,
         pa_source_proposal_fingerprint = pv_source_proposal_fingerprint c,
         pa_registry_fingerprint = rs_fingerprint (pv_registry c), pa_target = pv_target c,
         pa_active_decision_ids = pv_active_decision_ids c, pa_actor_id = actor,
         pa_authenticated_at = authenticated_at, pa_approved_at = approved_at,
         pa_expires_at = expires_at, pa_confirmation = confirm\<rparr>
      in construct_model (publication_authorization_valid iso_text)
           (provisional\<lparr>pa_id := registry_publication_authorization_id iso_text provisional\<rparr>))"

text \<open>The field comparisons come first, so a foreign authorization is refused before its time is read.\<close>

definition authorization_matches :: "publishable_version \<Rightarrow> publication_authorization \<Rightarrow> bool" where
  "authorization_matches c a \<longleftrightarrow>
     pa_candidate_id a = pv_id c \<and> pa_candidate_fingerprint a = pv_fingerprint c
     \<and> pa_scope a = pv_scope c \<and> pa_source_proposal_id a = pv_source_proposal_id c
     \<and> pa_source_proposal_fingerprint a = pv_source_proposal_fingerprint c
     \<and> pa_registry_fingerprint a = rs_fingerprint (pv_registry c) \<and> pa_target a = pv_target c
     \<and> pa_active_decision_ids a = pv_active_decision_ids c"

definition validate_registry_publication_authorization ::
  "publishable_version \<Rightarrow> publication_authorization \<Rightarrow> datetime option \<Rightarrow> ('c, unit) outcome" where
  "validate_registry_publication_authorization c a at_time =
     (if \<not> authorization_matches c a then Inl ValueError
      else case at_time of
        None \<Rightarrow> Inr ()
      | Some d \<Rightarrow>
          bindE (publication_authorization_is_current a d) (\<lambda>current.
          if current then Inr () else Inl ValueError))"

section \<open>Read-back receipts\<close>

record readback_receipt =
  rr_candidate_id :: string
  rr_candidate_fingerprint :: string
  rr_scope :: registry_scope
  rr_registry_version :: int
  rr_registry_fingerprint :: string
  rr_target :: string
  rr_observed_authorization_id :: string
  rr_related_asset_urns :: "string list"
  rr_observed_at :: instant

definition is_dataset_urn :: "string \<Rightarrow> bool" where
  "is_dataset_urn s \<longleftrightarrow> take 15 s = ''urn:li:dataset:''"

definition readback_receipt_valid :: "readback_receipt \<Rightarrow> bool" where
  "readback_receipt_valid r \<longleftrightarrow>
     len_between 3 200 (rr_candidate_id r) \<and> is_sha256 (rr_candidate_fingerprint r)
     \<and> registry_scope_valid (rr_scope r) \<and> 1 \<le> rr_registry_version r
     \<and> is_sha256 (rr_registry_fingerprint r) \<and> len_between 3 500 (rr_target r)
     \<and> len_between 3 200 (rr_observed_authorization_id r)
     \<and> len_between 1 256 (rr_related_asset_urns r)
     \<and> canonical_sequence (rr_related_asset_urns r)
     \<and> list_all is_dataset_urn (rr_related_asset_urns r)
     \<and> (Inr (rr_target r) :: (unit, string) outcome)
          = datahub_registry_document_urn (rr_scope r) (rr_registry_version r)"

section \<open>Identity payloads\<close>

lemma optional_json_inject:
  assumes "map_option canonical (Some (optional_json f v)) = map_option canonical (Some (optional_json f w))"
    and "\<And>x y. canonical (f x) = canonical (f y) \<Longrightarrow> x = y" and "\<And>x. canonical (f x) \<noteq> JNull"
  shows "v = w"
  using assms by (cases v; cases w) (auto simp: optional_json_def dest: sym)

lemma JStr_list_inject:
  "canonical (JArr (map JStr xs)) = canonical (JArr (map JStr ys)) \<Longrightarrow> xs = ys"
proof -
  assume "canonical (JArr (map JStr xs)) = canonical (JArr (map JStr ys))"
  moreover have "map canonical (map JStr zs) = map JStr zs" for zs by simp
  ultimately have "map JStr xs = map JStr ys" by (simp del: map_map)
  then show "xs = ys" by (simp add: inj_map_eq_map inj_def)
qed

lemma scope_json_inject:
  assumes "canonical (scope_json s) = canonical (scope_json t)"
  shows "s = t"
proof -
  note field = canonical_member [OF assms [unfolded scope_json_def], simplified]
  show ?thesis
    using field [of "''workspace_id''"] field [of "''catalog_scope''"] field [of "''registry_id''"]
    by (cases s; cases t) simp
qed

lemma base_json_inject:
  assumes "canonical (base_json s) = canonical (base_json t)"
  shows "s = t"
proof -
  note field = canonical_member [OF assms [unfolded base_json_def], simplified]
  have "rb_registry_version s = rb_registry_version t"
    by (rule optional_json_inject [of JInt]) (use field [of "''registry_version''"] in simp_all)
  moreover have "rb_registry_fingerprint s = rb_registry_fingerprint t"
    by (rule optional_json_inject [of JStr]) (use field [of "''registry_fingerprint''"] in simp_all)
  moreover have "rb_activation_generation s = rb_activation_generation t"
    by (rule optional_json_inject [of JInt]) (use field [of "''activation_generation''"] in simp_all)
  moreover have "rb_active_pointer_fingerprint s = rb_active_pointer_fingerprint t"
    by (rule optional_json_inject [of JStr]) (use field [of "''active_pointer_fingerprint''"] in simp_all)
  ultimately show ?thesis by (cases s; cases t) simp
qed

section \<open>Properties\<close>

text \<open>The fingerprinted identity of a publication candidate binds everything a reviewer
  saw: two identity payloads have the same canonical text exactly when candidate id, scope, source
  proposal, base registry, registry version and fingerprint, target and both decision lists
  agree.\<close>

lemma candidate_identity_binds:
  "dumps escape_ascii (candidate_identity_payload i s p q b v f t r a)
     = dumps escape_ascii (candidate_identity_payload i' s' p' q' b' v' f' t' r' a') \<longleftrightarrow>
   i = i' \<and> s = s' \<and> p = p' \<and> q = q' \<and> b = b' \<and> v = v' \<and> f = f' \<and> t = t' \<and> r = r' \<and> a = a'"
proof
  assume eq: "dumps escape_ascii (candidate_identity_payload i s p q b v f t r a)
     = dumps escape_ascii (candidate_identity_payload i' s' p' q' b' v' f' t' r' a')"
  note field = payload_fields_recovered [OF eq [unfolded candidate_identity_payload_def], simplified]
  have "s = s'" using field [of "''scope''"] by (intro scope_json_inject) simp
  moreover have "b = b'" using field [of "''base_registry''"] by (intro base_json_inject) simp
  moreover have "r = r'" using field [of "''review_decision_ids''"] by (intro JStr_list_inject) simp
  moreover have "a = a'" using field [of "''active_decision_ids''"] by (intro JStr_list_inject) simp
  ultimately show "i = i' \<and> s = s' \<and> p = p' \<and> q = q' \<and> b = b' \<and> v = v' \<and> f = f' \<and> t = t' \<and> r = r'
      \<and> a = a'"
    using field [of "''id''"] field [of "''source_proposal_id''"]
      field [of "''source_proposal_fingerprint''"] field [of "''registry_version''"]
      field [of "''registry_fingerprint''"] field [of "''target''"]
    by simp
qed auto

lemma next_registry_version_pos: "registry_base_valid b \<Longrightarrow> 1 \<le> next_registry_version b"
  by (auto simp: registry_base_valid_def next_registry_version_def split: option.splits)

text \<open>Every valid candidate has a manifest: the compact form kept beside the registry
  document passes its own validator, and repeats the candidate's fingerprint, target and
  decisions.\<close>

lemma candidate_has_manifest:
  assumes "publishable_version_valid c" and "is_sha256 (rs_fingerprint (pv_registry c))"
  shows "\<exists>m. manifest c = Inr m \<and> candidate_manifest_valid m \<and> cm_fingerprint m = pv_fingerprint c
    \<and> cm_target m = pv_target c \<and> cm_active_decision_ids m = pv_active_decision_ids c
    \<and> cm_registry_version m = rs_version (pv_registry c)"
  using assms next_registry_version_pos [of "pv_base_registry c"]
  by (auto simp: manifest_def construct_model_def publishable_version_valid_def
      candidate_manifest_valid_def)

text \<open>Property C14. An authorization is exact and short-lived: one created for a candidate is accepted
  for it at precisely the instants from approval up to its expiry, none of which is later than
  thirty minutes after the actor authenticated, and any candidate it is accepted for has the same
  fingerprint, scope, target and decisions.\<close>

theorem authorization_is_exact:
  assumes "create_publication_authorization iso_text c actor authed approved expires confirm
      = (Inr a :: (unit, publication_authorization) outcome)"
  shows "(validate_registry_publication_authorization c a (Some (Aware t)) = (Inr () :: (unit, unit) outcome)
      \<longleftrightarrow> approved \<le> t \<and> t < expires)
    \<and> (t < expires \<longrightarrow> t - authed < minutes 30)
    \<and> (validate_registry_publication_authorization d a z = (Inr () :: (unit, unit) outcome)
      \<longrightarrow> pv_fingerprint d = pv_fingerprint c \<and> pv_scope d = pv_scope c \<and> pv_target d = pv_target c
        \<and> pv_active_decision_ids d = pv_active_decision_ids c)"
proof -
  from assms have a: "pa_candidate_fingerprint a = pv_fingerprint c" "pa_scope a = pv_scope c"
    "pa_target a = pv_target c" "pa_active_decision_ids a = pv_active_decision_ids c"
    "authorization_matches c a" "pa_approved_at a = approved" "pa_expires_at a = expires"
    "pa_authenticated_at a = authed" "publication_authorization_valid iso_text a"
    by (auto simp: create_publication_authorization_def construct_model_eq_Inr Let_def
        authorization_matches_def)
  have w: "approved - authed \<le> minutes 15" "expires - approved \<le> minutes 15"
    using a by (simp_all add: publication_authorization_valid_def MAX_AUTHENTICATION_AGE_def
        PUBLICATION_AUTHORIZATION_LIFETIME_def)
  have "pv_fingerprint d = pv_fingerprint c \<and> pv_scope d = pv_scope c \<and> pv_target d = pv_target c
      \<and> pv_active_decision_ids d = pv_active_decision_ids c"
    if "validate_registry_publication_authorization d a z = (Inr () :: (unit, unit) outcome)"
  proof -
    have "authorization_matches d a"
      using that by (simp add: validate_registry_publication_authorization_def split: if_splits)
    then show ?thesis using a(1-4) by (simp add: authorization_matches_def)
  qed
  moreover have "validate_registry_publication_authorization c a (Some (Aware t)) = (Inr () :: (unit, unit) outcome)
      \<longleftrightarrow> approved \<le> t \<and> t < expires"
    using a(5-7) by (simp add: validate_registry_publication_authorization_def
        publication_authorization_is_current_def)
  moreover have "t < expires \<longrightarrow> t - authed < minutes 30" using w by simp
  ultimately show ?thesis by blast
qed

lemma split_at_separator:
  assumes "xs @ c # r = ys @ c # r'" and "c \<notin> set xs" and "c \<notin> set ys"
  shows "xs = ys \<and> r = r'"
  using assms by (induction xs arbitrary: ys) (case_tac ys; auto)+

lemma registry_id_no_dash: "is_registry_id s \<Longrightarrow> CHR ''-'' \<notin> set s"
proof -
  assume "is_registry_id s"
  then have "list_all lower_digit_under s"
    by (auto simp: is_registry_id_def re_head_run_def lower_digit_under_def split: list.splits)
  moreover have "\<not> lower_digit_under (CHR ''-'')" by (simp add: class_defs char_class_defs)
  ultimately show ?thesis by (auto simp: list_all_iff)
qed

text \<open>A DataHub target names one version of one registry: two valid scopes reach the
  same document only for the same registry, the same version and workspaces whose digests share
  their first 24 hexadecimal digits. In particular every version of a scope has its own
  document.\<close>

lemma document_urn_identifies_version:
  assumes "registry_scope_valid s" and "registry_scope_valid s'"
    and "datahub_registry_document_urn s v = (Inr u :: (unit, string) outcome)"
    and "datahub_registry_document_urn s' v' = (Inr u :: (unit, string) outcome)"
  shows "sc_registry_id s = sc_registry_id s' \<and> v = v'
    \<and> take 24 (sha256_text (sc_workspace_id s)) = take 24 (sha256_text (sc_workspace_id s'))"
proof -
  have dash: "CHR ''-'' \<notin> set (sc_registry_id s)" "CHR ''-'' \<notin> set (sc_registry_id s')"
    using assms(1,2) by (simp_all add: registry_scope_valid_def registry_id_no_dash)
  have "sc_registry_id s @ CHR ''-'' # CHR ''v'' # str_of_int v @ ''-w''
        @ take 24 (sha256_text (sc_workspace_id s))
      = sc_registry_id s' @ CHR ''-'' # CHR ''v'' # str_of_int v' @ ''-w''
        @ take 24 (sha256_text (sc_workspace_id s'))"
    using assms(3,4)
    by (auto simp: datahub_registry_document_urn_def datahub_registry_document_id_def split: if_splits)
  from split_at_separator [OF this dash]
  have id: "sc_registry_id s = sc_registry_id s'"
    and rest: "str_of_int v @ ''-w'' @ take 24 (sha256_text (sc_workspace_id s))
      = str_of_int v' @ ''-w'' @ take 24 (sha256_text (sc_workspace_id s'))"
    by simp_all
  from str_of_int_prefix [OF rest] show ?thesis
    using id by (simp add: no_digit_start_def char_class_defs)
qed

section \<open>A concrete candidate\<close>

definition sample_scope :: registry_scope where
  "sample_scope = \<lparr>sc_workspace_id = ''workspace-1'', sc_catalog_scope = ''catalog:main'',
     sc_registry_id = ''registry_main''\<rparr>"

definition sample_document :: string where
  "sample_document = ''schemabridge-semantic-registry-registry_main-v1-w''
     @ take 24 (sha256_text ''workspace-1'')"

definition sample_base :: registry_base where
  "sample_base = \<lparr>rb_registry_version = None, rb_registry_fingerprint = None,
     rb_activation_generation = None, rb_active_pointer_fingerprint = None\<rparr>"

definition sample_snapshot :: registry_snapshot where
  "sample_snapshot =
     \<lparr>rs_format_version = 2, rs_registry_id = ''registry_main'', rs_version = 1,
      rs_source = ''datahub:'' @ sample_document, rs_catalog_scope = ''catalog:main'',
      rs_context_source = ''datahub:'' @ sample_document @ ''/logical-context'',
      rs_provenance =
        [\<lparr>ap_kind = LOGICAL_MODELS, ap_source = ''datahub:'' @ sample_document @ ''/logical_models'',
          ap_decision_ids = [''decision-1'']\<rparr>,
         \<lparr>ap_kind = PHYSICAL_MAPPINGS,
          ap_source = ''datahub:'' @ sample_document @ ''/physical_mappings'',
          ap_decision_ids = [''decision-2'']\<rparr>,
         \<lparr>ap_kind = JOIN_CONTRACTS, ap_source = ''datahub:'' @ sample_document @ ''/join_contracts'',
          ap_decision_ids = []\<rparr>],
      rs_physical_bindings =
        [\<lparr>pb_observed_datahub_asset_urn = ''urn:li:dataset:orders'',
          pb_source_proposal_id = ''proposal-1'',
          pb_source_proposal_fingerprint = sha256_text ''proposal''\<rparr>],
      rs_fingerprint = sha256_text ''registry''\<rparr>"

definition sample_candidate :: publishable_version where
  "sample_candidate =
     (let i = registry_publication_candidate_id ''proposal-1'' (sha256_text ''proposal'');
          t = ''urn:li:document:'' @ sample_document;
          d = [''decision-1'', ''decision-2'']
      in \<lparr>pv_id = i, pv_scope = sample_scope, pv_source_proposal_id = ''proposal-1'',
          pv_source_proposal_fingerprint = sha256_text ''proposal'', pv_base_registry = sample_base,
          pv_registry = sample_snapshot, pv_target = t, pv_review_decision_ids = d,
          pv_active_decision_ids = d,
          pv_fingerprint = json_fingerprint (candidate_identity_payload i sample_scope ''proposal-1''
            (sha256_text ''proposal'') sample_base 1 (sha256_text ''registry'') t d d)\<rparr>)"

lemma sample_scope_valid: "registry_scope_valid sample_scope"
  by (simp add: registry_scope_valid_def sample_scope_def is_catalog_scope_def is_registry_id_def
      re_head_run_def scope_char_def class_defs char_class_defs len_between_def blank_iff)

lemma str_of_int_1: "str_of_int 1 = ''1''"
  by code_simp

lemma sample_document_id:
  "datahub_registry_document_id sample_scope 1 = Inr sample_document"
  "datahub_registry_document_urn sample_scope 1 = Inr (''urn:li:document:'' @ sample_document)"
  by (simp_all add: datahub_registry_document_urn_def datahub_registry_document_id_def
      sample_scope_def sample_document_def str_of_int_1)

lemma sha256_length: "length (sha256_text s) = 64"
  using sha256_text_shape [of s] by (simp add: is_sha256_def re_exactly_def)

lemma json_fingerprint_length: "length (json_fingerprint p) = 64"
  by (simp add: json_fingerprint_def sha256_length)

lemma not_blank_append: "\<not> blank s \<Longrightarrow> \<not> blank (s @ t)" by (simp add: blank_iff)

lemma sample_candidate_text:
  "len_between 3 200 (pv_id sample_candidate)" "\<not> blank (pv_id sample_candidate)"
  "len_between 3 500 (pv_target sample_candidate)" "\<not> blank (pv_target sample_candidate)"
  by (simp_all add: sample_candidate_def Let_def registry_publication_candidate_id_def len_between_def
      json_fingerprint_length sample_document_def sha256_length blank_iff char_class_defs)

lemma sample_candidate_fields:
  "pv_scope sample_candidate = sample_scope" "pv_source_proposal_id sample_candidate = ''proposal-1''"
  "pv_source_proposal_fingerprint sample_candidate = sha256_text ''proposal''"
  "rs_fingerprint (pv_registry sample_candidate) = sha256_text ''registry''"
  "pv_active_decision_ids sample_candidate = [''decision-1'', ''decision-2'']"
  "is_sha256 (pv_fingerprint sample_candidate)"
  by (simp_all add: sample_candidate_def Let_def sample_snapshot_def)

lemma sample_decisions:
  "semantic_registry_decision_ids sample_snapshot = [''decision-1'', ''decision-2'']"
  "decisions_canonical 2000 [''decision-1'', ''decision-2'']"
  "decisions_canonical 2001 [''decision-1'', ''decision-2'']"
  by (simp_all add: semantic_registry_decision_ids_def sample_snapshot_def decisions_canonical_def
      len_between_def canonical_sequence_def blank_iff char_class_defs)

lemma sample_candidate_valid: "publishable_version_valid sample_candidate"
proof -
  have u: "datahub_registry_document_urn sample_scope 1
      = (Inr (''urn:li:document:'' @ sample_document) :: (unit, string) outcome)"
    by (rule sample_document_id(2))
  have bound: "source_bound sample_scope sample_snapshot"
    by (simp add: source_bound_def sample_snapshot_def sample_document_id)
  have "\<not> blank ''proposal-1''" by (simp add: blank_iff char_class_defs)
  then show ?thesis
    using sample_candidate_text sample_scope_valid sample_decisions bound u
    unfolding publishable_version_valid_def
    by (simp add: sample_candidate_def Let_def sample_snapshot_def sample_base_def
        registry_base_valid_def next_registry_version_def len_between_def sample_scope_def)
qed

lemma candidate_has_manifest_witness:
  "\<exists>m. manifest sample_candidate = Inr m \<and> candidate_manifest_valid m
     \<and> cm_fingerprint m = pv_fingerprint sample_candidate"
  using candidate_has_manifest [OF sample_candidate_valid]
  by (auto simp: sample_candidate_def Let_def sample_snapshot_def)

lemma document_urn_identifies_version_witness:
  "datahub_registry_document_urn sample_scope 2 \<noteq> (Inr (''urn:li:document:'' @ sample_document) :: (unit, string) outcome)"
  using document_urn_identifies_version [OF sample_scope_valid sample_scope_valid sample_document_id(2)]
  by (metis numeral_eq_one_iff semiring_norm(85))

text \<open>A rendering of timestamps by their number of microseconds.\<close>

definition sample_iso :: "instant \<Rightarrow> string" where "sample_iso t = str_of_int t"

definition sample_publication_authorization :: publication_authorization where
  "sample_publication_authorization =
     (let a = \<lparr>pa_id = ''registry-authorization-placeholder'', pa_candidate_id = pv_id sample_candidate,
         pa_candidate_fingerprint = pv_fingerprint sample_candidate, pa_scope = sample_scope,
         pa_source_proposal_id = ''proposal-1'',
         pa_source_proposal_fingerprint = sha256_text ''proposal'',
         pa_registry_fingerprint = sha256_text ''registry'', pa_target = pv_target sample_candidate,
         pa_active_decision_ids = [''decision-1'', ''decision-2''], pa_actor_id = ''owner'',
         pa_authenticated_at = 0, pa_approved_at = minutes 2, pa_expires_at = minutes 12,
         pa_confirmation = PUBLISH_EXACT_OBSERVED_REGISTRY_VERSION\<rparr>
      in a\<lparr>pa_id := registry_publication_authorization_id sample_iso a\<rparr>)"

lemma authorization_id_length:
  "len_between 3 200 (registry_publication_authorization_id iso_text a)"
  "\<not> blank (registry_publication_authorization_id iso_text a)"
  by (simp_all add: registry_publication_authorization_id_def len_between_def json_fingerprint_length
      blank_iff char_class_defs)

lemma sample_authorization_created:
  "create_publication_authorization sample_iso sample_candidate ''owner'' 0 (minutes 2) (minutes 12)
     PUBLISH_EXACT_OBSERVED_REGISTRY_VERSION = Inr sample_publication_authorization"
proof -
  have texts: "len_between 3 200 ''proposal-1''" "\<not> blank ''proposal-1''" "len_between 1 200 ''owner''"
    "\<not> blank ''owner''"
    by (simp_all add: len_between_def blank_iff char_class_defs)
  have "publication_authorization_valid sample_iso sample_publication_authorization"
    unfolding publication_authorization_valid_def
    by (simp add: sample_publication_authorization_def Let_def MAX_AUTHENTICATION_AGE_def
        PUBLICATION_AUTHORIZATION_LIFETIME_def sample_scope_valid authorization_id_length
        sample_candidate_text [simplified] texts [simplified] sample_decisions(2)
        sample_candidate_fields(6))
      (simp add: registry_publication_authorization_id_def authorization_json_def)
  then show ?thesis
    by (simp add: create_publication_authorization_def construct_model_def
        sample_publication_authorization_def Let_def sample_candidate_fields)
qed

theorem authorization_is_exact_witness:
  "validate_registry_publication_authorization sample_candidate sample_publication_authorization
     (Some (Aware (minutes 3))) = (Inr () :: (unit, unit) outcome)"
  using authorization_is_exact [OF sample_authorization_created, of "minutes 3"] by simp

end
