(* ===== verification/Publication_Jobs.thy ===== *)
theory Publication_Jobs
  imports Lease_Interface Publication_Candidates
begin

text \<open>
  The registry-publication jobs of \<open>domain/registry_publication_jobs.py\<close>. A job reserves one target
  version, is leased once to prepare a candidate, waits for a human authorization, and is leased
  again to publish it and read it back. The prepared proposal is one of three families; the job
  reads only the five fields recorded here. \<open>iso_text\<close> renders the timestamps inside an
  authorization identifier.
\<close>

section \<open>Data\<close>

definition PUBLICATION_MAX_LEASE :: timedelta where "PUBLICATION_MAX_LEASE = minutes 5"
definition PUBLICATION_MAX_RETRY_DELAY_SECONDS :: int where "PUBLICATION_MAX_RETRY_DELAY_SECONDS = 300"

datatype publication_status =
    R_QUEUED | R_LEASED | R_AWAITING_APPROVAL | R_APPROVED | R_RETRY_WAIT | R_CANCEL_REQUESTED
  | R_ACTIVATION_READY | R_FAILED | R_CANCELLED | R_DEAD_LETTERED

fun publication_status_is_terminal :: "publication_status \<Rightarrow> bool" where
  "publication_status_is_terminal s \<longleftrightarrow>
     s \<in> {R_ACTIVATION_READY, R_FAILED, R_CANCELLED, R_DEAD_LETTERED}"

datatype publication_phase = PREPARE | PUBLISH

datatype publication_failure_code =
    RF_PROPOSAL_UNAVAILABLE | RF_PROPOSAL_STALE | RF_CATALOG_STALE | RF_BASE_UNAVAILABLE
  | RF_BASE_STALE | RF_CANDIDATE_INVALID | RF_AUTHORIZATION_EXPIRED | RF_AUTHORIZATION_MISMATCH
  | RF_DATAHUB_UNAVAILABLE | RF_DATAHUB_PERMISSION_DENIED | RF_TARGET_CONFLICT
  | RF_READBACK_REQUIRED | RF_UNEXPECTED_WORKER_FAILURE

datatype publication_disposition = RD_RETRY | RD_FAIL | RD_DEAD_LETTER

datatype publication_transition_code =
    RE_INVALID_STATE | RE_LEASE_MISMATCH | RE_LEASE_EXPIRED | RE_FENCING_MISMATCH
  | RE_APPROVAL_MISMATCH | RE_RESULT_MISMATCH | RE_ATTEMPTS_EXHAUSTED

type_synonym 'a publication_outcome = "(publication_transition_code, 'a) outcome"

record publication_lease =
  pl_job_id :: string
  pl_worker_id :: string
  pl_token_digest :: string
  pl_fencing_token :: int
  pl_attempt :: int
  pl_acquired_at :: instant
  pl_heartbeat_at :: instant
  pl_expires_at :: instant

definition publication_lease_valid :: "publication_lease \<Rightarrow> bool" where
  "publication_lease_valid l \<longleftrightarrow>
     is_safe_id (pl_job_id l) \<and> is_safe_id (pl_worker_id l) \<and> is_sha256 (pl_token_digest l)
     \<and> 1 \<le> pl_fencing_token l \<and> 1 \<le> pl_attempt l
     \<and> pl_acquired_at l \<le> pl_heartbeat_at l \<and> pl_heartbeat_at l < pl_expires_at l
     \<and> pl_expires_at l - pl_heartbeat_at l \<le> PUBLICATION_MAX_LEASE
     \<and> pl_fencing_token l = pl_attempt l"

definition publication_lease_is_current ::
  "publication_lease \<Rightarrow> datetime \<Rightarrow> bool publication_outcome" where
  "publication_lease_is_current l d =
     bindE (require_aware d) (\<lambda>t. Inr (pl_acquired_at l \<le> t \<and> t < pl_expires_at l))"

record prepared_proposal =
  pp_id :: string
  pp_fingerprint :: string
  pp_scope :: registry_scope
  pp_workspace_id :: string
  pp_target_registry_version :: int

record publication_job =
  rj_id :: string
  rj_scope :: registry_scope
  rj_proposal :: prepared_proposal
  rj_status :: publication_status
  rj_submitted_by :: string
  rj_submitted_at :: instant
  rj_idempotency_digest :: string
  rj_request_fingerprint :: string
  rj_revision :: int
  rj_attempts :: int
  rj_max_attempts :: int
  rj_last_fencing_token :: int
  rj_available_at :: instant
  rj_lease :: "publication_lease option"
  rj_candidate :: "publishable_version option"
  rj_authorization :: "publication_authorization option"
  rj_failure_code :: "publication_failure_code option"
  rj_receipt :: "readback_receipt option"
  rj_cancel_requested_at :: "instant option"
  rj_updated_at :: instant

abbreviation publication_terminal :: "publication_job \<Rightarrow> bool" where
  "publication_terminal j \<equiv> publication_status_is_terminal (rj_status j)"

section \<open>Identities\<close>

definition job_id_payload :: "registry_scope \<Rightarrow> int \<Rightarrow> json" where
  "job_id_payload scope target_version =
     JObj [(''contract'', JStr ''registry_publication_target_reservation_v1''),
           (''scope'', scope_json scope), (''target_version'', JInt target_version)]"

definition registry_publication_job_id :: "registry_scope \<Rightarrow> int \<Rightarrow> string publication_outcome" where
  "registry_publication_job_id scope target_version =
     (if target_version < 1 then Inl ValueError
      else Inr (''registry-publication-'' @ json_fingerprint (job_id_payload scope target_version)))"

definition publication_request_payload :: "prepared_proposal \<Rightarrow> string \<Rightarrow> json" where
  "publication_request_payload p submitted_by =
     JObj [(''contract'', JStr ''registry_publication_submission_v1''),
           (''proposal_id'', JStr (pp_id p)), (''proposal_fingerprint'', JStr (pp_fingerprint p)),
           (''scope'', scope_json (pp_scope p)),
           (''target_version'', JInt (pp_target_registry_version p)),
           (''submitted_by'', JStr submitted_by)]"

definition registry_publication_request_fingerprint :: "prepared_proposal \<Rightarrow> string \<Rightarrow> string" where
  "registry_publication_request_fingerprint p submitted_by =
     json_fingerprint (publication_request_payload p submitted_by)"

definition digest_registry_publication_lease_capability ::
  "string \<Rightarrow> string publication_outcome" where
  "digest_registry_publication_lease_capability capability =
     (if \<not> (32 \<le> length capability \<and> length capability \<le> 512) \<or> strip capability \<noteq> capability
      then Inl ValueError else Inr (sha256_text capability))"

definition classify_registry_publication_failure ::
  "publication_failure_code \<Rightarrow> publication_disposition" where
  "classify_registry_publication_failure c =
     (if c \<in> {RF_BASE_UNAVAILABLE, RF_DATAHUB_UNAVAILABLE, RF_READBACK_REQUIRED} then RD_RETRY
      else if c \<in> {RF_TARGET_CONFLICT, RF_UNEXPECTED_WORKER_FAILURE} then RD_DEAD_LETTER
      else RD_FAIL)"

definition registry_publication_retry_delay :: "int \<Rightarrow> timedelta publication_outcome" where
  "registry_publication_retry_delay attempt =
     (if attempt < 1 then Inl ValueError
      else Inr (seconds (min (5 * 2 ^ nat (attempt - 1)) PUBLICATION_MAX_RETRY_DELAY_SECONDS)))"

section \<open>The validator\<close>

definition phase :: "publication_job \<Rightarrow> publication_phase" where
  "phase j = (if rj_candidate j = None then PREPARE else PUBLISH)"

definition publication_fields_valid :: "(instant \<Rightarrow> string) \<Rightarrow> publication_job \<Rightarrow> bool" where
  "publication_fields_valid iso_text j \<longleftrightarrow>
     is_safe_id (rj_id j) \<and> registry_scope_valid (rj_scope j)
     \<and> len_between 1 200 (rj_submitted_by j) \<and> \<not> blank (rj_submitted_by j)
     \<and> is_sha256 (rj_idempotency_digest j) \<and> is_sha256 (rj_request_fingerprint j)
     \<and> 1 \<le> rj_revision j \<and> 0 \<le> rj_attempts j \<and> rj_attempts j \<le> 10
     \<and> 1 \<le> rj_max_attempts j \<and> rj_max_attempts j \<le> 10 \<and> 0 \<le> rj_last_fencing_token j
     \<and> optional publication_lease_valid (rj_lease j)
     \<and> optional publishable_version_valid (rj_candidate j)
     \<and> optional (publication_authorization_valid iso_text) (rj_authorization j)
     \<and> optional readback_receipt_valid (rj_receipt j)"

definition publication_identity_valid :: "publication_job \<Rightarrow> bool" where
  "publication_identity_valid j \<longleftrightarrow>
     registry_publication_job_id (rj_scope j) (pp_target_registry_version (rj_proposal j))
       = Inr (rj_id j)
     \<and> pp_scope (rj_proposal j) = rj_scope j
     \<and> pp_workspace_id (rj_proposal j) = sc_workspace_id (rj_scope j)
     \<and> rj_submitted_at j \<le> rj_updated_at j \<and> rj_submitted_at j \<le> rj_available_at j
     \<and> rj_attempts j = rj_last_fencing_token j \<and> rj_attempts j \<le> rj_max_attempts j"

definition candidate_of_proposal :: "publication_job \<Rightarrow> publishable_version \<Rightarrow> bool" where
  "candidate_of_proposal j c \<longleftrightarrow>
     pv_scope c = rj_scope j \<and> pv_source_proposal_id c = pp_id (rj_proposal j)
     \<and> pv_source_proposal_fingerprint c = pp_fingerprint (rj_proposal j)"

definition receipt_names_candidate :: "readback_receipt \<Rightarrow> publishable_version \<Rightarrow> bool" where
  "receipt_names_candidate r c \<longleftrightarrow>
     rr_candidate_id r = pv_id c \<and> rr_candidate_fingerprint r = pv_fingerprint c
     \<and> rr_scope r = pv_scope c \<and> rr_registry_version r = rs_version (pv_registry c)
     \<and> rr_registry_fingerprint r = rs_fingerprint (pv_registry c) \<and> rr_target r = pv_target c"

definition receipt_of_candidate :: "readback_receipt \<Rightarrow> publishable_version \<Rightarrow> bool" where
  "receipt_of_candidate r c \<longleftrightarrow>
     receipt_names_candidate r c
     \<and> observed_registry_related_asset_urns (pv_registry c)
         = (Inr (rr_related_asset_urns r) :: string list publication_outcome)"

definition publication_bindings_valid :: "publication_job \<Rightarrow> bool" where
  "publication_bindings_valid j \<longleftrightarrow>
     optional (candidate_of_proposal j) (rj_candidate j)
     \<and> optional (\<lambda>a. case rj_candidate j of None \<Rightarrow> False | Some c \<Rightarrow> authorization_matches c a)
         (rj_authorization j)
     \<and> optional (\<lambda>r. case rj_candidate j of None \<Rightarrow> False
          | Some c \<Rightarrow> receipt_of_candidate r c
              \<and> rj_submitted_at j \<le> rr_observed_at r \<and> rr_observed_at r \<le> rj_updated_at j)
         (rj_receipt j)"

definition publication_lease_bound :: "publication_job \<Rightarrow> bool" where
  "publication_lease_bound j \<longleftrightarrow>
     (rj_status j \<in> {R_LEASED, R_CANCEL_REQUESTED}) = (rj_lease j \<noteq> None)
     \<and> optional (\<lambda>l. pl_job_id l = rj_id j \<and> pl_attempt l = rj_attempts j
          \<and> pl_fencing_token l = rj_last_fencing_token j) (rj_lease j)"

definition publication_cancellation_valid :: "publication_job \<Rightarrow> bool" where
  "publication_cancellation_valid j \<longleftrightarrow>
     (let retained = rj_cancel_requested_at j \<noteq> None;
          state = (rj_status j = R_CANCEL_REQUESTED);
          recovery = (rj_status j = R_RETRY_WAIT \<and> rj_candidate j \<noteq> None
            \<and> rj_failure_code j = Some RF_READBACK_REQUIRED)
      in \<not> (state \<and> \<not> retained \<or> retained \<and> \<not> (state \<or> recovery)))"

definition publication_state_valid :: "publication_job \<Rightarrow> bool" where
  "publication_state_valid j \<longleftrightarrow>
     (rj_status j = R_QUEUED \<longrightarrow>
        rj_lease j = None \<and> rj_candidate j = None \<and> rj_authorization j = None
        \<and> rj_failure_code j = None \<and> rj_receipt j = None)
     \<and> (rj_status j \<in> {R_LEASED, R_CANCEL_REQUESTED, R_RETRY_WAIT, R_FAILED, R_DEAD_LETTERED} \<longrightarrow>
          (rj_candidate j = None) = (rj_authorization j = None))
     \<and> (rj_status j = R_AWAITING_APPROVAL \<longrightarrow>
          rj_candidate j \<noteq> None \<and> rj_authorization j = None \<and> rj_lease j = None
          \<and> rj_receipt j = None)
     \<and> (rj_status j = R_APPROVED \<longrightarrow>
          rj_candidate j \<noteq> None \<and> rj_authorization j \<noteq> None \<and> rj_lease j = None)
     \<and> (rj_status j = R_RETRY_WAIT \<longrightarrow>
          rj_lease j = None \<and> rj_failure_code j \<noteq> None \<and> rj_receipt j = None)
     \<and> (rj_status j = R_ACTIVATION_READY \<longrightarrow>
          rj_candidate j \<noteq> None \<and> rj_authorization j \<noteq> None \<and> rj_receipt j \<noteq> None
          \<and> rj_failure_code j = None \<and> rj_lease j = None)
     \<and> (rj_status j \<in> {R_FAILED, R_DEAD_LETTERED} \<longrightarrow>
          rj_failure_code j \<noteq> None \<and> rj_lease j = None \<and> rj_receipt j = None)
     \<and> (rj_status j = R_CANCELLED \<longrightarrow>
          rj_lease j = None \<and> rj_receipt j = None \<and> rj_authorization j = None)
     \<and> (\<not> publication_terminal j \<longrightarrow> rj_receipt j = None)"

definition publication_job_valid :: "(instant \<Rightarrow> string) \<Rightarrow> publication_job \<Rightarrow> bool" where
  "publication_job_valid iso_text j \<longleftrightarrow>
     publication_fields_valid iso_text j \<and> publication_identity_valid j
     \<and> publication_bindings_valid j \<and> publication_lease_bound j
     \<and> publication_cancellation_valid j \<and> publication_state_valid j"

section \<open>Transitions\<close>

definition replace_publication_job ::
  "(instant \<Rightarrow> string) \<Rightarrow> publication_job \<Rightarrow> publication_job \<Rightarrow> publication_job publication_outcome" where
  "replace_publication_job iso_text j changed =
     construct_model (publication_job_valid iso_text) (changed\<lparr>rj_revision := rj_revision j + 1\<rparr>)"

text \<open>A timestamp stored in a rebuilt job: the field validator refuses one without a zone.\<close>

definition stored_time :: "datetime \<Rightarrow> instant publication_outcome" where
  "stored_time d = (case d of Aware t \<Rightarrow> Inr t | Naive t \<Rightarrow> Inl ValidationError)"

text \<open>Comparing a timestamp without a zone with a stored one raises \<open>TypeError\<close>.\<close>

definition compared_time :: "datetime \<Rightarrow> instant publication_outcome" where
  "compared_time d = (case d of Aware t \<Rightarrow> Inr t | Naive t \<Rightarrow> Inl TypeError)"

definition create_registry_publication_job ::
  "(instant \<Rightarrow> string) \<Rightarrow> prepared_proposal \<Rightarrow> string \<Rightarrow> datetime \<Rightarrow> string \<Rightarrow> string \<Rightarrow> int \<Rightarrow>
   publication_job publication_outcome" where
  "create_registry_publication_job iso_text p submitted_by submitted_at idempotency request max_attempts =
     bindE (registry_publication_job_id (pp_scope p) (pp_target_registry_version p)) (\<lambda>i.
     bindE (stored_time submitted_at) (\<lambda>t.
     construct_model (publication_job_valid iso_text)
       \<lparr>rj_id = i, rj_scope = pp_scope p, rj_proposal = p, rj_status = R_QUEUED,
        rj_submitted_by = submitted_by, rj_submitted_at = t, rj_idempotency_digest = idempotency,
        rj_request_fingerprint = request, rj_revision = 1, rj_attempts = 0,
        rj_max_attempts = max_attempts, rj_last_fencing_token = 0, rj_available_at = t,
        rj_lease = None, rj_candidate = None, rj_authorization = None, rj_failure_code = None,
        rj_receipt = None, rj_cancel_requested_at = None, rj_updated_at = t\<rparr>))"

definition lease_registry_publication_job ::
  "(instant \<Rightarrow> string) \<Rightarrow> publication_job \<Rightarrow> string \<Rightarrow> string \<Rightarrow> datetime \<Rightarrow> timedelta \<Rightarrow>
   publication_job publication_outcome" where
  "lease_registry_publication_job iso_text j worker_id capability acquired_at duration =
     (if rj_status j \<notin> {R_QUEUED, R_APPROVED, R_RETRY_WAIT} then Inl (Transition RE_INVALID_STATE)
      else bindE (compared_time acquired_at) (\<lambda>acquired.
        if acquired < rj_available_at j then Inl (Transition RE_INVALID_STATE)
        else if rj_attempts j \<ge> rj_max_attempts j then Inl (Transition RE_ATTEMPTS_EXHAUSTED)
        else if rj_candidate j \<noteq> None \<and> rj_authorization j = None
        then Inl (Transition RE_APPROVAL_MISMATCH)
        else if \<not> (seconds 1 \<le> duration \<and> duration \<le> PUBLICATION_MAX_LEASE) then Inl ValueError
        else bindE (digest_registry_publication_lease_capability capability) (\<lambda>digest.
        bindE (construct_model publication_lease_valid
            \<lparr>pl_job_id = rj_id j, pl_worker_id = worker_id, pl_token_digest = digest,
             pl_fencing_token = rj_attempts j + 1, pl_attempt = rj_attempts j + 1,
             pl_acquired_at = acquired, pl_heartbeat_at = acquired,
             pl_expires_at = acquired + duration\<rparr>) (\<lambda>lease.
        replace_publication_job iso_text j
          (j\<lparr>rj_status := if rj_cancel_requested_at j \<noteq> None then R_CANCEL_REQUESTED else R_LEASED,
             rj_attempts := rj_attempts j + 1, rj_last_fencing_token := rj_attempts j + 1,
             rj_lease := Some lease, rj_failure_code := None, rj_updated_at := acquired\<rparr>)))))"

text \<open>The statuses a lease check admits are an argument, as the two keyword flags select them.\<close>

definition expected_statuses :: "bool \<Rightarrow> bool \<Rightarrow> publication_status set" where
  "expected_statuses require_cancel allow_cancel =
     (if require_cancel then {R_CANCEL_REQUESTED} else {R_LEASED})
     \<union> (if allow_cancel then {R_CANCEL_REQUESTED} else {})"

definition require_publication_lease ::
  "publication_job \<Rightarrow> string \<Rightarrow> string \<Rightarrow> int \<Rightarrow> datetime \<Rightarrow> bool \<Rightarrow> bool \<Rightarrow>
   publication_lease publication_outcome" where
  "require_publication_lease j worker_id capability fencing_token checked_at require_cancel allow_cancel =
     (case rj_lease j of
        None \<Rightarrow> Inl (Transition RE_INVALID_STATE)
      | Some lease \<Rightarrow>
          if rj_status j \<notin> expected_statuses require_cancel allow_cancel
          then Inl (Transition RE_INVALID_STATE)
          else if pl_fencing_token lease \<noteq> fencing_token \<or> rj_last_fencing_token j \<noteq> fencing_token
          then Inl (Transition RE_FENCING_MISMATCH)
          else if pl_worker_id lease \<noteq> worker_id then Inl (Transition RE_LEASE_MISMATCH)
          else bindE (digest_registry_publication_lease_capability capability) (\<lambda>digest.
            if pl_token_digest lease \<noteq> digest then Inl (Transition RE_LEASE_MISMATCH)
            else bindE (publication_lease_is_current lease checked_at) (\<lambda>current.
              if \<not> current then Inl (Transition RE_LEASE_EXPIRED) else Inr lease)))"

definition heartbeat_registry_publication_job ::
  "(instant \<Rightarrow> string) \<Rightarrow> publication_job \<Rightarrow> string \<Rightarrow> string \<Rightarrow> int \<Rightarrow> datetime \<Rightarrow> timedelta \<Rightarrow>
   publication_job publication_outcome" where
  "heartbeat_registry_publication_job iso_text j worker_id capability fencing_token heartbeat_at duration =
     bindE (require_publication_lease j worker_id capability fencing_token heartbeat_at False True)
       (\<lambda>lease.
     bindE (stored_time heartbeat_at) (\<lambda>heartbeat.
     bindE (construct_model publication_lease_valid
         (lease\<lparr>pl_heartbeat_at := heartbeat, pl_expires_at := heartbeat + duration\<rparr>)) (\<lambda>renewed.
     replace_publication_job iso_text j
       (j\<lparr>rj_lease := Some renewed, rj_updated_at := heartbeat\<rparr>))))"

definition record_registry_publication_candidate ::
  "(instant \<Rightarrow> string) \<Rightarrow> publication_job \<Rightarrow> publishable_version \<Rightarrow> string \<Rightarrow> string \<Rightarrow> int \<Rightarrow>
   datetime \<Rightarrow> publication_job publication_outcome" where
  "record_registry_publication_candidate iso_text j candidate worker_id capability fencing_token
     completed_at =
     bindE (require_publication_lease j worker_id capability fencing_token completed_at False False)
       (\<lambda>_.
     if phase j \<noteq> PREPARE then Inl (Transition RE_INVALID_STATE)
     else if \<not> candidate_of_proposal j candidate then Inl (Transition RE_RESULT_MISMATCH)
     else bindE (stored_time completed_at) (\<lambda>completed.
       replace_publication_job iso_text j
         (j\<lparr>rj_status := R_AWAITING_APPROVAL, rj_lease := None, rj_candidate := Some candidate,
            rj_authorization := None, rj_failure_code := None, rj_updated_at := completed\<rparr>)))"

definition authorize_registry_publication_job ::
  "(instant \<Rightarrow> string) \<Rightarrow> publication_job \<Rightarrow> publication_authorization \<Rightarrow> datetime \<Rightarrow>
   publication_job publication_outcome" where
  "authorize_registry_publication_job iso_text j authorization authorized_at =
     (if rj_status j \<noteq> R_AWAITING_APPROVAL then Inl (Transition RE_INVALID_STATE)
      else case rj_candidate j of
        None \<Rightarrow> Inl (Transition RE_INVALID_STATE)
      | Some candidate \<Rightarrow>
          (case (validate_registry_publication_authorization candidate authorization
                  (Some authorized_at) :: unit publication_outcome) of
             Inl e \<Rightarrow> Inl (Transition RE_APPROVAL_MISMATCH)
           | Inr u \<Rightarrow>
               bindE (stored_time authorized_at) (\<lambda>authorized.
               replace_publication_job iso_text j
                 (j\<lparr>rj_status := R_APPROVED, rj_authorization := Some authorization,
                    rj_failure_code := None, rj_available_at := authorized,
                    rj_updated_at := authorized\<rparr>))))"

definition request_registry_publication_cancellation ::
  "(instant \<Rightarrow> string) \<Rightarrow> publication_job \<Rightarrow> datetime \<Rightarrow> publication_job publication_outcome" where
  "request_registry_publication_cancellation iso_text j requested_at =
     (if publication_terminal j then Inr j
      else if rj_status j = R_CANCEL_REQUESTED
        \<or> rj_status j = R_RETRY_WAIT \<and> rj_cancel_requested_at j \<noteq> None then Inr j
      else bindE (stored_time requested_at) (\<lambda>requested.
        if rj_status j = R_LEASED then
          replace_publication_job iso_text j
            (j\<lparr>rj_status := R_CANCEL_REQUESTED, rj_cancel_requested_at := Some requested,
               rj_updated_at := requested\<rparr>)
        else
          replace_publication_job iso_text j
            (j\<lparr>rj_status := R_CANCELLED, rj_lease := None, rj_authorization := None,
               rj_failure_code := None, rj_cancel_requested_at := None,
               rj_updated_at := requested\<rparr>)))"

definition acknowledge_registry_publication_cancellation ::
  "(instant \<Rightarrow> string) \<Rightarrow> publication_job \<Rightarrow> string \<Rightarrow> string \<Rightarrow> int \<Rightarrow> datetime \<Rightarrow>
   publication_job publication_outcome" where
  "acknowledge_registry_publication_cancellation iso_text j worker_id capability fencing_token
     cancelled_at =
     bindE (require_publication_lease j worker_id capability fencing_token cancelled_at True False)
       (\<lambda>_.
     bindE (stored_time cancelled_at) (\<lambda>cancelled.
     replace_publication_job iso_text j
       (j\<lparr>rj_status := R_CANCELLED, rj_lease := None, rj_authorization := None,
          rj_failure_code := None, rj_cancel_requested_at := None, rj_updated_at := cancelled\<rparr>)))"

definition complete_registry_publication_job ::
  "(instant \<Rightarrow> string) \<Rightarrow> publication_job \<Rightarrow> readback_receipt \<Rightarrow> string \<Rightarrow> string \<Rightarrow> int \<Rightarrow>
   datetime \<Rightarrow> publication_job publication_outcome" where
  "complete_registry_publication_job iso_text j receipt worker_id capability fencing_token completed_at =
     bindE (require_publication_lease j worker_id capability fencing_token completed_at False True)
       (\<lambda>lease.
     case rj_candidate j of
       None \<Rightarrow> Inl (Transition RE_INVALID_STATE)
     | Some candidate \<Rightarrow>
         if \<not> receipt_names_candidate receipt candidate then Inl (Transition RE_RESULT_MISMATCH)
         else bindE (observed_registry_related_asset_urns (pv_registry candidate)) (\<lambda>urns.
         bindE (compared_time completed_at) (\<lambda>completed.
         if rr_related_asset_urns receipt \<noteq> urns
            \<or> rr_observed_at receipt < pl_acquired_at lease \<or> rr_observed_at receipt > completed
         then Inl (Transition RE_RESULT_MISMATCH)
         else replace_publication_job iso_text j
           (j\<lparr>rj_status := R_ACTIVATION_READY, rj_lease := None, rj_failure_code := None,
              rj_receipt := Some receipt, rj_cancel_requested_at := None,
              rj_updated_at := completed\<rparr>))))"

definition effective_code ::
  "publication_job \<Rightarrow> publication_failure_code \<Rightarrow> publication_failure_code" where
  "effective_code j c =
     (if rj_status j = R_CANCEL_REQUESTED \<and> phase j = PUBLISH \<and> c \<noteq> RF_TARGET_CONFLICT
      then RF_READBACK_REQUIRED else c)"

definition retry_publication_job ::
  "(instant \<Rightarrow> string) \<Rightarrow> publication_job \<Rightarrow> publication_failure_code \<Rightarrow> instant \<Rightarrow>
   publication_job publication_outcome" where
  "retry_publication_job iso_text j c t =
     bindE (registry_publication_retry_delay (rj_attempts j)) (\<lambda>delay.
     replace_publication_job iso_text j
       (j\<lparr>rj_status := R_RETRY_WAIT, rj_lease := None, rj_failure_code := Some c,
          rj_available_at := t + delay,
          rj_cancel_requested_at := if phase j = PUBLISH then rj_cancel_requested_at j else None,
          rj_updated_at := t\<rparr>))"

definition close_publication_job ::
  "(instant \<Rightarrow> string) \<Rightarrow> publication_job \<Rightarrow> publication_status \<Rightarrow> publication_failure_code \<Rightarrow>
   instant \<Rightarrow> publication_job publication_outcome" where
  "close_publication_job iso_text j s c t =
     replace_publication_job iso_text j
       (j\<lparr>rj_status := s, rj_lease := None, rj_failure_code := Some c,
          rj_cancel_requested_at := None, rj_updated_at := t\<rparr>)"

definition fail_registry_publication_job ::
  "(instant \<Rightarrow> string) \<Rightarrow> publication_job \<Rightarrow> publication_failure_code \<Rightarrow> string \<Rightarrow> string \<Rightarrow> int \<Rightarrow>
   datetime \<Rightarrow> publication_job publication_outcome" where
  "fail_registry_publication_job iso_text j c worker_id capability fencing_token failed_at =
     bindE (require_publication_lease j worker_id capability fencing_token failed_at False True)
       (\<lambda>_.
     bindE (stored_time failed_at) (\<lambda>failed.
     let code_now = effective_code j c in
     if code_now = RF_AUTHORIZATION_EXPIRED then
       (if rj_candidate j = None then Inl (Transition RE_INVALID_STATE)
        else replace_publication_job iso_text j
          (j\<lparr>rj_status := R_AWAITING_APPROVAL, rj_lease := None, rj_authorization := None,
             rj_failure_code := None, rj_cancel_requested_at := None, rj_updated_at := failed\<rparr>))
     else
       (let disposition = classify_registry_publication_failure code_now in
        if disposition = RD_RETRY \<and> rj_attempts j < rj_max_attempts j
        then retry_publication_job iso_text j code_now failed
        else close_publication_job iso_text j
          (if disposition = RD_FAIL then R_FAILED else R_DEAD_LETTERED) code_now failed)))"

definition reap_expired_registry_publication_lease ::
  "(instant \<Rightarrow> string) \<Rightarrow> publication_job \<Rightarrow> datetime \<Rightarrow> publication_job publication_outcome" where
  "reap_expired_registry_publication_lease iso_text j expired_at =
     (case rj_lease j of
        None \<Rightarrow> Inl (Transition RE_INVALID_STATE)
      | Some lease \<Rightarrow>
          if rj_status j \<notin> {R_LEASED, R_CANCEL_REQUESTED} then Inl (Transition RE_INVALID_STATE)
          else bindE (compared_time expired_at) (\<lambda>expired.
            if pl_expires_at lease > expired then Inl (Transition RE_INVALID_STATE)
            else if rj_status j = R_CANCEL_REQUESTED \<and> phase j = PREPARE then
              replace_publication_job iso_text j
                (j\<lparr>rj_status := R_CANCELLED, rj_lease := None, rj_authorization := None,
                   rj_failure_code := None, rj_cancel_requested_at := None,
                   rj_updated_at := expired\<rparr>)
            else
              (let c = (if phase j = PREPARE then RF_BASE_UNAVAILABLE else RF_READBACK_REQUIRED) in
               if rj_attempts j < rj_max_attempts j then retry_publication_job iso_text j c expired
               else close_publication_job iso_text j R_DEAD_LETTERED c expired)))"

section \<open>Commands and runs\<close>

datatype publication_command =
    RLease string string datetime timedelta
  | RHeartbeat string string int datetime timedelta
  | RRecord publishable_version string string int datetime
  | RAuthorize publication_authorization datetime
  | RCancel datetime
  | RAcknowledge string string int datetime
  | RComplete readback_receipt string string int datetime
  | RFail publication_failure_code string string int datetime
  | RReap datetime

fun run_publication_command ::
  "(instant \<Rightarrow> string) \<Rightarrow> publication_command \<Rightarrow> publication_job \<Rightarrow> publication_job publication_outcome" where
  "run_publication_command f (RLease w cap t d) j = lease_registry_publication_job f j w cap t d"
| "run_publication_command f (RHeartbeat w cap n t d) j = heartbeat_registry_publication_job f j w cap n t d"
| "run_publication_command f (RRecord c w cap n t) j = record_registry_publication_candidate f j c w cap n t"
| "run_publication_command f (RAuthorize a t) j = authorize_registry_publication_job f j a t"
| "run_publication_command f (RCancel t) j = request_registry_publication_cancellation f j t"
| "run_publication_command f (RAcknowledge w cap n t) j = acknowledge_registry_publication_cancellation f j w cap n t"
| "run_publication_command f (RComplete r w cap n t) j = complete_registry_publication_job f j r w cap n t"
| "run_publication_command f (RFail c w cap n t) j = fail_registry_publication_job f j c w cap n t"
| "run_publication_command f (RReap t) j = reap_expired_registry_publication_lease f j t"

fun is_publication_lease :: "publication_command \<Rightarrow> bool" where
  "is_publication_lease (RLease w cap t d) \<longleftrightarrow> True"
| "is_publication_lease c \<longleftrightarrow> False"

fun publication_token :: "publication_command \<Rightarrow> int option" where
  "publication_token (RHeartbeat w cap n t d) = Some n"
| "publication_token (RRecord c w cap n t) = Some n"
| "publication_token (RAcknowledge w cap n t) = Some n"
| "publication_token (RComplete r w cap n t) = Some n"
| "publication_token (RFail c w cap n t) = Some n"
| "publication_token c = None"

definition publication_holds :: "publication_job \<Rightarrow> int \<Rightarrow> instant \<Rightarrow> publication_lease \<Rightarrow> bool" where
  "publication_holds j n t l \<longleftrightarrow>
     rj_lease j = Some l \<and> rj_status j \<in> {R_LEASED, R_CANCEL_REQUESTED}
     \<and> pl_fencing_token l = n \<and> rj_last_fencing_token j = n \<and> pl_acquired_at l \<le> t
     \<and> t < pl_expires_at l"

lemma require_publication_lease_Inr:
  assumes "require_publication_lease j w cap n d rc ac = Inr l"
  obtains t where "d = Aware t" "publication_holds j n t l" "rj_status j \<in> expected_statuses rc ac"
  using assms
  by (cases d; auto simp: require_publication_lease_def publication_lease_is_current_def
      publication_holds_def expected_statuses_def bindE_eq_Inr split: option.splits if_splits)

lemma returns_require_publication_lease [returns_intros]:
  "(\<And>t l. d = Aware t \<Longrightarrow> publication_holds j n t l \<Longrightarrow> rj_status j \<in> expected_statuses rc ac \<Longrightarrow> P l) \<Longrightarrow>
   returns P (require_publication_lease j w cap n d rc ac)"
  unfolding returns_def by (auto elim!: require_publication_lease_Inr)

lemma returns_replace_publication_job [returns_intros]:
  "(publication_job_valid f (k\<lparr>rj_revision := rj_revision j + 1\<rparr>) \<Longrightarrow> P (k\<lparr>rj_revision := rj_revision j + 1\<rparr>)) \<Longrightarrow>
   returns P (replace_publication_job f j k)"
  unfolding replace_publication_job_def by (intro returns_intros)

text \<open>The delivery account and the reservation survive every transition.\<close>

definition same_reservation :: "publication_job \<Rightarrow> publication_job \<Rightarrow> bool" where
  "same_reservation j k \<longleftrightarrow>
     rj_id k = rj_id j \<and> rj_scope k = rj_scope j \<and> rj_proposal k = rj_proposal j
     \<and> rj_max_attempts k = rj_max_attempts j \<and> rj_submitted_at k = rj_submitted_at j
     \<and> rj_request_fingerprint k = rj_request_fingerprint j"

definition publication_moves ::
  "(instant \<Rightarrow> string) \<Rightarrow> publication_job \<Rightarrow> publication_job \<Rightarrow> bool" where
  "publication_moves f j k \<longleftrightarrow>
     publication_job_valid f k \<and> same_reservation j k \<and> \<not> publication_terminal j
     \<and> rj_attempts k = rj_attempts j \<and> rj_revision k = rj_revision j + 1"

lemma retry_moves:
  "\<not> publication_terminal j \<Longrightarrow> returns (publication_moves f j) (retry_publication_job f j c t)"
  unfolding retry_publication_job_def
  by (intro returns_intros) (simp add: publication_moves_def same_reservation_def)

lemma close_moves:
  "\<not> publication_terminal j \<Longrightarrow> returns (publication_moves f j) (close_publication_job f j s c t)"
  unfolding close_publication_job_def
  by (intro returns_intros) (simp add: publication_moves_def same_reservation_def)

lemmas move_simps = publication_moves_def same_reservation_def publication_holds_def

lemma publication_command_moves:
  "returns (publication_moves f j) (heartbeat_registry_publication_job f j w cap n d dur)"
  "returns (publication_moves f j) (record_registry_publication_candidate f j c w cap n d)"
  "returns (publication_moves f j) (authorize_registry_publication_job f j a d)"
  "returns (\<lambda>k. k = j \<or> publication_moves f j k) (request_registry_publication_cancellation f j d)"
  "returns (publication_moves f j) (acknowledge_registry_publication_cancellation f j w cap n d)"
  "returns (publication_moves f j) (complete_registry_publication_job f j r w cap n d)"
proof -
  show "returns (publication_moves f j) (heartbeat_registry_publication_job f j w cap n d dur)"
    unfolding heartbeat_registry_publication_job_def
    by (intro returns_intros) (auto simp: move_simps elim!: require_publication_lease_Inr)
  show "returns (publication_moves f j) (record_registry_publication_candidate f j c w cap n d)"
    unfolding record_registry_publication_candidate_def
    by (intro returns_intros) (auto simp: move_simps elim!: require_publication_lease_Inr)
  show "returns (publication_moves f j) (authorize_registry_publication_job f j a d)"
    unfolding authorize_registry_publication_job_def
    by (auto simp: returns_def replace_publication_job_def construct_model_eq_Inr bindE_eq_Inr
        move_simps split: option.splits sum.splits if_splits)
  show "returns (\<lambda>k. k = j \<or> publication_moves f j k) (request_registry_publication_cancellation f j d)"
    unfolding request_registry_publication_cancellation_def
    by (intro returns_intros) (auto simp: move_simps)
  show "returns (publication_moves f j) (acknowledge_registry_publication_cancellation f j w cap n d)"
    unfolding acknowledge_registry_publication_cancellation_def
    by (intro returns_intros) (auto simp: move_simps elim!: require_publication_lease_Inr)
  show "returns (publication_moves f j) (complete_registry_publication_job f j r w cap n d)"
    unfolding complete_registry_publication_job_def
    by (intro returns_intros) (auto simp: move_simps elim!: require_publication_lease_Inr)
qed

lemma holding_not_terminal: "publication_holds j n t l \<Longrightarrow> \<not> publication_terminal j"
  by (auto simp: publication_holds_def)

lemma publication_fail_moves: "returns (publication_moves f j) (fail_registry_publication_job f j c w cap n d)"
  unfolding fail_registry_publication_job_def
proof (intro returns_bindE)
  fix l t
  assume l: "require_publication_lease j w cap n d False True = Inr l"
  then have nt: "\<not> publication_terminal j"
    by (elim require_publication_lease_Inr) (rule holding_not_terminal)
  have "returns (publication_moves f j) (replace_publication_job f j
      (j\<lparr>rj_status := R_AWAITING_APPROVAL, rj_lease := None, rj_authorization := None,
         rj_failure_code := None, rj_cancel_requested_at := None, rj_updated_at := t\<rparr>))"
    using nt by (intro returns_intros) (simp add: move_simps)
  then show "returns (publication_moves f j)
     (let code_now = effective_code j c in
     if code_now = RF_AUTHORIZATION_EXPIRED then
       (if rj_candidate j = None then Inl (Transition RE_INVALID_STATE)
        else replace_publication_job f j
          (j\<lparr>rj_status := R_AWAITING_APPROVAL, rj_lease := None, rj_authorization := None,
             rj_failure_code := None, rj_cancel_requested_at := None, rj_updated_at := t\<rparr>))
     else
       (let disposition = classify_registry_publication_failure code_now in
        if disposition = RD_RETRY \<and> rj_attempts j < rj_max_attempts j
        then retry_publication_job f j code_now t
        else close_publication_job f j
          (if disposition = RD_FAIL then R_FAILED else R_DEAD_LETTERED) code_now t))"
    unfolding Let_def using retry_moves [OF nt] close_moves [OF nt]
    by (auto intro: returns_Inl)
qed

lemma publication_reap_moves: "returns (publication_moves f j) (reap_expired_registry_publication_lease f j d)"
  unfolding reap_expired_registry_publication_lease_def Let_def
  by (intro returns_option returns_if returns_bindE returns_Inl returns_replace_publication_job
      retry_moves close_moves) (auto simp: move_simps)

lemma publication_progress_moves:
  assumes "run_publication_command f c j = Inr k" and "\<not> is_publication_lease c"
  shows "k = j \<or> publication_moves f j k"
  using assms
  by (cases c) (auto dest: publication_command_moves [THEN returnsD]
      publication_fail_moves [THEN returnsD] publication_reap_moves [THEN returnsD])

definition leased_publication_job ::
  "publication_job \<Rightarrow> string \<Rightarrow> string \<Rightarrow> instant \<Rightarrow> timedelta \<Rightarrow> publication_job" where
  "leased_publication_job j w cap t d =
     j\<lparr>rj_status := if rj_cancel_requested_at j \<noteq> None then R_CANCEL_REQUESTED else R_LEASED,
       rj_attempts := rj_attempts j + 1, rj_last_fencing_token := rj_attempts j + 1,
       rj_lease := Some \<lparr>pl_job_id = rj_id j, pl_worker_id = w, pl_token_digest = sha256_text cap,
         pl_fencing_token = rj_attempts j + 1, pl_attempt = rj_attempts j + 1,
         pl_acquired_at = t, pl_heartbeat_at = t, pl_expires_at = t + d\<rparr>,
       rj_failure_code := None, rj_updated_at := t, rj_revision := rj_revision j + 1\<rparr>"

lemma lease_publication_Inr:
  assumes "lease_registry_publication_job f j w cap acq d = Inr k"
  obtains t where "acq = Aware t" "k = leased_publication_job j w cap t d" "publication_job_valid f k"
    "rj_status j \<in> {R_QUEUED, R_APPROVED, R_RETRY_WAIT}" "rj_available_at j \<le> t"
    "rj_attempts j < rj_max_attempts j" "rj_candidate j \<noteq> None \<longrightarrow> rj_authorization j \<noteq> None"
  using assms
  by (cases acq; auto simp: lease_registry_publication_job_def compared_time_def bindE_eq_Inr
      digest_registry_publication_lease_capability_def construct_model_eq_Inr
      replace_publication_job_def leased_publication_job_def split: if_splits)

definition publication_claim ::
  "(instant \<Rightarrow> string) \<Rightarrow> publication_job \<Rightarrow> publication_job \<Rightarrow> bool" where
  "publication_claim f j k \<longleftrightarrow> (\<exists>w cap t d. lease_registry_publication_job f j w cap t d = Inr k)"

definition publication_progress ::
  "(instant \<Rightarrow> string) \<Rightarrow> publication_job \<Rightarrow> publication_job \<Rightarrow> bool" where
  "publication_progress f j k \<longleftrightarrow>
     (\<exists>c. \<not> is_publication_lease c \<and> run_publication_command f c j = Inr k)"

definition publication_accepts :: "(instant \<Rightarrow> string) \<Rightarrow> publication_job \<Rightarrow> int \<Rightarrow> bool" where
  "publication_accepts f j n \<longleftrightarrow>
     (\<exists>c k. publication_token c = Some n \<and> run_publication_command f c j = Inr k)"

lemma token_checked: "require_publication_lease j w cap n d rc ac = Inr l \<Longrightarrow> rj_last_fencing_token j = n"
  by (auto elim!: require_publication_lease_Inr simp: publication_holds_def)

lemma publication_write_needs_token:
  assumes "publication_accepts f j n"
  shows "rj_last_fencing_token j = n"
proof -
  obtain c k where c: "publication_token c = Some n" "run_publication_command f c j = Inr k"
    using assms by (auto simp: publication_accepts_def)
  then show ?thesis
    by (cases c) (auto simp: heartbeat_registry_publication_job_def
        record_registry_publication_candidate_def acknowledge_registry_publication_cancellation_def
        complete_registry_publication_job_def fail_registry_publication_job_def bindE_eq_Inr
        dest: token_checked)
qed

lemma publication_claim_account:
  assumes "publication_claim f j k"
  shows "publication_job_valid f k" and "\<not> publication_terminal j"
    and "rj_attempts k = rj_attempts j + 1" and "same_reservation j k"
    and "rj_last_fencing_token k = rj_attempts j + 1"
  using assms
  by (auto simp: publication_claim_def leased_publication_job_def same_reservation_def
      elim!: lease_publication_Inr)

lemma publication_progress_account:
  assumes "publication_job_valid f j" and "publication_progress f j k"
  shows "publication_job_valid f k" and "publication_terminal j \<Longrightarrow> k = j"
    and "rj_attempts k = rj_attempts j" and "same_reservation j k"
proof -
  have "k = j \<or> publication_moves f j k"
    using assms(2) publication_progress_moves by (auto simp: publication_progress_def)
  then show "publication_job_valid f k" "publication_terminal j \<Longrightarrow> k = j"
    "rj_attempts k = rj_attempts j" "same_reservation j k"
    using assms(1) by (auto simp: move_simps)
qed

lemma publication_fence: "publication_job_valid f j \<Longrightarrow> rj_last_fencing_token j = rj_attempts j"
  by (simp add: publication_job_valid_def publication_identity_valid_def)

interpretation publication_leases: fenced_lease "publication_job_valid f" "publication_claim f"
  "publication_progress f" rj_last_fencing_token rj_max_attempts "publication_accepts f"
  publication_terminal
  for f
proof
  fix j k n
  assume v: "publication_job_valid f j"
  show "0 \<le> rj_last_fencing_token j \<and> rj_last_fencing_token j \<le> rj_max_attempts j"
    using v by (auto simp: publication_job_valid_def publication_identity_valid_def publication_fields_valid_def)
  show "n = rj_last_fencing_token j" if "publication_accepts f j n"
    using publication_write_needs_token [OF that] by simp
  show "publication_job_valid f k" if "publication_progress f j k"
    by (rule publication_progress_account [OF v that])
  show "rj_max_attempts k = rj_max_attempts j" if "publication_progress f j k"
    using publication_progress_account(4) [OF v that] by (simp add: same_reservation_def)
  show "rj_last_fencing_token k = rj_last_fencing_token j" if "publication_progress f j k"
    using publication_progress_account [OF v that] v by (simp add: publication_fence)
  show "publication_job_valid f k" if "publication_claim f j k"
    by (rule publication_claim_account [OF that])
  show "rj_max_attempts k = rj_max_attempts j" if "publication_claim f j k"
    using publication_claim_account(4) [OF that] by (simp add: same_reservation_def)
  show "rj_last_fencing_token k = rj_last_fencing_token j + 1" if "publication_claim f j k"
    using publication_claim_account(5) [OF that] v by (simp add: publication_fence)
  show "\<not> publication_claim f j k" if "publication_terminal j"
    using publication_claim_account(2) that by blast
  show "k = j" if "publication_terminal j" "publication_progress f j k"
    by (rule publication_progress_account(2) [OF v that(2,1)])
qed

interpretation publication_backoff: capped_backoff registry_publication_retry_delay 5
  PUBLICATION_MAX_RETRY_DELAY_SECONDS "\<lambda>n. 1 \<le> n"
  by unfold_locales (auto simp: registry_publication_retry_delay_def backoff_seconds_def
      PUBLICATION_MAX_RETRY_DELAY_SECONDS_def)

section \<open>Two deliveries per publication\<close>

text \<open>A candidate costs one delivery, and working on it a second one.\<close>

definition delivery_floor :: "publication_job \<Rightarrow> bool" where
  "delivery_floor j \<longleftrightarrow>
     (rj_candidate j \<noteq> None \<longrightarrow> 1 \<le> rj_attempts j)
     \<and> (rj_candidate j \<noteq> None
         \<and> rj_status j \<in> {R_LEASED, R_CANCEL_REQUESTED, R_RETRY_WAIT, R_ACTIVATION_READY}
        \<longrightarrow> 2 \<le> rj_attempts j)"

lemma holding_attempts:
  assumes "publication_job_valid f j" and "publication_holds j n t l"
  shows "1 \<le> rj_attempts j"
  using assms by (auto simp: publication_job_valid_def publication_fields_valid_def
      publication_lease_valid_def publication_lease_bound_def publication_holds_def)

lemma floor_lease: "delivery_floor j \<Longrightarrow> 0 \<le> rj_attempts j \<Longrightarrow> delivery_floor (leased_publication_job j w cap t d)"
  by (auto simp: delivery_floor_def leased_publication_job_def)

lemma floor_retry:
  "delivery_floor j \<Longrightarrow> rj_status j \<in> {R_LEASED, R_CANCEL_REQUESTED} \<Longrightarrow>
   returns delivery_floor (retry_publication_job f j c t)"
  "delivery_floor j \<Longrightarrow> s \<in> {R_FAILED, R_DEAD_LETTERED} \<Longrightarrow>
   returns delivery_floor (close_publication_job f j s c t)"
  unfolding retry_publication_job_def close_publication_job_def
  by (intro returns_intros; auto simp: delivery_floor_def)+

lemma floor_progress:
  assumes v: "publication_job_valid f j" and "delivery_floor j"
  shows "returns delivery_floor (heartbeat_registry_publication_job f j w cap n d dur)"
    and "returns delivery_floor (record_registry_publication_candidate f j c w cap n d)"
    and "returns delivery_floor (authorize_registry_publication_job f j a d)"
    and "returns delivery_floor (request_registry_publication_cancellation f j d)"
    and "returns delivery_floor (acknowledge_registry_publication_cancellation f j w cap n d)"
    and "returns delivery_floor (complete_registry_publication_job f j r w cap n d)"
proof -
  show "returns delivery_floor (heartbeat_registry_publication_job f j w cap n d dur)"
    unfolding heartbeat_registry_publication_job_def
    by (intro returns_intros) (use assms(2) in \<open>auto simp: delivery_floor_def\<close>)
  show "returns delivery_floor (record_registry_publication_candidate f j c w cap n d)"
    unfolding record_registry_publication_candidate_def
    by (intro returns_intros) (auto simp: delivery_floor_def dest: holding_attempts [OF v]
        elim!: require_publication_lease_Inr)
  show "returns delivery_floor (authorize_registry_publication_job f j a d)"
    using assms(2) unfolding authorize_registry_publication_job_def
    by (auto simp: returns_def replace_publication_job_def construct_model_eq_Inr bindE_eq_Inr
        delivery_floor_def split: option.splits sum.splits if_splits)
  show "returns delivery_floor (request_registry_publication_cancellation f j d)"
    unfolding request_registry_publication_cancellation_def
    by (intro returns_intros) (use assms(2) in \<open>auto simp: delivery_floor_def\<close>)
  show "returns delivery_floor (acknowledge_registry_publication_cancellation f j w cap n d)"
    unfolding acknowledge_registry_publication_cancellation_def
    by (intro returns_intros) (use assms(2) in \<open>auto simp: delivery_floor_def\<close>)
  show "returns delivery_floor (complete_registry_publication_job f j r w cap n d)"
    unfolding complete_registry_publication_job_def
    by (intro returns_intros) (use assms(2) in
      \<open>auto simp: delivery_floor_def publication_holds_def elim!: require_publication_lease_Inr\<close>)
qed

lemma floor_fail_reap:
  assumes "delivery_floor j"
  shows "returns delivery_floor (fail_registry_publication_job f j c w cap n d)"
    and "returns delivery_floor (reap_expired_registry_publication_lease f j d)"
proof -
  have s: "rj_status j \<in> {R_LEASED, R_CANCEL_REQUESTED}"
    if "require_publication_lease j w cap n d False True = Inr l" for l
    using that by (elim require_publication_lease_Inr) (simp add: publication_holds_def)
  have awaiting: "returns delivery_floor (replace_publication_job f j
      (j\<lparr>rj_status := R_AWAITING_APPROVAL, rj_lease := None, rj_authorization := None,
         rj_failure_code := None, rj_cancel_requested_at := None, rj_updated_at := t\<rparr>))" for t
    by (intro returns_intros) (use assms in \<open>simp add: delivery_floor_def\<close>)
  show "returns delivery_floor (fail_registry_publication_job f j c w cap n d)"
    unfolding fail_registry_publication_job_def Let_def
    by (intro returns_bindE returns_if returns_Inl awaiting floor_retry [OF assms] s)
      (auto split: if_splits)
  show "returns delivery_floor (reap_expired_registry_publication_lease f j d)"
    unfolding reap_expired_registry_publication_lease_def Let_def
    by (intro returns_option returns_if returns_bindE returns_Inl returns_replace_publication_job
        floor_retry [OF assms]) (use assms in \<open>auto simp: delivery_floor_def\<close>)
qed

lemma run_delivery_floor:
  assumes "lease_run (publication_claim f) (publication_progress f) j n k"
    and "publication_job_valid f j" and "delivery_floor j"
  shows "delivery_floor k"
  using assms
proof (induction)
  case (run_claim j n k l)
  then have v: "publication_job_valid f k" using publication_leases.run_valid by blast
  have "0 \<le> rj_attempts k" using v by (simp add: publication_job_valid_def publication_fields_valid_def)
  then show ?case
    using run_claim by (auto simp: publication_claim_def elim!: lease_publication_Inr intro: floor_lease)
next
  case (run_progress j n k l)
  then have v: "publication_job_valid f k" and fl: "delivery_floor k"
    using publication_leases.run_valid by blast+
  obtain c where "\<not> is_publication_lease c" "run_publication_command f c k = Inr l"
    using run_progress.hyps(2) by (auto simp: publication_progress_def)
  then show ?case
    by (cases c) (auto dest: floor_progress [OF v fl, THEN returnsD] floor_fail_reap [OF fl, THEN returnsD])
qed simp

section \<open>Properties\<close>

lemma created_publication_job:
  assumes "create_registry_publication_job f p who d idem req m = Inr j"
  shows "publication_job_valid f j" and "rj_attempts j = 0" and "rj_max_attempts j = m"
    and "rj_proposal j = p" and "rj_status j = R_QUEUED" and "delivery_floor j" and "m \<le> 10"
  using assms
  by (auto simp: create_registry_publication_job_def bindE_eq_Inr construct_model_eq_Inr
      delivery_floor_def publication_job_valid_def publication_fields_valid_def)

lemma run_same_reservation:
  assumes "lease_run (publication_claim f) (publication_progress f) j n k" and "publication_job_valid f j"
  shows "same_reservation j k"
  using assms
proof (induction)
  case (run_claim j n k l)
  then show ?case using publication_claim_account(4) [OF run_claim.hyps(2)] by (simp add: same_reservation_def)
next
  case (run_progress j n k l)
  then show ?case
    using publication_progress_account(4) [OF publication_leases.run_valid [OF run_progress.hyps(1)] run_progress.hyps(2)]
    by (simp add: same_reservation_def)
qed (simp add: same_reservation_def)

text \<open>Property C16. The account of a publication job: in every run from a submitted job the stored job
  passes its validator, still reserves the same target for the same proposal, and its attempts and
  fence equal the number of deliveries, never more than the configured maximum of at most ten.\<close>

theorem publication_run_account:
  assumes "create_registry_publication_job f p who d idem req m = Inr j"
    and "lease_run (publication_claim f) (publication_progress f) j n k"
  shows "publication_job_valid f k \<and> rj_id k = rj_id j \<and> rj_proposal k = p
    \<and> rj_attempts k = int n \<and> rj_last_fencing_token k = int n \<and> int n \<le> m \<and> m \<le> 10"
proof -
  note j = created_publication_job [OF assms(1)]
  have k: "publication_job_valid f k" by (rule publication_leases.run_valid [OF assms(2) j(1)])
  show ?thesis
    using publication_leases.run_accounts [OF assms(2) j(1)] publication_fence [OF j(1)]
      publication_fence [OF k] publication_leases.deliveries_bounded(2) [OF assms(2) j(1)] j k
      run_same_reservation [OF assms(2) j(1)]
    by (simp add: same_reservation_def)
qed

text \<open>Property C15. What a published version rests on: in every run from a submitted job, an
  activation-ready job holds a candidate assembled from the submitted proposal, an authorization
  for exactly that candidate and a receipt that reads exactly that candidate back, and at least two
  deliveries were made. A job submitted with a maximum of one attempt is therefore accepted but can
  never publish.\<close>

theorem activation_needs_two_deliveries:
  assumes "create_registry_publication_job f p who d idem req m = Inr j"
    and "lease_run (publication_claim f) (publication_progress f) j n k"
    and "rj_status k = R_ACTIVATION_READY"
  shows "2 \<le> n \<and> 2 \<le> m \<and> (\<exists>c a r. rj_candidate k = Some c \<and> rj_authorization k = Some a
    \<and> rj_receipt k = Some r \<and> pv_source_proposal_id c = pp_id p
    \<and> pv_source_proposal_fingerprint c = pp_fingerprint p
    \<and> authorization_matches c a \<and> receipt_of_candidate r c)"
proof -
  note j = created_publication_job [OF assms(1)]
  have k: "publication_job_valid f k" by (rule publication_leases.run_valid [OF assms(2) j(1)])
  have n: "rj_attempts k = int n" "int n \<le> m"
    using publication_leases.run_accounts [OF assms(2) j(1)] publication_fence [OF j(1)]
      publication_fence [OF k] publication_leases.deliveries_bounded(2) [OF assms(2) j(1)] j by simp_all
  have p: "rj_proposal k = p"
    using run_same_reservation [OF assms(2) j(1)] j(4) by (simp add: same_reservation_def)
  obtain c a r where *: "rj_candidate k = Some c" "rj_authorization k = Some a" "rj_receipt k = Some r"
    using k assms(3) by (auto simp: publication_job_valid_def publication_state_valid_def)
  have "2 \<le> rj_attempts k"
    using run_delivery_floor [OF assms(2) j(1) j(6)] * assms(3) by (simp add: delivery_floor_def)
  moreover have "pv_source_proposal_id c = pp_id p" "pv_source_proposal_fingerprint c = pp_fingerprint p"
    "authorization_matches c a" "receipt_of_candidate r c"
    using k * p by (simp_all add: publication_job_valid_def publication_bindings_valid_def
        candidate_of_proposal_def)
  ultimately show ?thesis using n * by auto
qed

text \<open>A publication worker whose lease was replaced is fenced off: in any state after a
  later delivery, no heartbeat, candidate, acknowledgement, receipt or failure with its token
  succeeds.\<close>

lemma stale_publisher_is_fenced:
  assumes "lease_run (publication_claim f) (publication_progress f) j n k"
    and "publication_job_valid f j" and "0 < n"
    and "publication_token c = Some x" and "x \<le> rj_last_fencing_token j"
  shows "\<exists>e. run_publication_command f c k = Inl e"
  using publication_leases.stale_token_refused [OF assms(1-3,5)] assms(4)
  by (cases "run_publication_command f c k") (auto simp: publication_accepts_def)

text \<open>Without a lease only an authorization and a cancellation change a job.\<close>

lemma unleased_commands_refused:
  assumes "rj_lease j = None"
  shows "heartbeat_registry_publication_job f j w cap x d dur = Inl (Transition RE_INVALID_STATE)"
    and "record_registry_publication_candidate f j c w cap x d = Inl (Transition RE_INVALID_STATE)"
    and "acknowledge_registry_publication_cancellation f j w cap x d = Inl (Transition RE_INVALID_STATE)"
    and "complete_registry_publication_job f j r w cap x d = Inl (Transition RE_INVALID_STATE)"
    and "fail_registry_publication_job f j fc w cap x d = Inl (Transition RE_INVALID_STATE)"
    and "reap_expired_registry_publication_lease f j d = Inl (Transition RE_INVALID_STATE)"
proof -
  have "require_publication_lease j w cap x d rc ac = Inl (Transition RE_INVALID_STATE)" for rc ac
    using assms by (simp add: require_publication_lease_def)
  then show "heartbeat_registry_publication_job f j w cap x d dur = Inl (Transition RE_INVALID_STATE)"
    "record_registry_publication_candidate f j c w cap x d = Inl (Transition RE_INVALID_STATE)"
    "acknowledge_registry_publication_cancellation f j w cap x d = Inl (Transition RE_INVALID_STATE)"
    "complete_registry_publication_job f j r w cap x d = Inl (Transition RE_INVALID_STATE)"
    "fail_registry_publication_job f j fc w cap x d = Inl (Transition RE_INVALID_STATE)"
    by (simp_all add: heartbeat_registry_publication_job_def
        record_registry_publication_candidate_def acknowledge_registry_publication_cancellation_def
        complete_registry_publication_job_def fail_registry_publication_job_def)
  show "reap_expired_registry_publication_lease f j d = Inl (Transition RE_INVALID_STATE)"
    using assms by (simp add: reap_expired_registry_publication_lease_def)
qed

lemma authorize_status: "returns (\<lambda>k. rj_status k = R_APPROVED) (authorize_registry_publication_job f j a d)"
  by (auto simp: authorize_registry_publication_job_def returns_def replace_publication_job_def
      construct_model_eq_Inr bindE_eq_Inr split: option.splits sum.splits if_splits)

lemma cancel_status:
  "returns (\<lambda>k. k = j \<or> rj_status k = R_CANCELLED \<or> rj_status k = R_CANCEL_REQUESTED \<and> rj_status j = R_LEASED)
     (request_registry_publication_cancellation f j d)"
  unfolding request_registry_publication_cancellation_def by (intro returns_intros) simp_all

lemma waiting_progress:
  assumes v: "publication_job_valid f j" and s: "rj_status j \<in> {R_AWAITING_APPROVAL, R_APPROVED, R_CANCELLED}"
    and p: "publication_progress f j k"
  shows "rj_status k \<in> {R_AWAITING_APPROVAL, R_APPROVED, R_CANCELLED}"
proof -
  have free: "rj_lease j = None"
    using v s by (auto simp: publication_job_valid_def publication_state_valid_def)
  obtain c where "\<not> is_publication_lease c" "run_publication_command f c j = Inr k"
    using p by (auto simp: publication_progress_def)
  then show ?thesis
    using s by (cases c) (auto simp: unleased_commands_refused [OF free]
        dest: authorize_status [THEN returnsD] cancel_status [THEN returnsD])
qed

text \<open>Property C18. An approval can come too late: once a job that waits for approval, or was approved,
  has used all its attempts, nothing delivers it again, and in every run it stays waiting, approved
  or cancelled. It is neither failed nor dead-lettered, and the authorization it may still receive
  has no effect.\<close>

theorem exhausted_approval_is_stuck:
  assumes "publication_job_valid f j" and "rj_status j \<in> {R_AWAITING_APPROVAL, R_APPROVED}"
    and "rj_attempts j = rj_max_attempts j"
    and "lease_run (publication_claim f) (publication_progress f) j n k"
  shows "n = 0 \<and> rj_status k \<in> {R_AWAITING_APPROVAL, R_APPROVED, R_CANCELLED}"
proof -
  have n: "n = 0"
    using publication_leases.deliveries_bounded(1) [OF assms(4,1)] publication_fence [OF assms(1)]
      assms(3) by simp
  have "n = 0 \<Longrightarrow> rj_status k \<in> {R_AWAITING_APPROVAL, R_APPROVED, R_CANCELLED}"
    using assms(4,1) assms(2)
  proof (induction)
    case (run_progress j n k l)
    then show ?case
      using waiting_progress [OF publication_leases.run_valid [OF run_progress.hyps(1)] _ run_progress.hyps(2)]
      by blast
  qed auto
  with n show ?thesis by blast
qed

lemma cancelled_publication_valid:
  assumes "publication_job_valid f j" and "rj_receipt j = None" and "rj_submitted_at j \<le> t"
  shows "publication_job_valid f (j\<lparr>rj_status := R_CANCELLED, rj_lease := None, rj_authorization := None,
    rj_failure_code := None, rj_cancel_requested_at := None, rj_updated_at := t,
    rj_revision := rj_revision j + 1\<rparr>)"
  using assms
  by (auto simp: publication_job_valid_def publication_fields_valid_def publication_identity_valid_def
      publication_bindings_valid_def publication_lease_bound_def publication_cancellation_valid_def
      publication_state_valid_def candidate_of_proposal_def split: option.splits)

text \<open>A cancellation does erase the read-back ambiguity: a job that waits to read back a
  write that may have happened is closed as cancelled, without any read-back, by a cancellation
  that arrives while no worker holds it. While a worker holds it the same request only marks
  it.\<close>

lemma cancellation_skips_readback:
  assumes "publication_job_valid f j" and "rj_status j = R_RETRY_WAIT"
    and "rj_failure_code j = Some RF_READBACK_REQUIRED" and "rj_cancel_requested_at j = None"
    and "rj_submitted_at j \<le> t"
  shows "\<exists>k. request_registry_publication_cancellation f j (Aware t) = Inr k
    \<and> rj_status k = R_CANCELLED \<and> rj_failure_code k = None \<and> rj_authorization k = None
    \<and> rj_candidate k = rj_candidate j"
proof -
  have "rj_receipt j = None"
    using assms(1,2) by (simp add: publication_job_valid_def publication_state_valid_def)
  then show ?thesis
    using cancelled_publication_valid [OF assms(1) _ assms(5)] assms(2,4)
    by (simp add: request_registry_publication_cancellation_def stored_time_def
        replace_publication_job_def construct_model_def)
qed

text \<open>Property C17. Reaping keeps the ambiguity of a publish phase: an expired publishing lease never
  ends in a cancellation. The job either waits for a retry that must read back, with any pending
  cancellation kept, or is dead-lettered for that reason when its attempts are used up.\<close>

theorem reap_keeps_readback_ambiguity:
  assumes "phase j = PUBLISH" and "reap_expired_registry_publication_lease f j d = Inr k"
  shows "rj_failure_code k = Some RF_READBACK_REQUIRED \<and> rj_candidate k = rj_candidate j
    \<and> rj_authorization k = rj_authorization j
    \<and> (if rj_attempts j < rj_max_attempts j
       then rj_status k = R_RETRY_WAIT \<and> rj_cancel_requested_at k = rj_cancel_requested_at j
       else rj_status k = R_DEAD_LETTERED)"
  using assms
  by (auto simp: reap_expired_registry_publication_lease_def retry_publication_job_def
      close_publication_job_def replace_publication_job_def construct_model_eq_Inr bindE_eq_Inr
      split: option.splits if_splits)

lemmas publication_valid_defs = publication_job_valid_def publication_fields_valid_def
  publication_identity_valid_def publication_bindings_valid_def publication_lease_bound_def
  publication_cancellation_valid_def publication_state_valid_def candidate_of_proposal_def

lemma retried_publication_valid:
  assumes "publication_job_valid f j" and "rj_status j \<in> {R_LEASED, R_CANCEL_REQUESTED}"
    and "rj_submitted_at j \<le> t" and "t \<le> u"
    and "rj_candidate j = None \<and> q = None \<or> rj_candidate j \<noteq> None \<and> c = RF_READBACK_REQUIRED"
  shows "publication_job_valid f (j\<lparr>rj_status := R_RETRY_WAIT, rj_lease := None,
    rj_failure_code := Some c, rj_available_at := u, rj_cancel_requested_at := q, rj_updated_at := t,
    rj_revision := rj_revision j + 1\<rparr>)"
  using assms by (auto simp: publication_valid_defs split: option.splits)

text \<open>A failing preparation forgets a cancellation: when a worker that prepares a
  cancelled job reports a retryable failure, the job goes back to waiting for a retry without the
  cancellation, and can be delivered to prepare again. An expired lease in the same state is closed
  as cancelled instead.\<close>

lemma prepare_failure_drops_cancellation:
  assumes "publication_job_valid f j" and "rj_status j = R_CANCEL_REQUESTED" and "rj_candidate j = None"
    and "require_publication_lease j w cap x (Aware t) False True = Inr l"
    and "rj_submitted_at j \<le> t" and "rj_attempts j < rj_max_attempts j"
  shows "\<exists>k. fail_registry_publication_job f j RF_BASE_UNAVAILABLE w cap x (Aware t) = Inr k
    \<and> rj_status k = R_RETRY_WAIT \<and> rj_cancel_requested_at j \<noteq> None \<and> rj_cancel_requested_at k = None"
proof -
  have h: "publication_holds j x t l" using assms(4) by (rule require_publication_lease_Inr) simp
  have n: "1 \<le> rj_attempts j" by (rule holding_attempts [OF assms(1) h])
  then have d: "registry_publication_retry_delay (rj_attempts j)
      = Inr (seconds (min (5 * 2 ^ nat (rj_attempts j - 1)) PUBLICATION_MAX_RETRY_DELAY_SECONDS))"
    by (simp add: registry_publication_retry_delay_def)
  have pos: "0 \<le> seconds (min (5 * 2 ^ nat (rj_attempts j - 1)) PUBLICATION_MAX_RETRY_DELAY_SECONDS)"
    by (simp add: PUBLICATION_MAX_RETRY_DELAY_SECONDS_def)
  have c: "rj_cancel_requested_at j \<noteq> None"
    using assms(1,2) by (auto simp: publication_job_valid_def publication_cancellation_valid_def)
  show ?thesis
    using assms c d pos retried_publication_valid [OF assms(1) _ assms(5), of "t + seconds
        (min (5 * 2 ^ nat (rj_attempts j - 1)) PUBLICATION_MAX_RETRY_DELAY_SECONDS)" None RF_BASE_UNAVAILABLE]
    by (simp add: fail_registry_publication_job_def stored_time_def effective_code_def phase_def
        classify_registry_publication_failure_def retry_publication_job_def
        replace_publication_job_def construct_model_def Let_def)
qed

section \<open>A concrete publication\<close>

definition sample_prepared :: prepared_proposal where
  "sample_prepared = \<lparr>pp_id = ''proposal-1'', pp_fingerprint = sha256_text ''proposal'',
     pp_scope = sample_scope, pp_workspace_id = ''workspace-1'', pp_target_registry_version = 1\<rparr>"

definition sample_publication :: "int \<Rightarrow> publication_job" where
  "sample_publication m =
     \<lparr>rj_id = ''registry-publication-'' @ json_fingerprint (job_id_payload sample_scope 1),
      rj_scope = sample_scope, rj_proposal = sample_prepared, rj_status = R_QUEUED,
      rj_submitted_by = ''owner'', rj_submitted_at = 0, rj_idempotency_digest = sha256_text ''key'',
      rj_request_fingerprint = sha256_text ''request'', rj_revision = 1, rj_attempts = 0,
      rj_max_attempts = m, rj_last_fencing_token = 0, rj_available_at = 0, rj_lease = None,
      rj_candidate = None, rj_authorization = None, rj_failure_code = None, rj_receipt = None,
      rj_cancel_requested_at = None, rj_updated_at = 0\<rparr>"

definition sample_publisher_token :: string where
  "sample_publisher_token = replicate 32 (CHR ''k'')"

definition sample_preparing :: "int \<Rightarrow> publication_job" where
  "sample_preparing m =
     leased_publication_job (sample_publication m) ''worker-1'' sample_publisher_token 0 (minutes 1)"

definition sample_waiting :: "int \<Rightarrow> publication_job" where
  "sample_waiting m = (sample_preparing m)\<lparr>rj_status := R_AWAITING_APPROVAL, rj_lease := None,
     rj_candidate := Some sample_candidate, rj_updated_at := seconds 30, rj_revision := 3\<rparr>"

definition sample_approved :: "int \<Rightarrow> publication_job" where
  "sample_approved m = (sample_waiting m)\<lparr>rj_status := R_APPROVED,
     rj_authorization := Some sample_publication_authorization, rj_available_at := minutes 3,
     rj_updated_at := minutes 3, rj_revision := 4\<rparr>"

definition sample_publishing :: "int \<Rightarrow> publication_job" where
  "sample_publishing m =
     leased_publication_job (sample_approved m) ''worker-2'' sample_publisher_token (minutes 4) (minutes 2)"

definition sample_receipt :: readback_receipt where
  "sample_receipt =
     \<lparr>rr_candidate_id = pv_id sample_candidate, rr_candidate_fingerprint = pv_fingerprint sample_candidate,
      rr_scope = sample_scope, rr_registry_version = 1, rr_registry_fingerprint = sha256_text ''registry'',
      rr_target = pv_target sample_candidate,
      rr_observed_authorization_id = pa_id sample_publication_authorization,
      rr_related_asset_urns = [''urn:li:dataset:orders''], rr_observed_at = minutes 5\<rparr>"

definition sample_ready :: "int \<Rightarrow> publication_job" where
  "sample_ready m = (sample_publishing m)\<lparr>rj_status := R_ACTIVATION_READY, rj_lease := None,
     rj_receipt := Some sample_receipt, rj_updated_at := minutes 5, rj_revision := 6\<rparr>"

lemmas sample_publication_defs = sample_ready_def sample_publishing_def sample_approved_def
  sample_waiting_def sample_preparing_def leased_publication_job_def sample_publication_def

lemma sample_worker_ids: "is_safe_id ''worker-1''" "is_safe_id ''worker-2''"
  by (simp_all add: is_safe_id_def re_head_run_def class_defs char_class_defs)

lemma sample_publication_id:
  "is_safe_id (''registry-publication-'' @ json_fingerprint (job_id_payload sample_scope 1))"
proof -
  have "list_all lower_digit_dash (json_fingerprint p)" for p
    using json_fingerprint_shape [of p]
    by (auto simp: is_sha256_def re_exactly_def list_all_iff lower_digit_dash_def char_class_defs)
  then show ?thesis
    by (simp add: is_safe_id_def re_head_run_def json_fingerprint_length class_defs char_class_defs)
qed

lemma sample_publication_valid:
  assumes "1 \<le> m" and "m \<le> 10"
  shows "publication_job_valid f (sample_publication m)"
proof -
  have "\<not> blank ''owner''" by (simp add: blank_iff char_class_defs)
  then show ?thesis
    using assms sample_publication_id sample_scope_valid
    by (simp add: publication_valid_defs sample_publication_def registry_publication_job_id_def
        sample_prepared_def len_between_def) (simp add: sample_scope_def)
qed

lemma sample_publication_created:
  assumes "1 \<le> m" and "m \<le> 10"
  shows "create_registry_publication_job f sample_prepared ''owner'' (Aware 0) (sha256_text ''key'')
    (sha256_text ''request'') m = Inr (sample_publication m)"
  using sample_publication_valid [OF assms]
  by (simp add: create_registry_publication_job_def registry_publication_job_id_def stored_time_def
      construct_model_def sample_prepared_def sample_publication_def)

lemma leased_publication_valid:
  assumes v: "publication_job_valid f j" and s: "rj_status j \<in> {R_QUEUED, R_APPROVED, R_RETRY_WAIT}"
    and "rj_attempts j < rj_max_attempts j" and "rj_available_at j \<le> t" and "is_safe_id w"
    and "seconds 1 \<le> d" and "d \<le> PUBLICATION_MAX_LEASE"
  shows "publication_job_valid f (leased_publication_job j w cap t d)"
  using assms
  by (auto simp: publication_valid_defs leased_publication_job_def publication_lease_valid_def
      split: option.splits)

lemma leased_publication_lease_valid:
  assumes "publication_job_valid f j" and "is_safe_id w" and "seconds 1 \<le> d" and "d \<le> PUBLICATION_MAX_LEASE"
  shows "publication_lease_valid \<lparr>pl_job_id = rj_id j, pl_worker_id = w, pl_token_digest = sha256_text cap,
    pl_fencing_token = rj_attempts j + 1, pl_attempt = rj_attempts j + 1, pl_acquired_at = t,
    pl_heartbeat_at = t, pl_expires_at = t + d\<rparr>"
  using assms by (auto simp: publication_valid_defs publication_lease_valid_def)

text \<open>The successful branch of a delivery.\<close>

lemma lease_publication_succeeds:
  assumes v: "publication_job_valid f j" and s: "rj_status j \<in> {R_QUEUED, R_APPROVED, R_RETRY_WAIT}"
    and n: "rj_attempts j < rj_max_attempts j" and t: "rj_available_at j \<le> t" and w: "is_safe_id w"
    and d: "seconds 1 \<le> d" "d \<le> PUBLICATION_MAX_LEASE"
    and cap: "digest_registry_publication_lease_capability cap = Inr (sha256_text cap)"
  shows "lease_registry_publication_job f j w cap (Aware t) d = Inr (leased_publication_job j w cap t d)"
proof -
  have "\<not> (rj_candidate j \<noteq> None \<and> rj_authorization j = None)"
    using v s by (auto simp: publication_job_valid_def publication_state_valid_def)
  then show ?thesis
    using s n t d cap leased_publication_valid [OF v s n t w d] leased_publication_lease_valid [OF v w d]
    by (auto simp: lease_registry_publication_job_def compared_time_def construct_model_def
        replace_publication_job_def leased_publication_job_def)
qed

lemma sample_token_digest:
  "digest_registry_publication_lease_capability sample_publisher_token = Inr (sha256_text sample_publisher_token)"
  by (simp add: digest_registry_publication_lease_capability_def sample_publisher_token_def strip_def
      lstrip_def char_class_defs eval_nat_numeral)

lemma sample_prepare:
  assumes "1 \<le> m" and "m \<le> 10"
  shows "lease_registry_publication_job f (sample_publication m) ''worker-1'' sample_publisher_token
    (Aware 0) (minutes 1) = Inr (sample_preparing m)"
  unfolding sample_preparing_def using assms
  by (intro lease_publication_succeeds sample_publication_valid sample_worker_ids sample_token_digest)
    (simp_all add: sample_publication_def PUBLICATION_MAX_LEASE_def)

lemma sample_preparing_valid:
  assumes "1 \<le> m" and "m \<le> 10" shows "publication_job_valid f (sample_preparing m)"
  using sample_prepare [OF assms] by (auto elim: lease_publication_Inr)

lemma sample_lease_held:
  "require_publication_lease (sample_preparing m) ''worker-1'' sample_publisher_token 1
     (Aware (seconds 30)) False ac = Inr (the (rj_lease (sample_preparing m)))"
  by (simp add: require_publication_lease_def sample_preparing_def leased_publication_job_def
      sample_publication_def sample_token_digest expected_statuses_def publication_lease_is_current_def)

lemma replace_publication_Inr:
  "k\<lparr>rj_revision := rj_revision j + 1\<rparr> = x \<Longrightarrow> publication_job_valid f x \<Longrightarrow>
   replace_publication_job f j k = Inr x"
  by (simp add: replace_publication_job_def construct_model_def)

lemma sample_waiting_valid:
  assumes "1 \<le> m" and "m \<le> 10" shows "publication_job_valid f (sample_waiting m)"
  using sample_preparing_valid [OF assms, of f] sample_candidate_valid
  by (simp add: publication_valid_defs sample_waiting_def)
    (simp add: sample_publication_defs sample_candidate_fields sample_prepared_def
      candidate_of_proposal_def)

lemma sample_record:
  assumes "1 \<le> m" and "m \<le> 10"
  shows "record_registry_publication_candidate f (sample_preparing m) sample_candidate ''worker-1''
    sample_publisher_token 1 (Aware (seconds 30)) = Inr (sample_waiting m)"
proof -
  have "candidate_of_proposal (sample_preparing m) sample_candidate"
    by (simp add: candidate_of_proposal_def sample_candidate_fields sample_publication_defs
        sample_prepared_def)
  moreover have "rj_candidate (sample_preparing m) = None" by (simp add: sample_publication_defs)
  moreover have "replace_publication_job f (sample_preparing m)
      ((sample_preparing m)\<lparr>rj_status := R_AWAITING_APPROVAL, rj_lease := None,
        rj_candidate := Some sample_candidate, rj_authorization := None, rj_failure_code := None,
        rj_updated_at := seconds 30\<rparr>) = Inr (sample_waiting m)"
    by (rule replace_publication_Inr [OF _ sample_waiting_valid [OF assms]])
      (simp add: sample_publication_defs)
  ultimately show ?thesis
    by (simp add: record_registry_publication_candidate_def sample_lease_held stored_time_def phase_def
        sample_lease_held [simplified])
qed

lemma sample_authorization_facts:
  "publication_authorization_valid sample_iso sample_publication_authorization"
  "authorization_matches sample_candidate sample_publication_authorization"
  "pa_approved_at sample_publication_authorization = minutes 2"
  "pa_expires_at sample_publication_authorization = minutes 12"
proof -
  show "publication_authorization_valid sample_iso sample_publication_authorization"
    using sample_authorization_created
    by (auto simp: create_publication_authorization_def construct_model_eq_Inr Let_def)
qed (simp_all add: sample_publication_authorization_def Let_def authorization_matches_def
    sample_candidate_fields)

lemma sample_approved_valid:
  assumes "1 \<le> m" and "m \<le> 10" shows "publication_job_valid sample_iso (sample_approved m)"
  using sample_waiting_valid [OF assms, of sample_iso] sample_authorization_facts
  by (simp add: publication_valid_defs sample_approved_def)
    (simp add: sample_publication_defs sample_candidate_fields sample_prepared_def
      candidate_of_proposal_def)

lemma sample_authorize:
  assumes "1 \<le> m" and "m \<le> 10"
  shows "authorize_registry_publication_job sample_iso (sample_waiting m)
    sample_publication_authorization (Aware (minutes 3)) = Inr (sample_approved m)"
proof -
  have "replace_publication_job sample_iso (sample_waiting m)
      ((sample_waiting m)\<lparr>rj_status := R_APPROVED,
        rj_authorization := Some sample_publication_authorization, rj_failure_code := None,
        rj_available_at := minutes 3, rj_updated_at := minutes 3\<rparr>) = Inr (sample_approved m)"
    by (rule replace_publication_Inr [OF _ sample_approved_valid [OF assms]])
      (simp add: sample_publication_defs)
  moreover have "rj_status (sample_waiting m) = R_AWAITING_APPROVAL"
    "rj_candidate (sample_waiting m) = Some sample_candidate"
    by (simp_all add: sample_waiting_def)
  ultimately show ?thesis
    using sample_authorization_facts
    by (simp add: authorize_registry_publication_job_def stored_time_def
        validate_registry_publication_authorization_def publication_authorization_is_current_def)
qed

lemma sample_publish:
  assumes "2 \<le> m" and "m \<le> 10"
  shows "lease_registry_publication_job sample_iso (sample_approved m) ''worker-2'' sample_publisher_token
    (Aware (minutes 4)) (minutes 2) = Inr (sample_publishing m)"
proof -
  have v: "publication_job_valid sample_iso (sample_approved m)" using assms sample_approved_valid by simp
  show ?thesis
    unfolding sample_publishing_def using assms
    by (intro lease_publication_succeeds v sample_worker_ids sample_token_digest)
      (simp_all add: sample_publication_defs PUBLICATION_MAX_LEASE_def)
qed

lemma sample_publishing_valid:
  assumes "2 \<le> m" and "m \<le> 10" shows "publication_job_valid sample_iso (sample_publishing m)"
  using sample_publish [OF assms] by (auto elim: lease_publication_Inr)

lemma sample_receipt_facts:
  "receipt_names_candidate sample_receipt sample_candidate"
  "observed_registry_related_asset_urns (pv_registry sample_candidate)
     = (Inr (rr_related_asset_urns sample_receipt) :: string list publication_outcome)"
  by (simp_all add: receipt_names_candidate_def sample_receipt_def sample_candidate_fields
      observed_registry_related_asset_urns_def)
    (simp_all add: sample_candidate_def Let_def sample_snapshot_def)

lemma sample_receipt_valid: "readback_receipt_valid sample_receipt"
proof -
  have "len_between 3 200 (pa_id sample_publication_authorization)"
    using sample_authorization_facts(1) unfolding publication_authorization_valid_def by blast
  moreover have "(Inr (pv_target sample_candidate) :: (unit, string) outcome)
      = datahub_registry_document_urn sample_scope 1"
    by (simp only: sample_document_id) (simp add: sample_candidate_def Let_def)
  ultimately show ?thesis
    using sample_candidate_text sample_candidate_fields(6) sample_scope_valid
    by (simp add: readback_receipt_valid_def sample_receipt_def canonical_sequence_def
        is_dataset_urn_def) (simp add: len_between_def)
qed

lemma sample_ready_valid:
  assumes "2 \<le> m" and "m \<le> 10" shows "publication_job_valid sample_iso (sample_ready m)"
  using sample_publishing_valid [OF assms] sample_receipt_valid sample_receipt_facts
  by (simp add: publication_valid_defs sample_ready_def)
    (simp add: sample_publication_defs receipt_of_candidate_def sample_receipt_def
      sample_candidate_fields sample_prepared_def candidate_of_proposal_def)

lemma sample_publishing_held:
  "require_publication_lease (sample_publishing m) ''worker-2'' sample_publisher_token 2
     (Aware (minutes 5)) False True = Inr (the (rj_lease (sample_publishing m)))"
  by (simp add: require_publication_lease_def sample_publication_defs sample_token_digest
      expected_statuses_def publication_lease_is_current_def)

lemma sample_complete_publication:
  assumes "2 \<le> m" and "m \<le> 10"
  shows "complete_registry_publication_job sample_iso (sample_publishing m) sample_receipt ''worker-2''
    sample_publisher_token 2 (Aware (minutes 5)) = Inr (sample_ready m)"
proof -
  have "replace_publication_job sample_iso (sample_publishing m)
      ((sample_publishing m)\<lparr>rj_status := R_ACTIVATION_READY, rj_lease := None, rj_failure_code := None,
        rj_receipt := Some sample_receipt, rj_cancel_requested_at := None, rj_updated_at := minutes 5\<rparr>)
      = Inr (sample_ready m)"
    by (rule replace_publication_Inr [OF _ sample_ready_valid [OF assms]])
      (simp add: sample_publication_defs)
  moreover have "rj_candidate (sample_publishing m) = Some sample_candidate"
    "pl_acquired_at (the (rj_lease (sample_publishing m))) = minutes 4"
    by (simp_all add: sample_publication_defs)
  moreover have "rr_observed_at sample_receipt = minutes 5" by (simp add: sample_receipt_def)
  ultimately show ?thesis
    using sample_receipt_facts
    by (simp add: complete_registry_publication_job_def sample_publishing_held [simplified]
        compared_time_def)
qed

text \<open>The whole run: prepare, record, authorize, publish, complete.\<close>

lemma sample_steps:
  "1 \<le> m \<Longrightarrow> m \<le> 10 \<Longrightarrow> publication_claim f (sample_publication m) (sample_preparing m)"
  "1 \<le> m \<Longrightarrow> m \<le> 10 \<Longrightarrow> publication_progress f (sample_preparing m) (sample_waiting m)"
  "1 \<le> m \<Longrightarrow> m \<le> 10 \<Longrightarrow> publication_progress sample_iso (sample_waiting m) (sample_approved m)"
  "2 \<le> m \<Longrightarrow> m \<le> 10 \<Longrightarrow> publication_claim sample_iso (sample_approved m) (sample_publishing m)"
  "2 \<le> m \<Longrightarrow> m \<le> 10 \<Longrightarrow> publication_progress sample_iso (sample_publishing m) (sample_ready m)"
  unfolding publication_claim_def publication_progress_def
  using sample_prepare sample_record sample_authorize sample_publish sample_complete_publication
  by (metis is_publication_lease.simps run_publication_command.simps)+

lemma sample_preparing_run:
  "1 \<le> m \<Longrightarrow> m \<le> 10 \<Longrightarrow>
   lease_run (publication_claim f) (publication_progress f) (sample_publication m) 1 (sample_preparing m)"
  by (rule run_single_claim) (rule sample_steps)

lemma sample_ready_run:
  assumes "2 \<le> m" and "m \<le> 10"
  shows "lease_run (publication_claim sample_iso) (publication_progress sample_iso)
    (sample_publication m) 2 (sample_ready m)"
proof -
  have "lease_run (publication_claim sample_iso) (publication_progress sample_iso)
      (sample_publication m) 1 (sample_approved m)"
    using assms sample_preparing_run sample_steps(2,3) by (meson order_trans one_le_numeral run_progress)
  then have "lease_run (publication_claim sample_iso) (publication_progress sample_iso)
      (sample_publication m) (Suc 1) (sample_publishing m)"
    by (rule run_claim) (rule sample_steps(4) [OF assms])
  then show ?thesis using run_progress sample_steps(5) [OF assms] by (fastforce simp: numeral_2_eq_2)
qed

text \<open>The publishing lease expires: the write may have happened and must be read back.\<close>

definition sample_readback :: "int \<Rightarrow> publication_job" where
  "sample_readback m = (sample_publishing m)\<lparr>rj_status := R_RETRY_WAIT, rj_lease := None,
     rj_failure_code := Some RF_READBACK_REQUIRED, rj_available_at := minutes 6 + seconds 10,
     rj_updated_at := minutes 6, rj_revision := 6\<rparr>"

lemma sample_readback_valid:
  assumes "3 \<le> m" and "m \<le> 10" shows "publication_job_valid sample_iso (sample_readback m)"
proof -
  have v: "publication_job_valid sample_iso (sample_publishing m)" using assms sample_publishing_valid by simp
  have "rj_candidate (sample_publishing m) \<noteq> None" "rj_submitted_at (sample_publishing m) \<le> minutes 6"
    "rj_status (sample_publishing m) = R_LEASED" by (simp_all add: sample_publication_defs)
  then have "publication_job_valid sample_iso ((sample_publishing m)\<lparr>rj_status := R_RETRY_WAIT,
      rj_lease := None, rj_failure_code := Some RF_READBACK_REQUIRED,
      rj_available_at := minutes 6 + seconds 10, rj_cancel_requested_at := None,
      rj_updated_at := minutes 6, rj_revision := rj_revision (sample_publishing m) + 1\<rparr>)"
    by (intro retried_publication_valid [OF v]) simp_all
  moreover have "(sample_publishing m)\<lparr>rj_status := R_RETRY_WAIT,
      rj_lease := None, rj_failure_code := Some RF_READBACK_REQUIRED,
      rj_available_at := minutes 6 + seconds 10, rj_cancel_requested_at := None,
      rj_updated_at := minutes 6, rj_revision := rj_revision (sample_publishing m) + 1\<rparr> = sample_readback m"
    by (simp add: sample_readback_def sample_publication_defs)
  ultimately show ?thesis by (simp only:)
qed

lemma sample_reap:
  assumes "3 \<le> m" and "m \<le> 10"
  shows "reap_expired_registry_publication_lease sample_iso (sample_publishing m) (Aware (minutes 6))
    = Inr (sample_readback m)"
proof -
  have "replace_publication_job sample_iso (sample_publishing m)
      ((sample_publishing m)\<lparr>rj_status := R_RETRY_WAIT, rj_lease := None,
        rj_failure_code := Some RF_READBACK_REQUIRED, rj_available_at := minutes 6 + seconds 10,
        rj_cancel_requested_at := None, rj_updated_at := minutes 6\<rparr>) = Inr (sample_readback m)"
    by (rule replace_publication_Inr [OF _ sample_readback_valid [OF assms]])
      (simp add: sample_readback_def sample_publication_defs)
  moreover have "rj_attempts (sample_publishing m) = 2" "rj_max_attempts (sample_publishing m) = m"
    "rj_status (sample_publishing m) = R_LEASED" "phase (sample_publishing m) = PUBLISH"
    "rj_cancel_requested_at (sample_publishing m) = None"
    by (simp_all add: sample_publication_defs phase_def)
  moreover obtain l where "rj_lease (sample_publishing m) = Some l" "pl_expires_at l = minutes 6"
    by (simp add: sample_publication_defs)
  ultimately show ?thesis
    using assms
    by (simp add: reap_expired_registry_publication_lease_def compared_time_def
        retry_publication_job_def registry_publication_retry_delay_def
        PUBLICATION_MAX_RETRY_DELAY_SECONDS_def Let_def)
qed

text \<open>A cancellation that arrives while the first worker prepares.\<close>

definition sample_cancelled_preparation :: publication_job where
  "sample_cancelled_preparation = (sample_preparing 2)\<lparr>rj_status := R_CANCEL_REQUESTED,
     rj_cancel_requested_at := Some (seconds 10), rj_updated_at := seconds 10, rj_revision := 3\<rparr>"

lemma sample_cancelled_preparation_valid: "publication_job_valid f sample_cancelled_preparation"
  using sample_preparing_valid [of 2 f]
  by (simp add: publication_valid_defs sample_cancelled_preparation_def)
    (simp add: sample_publication_defs)

section \<open>Witnesses\<close>

theorem publication_run_account_witness:
  "publication_job_valid sample_iso (sample_ready 2) \<and> rj_attempts (sample_ready 2) = 2"
  using publication_run_account [OF sample_publication_created [of 2] sample_ready_run [of 2]] by simp

theorem activation_needs_two_deliveries_witness:
  "\<exists>c a r. rj_candidate (sample_ready 2) = Some c \<and> rj_authorization (sample_ready 2) = Some a
     \<and> rj_receipt (sample_ready 2) = Some r \<and> authorization_matches c a \<and> receipt_of_candidate r c"
  using activation_needs_two_deliveries [OF sample_publication_created [of 2] sample_ready_run [of 2]]
  by (auto simp: sample_ready_def)

lemma stale_publisher_is_fenced_witness:
  "\<exists>e. run_publication_command sample_iso (RHeartbeat ''worker-1'' sample_publisher_token 1
     (Aware (minutes 5)) (minutes 1)) (sample_publishing 2) = Inl e"
proof -
  have r: "lease_run (publication_claim sample_iso) (publication_progress sample_iso)
      (sample_approved 2) 1 (sample_publishing 2)"
    by (rule run_single_claim) (rule sample_steps(4); simp)
  show ?thesis
    by (rule stale_publisher_is_fenced [OF r sample_approved_valid, where x = 1])
      (simp_all add: sample_publication_defs)
qed

theorem exhausted_approval_is_stuck_witness:
  "rj_attempts (sample_approved 1) = rj_max_attempts (sample_approved 1)
   \<and> \<not> publication_claim sample_iso (sample_approved 1) (sample_publishing 1)"
proof -
  have e: "rj_attempts (sample_approved 1) = rj_max_attempts (sample_approved 1)"
    by (simp add: sample_publication_defs)
  have "\<not> lease_run (publication_claim sample_iso) (publication_progress sample_iso)
      (sample_approved 1) 1 (sample_publishing 1)"
    using exhausted_approval_is_stuck [OF sample_approved_valid _ e]
    by (auto simp: sample_approved_def)
  then show ?thesis using e run_single_claim by fast
qed

lemma cancellation_skips_readback_witness:
  "\<exists>k. request_registry_publication_cancellation sample_iso (sample_readback 3) (Aware (minutes 7)) = Inr k
     \<and> rj_status k = R_CANCELLED"
  using cancellation_skips_readback [OF sample_readback_valid [of 3], of "minutes 7"]
  by (auto simp: sample_readback_def sample_publication_defs)

theorem reap_keeps_readback_ambiguity_witness:
  "rj_failure_code (sample_readback 3) = Some RF_READBACK_REQUIRED
   \<and> rj_candidate (sample_readback 3) = rj_candidate (sample_publishing 3)"
proof -
  have "phase (sample_publishing 3) = PUBLISH" by (simp add: phase_def sample_publication_defs)
  then show ?thesis using reap_keeps_readback_ambiguity [OF _ sample_reap [of 3]] by simp
qed

lemma prepare_failure_drops_cancellation_witness:
  "\<exists>k. fail_registry_publication_job sample_iso sample_cancelled_preparation RF_BASE_UNAVAILABLE
       ''worker-1'' sample_publisher_token 1 (Aware (seconds 20)) = Inr k
     \<and> rj_status k = R_RETRY_WAIT \<and> rj_cancel_requested_at k = None"
proof -
  have "require_publication_lease sample_cancelled_preparation ''worker-1'' sample_publisher_token 1
      (Aware (seconds 20)) False True = Inr (the (rj_lease (sample_preparing 2)))"
    by (simp add: require_publication_lease_def sample_cancelled_preparation_def sample_publication_defs
        sample_token_digest expected_statuses_def publication_lease_is_current_def)
  from prepare_failure_drops_cancellation [OF sample_cancelled_preparation_valid _ _ this, of sample_iso]
  show ?thesis by (auto simp: sample_cancelled_preparation_def sample_publication_defs)
qed

end
