(* ===== verification/Authorization.thy ===== *)
theory Authorization
  imports Bridge_Prelude
begin

text \<open>
  Identities and the deny-by-default policies: \<open>domain/identity.py\<close>, \<open>application/authorization.py\<close>
  (workflows), \<open>application/registry_change_authorization.py\<close> and
  \<open>application/semantic_onboarding_authorization.py\<close>.

  Each policy is a closed table from roles to permissions, a rule for resources owned by somebody
  else, and a storage scope for listings. The locale \<open>closed_policy\<close> is what the three share. The
  identity resolver of a rotated deployment is a port; it is an argument of the definitions that
  call it, and what it answers is re-checked there as the code does.
\<close>

section \<open>Identities\<close>

datatype authentication_method = OIDC | LOCAL_DEMO

datatype identity_role = ANALYST | STEWARD | PUBLISHER | AUDITOR | PLATFORM_ADMIN

datatype workflow_permission =
    WF_CREATE | WF_VIEW | WF_CONFIRM | WF_EXECUTE | WF_PUBLISH | WF_SKIP | WF_RETRY
  | WF_VIEW_RESULT | WF_EXPORT_RESULT

record authenticated_principal =
  pr_actor_id :: string
  pr_workspace_id :: string
  pr_roles :: "identity_role set"
  pr_authentication_method :: authentication_method
  pr_authenticated_at :: instant
  pr_expires_at :: instant

definition authenticated_principal_valid :: "authenticated_principal \<Rightarrow> bool" where
  "authenticated_principal_valid p \<longleftrightarrow>
     1 \<le> length (pr_actor_id p) \<and> \<not> blank (pr_actor_id p)
     \<and> 1 \<le> length (pr_workspace_id p) \<and> \<not> blank (pr_workspace_id p)
     \<and> \<not> pr_expires_at p \<le> pr_authenticated_at p"

definition is_current :: "authenticated_principal \<Rightarrow> datetime \<Rightarrow> ('c, bool) outcome" where
  "is_current p now =
     bindE (require_aware now) (\<lambda>t. Inr (pr_authenticated_at p \<le> t \<and> t < pr_expires_at p))"

record workflow_access_grant =
  wg_workflow_id :: string
  wg_workspace_id :: string
  wg_owner_actor_id :: string
  wg_created_at :: instant

definition workflow_access_grant_valid :: "workflow_access_grant \<Rightarrow> bool" where
  "workflow_access_grant_valid g \<longleftrightarrow>
     1 \<le> length (wg_workflow_id g) \<and> \<not> blank (wg_workflow_id g)
     \<and> 1 \<le> length (wg_workspace_id g) \<and> \<not> blank (wg_workspace_id g)
     \<and> 1 \<le> length (wg_owner_actor_id g) \<and> \<not> blank (wg_owner_actor_id g)"

section \<open>The workflow policy\<close>

datatype authorization_error_code =
    PRINCIPAL_NOT_CURRENT | PERMISSION_DENIED | WORKFLOW_ACCESS_DENIED | POLICY_UNAVAILABLE

type_synonym 'a guarded = "(authorization_error_code, 'a) outcome"

fun ROLE_PERMISSIONS :: "identity_role \<Rightarrow> workflow_permission set" where
  "ROLE_PERMISSIONS ANALYST =
     {WF_CREATE, WF_VIEW, WF_CONFIRM, WF_EXECUTE, WF_SKIP, WF_RETRY, WF_VIEW_RESULT, WF_EXPORT_RESULT}"
| "ROLE_PERMISSIONS STEWARD = {WF_VIEW, WF_CONFIRM}"
| "ROLE_PERMISSIONS PUBLISHER = {WF_VIEW, WF_PUBLISH}"
| "ROLE_PERMISSIONS AUDITOR = {WF_VIEW}"
| "ROLE_PERMISSIONS PLATFORM_ADMIN =
     {WF_CREATE, WF_VIEW, WF_CONFIRM, WF_EXECUTE, WF_PUBLISH, WF_SKIP, WF_RETRY, WF_VIEW_RESULT,
      WF_EXPORT_RESULT}"

text \<open>\<open>_WORKSPACE_WIDE_ROLES.get(permission, frozenset())\<close>.\<close>

fun WORKSPACE_WIDE_ROLES :: "workflow_permission \<Rightarrow> identity_role set" where
  "WORKSPACE_WIDE_ROLES WF_VIEW = {STEWARD, AUDITOR, PUBLISHER, PLATFORM_ADMIN}"
| "WORKSPACE_WIDE_ROLES WF_CONFIRM = {STEWARD, PLATFORM_ADMIN}"
| "WORKSPACE_WIDE_ROLES WF_PUBLISH = {PUBLISHER, PLATFORM_ADMIN}"
| "WORKSPACE_WIDE_ROLES _ = {}"

definition permissions_for ::
  "authenticated_principal \<Rightarrow> datetime \<Rightarrow> workflow_permission set guarded" where
  "permissions_for p now =
     bindE (is_current p now) (\<lambda>current.
       if \<not> current then Inr {} else Inr (\<Union>role \<in> pr_roles p. ROLE_PERMISSIONS role))"

definition require ::
  "authenticated_principal \<Rightarrow> workflow_permission \<Rightarrow> datetime \<Rightarrow> unit guarded" where
  "require p permission now =
     bindE (is_current p now) (\<lambda>current.
       if \<not> current then Inl (Transition PRINCIPAL_NOT_CURRENT)
       else bindE (permissions_for p now) (\<lambda>granted.
         if permission \<notin> granted then Inl (Transition PERMISSION_DENIED) else Inr ()))"

definition require_workflow ::
  "authenticated_principal \<Rightarrow> workflow_access_grant \<Rightarrow> workflow_permission \<Rightarrow> datetime \<Rightarrow>
   unit guarded" where
  "require_workflow p grant permission now =
     bindE (require p permission now) (\<lambda>_.
       if pr_workspace_id p \<noteq> wg_workspace_id grant then Inl (Transition WORKFLOW_ACCESS_DENIED)
       else if pr_actor_id p = wg_owner_actor_id grant then Inr ()
       else if PLATFORM_ADMIN \<in> pr_roles p then Inr ()
       else if pr_roles p \<inter> WORKSPACE_WIDE_ROLES permission \<noteq> {} then Inr ()
       else Inl (Transition WORKFLOW_ACCESS_DENIED))"

definition owner_filter_for ::
  "authenticated_principal \<Rightarrow> workflow_permission \<Rightarrow> datetime \<Rightarrow> string option guarded" where
  "owner_filter_for p permission now =
     bindE (require p permission now) (\<lambda>_.
       if PLATFORM_ADMIN \<in> pr_roles p then Inr None
       else if pr_roles p \<inter> WORKSPACE_WIDE_ROLES permission \<noteq> {} then Inr None
       else Inr (Some (pr_actor_id p)))"

section \<open>Resolved identities\<close>

text \<open>The codes of \<open>IdentityRotationStoreError\<close>, and a workspace/actor pair the resolver returns.\<close>

datatype identity_store_error =
    ID_CONFLICT | ID_UNAVAILABLE | CROSS_WORKSPACE | COLLISION | CYCLE
  | INCOMPLETE_OWNER_BINDING | STALE_PLAN

record identity_authorization_scope =
  as_workspace_id :: string
  as_actor_id :: string

record identity_resolver =
  resolve_workspace_aliases :: "string \<Rightarrow> identity_store_error + string list"
  resolve_authorization_scopes ::
    "string \<Rightarrow> string \<Rightarrow> identity_store_error + identity_authorization_scope list"

definition MAX_RESOLVED_SCOPES :: nat where "MAX_RESOLVED_SCOPES = 128"

definition identity_resolution_error :: "identity_store_error \<Rightarrow> 'a guarded" where
  "identity_resolution_error e =
     (if e \<in> {CROSS_WORKSPACE, INCOMPLETE_OWNER_BINDING}
      then Inl (Transition WORKFLOW_ACCESS_DENIED) else Inl (Transition POLICY_UNAVAILABLE))"

definition workspace_aliases :: "identity_resolver \<Rightarrow> string \<Rightarrow> string list guarded" where
  "workspace_aliases resolver workspace =
     (case resolve_workspace_aliases resolver workspace of
        Inl e \<Rightarrow> identity_resolution_error e
      | Inr aliases \<Rightarrow>
          if aliases = [] \<or> length aliases > MAX_RESOLVED_SCOPES
             \<or> card (set aliases) \<noteq> length aliases \<or> workspace \<notin> set aliases
          then Inl (Transition POLICY_UNAVAILABLE) else Inr aliases)"

definition scope_coordinates :: "identity_authorization_scope \<Rightarrow> string \<times> string" where
  "scope_coordinates s = (as_workspace_id s, as_actor_id s)"

definition authorization_scopes ::
  "identity_resolver \<Rightarrow> authenticated_principal \<Rightarrow> identity_authorization_scope list guarded" where
  "authorization_scopes resolver p =
     (case resolve_authorization_scopes resolver (pr_workspace_id p) (pr_actor_id p) of
        Inl e \<Rightarrow> identity_resolution_error e
      | Inr scopes \<Rightarrow>
          let coordinates = scope_coordinates ` set scopes in
          if scopes = [] \<or> length scopes > MAX_RESOLVED_SCOPES
             \<or> card coordinates \<noteq> length scopes
             \<or> (pr_workspace_id p, pr_actor_id p) \<notin> coordinates
          then Inl (Transition POLICY_UNAVAILABLE) else Inr scopes)"

section \<open>The registry-change policy\<close>

datatype registry_change_permission =
    RC_VIEW | RC_REQUEST_PROFILE | RC_FINALIZE_DRAFT | RC_DECIDE | RC_PREPARE_PUBLICATION
  | RC_AUDIT_VIEW

fun RC_ROLE_PERMISSIONS :: "identity_role \<Rightarrow> registry_change_permission set" where
  "RC_ROLE_PERMISSIONS ANALYST = {RC_VIEW, RC_REQUEST_PROFILE, RC_FINALIZE_DRAFT}"
| "RC_ROLE_PERMISSIONS STEWARD =
     {RC_VIEW, RC_REQUEST_PROFILE, RC_FINALIZE_DRAFT, RC_DECIDE, RC_AUDIT_VIEW}"
| "RC_ROLE_PERMISSIONS PUBLISHER = {RC_VIEW, RC_PREPARE_PUBLICATION, RC_AUDIT_VIEW}"
| "RC_ROLE_PERMISSIONS AUDITOR = {RC_VIEW, RC_AUDIT_VIEW}"
| "RC_ROLE_PERMISSIONS PLATFORM_ADMIN =
     {RC_VIEW, RC_REQUEST_PROFILE, RC_FINALIZE_DRAFT, RC_DECIDE, RC_PREPARE_PUBLICATION,
      RC_AUDIT_VIEW}"

definition WORKSPACE_ROLES :: "identity_role set" where
  "WORKSPACE_ROLES = {STEWARD, PUBLISHER, AUDITOR, PLATFORM_ADMIN}"

record registry_change_list_scope =
  rl_workspace_id :: string
  rl_owner_actor_id :: "string option"

definition rc_permissions_for ::
  "authenticated_principal \<Rightarrow> datetime \<Rightarrow> registry_change_permission set guarded" where
  "rc_permissions_for p now =
     bindE (is_current p now) (\<lambda>current.
       if \<not> current then Inr {} else Inr (\<Union>role \<in> pr_roles p. RC_ROLE_PERMISSIONS role))"

definition rc_require ::
  "authenticated_principal \<Rightarrow> registry_change_permission \<Rightarrow> datetime \<Rightarrow> unit guarded" where
  "rc_require p permission now =
     bindE (is_current p now) (\<lambda>current.
       if \<not> current then Inl (Transition PRINCIPAL_NOT_CURRENT)
       else bindE (rc_permissions_for p now) (\<lambda>granted.
         if permission \<notin> granted then Inl (Transition PERMISSION_DENIED) else Inr ()))"

definition workspace_ids_for_principal ::
  "identity_resolver option \<Rightarrow> authenticated_principal \<Rightarrow> string list guarded" where
  "workspace_ids_for_principal resolver p =
     (case resolver of None \<Rightarrow> Inr [pr_workspace_id p]
      | Some r \<Rightarrow> workspace_aliases r (pr_workspace_id p))"

definition require_resource ::
  "identity_resolver option \<Rightarrow> authenticated_principal \<Rightarrow> string \<Rightarrow> string \<Rightarrow>
   registry_change_permission \<Rightarrow> datetime \<Rightarrow> unit guarded" where
  "require_resource resolver p workspace owner permission now =
     bindE (rc_require p permission now) (\<lambda>_.
       case resolver of
         None \<Rightarrow>
           if pr_workspace_id p \<noteq> workspace then Inl (Transition WORKFLOW_ACCESS_DENIED)
           else if pr_actor_id p = owner then Inr ()
           else if pr_roles p \<inter> WORKSPACE_ROLES \<noteq> {} then Inr ()
           else Inl (Transition WORKFLOW_ACCESS_DENIED)
       | Some r \<Rightarrow>
           if pr_roles p \<inter> WORKSPACE_ROLES \<noteq> {}
           then bindE (workspace_ids_for_principal resolver p) (\<lambda>ids.
                  if workspace \<in> set ids then Inr () else Inl (Transition WORKFLOW_ACCESS_DENIED))
           else bindE (authorization_scopes r p) (\<lambda>scopes.
                  if list_ex (\<lambda>s. as_workspace_id s = workspace \<and> as_actor_id s = owner) scopes
                  then Inr () else Inl (Transition WORKFLOW_ACCESS_DENIED)))"

definition list_scopes_for ::
  "identity_resolver option \<Rightarrow> authenticated_principal \<Rightarrow> datetime \<Rightarrow>
   registry_change_list_scope list guarded" where
  "list_scopes_for resolver p now =
     bindE (rc_require p RC_VIEW now) (\<lambda>_.
       case resolver of
         None \<Rightarrow>
           Inr [\<lparr>rl_workspace_id = pr_workspace_id p,
                 rl_owner_actor_id =
                   (if pr_roles p \<inter> WORKSPACE_ROLES \<noteq> {} then None else Some (pr_actor_id p))\<rparr>]
       | Some r \<Rightarrow>
           if pr_roles p \<inter> WORKSPACE_ROLES \<noteq> {}
           then bindE (workspace_ids_for_principal resolver p) (\<lambda>ids.
                  Inr (map (\<lambda>v. \<lparr>rl_workspace_id = v, rl_owner_actor_id = None\<rparr>) ids))
           else bindE (authorization_scopes r p) (\<lambda>scopes.
                  Inr (map (\<lambda>s. \<lparr>rl_workspace_id = as_workspace_id s,
                                 rl_owner_actor_id = Some (as_actor_id s)\<rparr>) scopes)))"

definition actor_identity_is_one_of ::
  "identity_resolver option \<Rightarrow> authenticated_principal \<Rightarrow> string \<Rightarrow> string set \<Rightarrow> bool guarded" where
  "actor_identity_is_one_of resolver p workspace actors =
     (case resolver of
        None \<Rightarrow> Inr (pr_workspace_id p = workspace \<and> pr_actor_id p \<in> actors)
      | Some r \<Rightarrow> bindE (authorization_scopes r p) (\<lambda>scopes.
          Inr (list_ex (\<lambda>s. as_workspace_id s = workspace \<and> as_actor_id s \<in> actors) scopes)))"

definition operation_scopes_for ::
  "identity_resolver option \<Rightarrow> authenticated_principal \<Rightarrow> (string \<times> string) list guarded" where
  "operation_scopes_for resolver p =
     (case resolver of
        None \<Rightarrow> Inr [(pr_workspace_id p, pr_actor_id p)]
      | Some r \<Rightarrow> bindE (authorization_scopes r p) (\<lambda>scopes. Inr (map scope_coordinates scopes)))"

definition actor_id_for_workspace ::
  "identity_resolver option \<Rightarrow> authenticated_principal \<Rightarrow> string \<Rightarrow> string guarded" where
  "actor_id_for_workspace resolver p workspace =
     (case resolver of
        None \<Rightarrow>
          if pr_workspace_id p \<noteq> workspace then Inl (Transition WORKFLOW_ACCESS_DENIED)
          else Inr (pr_actor_id p)
      | Some r \<Rightarrow> bindE (authorization_scopes r p) (\<lambda>scopes.
          case map as_actor_id (filter (\<lambda>s. as_workspace_id s = workspace) scopes) of
            [] \<Rightarrow> Inl (Transition WORKFLOW_ACCESS_DENIED)
          | [actor] \<Rightarrow> Inr actor
          | _ \<Rightarrow> Inl (Transition POLICY_UNAVAILABLE)))"

section \<open>The onboarding policy\<close>

datatype onboarding_permission =
    ON_VIEW | ON_CREATE | ON_DECIDE | ON_PREPARE_PUBLICATION | ON_AUDIT_VIEW

fun ON_ROLE_PERMISSIONS :: "identity_role \<Rightarrow> onboarding_permission set" where
  "ON_ROLE_PERMISSIONS ANALYST = {ON_VIEW, ON_CREATE}"
| "ON_ROLE_PERMISSIONS STEWARD = {ON_VIEW, ON_CREATE, ON_DECIDE, ON_AUDIT_VIEW}"
| "ON_ROLE_PERMISSIONS PUBLISHER = {ON_VIEW, ON_PREPARE_PUBLICATION, ON_AUDIT_VIEW}"
| "ON_ROLE_PERMISSIONS AUDITOR = {ON_VIEW, ON_AUDIT_VIEW}"
| "ON_ROLE_PERMISSIONS PLATFORM_ADMIN =
     {ON_VIEW, ON_CREATE, ON_DECIDE, ON_PREPARE_PUBLICATION, ON_AUDIT_VIEW}"

definition WORKSPACE_VIEW_ROLES :: "identity_role set" where
  "WORKSPACE_VIEW_ROLES = {STEWARD, PUBLISHER, AUDITOR, PLATFORM_ADMIN}"

definition on_permissions_for ::
  "authenticated_principal \<Rightarrow> datetime \<Rightarrow> onboarding_permission set guarded" where
  "on_permissions_for p now =
     bindE (is_current p now) (\<lambda>current.
       if \<not> current then Inr {} else Inr (\<Union>role \<in> pr_roles p. ON_ROLE_PERMISSIONS role))"

definition on_require ::
  "authenticated_principal \<Rightarrow> onboarding_permission \<Rightarrow> datetime \<Rightarrow> unit guarded" where
  "on_require p permission now =
     bindE (is_current p now) (\<lambda>current.
       if \<not> current then Inl (Transition PRINCIPAL_NOT_CURRENT)
       else bindE (on_permissions_for p now) (\<lambda>granted.
         if permission \<notin> granted then Inl (Transition PERMISSION_DENIED) else Inr ()))"

definition require_draft ::
  "identity_resolver option \<Rightarrow> authenticated_principal \<Rightarrow> string \<Rightarrow> string \<Rightarrow>
   onboarding_permission \<Rightarrow> datetime \<Rightarrow> unit guarded" where
  "require_draft resolver p workspace owner permission now =
     bindE (on_require p permission now) (\<lambda>_.
       case resolver of
         None \<Rightarrow>
           if pr_workspace_id p \<noteq> workspace then Inl (Transition WORKFLOW_ACCESS_DENIED)
           else if pr_actor_id p = owner then Inr ()
           else if pr_roles p \<inter> WORKSPACE_VIEW_ROLES \<noteq> {} then Inr ()
           else Inl (Transition WORKFLOW_ACCESS_DENIED)
       | Some r \<Rightarrow>
           if pr_roles p \<inter> WORKSPACE_VIEW_ROLES \<noteq> {}
           then bindE (workspace_aliases r (pr_workspace_id p)) (\<lambda>ids.
                  if workspace \<in> set ids then Inr () else Inl (Transition WORKFLOW_ACCESS_DENIED))
           else bindE (authorization_scopes r p) (\<lambda>scopes.
                  if list_ex (\<lambda>s. as_workspace_id s = workspace \<and> as_actor_id s = owner) scopes
                  then Inr () else Inl (Transition WORKFLOW_ACCESS_DENIED)))"

definition on_owner_filter_for ::
  "authenticated_principal \<Rightarrow> datetime \<Rightarrow> string option guarded" where
  "on_owner_filter_for p now =
     bindE (on_require p ON_VIEW now) (\<lambda>_.
       if pr_roles p \<inter> WORKSPACE_VIEW_ROLES \<noteq> {} then Inr None else Inr (Some (pr_actor_id p)))"

definition on_actor_identity_is_one_of ::
  "identity_resolver option \<Rightarrow> authenticated_principal \<Rightarrow> string \<Rightarrow> string set \<Rightarrow> bool guarded" where
  "on_actor_identity_is_one_of resolver p workspace actors =
     (case resolver of
        None \<Rightarrow> Inr (pr_workspace_id p = workspace \<and> pr_actor_id p \<in> actors)
      | Some r \<Rightarrow> bindE (authorization_scopes r p) (\<lambda>scopes.
          Inr (list_ex (\<lambda>s. as_workspace_id s = workspace \<and> as_actor_id s \<in> actors) scopes)))"

definition on_actor_id_for_workspace ::
  "identity_resolver option \<Rightarrow> authenticated_principal \<Rightarrow> string \<Rightarrow> string guarded" where
  "on_actor_id_for_workspace resolver p workspace =
     (case resolver of
        None \<Rightarrow>
          if pr_workspace_id p \<noteq> workspace then Inl (Transition WORKFLOW_ACCESS_DENIED)
          else Inr (pr_actor_id p)
      | Some r \<Rightarrow> bindE (authorization_scopes r p) (\<lambda>scopes.
          case map as_actor_id (filter (\<lambda>s. as_workspace_id s = workspace) scopes) of
            [] \<Rightarrow> Inl (Transition WORKFLOW_ACCESS_DENIED)
          | [actor] \<Rightarrow> Inr actor
          | _ \<Rightarrow> Inl (Transition POLICY_UNAVAILABLE)))"

definition on_workspace_ids_for_principal ::
  "identity_resolver option \<Rightarrow> authenticated_principal \<Rightarrow> string list guarded" where
  "on_workspace_ids_for_principal resolver p =
     (case resolver of None \<Rightarrow> Inr [pr_workspace_id p]
      | Some r \<Rightarrow> workspace_aliases r (pr_workspace_id p))"

section \<open>What the policies share\<close>

definition in_session :: "authenticated_principal \<Rightarrow> datetime \<Rightarrow> bool" where
  "in_session p now \<longleftrightarrow>
     (case now of Aware t \<Rightarrow> pr_authenticated_at p \<le> t \<and> t < pr_expires_at p | Naive _ \<Rightarrow> False)"

lemma is_current_cases [simp]:
  "is_current p (Aware t) = Inr (pr_authenticated_at p \<le> t \<and> t < pr_expires_at p)"
  "is_current p (Naive t) = Inl ValueError"
  by (simp_all add: is_current_def)

locale closed_policy =
  fixes role_permissions :: "identity_role \<Rightarrow> 'p set"
    and require_permission :: "authenticated_principal \<Rightarrow> 'p \<Rightarrow> datetime \<Rightarrow> unit guarded"
  assumes require_naive: "require_permission p permission (Naive t) = Inl ValueError"
    and require_stale:
      "\<not> in_session p (Aware t) \<Longrightarrow>
       require_permission p permission (Aware t) = Inl (Transition PRINCIPAL_NOT_CURRENT)"
    and require_current:
      "in_session p (Aware t) \<Longrightarrow>
       require_permission p permission (Aware t) =
         (if \<exists>role \<in> pr_roles p. permission \<in> role_permissions role then Inr ()
          else Inl (Transition PERMISSION_DENIED))"
    and admin_complete: "permission \<in> role_permissions PLATFORM_ADMIN"
begin

lemma granted_iff:
  "require_permission p permission now = Inr () \<longleftrightarrow>
     in_session p now \<and> (\<exists>role \<in> pr_roles p. permission \<in> role_permissions role)"
proof (cases now)
  case (Aware t)
  then show ?thesis
    by (cases "in_session p now") (simp_all add: require_stale require_current)
qed (simp add: require_naive in_session_def)

lemma no_roles_no_permission: "pr_roles p = {} \<Longrightarrow> require_permission p permission now \<noteq> Inr ()"
  by (simp add: granted_iff)

lemma admin_granted:
  "PLATFORM_ADMIN \<in> pr_roles p \<Longrightarrow> in_session p now \<Longrightarrow> require_permission p permission now = Inr ()"
  using admin_complete by (auto simp: granted_iff)

lemma roles_monotone:
  assumes "require_permission p permission now = Inr ()" and "pr_roles p \<subseteq> roles"
  shows "require_permission (p\<lparr>pr_roles := roles\<rparr>) permission now = Inr ()"
  using assms by (auto simp: granted_iff in_session_def split: datetime.splits)

end

text \<open>
  A policy over owned resources: reading somebody else's resource takes a role that is wide for
  the permission, and the listing filter is the same rule pushed into the storage query.
\<close>

locale owned_policy = closed_policy +
  fixes wide_roles :: "'a \<Rightarrow> identity_role set"
    and require_owned ::
      "authenticated_principal \<Rightarrow> string \<Rightarrow> string \<Rightarrow> 'a \<Rightarrow> datetime \<Rightarrow> unit guarded"
    and owner_filter :: "authenticated_principal \<Rightarrow> 'a \<Rightarrow> datetime \<Rightarrow> string option guarded"
    and listed :: "'a \<Rightarrow> bool"
  assumes owned_eq:
      "require_owned p workspace owner permission now =
         bindE (require_permission p permission now) (\<lambda>_.
           if pr_workspace_id p = workspace
              \<and> (pr_actor_id p = owner \<or> pr_roles p \<inter> wide_roles permission \<noteq> {})
           then Inr () else Inl (Transition WORKFLOW_ACCESS_DENIED))"
    and filter_eq:
      "listed permission \<Longrightarrow>
       owner_filter p permission now =
         bindE (require_permission p permission now) (\<lambda>_.
           Inr (if pr_roles p \<inter> wide_roles permission \<noteq> {} then None else Some (pr_actor_id p)))"
begin

lemma owned_iff:
  "require_owned p workspace owner permission now = Inr () \<longleftrightarrow>
     require_permission p permission now = Inr () \<and> pr_workspace_id p = workspace
     \<and> (pr_actor_id p = owner \<or> pr_roles p \<inter> wide_roles permission \<noteq> {})"
  by (auto simp: owned_eq bindE_eq_Inr)

lemma filter_exact:
  assumes "listed permission"
  shows "require_owned p workspace owner permission now = Inr () \<longleftrightarrow>
     pr_workspace_id p = workspace
     \<and> (owner_filter p permission now = Inr None \<or> owner_filter p permission now = Inr (Some owner))"
  using assms by (auto simp: owned_iff filter_eq bindE_eq_Inr)

lemma other_workspace_denied:
  "pr_workspace_id p \<noteq> workspace \<Longrightarrow> require_owned p workspace owner permission now \<noteq> Inr ()"
  by (simp add: owned_iff)

end

lemmas permission_defs =
  require_def permissions_for_def rc_require_def rc_permissions_for_def on_require_def
  on_permissions_for_def in_session_def

lemma ROLE_PERMISSIONS_admin: "permission \<in> ROLE_PERMISSIONS PLATFORM_ADMIN"
  by (cases permission) simp_all

lemma RC_ROLE_PERMISSIONS_admin: "permission \<in> RC_ROLE_PERMISSIONS PLATFORM_ADMIN"
  by (cases permission) simp_all

lemma ON_ROLE_PERMISSIONS_admin: "permission \<in> ON_ROLE_PERMISSIONS PLATFORM_ADMIN"
  by (cases permission) simp_all

interpretation workflow_policy: owned_policy ROLE_PERMISSIONS require
  "\<lambda>permission. insert PLATFORM_ADMIN (WORKSPACE_WIDE_ROLES permission)"
  "\<lambda>p workspace owner. require_workflow p
     \<lparr>wg_workflow_id = [], wg_workspace_id = workspace, wg_owner_actor_id = owner, wg_created_at = 0\<rparr>"
  owner_filter_for "\<lambda>_. True"
  by unfold_locales
    (auto simp: permission_defs require_workflow_def owner_filter_for_def ROLE_PERMISSIONS_admin
      bindE_def split: sum.splits simp del: ROLE_PERMISSIONS.simps)

interpretation change_policy: owned_policy RC_ROLE_PERMISSIONS rc_require "\<lambda>_. WORKSPACE_ROLES"
  "require_resource None"
  "\<lambda>p _ now. bindE (list_scopes_for None p now) (\<lambda>scopes. Inr (rl_owner_actor_id (hd scopes)))"
  "\<lambda>permission. permission = RC_VIEW"
  by unfold_locales
    (auto simp: permission_defs require_resource_def list_scopes_for_def RC_ROLE_PERMISSIONS_admin
      bindE_def split: sum.splits simp del: RC_ROLE_PERMISSIONS.simps)

interpretation onboarding_policy: owned_policy ON_ROLE_PERMISSIONS on_require
  "\<lambda>_. WORKSPACE_VIEW_ROLES" "require_draft None" "\<lambda>p _. on_owner_filter_for p"
  "\<lambda>permission. permission = ON_VIEW"
  by unfold_locales
    (auto simp: permission_defs require_draft_def on_owner_filter_for_def ON_ROLE_PERMISSIONS_admin
      bindE_def split: sum.splits simp del: ON_ROLE_PERMISSIONS.simps)

section \<open>Properties\<close>

text \<open>The tables of the workflow policy read together: who may do what to whose workflow.\<close>

lemma require_workflow_grant:
  "require_workflow p g permission now =
   require_workflow p \<lparr>wg_workflow_id = [], wg_workspace_id = wg_workspace_id g,
     wg_owner_actor_id = wg_owner_actor_id g, wg_created_at = 0\<rparr> permission now"
  by (simp add: require_workflow_def)

lemma role_cases:
  "(\<exists>role \<in> roles. P role) \<longleftrightarrow>
     (ANALYST \<in> roles \<and> P ANALYST) \<or> (STEWARD \<in> roles \<and> P STEWARD)
     \<or> (PUBLISHER \<in> roles \<and> P PUBLISHER) \<or> (AUDITOR \<in> roles \<and> P AUDITOR)
     \<or> (PLATFORM_ADMIN \<in> roles \<and> P PLATFORM_ADMIN)"
proof
  assume "\<exists>role \<in> roles. P role"
  then obtain r where "r \<in> roles" "P r" by blast
  then show "(ANALYST \<in> roles \<and> P ANALYST) \<or> (STEWARD \<in> roles \<and> P STEWARD)
    \<or> (PUBLISHER \<in> roles \<and> P PUBLISHER) \<or> (AUDITOR \<in> roles \<and> P AUDITOR)
    \<or> (PLATFORM_ADMIN \<in> roles \<and> P PLATFORM_ADMIN)"
    by (cases r) simp_all
qed blast

lemma workflow_tables:
  "((\<exists>role \<in> roles. permission \<in> ROLE_PERMISSIONS role)
    \<and> (own \<or> roles \<inter> insert PLATFORM_ADMIN (WORKSPACE_WIDE_ROLES permission) \<noteq> {})) \<longleftrightarrow>
   PLATFORM_ADMIN \<in> roles
   \<or> (STEWARD \<in> roles \<and> permission \<in> {WF_VIEW, WF_CONFIRM})
   \<or> (PUBLISHER \<in> roles \<and> permission \<in> {WF_VIEW, WF_PUBLISH})
   \<or> (AUDITOR \<in> roles \<and> permission = WF_VIEW)
   \<or> (ANALYST \<in> roles \<and> own \<and> permission \<noteq> WF_PUBLISH)"
proof -
  have meet: "roles \<inter> A \<noteq> {} \<longleftrightarrow> (\<exists>role \<in> roles. role \<in> A)" for A
    by blast
  show ?thesis
    unfolding meet role_cases by (cases permission) (simp_all, blast+)
qed

lemma role_permissions_table:
  "permission \<in> (\<Union>role \<in> roles. ROLE_PERMISSIONS role) \<longleftrightarrow>
     PLATFORM_ADMIN \<in> roles
     \<or> (STEWARD \<in> roles \<and> permission \<in> {WF_VIEW, WF_CONFIRM})
     \<or> (PUBLISHER \<in> roles \<and> permission \<in> {WF_VIEW, WF_PUBLISH})
     \<or> (AUDITOR \<in> roles \<and> permission = WF_VIEW)
     \<or> (ANALYST \<in> roles \<and> permission \<noteq> WF_PUBLISH)"
  unfolding UN_iff role_cases by (cases permission) (simp_all, blast+)

lemma workspace_wide_table:
  "roles \<inter> WORKSPACE_WIDE_ROLES permission \<noteq> {} \<or> PLATFORM_ADMIN \<in> roles \<longleftrightarrow>
     PLATFORM_ADMIN \<in> roles
     \<or> (STEWARD \<in> roles \<and> permission \<in> {WF_VIEW, WF_CONFIRM})
     \<or> (PUBLISHER \<in> roles \<and> permission \<in> {WF_VIEW, WF_PUBLISH})
     \<or> (AUDITOR \<in> roles \<and> permission = WF_VIEW)"
  by (cases permission) auto

lemma require_workflow_errors:
  "require_workflow p g permission (Aware t) = Inl e \<longleftrightarrow>
     (if t < pr_authenticated_at p \<or> pr_expires_at p \<le> t
      then e = Transition PRINCIPAL_NOT_CURRENT
      else if permission \<notin> (\<Union>role \<in> pr_roles p. ROLE_PERMISSIONS role)
      then e = Transition PERMISSION_DENIED
      else e = Transition WORKFLOW_ACCESS_DENIED
        \<and> \<not> (pr_workspace_id p = wg_workspace_id g
             \<and> (pr_actor_id p = wg_owner_actor_id g
                \<or> (pr_roles p \<inter> WORKSPACE_WIDE_ROLES permission \<noteq> {} \<or> PLATFORM_ADMIN \<in> pr_roles p))))"
  by (auto simp: require_workflow_def require_def permissions_for_def is_current_def)

text \<open>Property C19. The two-stage check of \<open>require_workflow\<close> (session, role table, tenant, owner,
  administrator, workspace-wide roles) admits a request exactly when the session contains the
  instant, the workflow belongs to the principal's workspace, and the principal is a platform
  administrator, a steward viewing or confirming, a publisher viewing or publishing, an auditor
  viewing, or an analyst doing anything but publishing with a workflow of their own. Otherwise the
  first failing check decides the error: outside the session \<open>PRINCIPAL_NOT_CURRENT\<close>, then
  \<open>PERMISSION_DENIED\<close> when no role has the permission, then \<open>WORKFLOW_ACCESS_DENIED\<close> for another
  workspace or somebody else's workflow. An instant without a time zone is a \<open>ValueError\<close>.\<close>

theorem workflow_access_matrix:
  "(require_workflow p g permission (Aware t) = Inr () \<longleftrightarrow>
     pr_authenticated_at p \<le> t \<and> t < pr_expires_at p \<and> pr_workspace_id p = wg_workspace_id g
     \<and> (PLATFORM_ADMIN \<in> pr_roles p
        \<or> (STEWARD \<in> pr_roles p \<and> permission \<in> {WF_VIEW, WF_CONFIRM})
        \<or> (PUBLISHER \<in> pr_roles p \<and> permission \<in> {WF_VIEW, WF_PUBLISH})
        \<or> (AUDITOR \<in> pr_roles p \<and> permission = WF_VIEW)
        \<or> (ANALYST \<in> pr_roles p \<and> pr_actor_id p = wg_owner_actor_id g \<and> permission \<noteq> WF_PUBLISH)))
   \<and> (require_workflow p g permission (Aware t) = Inl e \<longleftrightarrow>
       (if t < pr_authenticated_at p \<or> pr_expires_at p \<le> t
        then e = Transition PRINCIPAL_NOT_CURRENT
        else if \<not> (PLATFORM_ADMIN \<in> pr_roles p
          \<or> (STEWARD \<in> pr_roles p \<and> permission \<in> {WF_VIEW, WF_CONFIRM})
          \<or> (PUBLISHER \<in> pr_roles p \<and> permission \<in> {WF_VIEW, WF_PUBLISH})
          \<or> (AUDITOR \<in> pr_roles p \<and> permission = WF_VIEW)
          \<or> (ANALYST \<in> pr_roles p \<and> permission \<noteq> WF_PUBLISH))
        then e = Transition PERMISSION_DENIED
        else e = Transition WORKFLOW_ACCESS_DENIED
          \<and> \<not> (pr_workspace_id p = wg_workspace_id g
               \<and> (pr_actor_id p = wg_owner_actor_id g
                  \<or> (PLATFORM_ADMIN \<in> pr_roles p
                     \<or> (STEWARD \<in> pr_roles p \<and> permission \<in> {WF_VIEW, WF_CONFIRM})
                     \<or> (PUBLISHER \<in> pr_roles p \<and> permission \<in> {WF_VIEW, WF_PUBLISH})
                     \<or> (AUDITOR \<in> pr_roles p \<and> permission = WF_VIEW))))))
   \<and> require_workflow p g permission (Naive t) = Inl ValueError"
  (is "?accepted \<and> ?refused \<and> ?naive")
proof (intro conjI)
  show ?accepted
    unfolding workflow_tables [symmetric] require_workflow_grant [of p g]
      workflow_policy.owned_iff workflow_policy.granted_iff in_session_def
    by auto
  show ?refused
    unfolding role_permissions_table [symmetric] workspace_wide_table [symmetric]
    by (rule require_workflow_errors)
  show ?naive by (simp add: require_workflow_def require_def is_current_def)
qed

text \<open>Property C20. The storage filter computed for a listing selects exactly the grants the policy
  would admit one by one: a workflow of the workspace passes the owner filter if and only if
  \<open>require_workflow\<close> accepts it, on the error paths too.\<close>

theorem owner_filter_is_exact:
  "require_workflow p g permission now = Inr () \<longleftrightarrow>
     pr_workspace_id p = wg_workspace_id g
     \<and> (owner_filter_for p permission now = Inr None
        \<or> owner_filter_for p permission now = Inr (Some (wg_owner_actor_id g)))"
  unfolding require_workflow_grant [of p g] by (rule workflow_policy.filter_exact) simp

lemma list_ex_scope:
  "list_ex (\<lambda>s. as_workspace_id s = workspace \<and> as_actor_id s = owner) scopes \<longleftrightarrow>
     (\<exists>s \<in> set scopes. as_workspace_id s = workspace \<and> as_actor_id s = owner)"
  by (simp add: list_ex_iff)

definition listed_by :: "registry_change_list_scope list \<Rightarrow> string \<Rightarrow> string \<Rightarrow> bool" where
  "listed_by scopes workspace owner \<longleftrightarrow>
     (\<exists>s \<in> set scopes. rl_workspace_id s = workspace
        \<and> (rl_owner_actor_id s = None \<or> rl_owner_actor_id s = Some owner))"

text \<open>Property C21. Listing and opening agree for registry changes, with and without rotated
  identities: the storage scopes \<open>list_scopes_for\<close> returns contain a resource exactly when
  \<open>require_resource\<close> lets the principal view it. A resolver that fails, answers too much, or
  forgets the principal closes both.\<close>

theorem change_listing_is_exact:
  "require_resource resolver p workspace owner RC_VIEW now = Inr () \<longleftrightarrow>
     (\<exists>scopes. list_scopes_for resolver p now = Inr scopes \<and> listed_by scopes workspace owner)"
proof (cases resolver)
  case None
  then show ?thesis
    by (auto simp: require_resource_def list_scopes_for_def listed_by_def bindE_eq_Inr)
next
  case (Some r)
  show ?thesis
  proof (cases "pr_roles p \<inter> WORKSPACE_ROLES = {}")
    case True
    then show ?thesis
      unfolding require_resource_def list_scopes_for_def Some
      by (cases "rc_require p RC_VIEW now"; cases "authorization_scopes r p")
        (auto simp: listed_by_def list_ex_scope)
  next
    case False
    then show ?thesis
      unfolding require_resource_def list_scopes_for_def Some
      by (cases "rc_require p RC_VIEW now"; cases "workspace_ids_for_principal (Some r) p")
        (auto simp: listed_by_def)
  qed
qed

text \<open>The historical identities a resolver adds are bounded and contain the current one.\<close>

lemma authorization_scopes_contain_principal:
  assumes "authorization_scopes r p = Inr scopes"
  shows "(pr_workspace_id p, pr_actor_id p) \<in> scope_coordinates ` set scopes"
    and "1 \<le> length scopes" and "length scopes \<le> MAX_RESOLVED_SCOPES"
    and "distinct (map scope_coordinates scopes)"
proof -
  obtain c: "(pr_workspace_id p, pr_actor_id p) \<in> scope_coordinates ` set scopes"
    and n: "scopes \<noteq> []" "length scopes \<le> MAX_RESOLVED_SCOPES"
    and d: "card (scope_coordinates ` set scopes) = length scopes"
    using assms by (auto simp: authorization_scopes_def identity_resolution_error_def Let_def
        split: sum.splits if_splits)
  show "(pr_workspace_id p, pr_actor_id p) \<in> scope_coordinates ` set scopes" by (rule c)
  show "1 \<le> length scopes" using n by (cases scopes) simp_all
  show "length scopes \<le> MAX_RESOLVED_SCOPES" by (rule n)
  show "distinct (map scope_coordinates scopes)"
    using d card_distinct [of "map scope_coordinates scopes"] by simp
qed

text \<open>An owner keeps access to their own resources whatever the resolver adds.\<close>

lemma owner_keeps_access:
  assumes "rc_require p permission now = Inr ()"
    and "resolver = None \<or> authorization_scopes (the resolver) p = Inr scopes"
    and "pr_roles p \<inter> WORKSPACE_ROLES = {}"
  shows "require_resource resolver p (pr_workspace_id p) (pr_actor_id p) permission now = Inr ()"
proof (cases resolver)
  case None
  with assms show ?thesis by (simp add: require_resource_def)
next
  case (Some r)
  with assms have "authorization_scopes r p = Inr scopes" by simp
  with authorization_scopes_contain_principal(1) [OF this] Some assms show ?thesis
    by (auto simp: require_resource_def list_ex_scope scope_coordinates_def)
qed

end
