(* ===== verification/Registry_Control.thy ===== *)
theory Registry_Control
  imports Publication_Jobs
begin

text \<open>
  The contracts of \<open>domain/registry_control.py\<close>: the authoritative pointer of a registry scope, the
  compare-and-swap proposal that moves it, the approval and the transition that record one move,
  the projection of the pointer into DataHub with its outbox item, and the reconciliation report.

  The identities are fingerprints of canonical JSON. Where the source dumps a model with pydantic,
  a timestamp inside it is rendered by the parameter \<open>iso_text\<close>; \<open>_canonical_datetime\<close> is Python's
  own \<open>isoformat\<close> and is written out. Instants count from 1970-01-01 UTC there. The parameter sees
  the instant and not the offset it was given in, which pydantic writes as well. An object that a
  caller forged past its validators is a record that is not valid: the \<open>validate_\<close> functions
  revalidate, and so do their models.
\<close>

section \<open>Python's ISO timestamps\<close>

text \<open>\<open>datetime.date.fromordinal\<close>: the proleptic Gregorian date of an ordinal day.\<close>

definition leap_year :: "int \<Rightarrow> bool" where
  "leap_year y \<longleftrightarrow> y mod 4 = 0 \<and> (y mod 100 \<noteq> 0 \<or> y mod 400 = 0)"

definition month_lengths :: "int \<Rightarrow> int list" where
  "month_lengths y = [31, if leap_year y then 29 else 28, 31, 30, 31, 30, 31, 31, 30, 31, 30, 31]"

fun month_and_day :: "int \<Rightarrow> int list \<Rightarrow> int \<Rightarrow> int \<times> int" where
  "month_and_day m [] n = (m, n + 1)"
| "month_and_day m (l # ls) n = (if n < l then (m, n + 1) else month_and_day (m + 1) ls (n - l))"

definition ord2ymd :: "int \<Rightarrow> int \<times> int \<times> int" where
  "ord2ymd ordinal =
     (let n = ordinal - 1;
          n400 = n div 146097; r400 = n mod 146097;
          n100 = r400 div 36524; r100 = r400 mod 36524;
          n4 = r100 div 1461; r4 = r100 mod 1461;
          n1 = r4 div 365; r1 = r4 mod 365;
          year = n400 * 400 + 1 + n100 * 100 + n4 * 4 + n1
      in if n1 = 4 \<or> n100 = 4 then (year - 1, 12, 31)
         else (case month_and_day 1 (month_lengths year) r1 of (m, d) \<Rightarrow> (year, m, d)))"

definition zero_padded :: "nat \<Rightarrow> int \<Rightarrow> string" where
  "zero_padded w n = (let s = str_of_int n in replicate (w - length s) (CHR ''0'') @ s)"

text \<open>The local part of \<open>isoformat\<close>, and the whole of it for an offset in minutes.\<close>

definition iso_local :: "instant \<Rightarrow> string" where
  "iso_local t =
     (let secs = t div 1000000; micro = t mod 1000000;
          day = secs div 86400; s = secs mod 86400
      in case ord2ymd (719163 + day) of (year, month, d) \<Rightarrow>
           zero_padded 4 year @ ''-'' @ zero_padded 2 month @ ''-'' @ zero_padded 2 d @ ''T''
           @ zero_padded 2 (s div 3600) @ '':'' @ zero_padded 2 (s div 60 mod 60) @ '':''
           @ zero_padded 2 (s mod 60)
           @ (if micro = 0 then [] else ''.'' @ zero_padded 6 micro))"

definition isoformat :: "int \<Rightarrow> instant \<Rightarrow> string" where
  "isoformat offset t =
     iso_local (t + minutes offset) @ (if offset < 0 then ''-'' else ''+'')
       @ zero_padded 2 (abs offset div 60) @ '':'' @ zero_padded 2 (abs offset mod 60)"

text \<open>\<open>value.astimezone(UTC).isoformat().replace("+00:00", "Z")\<close> of an aware value.\<close>

definition canonical_datetime :: "instant \<Rightarrow> string" where
  "canonical_datetime t = iso_local t @ ''Z''"

section \<open>Enumerations\<close>

datatype version_trust = STRICT | LEGACY_READ_ONLY

datatype activation_action = ACTIVATE | ROLLBACK

fun activation_action_value :: "activation_action \<Rightarrow> string" where
  "activation_action_value ACTIVATE = ''activate''"
| "activation_action_value ROLLBACK = ''rollback''"

datatype activation_confirmation =
    ACTIVATE_APPROVED_REGISTRY_VERSION | ROLLBACK_TO_APPROVED_REGISTRY_VERSION

fun activation_confirmation_value :: "activation_confirmation \<Rightarrow> string" where
  "activation_confirmation_value ACTIVATE_APPROVED_REGISTRY_VERSION =
     ''activate-approved-registry-version''"
| "activation_confirmation_value ROLLBACK_TO_APPROVED_REGISTRY_VERSION =
     ''rollback-to-approved-registry-version''"

datatype outbox_status = OB_PENDING | OB_DELIVERED | OB_SUPERSEDED | OB_BLOCKED

fun outbox_status_value :: "outbox_status \<Rightarrow> string" where
  "outbox_status_value OB_PENDING = ''pending''"
| "outbox_status_value OB_DELIVERED = ''delivered''"
| "outbox_status_value OB_SUPERSEDED = ''superseded''"
| "outbox_status_value OB_BLOCKED = ''blocked''"

datatype reconciliation_code =
    IN_SYNC | PROJECTION_MISSING | PROJECTION_BEHIND | PROJECTION_AHEAD | PROJECTION_CONFLICT
  | SUPERSEDED | VERSION_CORRUPT | AUDIT_GAP | PENDING_OUTBOX

fun reconciliation_code_value :: "reconciliation_code \<Rightarrow> string" where
  "reconciliation_code_value IN_SYNC = ''in_sync''"
| "reconciliation_code_value PROJECTION_MISSING = ''projection_missing''"
| "reconciliation_code_value PROJECTION_BEHIND = ''projection_behind''"
| "reconciliation_code_value PROJECTION_AHEAD = ''projection_ahead''"
| "reconciliation_code_value PROJECTION_CONFLICT = ''projection_conflict''"
| "reconciliation_code_value SUPERSEDED = ''superseded''"
| "reconciliation_code_value VERSION_CORRUPT = ''version_corrupt''"
| "reconciliation_code_value AUDIT_GAP = ''audit_gap''"
| "reconciliation_code_value PENDING_OUTBOX = ''pending_outbox''"

datatype reconciliation_severity = SEV_INFO | SEV_WARNING | SEV_ERROR | SEV_BLOCKING

fun reconciliation_severity_value :: "reconciliation_severity \<Rightarrow> string" where
  "reconciliation_severity_value SEV_INFO = ''info''"
| "reconciliation_severity_value SEV_WARNING = ''warning''"
| "reconciliation_severity_value SEV_ERROR = ''error''"
| "reconciliation_severity_value SEV_BLOCKING = ''blocking''"

datatype reconciliation_confirmation = REPAIR_ACTIVE_REGISTRY_PROJECTION

fun reconciliation_confirmation_value :: "reconciliation_confirmation \<Rightarrow> string" where
  "reconciliation_confirmation_value REPAIR_ACTIVE_REGISTRY_PROJECTION =
     ''repair-active-registry-projection''"

text \<open>\<open>^[a-z][a-z0-9_]{1,63}$\<close>.\<close>

definition is_safe_reason :: "string \<Rightarrow> bool" where
  "is_safe_reason s \<longleftrightarrow> re_head_run is_lower lower_digit_under 1 63 s"

definition canonical_decisions :: "string list \<Rightarrow> bool" where
  "canonical_decisions values \<longleftrightarrow>
     \<not> (length values \<noteq> card (set values) \<or> list_ex blank values \<or> values \<noteq> sort values)"

section \<open>Audit verification and governed versions\<close>

record audit_chain_verification =
  av_workspace_id :: string
  av_event_count :: int
  av_head_hash :: "string option"
  av_valid :: bool

definition audit_chain_verification_valid :: "audit_chain_verification \<Rightarrow> bool" where
  "audit_chain_verification_valid v \<longleftrightarrow>
     len_between 1 200 (av_workspace_id v) \<and> \<not> blank (av_workspace_id v)
     \<and> 0 \<le> av_event_count v \<and> optional is_sha256 (av_head_hash v)
     \<and> \<not> (av_valid v \<and> (av_event_count v = 0) \<noteq> (av_head_hash v = None))"

record scoped_snapshot =
  ss_scope :: registry_scope
  ss_registry :: registry_snapshot
  ss_activation_generation :: "int option"
  ss_active_pointer_fingerprint :: "string option"

definition scoped_snapshot_valid :: "scoped_snapshot \<Rightarrow> bool" where
  "scoped_snapshot_valid s \<longleftrightarrow>
     registry_scope_valid (ss_scope s) \<and> optional (\<lambda>g. 1 \<le> g) (ss_activation_generation s)
     \<and> optional is_sha256 (ss_active_pointer_fingerprint s)
     \<and> sc_registry_id (ss_scope s) = rs_registry_id (ss_registry s)
     \<and> sc_catalog_scope (ss_scope s) = rs_catalog_scope (ss_registry s)
     \<and> (ss_activation_generation s = None) = (ss_active_pointer_fingerprint s = None)"

record governed_version =
  gv_snapshot :: scoped_snapshot
  gv_publication_approval_id :: string
  gv_trust :: version_trust

definition governed_version_valid :: "governed_version \<Rightarrow> bool" where
  "governed_version_valid v \<longleftrightarrow>
     scoped_snapshot_valid (gv_snapshot v)
     \<and> len_between 1 200 (gv_publication_approval_id v) \<and> \<not> blank (gv_publication_approval_id v)
     \<and> source_bound (ss_scope (gv_snapshot v)) (ss_registry (gv_snapshot v))"

section \<open>Activation-ready handoffs\<close>

record ready_handoff =
  ho_job_id :: string
  ho_scope :: registry_scope
  ho_source_proposal_id :: string
  ho_source_proposal_fingerprint :: string
  ho_candidate_id :: string
  ho_candidate_fingerprint :: string
  ho_target_registry_version :: int
  ho_target_registry_fingerprint :: string
  ho_target_registry_urn :: string
  ho_attempt_authorization_id :: string
  ho_observed_authorization_id :: string
  ho_catalog_authority_fingerprint :: string
  ho_observed_at :: instant
  ho_fingerprint :: string

definition handoff_members :: "(instant \<Rightarrow> string) \<Rightarrow> ready_handoff \<Rightarrow> (string \<times> json) list" where
  "handoff_members iso_text h =
     [(''job_id'', JStr (ho_job_id h)), (''scope'', scope_json (ho_scope h)),
      (''source_proposal_id'', JStr (ho_source_proposal_id h)),
      (''source_proposal_fingerprint'', JStr (ho_source_proposal_fingerprint h)),
      (''candidate_id'', JStr (ho_candidate_id h)),
      (''candidate_fingerprint'', JStr (ho_candidate_fingerprint h)),
      (''target_registry_version'', JInt (ho_target_registry_version h)),
      (''target_registry_fingerprint'', JStr (ho_target_registry_fingerprint h)),
      (''target_registry_urn'', JStr (ho_target_registry_urn h)),
      (''attempt_authorization_id'', JStr (ho_attempt_authorization_id h)),
      (''observed_authorization_id'', JStr (ho_observed_authorization_id h)),
      (''catalog_authority_fingerprint'', JStr (ho_catalog_authority_fingerprint h)),
      (''observed_at'', JStr (iso_text (ho_observed_at h)))]"

definition handoff_json :: "(instant \<Rightarrow> string) \<Rightarrow> ready_handoff \<Rightarrow> json" where
  "handoff_json iso_text h =
     JObj (handoff_members iso_text h @ [(''fingerprint'', JStr (ho_fingerprint h))])"

definition registry_activation_ready_handoff_fingerprint ::
  "(instant \<Rightarrow> string) \<Rightarrow> ready_handoff \<Rightarrow> string" where
  "registry_activation_ready_handoff_fingerprint iso_text h =
     json_fingerprint (JObj [(''contract'', JStr ''registry_activation_ready_handoff_v1''),
       (''handoff'', JObj (handoff_members iso_text h))])"

definition ready_handoff_valid :: "(instant \<Rightarrow> string) \<Rightarrow> ready_handoff \<Rightarrow> bool" where
  "ready_handoff_valid iso_text h \<longleftrightarrow>
     len_between 3 200 (ho_job_id h) \<and> registry_scope_valid (ho_scope h)
     \<and> len_between 3 200 (ho_source_proposal_id h) \<and> is_sha256 (ho_source_proposal_fingerprint h)
     \<and> len_between 3 200 (ho_candidate_id h) \<and> is_sha256 (ho_candidate_fingerprint h)
     \<and> 1 \<le> ho_target_registry_version h \<and> is_sha256 (ho_target_registry_fingerprint h)
     \<and> len_between 3 500 (ho_target_registry_urn h)
     \<and> len_between 3 200 (ho_attempt_authorization_id h)
     \<and> len_between 3 200 (ho_observed_authorization_id h)
     \<and> is_sha256 (ho_catalog_authority_fingerprint h) \<and> is_sha256 (ho_fingerprint h)
     \<and> registry_publication_job_id (ho_scope h) (ho_target_registry_version h) = Inr (ho_job_id h)
     \<and> ho_candidate_id h = registry_publication_candidate_id (ho_source_proposal_id h)
          (ho_source_proposal_fingerprint h)
     \<and> (Inr (ho_target_registry_urn h) :: (unit, string) outcome)
          = datahub_registry_document_urn (ho_scope h) (ho_target_registry_version h)
     \<and> ho_fingerprint h = registry_activation_ready_handoff_fingerprint iso_text h"

text \<open>\<open>RegistryActivationReadyHandoff.create\<close>: the provisional fingerprint is 64 zeros.\<close>

definition create_handoff :: "(instant \<Rightarrow> string) \<Rightarrow> ready_handoff \<Rightarrow> ('c, ready_handoff) outcome" where
  "create_handoff iso_text given =
     (let provisional = given\<lparr>ho_fingerprint := replicate 64 (CHR ''0'')\<rparr>
      in construct_model (ready_handoff_valid iso_text)
           (provisional\<lparr>ho_fingerprint :=
              registry_activation_ready_handoff_fingerprint iso_text provisional\<rparr>))"

section \<open>The active pointer\<close>

record active_pointer =
  ptr_scope :: registry_scope
  ptr_generation :: int
  ptr_registry_version :: int
  ptr_registry_fingerprint :: string
  ptr_registry_target :: string
  ptr_transition_id :: string
  ptr_activated_by :: string
  ptr_activated_at :: instant
  ptr_decision_ids :: "string list"

definition active_pointer_valid :: "active_pointer \<Rightarrow> bool" where
  "active_pointer_valid p \<longleftrightarrow>
     registry_scope_valid (ptr_scope p) \<and> 1 \<le> ptr_generation p \<and> 1 \<le> ptr_registry_version p
     \<and> is_sha256 (ptr_registry_fingerprint p) \<and> len_between 1 500 (ptr_registry_target p)
     \<and> is_named_id (ptr_transition_id p)
     \<and> len_between 1 120 (ptr_activated_by p) \<and> \<not> blank (ptr_activated_by p)
     \<and> len_between 1 2000 (ptr_decision_ids p) \<and> canonical_decisions (ptr_decision_ids p)
     \<and> (Inr (ptr_registry_target p) :: (unit, string) outcome)
          = datahub_registry_document_urn (ptr_scope p) (ptr_registry_version p)"

definition pointer_json :: "(instant \<Rightarrow> string) \<Rightarrow> active_pointer \<Rightarrow> json" where
  "pointer_json iso_text p =
     JObj [(''scope'', scope_json (ptr_scope p)), (''generation'', JInt (ptr_generation p)),
           (''registry_version'', JInt (ptr_registry_version p)),
           (''registry_fingerprint'', JStr (ptr_registry_fingerprint p)),
           (''registry_target'', JStr (ptr_registry_target p)),
           (''transition_id'', JStr (ptr_transition_id p)),
           (''activated_by'', JStr (ptr_activated_by p)),
           (''activated_at'', JStr (iso_text (ptr_activated_at p))),
           (''decision_ids'', JArr (map JStr (ptr_decision_ids p)))]"

definition registry_projection_fingerprint :: "(instant \<Rightarrow> string) \<Rightarrow> active_pointer \<Rightarrow> string" where
  "registry_projection_fingerprint iso_text p = json_fingerprint (pointer_json iso_text p)"

section \<open>Proposals\<close>

record activation_proposal =
  ac_action :: activation_action
  ac_scope :: registry_scope
  ac_expected_generation :: int
  ac_expected_registry_version :: "int option"
  ac_expected_registry_fingerprint :: "string option"
  ac_expected_transition_id :: "string option"
  ac_target_registry_version :: int
  ac_target_registry_fingerprint :: string
  ac_target_registry_urn :: string
  ac_target_publication_approval_id :: string
  ac_activation_ready_handoff :: "ready_handoff option"
  ac_decision_ids :: "string list"
  ac_rollback_transition_id :: "string option"

definition handoff_of_target :: "activation_proposal \<Rightarrow> ready_handoff \<Rightarrow> bool" where
  "handoff_of_target p h \<longleftrightarrow>
     \<not> (ho_scope h \<noteq> ac_scope p \<or> ho_target_registry_version h \<noteq> ac_target_registry_version p
        \<or> ho_target_registry_fingerprint h \<noteq> ac_target_registry_fingerprint p
        \<or> ho_target_registry_urn h \<noteq> ac_target_registry_urn p
        \<or> ho_observed_authorization_id h \<noteq> ac_target_publication_approval_id p)"

definition compare_and_swap_shape :: "activation_proposal \<Rightarrow> bool" where
  "compare_and_swap_shape p \<longleftrightarrow>
     (let absent = [ac_expected_registry_version p = None,
                    ac_expected_registry_fingerprint p = None, ac_expected_transition_id p = None]
      in (if ac_expected_generation p = 0 then list_all id absent else list_all Not absent)
         \<and> (Inr (ac_target_registry_urn p) :: (unit, string) outcome)
              = datahub_registry_document_urn (ac_scope p) (ac_target_registry_version p)
         \<and> (if ac_action p = ACTIVATE
            then ac_rollback_transition_id p = None
                 \<and> (case ac_activation_ready_handoff p of None \<Rightarrow> False
                    | Some h \<Rightarrow> handoff_of_target p h)
            else ac_rollback_transition_id p \<noteq> None \<and> ac_activation_ready_handoff p = None)
         \<and> \<not> (ac_expected_registry_fingerprint p = Some (ac_target_registry_fingerprint p)
              \<and> ac_expected_registry_version p = Some (ac_target_registry_version p)))"

definition activation_proposal_valid ::
  "(instant \<Rightarrow> string) \<Rightarrow> activation_proposal \<Rightarrow> bool" where
  "activation_proposal_valid iso_text p \<longleftrightarrow>
     registry_scope_valid (ac_scope p) \<and> 0 \<le> ac_expected_generation p
     \<and> optional (\<lambda>v. 1 \<le> v) (ac_expected_registry_version p)
     \<and> optional is_sha256 (ac_expected_registry_fingerprint p)
     \<and> optional (\<lambda>t. len_between 3 200 t \<and> is_named_id t) (ac_expected_transition_id p)
     \<and> 1 \<le> ac_target_registry_version p \<and> is_sha256 (ac_target_registry_fingerprint p)
     \<and> len_between 1 500 (ac_target_registry_urn p)
     \<and> len_between 1 200 (ac_target_publication_approval_id p)
     \<and> \<not> blank (ac_target_publication_approval_id p)
     \<and> optional (ready_handoff_valid iso_text) (ac_activation_ready_handoff p)
     \<and> len_between 1 2000 (ac_decision_ids p) \<and> canonical_decisions (ac_decision_ids p)
     \<and> optional (\<lambda>t. len_between 3 200 t \<and> is_named_id t) (ac_rollback_transition_id p)
     \<and> compare_and_swap_shape p"

definition activation_proposal_json :: "(instant \<Rightarrow> string) \<Rightarrow> activation_proposal \<Rightarrow> json" where
  "activation_proposal_json iso_text p =
     JObj [(''action'', JStr (activation_action_value (ac_action p))),
           (''scope'', scope_json (ac_scope p)),
           (''expected_generation'', JInt (ac_expected_generation p)),
           (''expected_registry_version'', optional_json JInt (ac_expected_registry_version p)),
           (''expected_registry_fingerprint'',
              optional_json JStr (ac_expected_registry_fingerprint p)),
           (''expected_transition_id'', optional_json JStr (ac_expected_transition_id p)),
           (''target_registry_version'', JInt (ac_target_registry_version p)),
           (''target_registry_fingerprint'', JStr (ac_target_registry_fingerprint p)),
           (''target_registry_urn'', JStr (ac_target_registry_urn p)),
           (''target_publication_approval_id'', JStr (ac_target_publication_approval_id p)),
           (''activation_ready_handoff'',
              optional_json (handoff_json iso_text) (ac_activation_ready_handoff p)),
           (''decision_ids'', JArr (map JStr (ac_decision_ids p))),
           (''rollback_transition_id'', optional_json JStr (ac_rollback_transition_id p))]"

definition proposal_fingerprint :: "(instant \<Rightarrow> string) \<Rightarrow> activation_proposal \<Rightarrow> string" where
  "proposal_fingerprint iso_text p = json_fingerprint (activation_proposal_json iso_text p)"

section \<open>Approvals\<close>

record activation_approval =
  aa_id :: string
  aa_proposal :: activation_proposal
  aa_actor :: string
  aa_approved_at :: instant
  aa_confirmation :: activation_confirmation

definition activation_approval_payload ::
  "(instant \<Rightarrow> string) \<Rightarrow> activation_proposal \<Rightarrow> string \<Rightarrow> instant \<Rightarrow> activation_confirmation \<Rightarrow> json" where
  "activation_approval_payload iso_text p actor approved_at confirm =
     JObj [(''proposal'', JStr (proposal_fingerprint iso_text p)), (''actor'', JStr actor),
           (''approved_at'', JStr (canonical_datetime approved_at)),
           (''confirmation'', JStr (activation_confirmation_value confirm))]"

definition registry_activation_approval_id ::
  "(instant \<Rightarrow> string) \<Rightarrow> activation_proposal \<Rightarrow> string \<Rightarrow> instant \<Rightarrow> activation_confirmation \<Rightarrow> string" where
  "registry_activation_approval_id iso_text p actor approved_at confirm =
     ''registry-activation-v1-''
       @ json_fingerprint (activation_approval_payload iso_text p actor approved_at confirm)"

fun expected_confirmation :: "activation_action \<Rightarrow> activation_confirmation" where
  "expected_confirmation ACTIVATE = ACTIVATE_APPROVED_REGISTRY_VERSION"
| "expected_confirmation ROLLBACK = ROLLBACK_TO_APPROVED_REGISTRY_VERSION"

definition activation_approval_valid ::
  "(instant \<Rightarrow> string) \<Rightarrow> activation_approval \<Rightarrow> bool" where
  "activation_approval_valid iso_text a \<longleftrightarrow>
     len_between 3 200 (aa_id a) \<and> is_named_id (aa_id a)
     \<and> activation_proposal_valid iso_text (aa_proposal a)
     \<and> len_between 1 120 (aa_actor a) \<and> \<not> blank (aa_actor a)
     \<and> aa_id a = registry_activation_approval_id iso_text (aa_proposal a) (aa_actor a)
          (aa_approved_at a) (aa_confirmation a)
     \<and> aa_confirmation a = expected_confirmation (ac_action (aa_proposal a))"

definition validate_registry_activation_approval ::
  "(instant \<Rightarrow> string) \<Rightarrow> activation_proposal \<Rightarrow> activation_approval \<Rightarrow> ('c, unit) outcome" where
  "validate_registry_activation_approval iso_text p a =
     (if \<not> activation_proposal_valid iso_text p \<or> \<not> activation_approval_valid iso_text a
      then Inl ValueError
      else if aa_proposal a \<noteq> p then Inl ValueError
      else Inr ())"

section \<open>Transitions\<close>

record activation_transition =
  at_id :: string
  at_approval :: activation_approval
  at_previous_pointer :: "active_pointer option"
  at_active_pointer :: active_pointer
  at_committed_at :: instant

definition registry_activation_transition_id :: "activation_approval \<Rightarrow> string" where
  "registry_activation_transition_id a =
     ''registry-transition-v1-'' @ json_fingerprint (JObj [(''approval_id'', JStr (aa_id a))])"

definition pointer_matches_proposal :: "active_pointer \<Rightarrow> activation_proposal \<Rightarrow> bool" where
  "pointer_matches_proposal pointer p \<longleftrightarrow>
     ptr_scope pointer = ac_scope p \<and> ptr_generation pointer = ac_expected_generation p
     \<and> Some (ptr_registry_version pointer) = ac_expected_registry_version p
     \<and> Some (ptr_registry_fingerprint pointer) = ac_expected_registry_fingerprint p
     \<and> Some (ptr_transition_id pointer) = ac_expected_transition_id p"

definition materializes_approval :: "activation_transition \<Rightarrow> bool" where
  "materializes_approval t \<longleftrightarrow>
     (let p = aa_proposal (at_approval t); pointer = at_active_pointer t in
      at_id t = registry_activation_transition_id (at_approval t)
      \<and> aa_approved_at (at_approval t) \<le> at_committed_at t
      \<and> (if ac_expected_generation p = 0 then at_previous_pointer t = None
         else (case at_previous_pointer t of None \<Rightarrow> False
               | Some previous \<Rightarrow> pointer_matches_proposal previous p))
      \<and> ptr_scope pointer = ac_scope p
      \<and> ptr_generation pointer = ac_expected_generation p + 1
      \<and> ptr_registry_version pointer = ac_target_registry_version p
      \<and> ptr_registry_fingerprint pointer = ac_target_registry_fingerprint p
      \<and> ptr_registry_target pointer = ac_target_registry_urn p
      \<and> ptr_transition_id pointer = at_id t
      \<and> ptr_activated_by pointer = aa_actor (at_approval t)
      \<and> ptr_activated_at pointer = at_committed_at t
      \<and> ptr_decision_ids pointer = ac_decision_ids p)"

definition activation_transition_valid ::
  "(instant \<Rightarrow> string) \<Rightarrow> activation_transition \<Rightarrow> bool" where
  "activation_transition_valid iso_text t \<longleftrightarrow>
     len_between 3 200 (at_id t) \<and> is_named_id (at_id t)
     \<and> activation_approval_valid iso_text (at_approval t)
     \<and> optional active_pointer_valid (at_previous_pointer t)
     \<and> active_pointer_valid (at_active_pointer t) \<and> materializes_approval t"

definition build_registry_activation_transition ::
  "(instant \<Rightarrow> string) \<Rightarrow> activation_proposal \<Rightarrow> activation_approval \<Rightarrow> active_pointer option \<Rightarrow>
   datetime \<Rightarrow> ('c, activation_transition) outcome" where
  "build_registry_activation_transition iso_text p a previous committed =
     bindE (validate_registry_activation_approval iso_text p a) (\<lambda>_.
     case committed of Naive _ \<Rightarrow> Inl ValidationError
     | Aware committed_at \<Rightarrow>
       let transition_id = registry_activation_transition_id a in
       bindE (construct_model active_pointer_valid
         \<lparr>ptr_scope = ac_scope p, ptr_generation = ac_expected_generation p + 1,
          ptr_registry_version = ac_target_registry_version p,
          ptr_registry_fingerprint = ac_target_registry_fingerprint p,
          ptr_registry_target = ac_target_registry_urn p, ptr_transition_id = transition_id,
          ptr_activated_by = aa_actor a, ptr_activated_at = committed_at,
          ptr_decision_ids = ac_decision_ids p\<rparr>) (\<lambda>pointer.
       construct_model (activation_transition_valid iso_text)
         \<lparr>at_id = transition_id, at_approval = a, at_previous_pointer = previous,
          at_active_pointer = pointer, at_committed_at = committed_at\<rparr>))"

section \<open>Projections and the outbox\<close>

record projection_state =
  pj_pointer :: active_pointer
  pj_projection_fingerprint :: string

definition projection_state_valid :: "(instant \<Rightarrow> string) \<Rightarrow> projection_state \<Rightarrow> bool" where
  "projection_state_valid iso_text s \<longleftrightarrow>
     active_pointer_valid (pj_pointer s) \<and> is_sha256 (pj_projection_fingerprint s)
     \<and> pj_projection_fingerprint s = registry_projection_fingerprint iso_text (pj_pointer s)"

record outbox_item =
  ob_id :: string
  ob_transition_id :: string
  ob_desired :: projection_state
  ob_status :: outbox_status
  ob_attempts :: int
  ob_created_at :: instant
  ob_last_reason_code :: "string option"

definition registry_projection_outbox_id :: "string \<Rightarrow> string" where
  "registry_projection_outbox_id transition_id =
     ''registry-projection-v1-''
       @ json_fingerprint (JObj [(''transition_id'', JStr transition_id)])"

definition outbox_item_valid :: "(instant \<Rightarrow> string) \<Rightarrow> outbox_item \<Rightarrow> bool" where
  "outbox_item_valid iso_text i \<longleftrightarrow>
     len_between 3 200 (ob_id i) \<and> is_named_id (ob_id i)
     \<and> len_between 3 200 (ob_transition_id i) \<and> is_named_id (ob_transition_id i)
     \<and> projection_state_valid iso_text (ob_desired i) \<and> 0 \<le> ob_attempts i
     \<and> optional (\<lambda>r. len_between 2 64 r \<and> is_safe_reason r) (ob_last_reason_code i)
     \<and> ob_id i = registry_projection_outbox_id (ob_transition_id i)
     \<and> ptr_transition_id (pj_pointer (ob_desired i)) = ob_transition_id i
     \<and> (ob_status i = OB_BLOCKED) = (ob_last_reason_code i \<noteq> None)"

definition build_registry_projection_outbox ::
  "(instant \<Rightarrow> string) \<Rightarrow> activation_transition \<Rightarrow> ('c, outbox_item) outcome" where
  "build_registry_projection_outbox iso_text t =
     bindE (construct_model (projection_state_valid iso_text)
       \<lparr>pj_pointer = at_active_pointer t,
        pj_projection_fingerprint = registry_projection_fingerprint iso_text (at_active_pointer t)\<rparr>)
     (\<lambda>desired. construct_model (outbox_item_valid iso_text)
       \<lparr>ob_id = registry_projection_outbox_id (at_id t), ob_transition_id = at_id t,
        ob_desired = desired, ob_status = OB_PENDING, ob_attempts = 0,
        ob_created_at = at_committed_at t, ob_last_reason_code = None\<rparr>)"

record control_commit =
  co_transition :: activation_transition
  co_outbox :: outbox_item
  co_audit_event_hash :: string
  co_replayed :: bool

definition control_commit_valid :: "(instant \<Rightarrow> string) \<Rightarrow> control_commit \<Rightarrow> bool" where
  "control_commit_valid iso_text c \<longleftrightarrow>
     activation_transition_valid iso_text (co_transition c)
     \<and> outbox_item_valid iso_text (co_outbox c) \<and> is_sha256 (co_audit_event_hash c)
     \<and> ob_transition_id (co_outbox c) = at_id (co_transition c)
     \<and> pj_pointer (ob_desired (co_outbox c)) = at_active_pointer (co_transition c)"

section \<open>Reconciliation\<close>

record reconciliation_finding =
  fi_code :: reconciliation_code
  fi_severity :: reconciliation_severity
  fi_message :: string

definition reconciliation_finding_valid :: "reconciliation_finding \<Rightarrow> bool" where
  "reconciliation_finding_valid f \<longleftrightarrow> len_between 1 240 (fi_message f) \<and> \<not> blank (fi_message f)"

record reconciliation_report =
  re_scope :: registry_scope
  re_active_pointer :: active_pointer
  re_desired_projection :: projection_state
  re_observed_projection :: "projection_state option"
  re_pending_outbox :: "outbox_item option"
  re_findings :: "reconciliation_finding list"
  re_inspected_at :: instant

definition reconciliation_report_valid ::
  "(instant \<Rightarrow> string) \<Rightarrow> reconciliation_report \<Rightarrow> bool" where
  "reconciliation_report_valid iso_text r \<longleftrightarrow>
     registry_scope_valid (re_scope r) \<and> active_pointer_valid (re_active_pointer r)
     \<and> projection_state_valid iso_text (re_desired_projection r)
     \<and> optional (projection_state_valid iso_text) (re_observed_projection r)
     \<and> optional (outbox_item_valid iso_text) (re_pending_outbox r)
     \<and> len_between 1 12 (re_findings r) \<and> list_all reconciliation_finding_valid (re_findings r)
     \<and> \<not> (ptr_scope (re_active_pointer r) \<noteq> re_scope r
          \<or> pj_pointer (re_desired_projection r) \<noteq> re_active_pointer r
          \<or> \<not> optional (\<lambda>s. ptr_scope (pj_pointer s) = re_scope r) (re_observed_projection r)
          \<or> \<not> optional (\<lambda>i. ptr_scope (pj_pointer (ob_desired i)) = re_scope r) (re_pending_outbox r))
     \<and> length (map fi_code (re_findings r)) = card (set (map fi_code (re_findings r)))"

definition projection_json :: "(instant \<Rightarrow> string) \<Rightarrow> projection_state \<Rightarrow> json" where
  "projection_json iso_text s =
     JObj [(''pointer'', pointer_json iso_text (pj_pointer s)),
           (''projection_fingerprint'', JStr (pj_projection_fingerprint s))]"

definition outbox_json :: "(instant \<Rightarrow> string) \<Rightarrow> outbox_item \<Rightarrow> json" where
  "outbox_json iso_text i =
     JObj [(''id'', JStr (ob_id i)), (''transition_id'', JStr (ob_transition_id i)),
           (''desired'', projection_json iso_text (ob_desired i)),
           (''status'', JStr (outbox_status_value (ob_status i))),
           (''attempts'', JInt (ob_attempts i)),
           (''created_at'', JStr (iso_text (ob_created_at i))),
           (''last_reason_code'', optional_json JStr (ob_last_reason_code i))]"

definition finding_json :: "reconciliation_finding \<Rightarrow> json" where
  "finding_json f =
     JObj [(''code'', JStr (reconciliation_code_value (fi_code f))),
           (''severity'', JStr (reconciliation_severity_value (fi_severity f))),
           (''message'', JStr (fi_message f))]"

definition report_json :: "(instant \<Rightarrow> string) \<Rightarrow> reconciliation_report \<Rightarrow> json" where
  "report_json iso_text r =
     JObj [(''scope'', scope_json (re_scope r)),
           (''active_pointer'', pointer_json iso_text (re_active_pointer r)),
           (''desired_projection'', projection_json iso_text (re_desired_projection r)),
           (''observed_projection'',
              optional_json (projection_json iso_text) (re_observed_projection r)),
           (''pending_outbox'', optional_json (outbox_json iso_text) (re_pending_outbox r)),
           (''findings'', JArr (map finding_json (re_findings r))),
           (''inspected_at'', JStr (iso_text (re_inspected_at r)))]"

definition report_fingerprint :: "(instant \<Rightarrow> string) \<Rightarrow> reconciliation_report \<Rightarrow> string" where
  "report_fingerprint iso_text r = json_fingerprint (report_json iso_text r)"

record reconciliation_approval =
  rc_id :: string
  rc_report_fingerprint :: string
  rc_scope :: registry_scope
  rc_generation :: int
  rc_registry_fingerprint :: string
  rc_actor :: string
  rc_approved_at :: instant
  rc_confirmation :: reconciliation_confirmation

definition registry_reconciliation_approval_id_from_fingerprint ::
  "string \<Rightarrow> string \<Rightarrow> instant \<Rightarrow> reconciliation_confirmation \<Rightarrow> ('c, string) outcome" where
  "registry_reconciliation_approval_id_from_fingerprint fingerprint actor approved_at confirm =
     (if \<not> is_sha256 fingerprint then Inl ValueError
      else Inr (''registry-reconcile-v1-''
        @ json_fingerprint (JObj [(''report'', JStr fingerprint), (''actor'', JStr actor),
            (''approved_at'', JStr (canonical_datetime approved_at)),
            (''confirmation'', JStr (reconciliation_confirmation_value confirm))])))"

definition registry_reconciliation_approval_id ::
  "(instant \<Rightarrow> string) \<Rightarrow> reconciliation_report \<Rightarrow> string \<Rightarrow> instant \<Rightarrow>
   reconciliation_confirmation \<Rightarrow> ('c, string) outcome" where
  "registry_reconciliation_approval_id iso_text r actor approved_at confirm =
     registry_reconciliation_approval_id_from_fingerprint (report_fingerprint iso_text r) actor
       approved_at confirm"

definition reconciliation_approval_valid :: "reconciliation_approval \<Rightarrow> bool" where
  "reconciliation_approval_valid a \<longleftrightarrow>
     len_between 3 200 (rc_id a) \<and> is_named_id (rc_id a) \<and> is_sha256 (rc_report_fingerprint a)
     \<and> registry_scope_valid (rc_scope a) \<and> 1 \<le> rc_generation a
     \<and> is_sha256 (rc_registry_fingerprint a)
     \<and> len_between 1 120 (rc_actor a) \<and> \<not> blank (rc_actor a)
     \<and> (Inr (rc_id a) :: (unit, string) outcome)
          = registry_reconciliation_approval_id_from_fingerprint (rc_report_fingerprint a)
              (rc_actor a) (rc_approved_at a) (rc_confirmation a)"

definition validate_registry_reconciliation_approval ::
  "(instant \<Rightarrow> string) \<Rightarrow> reconciliation_report \<Rightarrow> reconciliation_approval \<Rightarrow> ('c, unit) outcome" where
  "validate_registry_reconciliation_approval iso_text r a =
     (if \<not> reconciliation_report_valid iso_text r \<or> \<not> reconciliation_approval_valid a
      then Inl ValueError
      else bindE (registry_reconciliation_approval_id iso_text r (rc_actor a) (rc_approved_at a)
                   (rc_confirmation a)) (\<lambda>expected.
        if rc_id a \<noteq> expected \<or> rc_report_fingerprint a \<noteq> report_fingerprint iso_text r
           \<or> rc_scope a \<noteq> re_scope r \<or> rc_generation a \<noteq> ptr_generation (re_active_pointer r)
           \<or> rc_registry_fingerprint a \<noteq> ptr_registry_fingerprint (re_active_pointer r)
           \<or> rc_confirmation a \<noteq> REPAIR_ACTIVE_REGISTRY_PROJECTION
        then Inl ValueError else Inr ()))"

record projection_outcome =
  po_outbox_id :: string
  po_transition_id :: string
  po_scope :: registry_scope
  po_generation :: int
  po_status :: outbox_status
  po_observed_projection :: "projection_state option"
  po_occurred_at :: instant
  po_reason_code :: "string option"

definition projection_outcome_valid :: "(instant \<Rightarrow> string) \<Rightarrow> projection_outcome \<Rightarrow> bool" where
  "projection_outcome_valid iso_text u \<longleftrightarrow>
     len_between 3 200 (po_outbox_id u) \<and> is_named_id (po_outbox_id u)
     \<and> len_between 3 200 (po_transition_id u) \<and> is_named_id (po_transition_id u)
     \<and> registry_scope_valid (po_scope u) \<and> 1 \<le> po_generation u
     \<and> optional (projection_state_valid iso_text) (po_observed_projection u)
     \<and> optional (\<lambda>r. len_between 2 64 r \<and> is_safe_reason r) (po_reason_code u)
     \<and> po_status u \<noteq> OB_PENDING
     \<and> (po_status u = OB_BLOCKED) = (po_reason_code u \<noteq> None)
     \<and> optional (\<lambda>s. ptr_scope (pj_pointer s) = po_scope u
                    \<and> ptr_generation (pj_pointer s) = po_generation u) (po_observed_projection u)"

section \<open>Identities are inert\<close>

text \<open>Every identity is a fixed prefix followed by a digest.\<close>

definition id_prefix :: "string \<Rightarrow> bool" where
  "id_prefix s \<longleftrightarrow> s \<noteq> [] \<and> is_lower (hd s) \<and> list_all lower_digit_dash s \<and> length s \<le> 130"

lemma hex_lower_digit_dash: "is_hex c \<Longrightarrow> lower_digit_dash c"
  by (auto simp: is_hex_def lower_digit_dash_def is_lower_def)

lemma prefixed_id_named:
  assumes "id_prefix s"
  shows "is_named_id (s @ json_fingerprint j)" and "len_between 3 200 (s @ json_fingerprint j)"
proof -
  have f: "length (json_fingerprint j) = 64" "list_all is_hex (json_fingerprint j)"
    using json_fingerprint_shape [of j] by (simp_all add: is_sha256_def re_exactly_def)
  obtain c r where s: "s = c # r" using assms by (cases s) (simp_all add: id_prefix_def)
  have "list_all lower_digit_dash (json_fingerprint j)"
    using f(2) by (auto simp: list_all_iff hex_lower_digit_dash)
  then show "is_named_id (s @ json_fingerprint j)"
    using assms s f(1) by (simp add: is_named_id_def re_head_run_def id_prefix_def)
  then show "len_between 3 200 (s @ json_fingerprint j)" by simp
qed

lemma control_prefixes:
  "id_prefix ''registry-activation-v1-''" "id_prefix ''registry-transition-v1-''"
  "id_prefix ''registry-projection-v1-''" "id_prefix ''registry-reconcile-v1-''"
  by (simp_all add: id_prefix_def class_defs char_class_defs)

lemma control_ids_named [simp]:
  "is_named_id (registry_activation_approval_id f p actor t confirm)"
  "is_named_id (registry_activation_transition_id a)"
  "is_named_id (registry_projection_outbox_id i)"
  by (simp_all add: registry_activation_approval_id_def registry_activation_transition_id_def
      registry_projection_outbox_id_def prefixed_id_named(1) [OF control_prefixes(1), simplified]
      prefixed_id_named(1) [OF control_prefixes(2), simplified]
      prefixed_id_named(1) [OF control_prefixes(3), simplified])

section \<open>Transitions\<close>

text \<open>The expected state a proposal was prepared from.\<close>

definition expects_pointer :: "activation_proposal \<Rightarrow> active_pointer option \<Rightarrow> bool" where
  "expects_pointer p current \<longleftrightarrow>
     (if ac_expected_generation p = 0 then current = None
      else (case current of None \<Rightarrow> False | Some pointer \<Rightarrow> pointer_matches_proposal pointer p))"

text \<open>The pointer and the transition an approval stands for.\<close>

definition approved_pointer :: "activation_approval \<Rightarrow> instant \<Rightarrow> active_pointer" where
  "approved_pointer a t =
     \<lparr>ptr_scope = ac_scope (aa_proposal a),
      ptr_generation = ac_expected_generation (aa_proposal a) + 1,
      ptr_registry_version = ac_target_registry_version (aa_proposal a),
      ptr_registry_fingerprint = ac_target_registry_fingerprint (aa_proposal a),
      ptr_registry_target = ac_target_registry_urn (aa_proposal a),
      ptr_transition_id = registry_activation_transition_id a, ptr_activated_by = aa_actor a,
      ptr_activated_at = t, ptr_decision_ids = ac_decision_ids (aa_proposal a)\<rparr>"

definition approved_transition ::
  "activation_approval \<Rightarrow> active_pointer option \<Rightarrow> instant \<Rightarrow> activation_transition" where
  "approved_transition a previous t =
     \<lparr>at_id = registry_activation_transition_id a, at_approval = a, at_previous_pointer = previous,
      at_active_pointer = approved_pointer a t, at_committed_at = t\<rparr>"

lemma approved_pointer_valid:
  assumes "activation_approval_valid f a"
  shows "active_pointer_valid (approved_pointer a t)"
  using assms
  by (simp add: activation_approval_valid_def activation_proposal_valid_def active_pointer_valid_def
      approved_pointer_def compare_and_swap_shape_def Let_def)

lemma materializes_iff:
  "materializes_approval tr \<longleftrightarrow>
     tr = approved_transition (at_approval tr) (at_previous_pointer tr) (at_committed_at tr)
     \<and> aa_approved_at (at_approval tr) \<le> at_committed_at tr
     \<and> expects_pointer (aa_proposal (at_approval tr)) (at_previous_pointer tr)"
  by (cases tr; cases "at_active_pointer tr")
    (auto simp: materializes_approval_def approved_transition_def approved_pointer_def
      expects_pointer_def Let_def)

lemma approved_transition_valid_iff:
  "activation_transition_valid f (approved_transition a previous t) \<longleftrightarrow>
     activation_approval_valid f a \<and> optional active_pointer_valid previous
     \<and> aa_approved_at a \<le> t \<and> expects_pointer (aa_proposal a) previous"
  using approved_pointer_valid [of f a t]
  by (auto simp: activation_transition_valid_def materializes_iff)
    (simp_all add: approved_transition_def)

lemma transition_valid_cases:
  assumes "activation_transition_valid f tr"
  obtains a previous t where "tr = approved_transition a previous t" "activation_approval_valid f a"
    "optional active_pointer_valid previous" "aa_approved_at a \<le> t"
    "expects_pointer (aa_proposal a) previous"
proof -
  have "tr = approved_transition (at_approval tr) (at_previous_pointer tr) (at_committed_at tr)"
    using assms by (simp add: activation_transition_valid_def materializes_iff)
  with assms approved_transition_valid_iff that show ?thesis by metis
qed

lemma build_transition_eq:
  "build_registry_activation_transition f p a previous committed =
     (if activation_proposal_valid f p \<and> activation_approval_valid f a \<and> aa_proposal a = p
      then case committed of Naive _ \<Rightarrow> Inl ValidationError
           | Aware t \<Rightarrow> construct_model (activation_transition_valid f) (approved_transition a previous t)
      else Inl ValueError)"
proof (cases "activation_proposal_valid f p \<and> activation_approval_valid f a \<and> aa_proposal a = p")
  case True
  show ?thesis
  proof (cases committed)
    case (Aware t)
    have "active_pointer_valid (approved_pointer a t)" using True approved_pointer_valid by blast
    then have "construct_model active_pointer_valid (approved_pointer a t)
        = (Inr (approved_pointer a t) :: ('a, active_pointer) outcome)"
      by (simp add: construct_model_def)
    with True Aware show ?thesis
      by (simp add: build_registry_activation_transition_def approved_transition_def
          approved_pointer_def validate_registry_activation_approval_def Let_def)
  qed (use True in \<open>simp add: build_registry_activation_transition_def
      validate_registry_activation_approval_def\<close>)
qed (auto simp: build_registry_activation_transition_def validate_registry_activation_approval_def)

lemma build_outbox_eq:
  assumes "activation_transition_valid f tr"
  shows "build_registry_projection_outbox f tr =
    Inr \<lparr>ob_id = registry_projection_outbox_id (at_id tr), ob_transition_id = at_id tr,
      ob_desired = \<lparr>pj_pointer = at_active_pointer tr,
        pj_projection_fingerprint = registry_projection_fingerprint f (at_active_pointer tr)\<rparr>,
      ob_status = OB_PENDING, ob_attempts = 0, ob_created_at = at_committed_at tr,
      ob_last_reason_code = None\<rparr>"
proof -
  obtain a previous t where tr: "tr = approved_transition a previous t"
    and a: "activation_approval_valid f a"
    using assms by (rule transition_valid_cases)
  have ptr: "active_pointer_valid (at_active_pointer tr)"
    "ptr_transition_id (at_active_pointer tr) = at_id tr" "is_named_id (at_id tr)"
    using approved_pointer_valid [OF a] by (simp_all add: tr approved_transition_def approved_pointer_def)
  have "len_between 3 200 (registry_projection_outbox_id (at_id tr))" by simp
  with ptr show ?thesis
    by (simp add: build_registry_projection_outbox_def construct_model_def projection_state_valid_def
        registry_projection_fingerprint_def outbox_item_valid_def)
qed

section \<open>Properties\<close>

text \<open>Building a transition is an exact compare-and-swap: it succeeds precisely when the
  proposal and the approval are genuine, the approval is for this proposal and does not lie in the
  future of the commit, and the pointer supplied as the previous one is the one the proposal was
  prepared from, or none for a first activation. The result is then determined: the pointer of the
  approved version, one generation further.\<close>

lemma transition_is_exact_swap:
  "build_registry_activation_transition f p a previous (Aware t) = (Inr tr :: (unit, activation_transition) outcome) \<longleftrightarrow>
     activation_proposal_valid f p \<and> activation_approval_valid f a \<and> aa_proposal a = p
     \<and> aa_approved_at a \<le> t \<and> optional active_pointer_valid previous
     \<and> (if ac_expected_generation p = 0 then previous = None
        else \<exists>q. previous = Some q \<and> pointer_matches_proposal q p)
     \<and> tr = approved_transition a previous t"
  by (auto simp: build_transition_eq construct_model_def approved_transition_valid_iff
      expects_pointer_def split: option.splits)

end
