(* ===== verification/Control_Store.thy ===== *)
theory Control_Store
  imports Registry_Control
begin

text \<open>
  The authoritative store of \<open>adapters/control_plane/postgres_registry_control.py\<close>: activation
  transitions, active pointers, the projection outbox and the control audit, each a table of
  \<open>migrations/control_plane/0001_initial_control_plane.sql\<close>.

  A call is one transaction under the workspace lock, so an operation maps a store to a result
  and the store after the commit; an exception rolls back, which is the left summand. The unique
  and foreign-key constraints the adapter relies on are tests of the insertions: a unique
  violation and any other database error reach the caller as the codes the adapter gives them.
  A lost connection is not modelled. Row order is insertion order, as the identity column of the
  audit and the generations of a scope give it.

  The stored function \<open>load_registry_activation_ready_handoff\<close> is the parameter \<open>ready_row\<close>. The
  audit text of a timestamp depends on the offset of the value in hand: the writer's when an event
  is appended, the database session's when the chain is verified.
\<close>

section \<open>Keyed digests\<close>

text \<open>\<open>hmac.new(key, message, hashlib.sha256).hexdigest()\<close>.\<close>

definition word_bytes :: "32 word \<Rightarrow> nat list" where
  "word_bytes w = map (\<lambda>i. (unat w div 256 ^ i) mod 256) [3, 2, 1, 0]"

fun state_bytes :: "sha256_state \<Rightarrow> nat list" where
  "state_bytes (a, b, c, d, e, f, g, h) = concat (map word_bytes [a, b, c, d, e, f, g, h])"

definition sha256_digest :: "nat list \<Rightarrow> nat list" where
  "sha256_digest bs = state_bytes (sha256_blocks sha256_initial (sha256_padding bs))"

definition xor_byte :: "nat \<Rightarrow> nat \<Rightarrow> nat" where
  "xor_byte a b = unat ((of_nat a :: 8 word) XOR of_nat b)"

definition hmac_key :: "nat list \<Rightarrow> nat list" where
  "hmac_key key =
     (let k = (if length key > 64 then sha256_digest key else key)
      in k @ replicate (64 - length k) 0)"

definition hmac_sha256 :: "nat list \<Rightarrow> nat list \<Rightarrow> string" where
  "hmac_sha256 key message =
     sha256_hexdigest (map (xor_byte 92) (hmac_key key)
       @ sha256_digest (map (xor_byte 54) (hmac_key key) @ message))"

lemma hmac_shape [simp]: "is_sha256 (hmac_sha256 key message)"
  by (simp add: hmac_sha256_def sha256_hexdigest_def state_hex_shape)

section \<open>Tables\<close>

datatype control_code =
    POINTER_NOT_FOUND | STORE_UNAVAILABLE | VERSION_UNAVAILABLE | VERSION_INVALID
  | LEGACY_VERSION | ACTIVATION_NOT_READY | ACTIVATION_HANDOFF_MISMATCH | ALREADY_ACTIVE
  | APPROVAL_REQUIRED | APPROVAL_MISMATCH | CAS_CONFLICT | ROLLBACK_NOT_ALLOWED
  | INVALID_RESPONSE | RECONCILIATION_CONFLICT | PROJECTION_UNAVAILABLE

type_synonym 'a controlled = "(control_code, 'a) outcome"

record outbox_row =
  ow_item :: outbox_item
  ow_scope :: registry_scope
  ow_generation :: int
  ow_observed_projection :: "projection_state option"
  ow_updated_at :: instant
  ow_delivered_at :: "instant option"

record audit_event =
  ev_event_id :: string
  ev_workspace_id :: string
  ev_operation :: string
  ev_transition_id :: "string option"
  ev_previous_hash :: "string option"
  ev_event_hash :: string
  ev_payload_fingerprint :: string
  ev_key_version :: string
  ev_event_json :: json
  ev_occurred_at :: instant

record control_store =
  cs_transitions :: "activation_transition list"
  cs_pointers :: "active_pointer list"
  cs_outbox :: "outbox_row list"
  cs_audit :: "audit_event list"

definition empty_store :: control_store where
  "empty_store = \<lparr>cs_transitions = [], cs_pointers = [], cs_outbox = [], cs_audit = []\<rparr>"

record store_config =
  cf_audit_signing_keys :: "string \<rightharpoonup> nat list"
  cf_active_audit_key_version :: string
  cf_writer_offset :: int
  cf_session_offset :: int

text \<open>\<open>__post_init__\<close>: a non-empty key ring with usable keys that has the active version.\<close>

definition signing_key_ok :: "string \<Rightarrow> nat list \<Rightarrow> bool" where
  "signing_key_ok version key \<longleftrightarrow>
     \<not> (blank version \<or> length version > 80 \<or> length key < 32 \<or> card (set key) < 8)"

section \<open>Audit events\<close>

definition approval_json :: "(instant \<Rightarrow> string) \<Rightarrow> activation_approval \<Rightarrow> json" where
  "approval_json iso_text a =
     JObj [(''id'', JStr (aa_id a)), (''proposal'', activation_proposal_json iso_text (aa_proposal a)),
           (''actor'', JStr (aa_actor a)), (''approved_at'', JStr (iso_text (aa_approved_at a))),
           (''confirmation'', JStr (activation_confirmation_value (aa_confirmation a)))]"

definition transition_json :: "(instant \<Rightarrow> string) \<Rightarrow> activation_transition \<Rightarrow> json" where
  "transition_json iso_text t =
     JObj [(''id'', JStr (at_id t)), (''approval'', approval_json iso_text (at_approval t)),
           (''previous_pointer'', optional_json (pointer_json iso_text) (at_previous_pointer t)),
           (''active_pointer'', pointer_json iso_text (at_active_pointer t)),
           (''committed_at'', JStr (iso_text (at_committed_at t)))]"

definition outcome_json :: "(instant \<Rightarrow> string) \<Rightarrow> projection_outcome \<Rightarrow> json" where
  "outcome_json iso_text u =
     JObj [(''outbox_id'', JStr (po_outbox_id u)), (''transition_id'', JStr (po_transition_id u)),
           (''scope'', scope_json (po_scope u)), (''generation'', JInt (po_generation u)),
           (''status'', JStr (outbox_status_value (po_status u))),
           (''observed_projection'',
              optional_json (projection_json iso_text) (po_observed_projection u)),
           (''occurred_at'', JStr (iso_text (po_occurred_at u))),
           (''reason_code'', optional_json JStr (po_reason_code u))]"

definition control_event_id :: "string \<Rightarrow> string \<Rightarrow> string" where
  "control_event_id kind identity =
     ''control-'' @ kind @ ''-v1-'' @ json_fingerprint (JObj [(''identity'', JStr identity)])"

definition audit_hash ::
  "nat list \<Rightarrow> string \<Rightarrow> string \<Rightarrow> string \<Rightarrow> string option \<Rightarrow> string option \<Rightarrow> string \<Rightarrow> string \<Rightarrow>
   string \<Rightarrow> string" where
  "audit_hash key event_id workspace operation transition_id previous_hash payload_fingerprint
     key_version occurred_at =
     hmac_sha256 key (utf8_bytes (dumps escape_ascii (JObj
       [(''event_id'', JStr event_id), (''workspace_id'', JStr workspace),
        (''operation'', JStr operation), (''transition_id'', optional_json JStr transition_id),
        (''previous_hash'', optional_json JStr previous_hash),
        (''payload_fingerprint'', JStr payload_fingerprint), (''key_version'', JStr key_version),
        (''occurred_at'', JStr occurred_at)])))"

definition workspace_events :: "control_store \<Rightarrow> string \<Rightarrow> audit_event list" where
  "workspace_events s workspace = filter (\<lambda>e. ev_workspace_id e = workspace) (cs_audit s)"

text \<open>What the database refuses of an insertion, and the codes the two transactions report.\<close>

datatype db_error = UniqueViolation | OtherDatabaseError

fun commit_error :: "db_error \<Rightarrow> control_code" where
  "commit_error UniqueViolation = CAS_CONFLICT"
| "commit_error OtherDatabaseError = STORE_UNAVAILABLE"

fun outcome_error :: "db_error \<Rightarrow> control_code" where
  "outcome_error _ = STORE_UNAVAILABLE"

definition database :: "(db_error \<Rightarrow> control_code) \<Rightarrow> db_error + 'a \<Rightarrow> 'a controlled" where
  "database report m = (case m of Inl e \<Rightarrow> Inl (Transition (report e)) | Inr x \<Rightarrow> Inr x)"

definition insert_audit_event :: "audit_event \<Rightarrow> control_store \<Rightarrow> db_error + control_store" where
  "insert_audit_event e s =
     (if list_ex (\<lambda>x. ev_event_id x = ev_event_id e \<or> ev_event_hash x = ev_event_hash e) (cs_audit s)
      then Inl UniqueViolation
      else if \<not> optional (\<lambda>i. list_ex (\<lambda>t. at_id t = i
                \<and> sc_workspace_id (ptr_scope (at_active_pointer t)) = ev_workspace_id e)
              (cs_transitions s)) (ev_transition_id e)
      then Inl OtherDatabaseError
      else Inr (s\<lparr>cs_audit := cs_audit s @ [e]\<rparr>))"

text \<open>\<open>_append_audit_event\<close>, within the active signing key.\<close>

definition next_audit_event ::
  "store_config \<Rightarrow> nat list \<Rightarrow> string \<Rightarrow> string \<Rightarrow> string option \<Rightarrow> string \<Rightarrow> json \<Rightarrow> instant \<Rightarrow>
   control_store \<Rightarrow> audit_event" where
  "next_audit_event cfg key workspace operation transition_id event_id payload occurred_at s =
     (let events = workspace_events s workspace;
          previous = (if events = [] then None else Some (ev_event_hash (last events)));
          fingerprint = json_fingerprint payload
      in \<lparr>ev_event_id = event_id, ev_workspace_id = workspace, ev_operation = operation,
          ev_transition_id = transition_id, ev_previous_hash = previous,
          ev_event_hash = audit_hash key event_id workspace operation transition_id previous
            fingerprint (cf_active_audit_key_version cfg)
            (isoformat (cf_writer_offset cfg) occurred_at),
          ev_payload_fingerprint = fingerprint,
          ev_key_version = cf_active_audit_key_version cfg, ev_event_json = payload,
          ev_occurred_at = occurred_at\<rparr>)"

definition append_audit_event ::
  "store_config \<Rightarrow> (db_error \<Rightarrow> control_code) \<Rightarrow> string \<Rightarrow> string \<Rightarrow> string option \<Rightarrow> string \<Rightarrow> json \<Rightarrow>
   instant \<Rightarrow> control_store \<Rightarrow> (string \<times> control_store) controlled" where
  "append_audit_event cfg report workspace operation transition_id event_id payload occurred_at s =
     (case cf_audit_signing_keys cfg (cf_active_audit_key_version cfg) of
        None \<Rightarrow> Inl KeyError
      | Some key \<Rightarrow>
          let event = next_audit_event cfg key workspace operation transition_id event_id payload
                occurred_at s
          in bindE (database report (insert_audit_event event s)) (\<lambda>s'.
               Inr (ev_event_hash event, s')))"

text \<open>\<open>verify_audit_chain\<close>: the loop over the events of the workspace, with the running head.\<close>

fun verify_events ::
  "store_config \<Rightarrow> string \<Rightarrow> audit_event list \<Rightarrow> string option \<Rightarrow> string option \<times> bool" where
  "verify_events cfg workspace [] previous = (previous, True)"
| "verify_events cfg workspace (e # es) previous =
     (case cf_audit_signing_keys cfg (ev_key_version e) of
        None \<Rightarrow> (previous, False)
      | Some key \<Rightarrow>
          if ev_previous_hash e \<noteq> previous then (previous, False)
          else if json_fingerprint (ev_event_json e) \<noteq> ev_payload_fingerprint e
          then (previous, False)
          else if audit_hash key (ev_event_id e) workspace (ev_operation e) (ev_transition_id e)
                 previous (json_fingerprint (ev_event_json e)) (ev_key_version e)
                 (isoformat (cf_session_offset cfg) (ev_occurred_at e)) \<noteq> ev_event_hash e
          then (previous, False)
          else verify_events cfg workspace es (Some (ev_event_hash e)))"

definition verify_audit_chain ::
  "store_config \<Rightarrow> string \<Rightarrow> control_store \<Rightarrow> audit_chain_verification controlled" where
  "verify_audit_chain cfg workspace s =
     (case verify_events cfg workspace (workspace_events s workspace) None of (head, ok) \<Rightarrow>
       let v = \<lparr>av_workspace_id = workspace,
                av_event_count = int (length (workspace_events s workspace)),
                av_head_hash = head, av_valid = ok\<rparr>
       in if audit_chain_verification_valid v then Inr v else Inl (Transition STORE_UNAVAILABLE))"

definition REGISTRY_OPERATIONS :: "string list" where
  "REGISTRY_OPERATIONS = [''registry_activate'', ''registry_rollback'']"

definition has_audit_event :: "string \<Rightarrow> control_store \<Rightarrow> bool" where
  "has_audit_event transition_id s \<longleftrightarrow>
     list_ex (\<lambda>e. ev_transition_id e = Some transition_id
                 \<and> ev_operation e \<in> set REGISTRY_OPERATIONS) (cs_audit s)"

section \<open>Reads\<close>

definition find_pointer :: "registry_scope \<Rightarrow> control_store \<Rightarrow> active_pointer option" where
  "find_pointer scope s = find (\<lambda>p. ptr_scope p = scope) (cs_pointers s)"

definition transition_scope :: "activation_transition \<Rightarrow> registry_scope" where
  "transition_scope t = ptr_scope (at_active_pointer t)"

definition transition_generation :: "activation_transition \<Rightarrow> int" where
  "transition_generation t = ptr_generation (at_active_pointer t)"

text \<open>\<open>load_active\<close> reports a malformed row as an unavailable store; \<open>_load_active_for_update\<close> lets
  the validation error through.\<close>

definition load_active :: "registry_scope \<Rightarrow> control_store \<Rightarrow> active_pointer option controlled" where
  "load_active scope s =
     (case find_pointer scope s of None \<Rightarrow> Inr None
      | Some p \<Rightarrow> if active_pointer_valid p then Inr (Some p) else Inl (Transition STORE_UNAVAILABLE))"

definition load_active_for_update ::
  "registry_scope \<Rightarrow> control_store \<Rightarrow> active_pointer option controlled" where
  "load_active_for_update scope s =
     (case find_pointer scope s of None \<Rightarrow> Inr None
      | Some p \<Rightarrow> bindE (construct_model active_pointer_valid p) (\<lambda>p. Inr (Some p)))"

type_synonym ready_rows = "registry_scope \<Rightarrow> int \<Rightarrow> ready_handoff option"

definition load_handoff ::
  "(instant \<Rightarrow> string) \<Rightarrow> ready_rows \<Rightarrow> registry_scope \<Rightarrow> int \<Rightarrow> ready_handoff option controlled" where
  "load_handoff iso_text ready_row scope version =
     (case ready_row scope version of None \<Rightarrow> Inr None
      | Some row \<Rightarrow>
          bindE (create_handoff iso_text
            (row\<lparr>ho_scope := scope, ho_target_registry_version := version\<rparr>)) (\<lambda>h. Inr (Some h)))"

definition load_activation_ready_handoff ::
  "(instant \<Rightarrow> string) \<Rightarrow> ready_rows \<Rightarrow> registry_scope \<Rightarrow> int \<Rightarrow> ready_handoff option controlled" where
  "load_activation_ready_handoff iso_text ready_row scope version =
     (if version < 1 then Inl ValueError
      else case load_handoff iso_text ready_row scope version of
             Inl _ \<Rightarrow> Inl (Transition STORE_UNAVAILABLE) | Inr h \<Rightarrow> Inr h)"

definition list_transitions ::
  "(instant \<Rightarrow> string) \<Rightarrow> registry_scope \<Rightarrow> int \<Rightarrow> control_store \<Rightarrow> activation_transition list controlled" where
  "list_transitions iso_text scope limit s =
     (if \<not> (1 \<le> limit \<and> limit \<le> 1000) then Inl ValueError
      else
        let rows = take (nat limit) (sort_key transition_generation
              (filter (\<lambda>t. transition_scope t = scope) (cs_transitions s)))
        in if list_all (activation_transition_valid iso_text) rows then Inr rows
           else Inl (Transition STORE_UNAVAILABLE))"

definition load_pending_outbox ::
  "(instant \<Rightarrow> string) \<Rightarrow> registry_scope \<Rightarrow> control_store \<Rightarrow> outbox_item option controlled" where
  "load_pending_outbox iso_text scope s =
     (let rows = sort_key ow_generation (filter (\<lambda>r. ow_scope r = scope
              \<and> ob_status (ow_item r) = OB_PENDING) (cs_outbox s))
      in if rows = [] then Inr None
         else if outbox_item_valid iso_text (ow_item (last rows)) then Inr (Some (ow_item (last rows)))
         else Inl (Transition STORE_UNAVAILABLE))"

definition load_transition_outbox ::
  "(instant \<Rightarrow> string) \<Rightarrow> registry_scope \<Rightarrow> string \<Rightarrow> control_store \<Rightarrow> outbox_item option controlled" where
  "load_transition_outbox iso_text scope transition_id s =
     (case find (\<lambda>r. ow_scope r = scope \<and> ob_transition_id (ow_item r) = transition_id) (cs_outbox s) of
        None \<Rightarrow> Inr None
      | Some r \<Rightarrow> if outbox_item_valid iso_text (ow_item r) then Inr (Some (ow_item r))
                  else Inl (Transition STORE_UNAVAILABLE))"

section \<open>Committing a transition\<close>

definition validate_commit_input ::
  "(instant \<Rightarrow> string) \<Rightarrow> activation_transition \<Rightarrow> outbox_item \<Rightarrow> unit controlled" where
  "validate_commit_input iso_text t i =
     (if \<not> activation_transition_valid iso_text t \<or> \<not> outbox_item_valid iso_text i
      then Inl (Transition INVALID_RESPONSE)
      else if ob_transition_id i \<noteq> at_id t \<or> pj_pointer (ob_desired i) \<noteq> at_active_pointer t
              \<or> ob_status i \<noteq> OB_PENDING
      then Inl (Transition INVALID_RESPONSE)
      else Inr ())"

definition load_replayed_commit ::
  "(instant \<Rightarrow> string) \<Rightarrow> activation_transition \<Rightarrow> outbox_item \<Rightarrow> control_store \<Rightarrow>
   control_commit option controlled" where
  "load_replayed_commit iso_text t i s =
     (case find (\<lambda>x. at_id x = at_id t) (cs_transitions s) of
        None \<Rightarrow> Inr None
      | Some row \<Rightarrow>
          bindE (construct_model (activation_transition_valid iso_text) row) (\<lambda>stored.
          case (find (\<lambda>r. ob_transition_id (ow_item r) = at_id t) (cs_outbox s),
                find (\<lambda>e. ev_transition_id e = Some (at_id t)
                         \<and> ev_operation e \<in> set REGISTRY_OPERATIONS) (cs_audit s)) of
            (Some r, Some e) \<Rightarrow>
              bindE (construct_model (outbox_item_valid iso_text) (ow_item r)) (\<lambda>stored_outbox.
              if stored \<noteq> t \<or> ob_id stored_outbox \<noteq> ob_id i
                 \<or> ob_transition_id stored_outbox \<noteq> ob_transition_id i
                 \<or> ob_desired stored_outbox \<noteq> ob_desired i
              then Inl (Transition CAS_CONFLICT)
              else bindE (construct_model (control_commit_valid iso_text)
                \<lparr>co_transition = stored, co_outbox = i, co_audit_event_hash = ev_event_hash e,
                 co_replayed = True\<rparr>) (\<lambda>c. Inr (Some c)))
          | _ \<Rightarrow> Inl (Transition STORE_UNAVAILABLE)))"

definition require_activation_ready_handoff ::
  "(instant \<Rightarrow> string) \<Rightarrow> ready_rows \<Rightarrow> activation_transition \<Rightarrow> unit controlled" where
  "require_activation_ready_handoff iso_text ready_row t =
     (let p = aa_proposal (at_approval t) in
      if ac_action p = ROLLBACK then Inr ()
      else case ac_activation_ready_handoff p of
        None \<Rightarrow> Inl (Transition ACTIVATION_NOT_READY)
      | Some expected \<Rightarrow>
          bindE (load_handoff iso_text ready_row (ac_scope p) (ac_target_registry_version p)) (\<lambda>found.
          case found of None \<Rightarrow> Inl (Transition ACTIVATION_NOT_READY)
          | Some observed \<Rightarrow>
              if observed \<noteq> expected then Inl (Transition ACTIVATION_HANDOFF_MISMATCH) else Inr ()))"

text \<open>\<open>registry_activation_transitions\<close>: its unique keys, and the foreign keys to the expected
  transition and to the one rolled back to.\<close>

definition transition_row_conflict :: "activation_transition \<Rightarrow> activation_transition \<Rightarrow> bool" where
  "transition_row_conflict t x \<longleftrightarrow>
     at_id x = at_id t \<or> aa_id (at_approval x) = aa_id (at_approval t)
     \<or> (transition_scope x = transition_scope t \<and> transition_generation x = transition_generation t)"

definition transition_references ::
  "activation_transition \<Rightarrow> activation_transition list \<Rightarrow> bool" where
  "transition_references t rows \<longleftrightarrow>
     (let p = aa_proposal (at_approval t) in
      optional (\<lambda>i. list_ex (\<lambda>x. transition_scope x = transition_scope t
          \<and> transition_generation x = ac_expected_generation p \<and> at_id x = i) rows)
        (ac_expected_transition_id p)
      \<and> optional (\<lambda>i. list_ex (\<lambda>x. sc_workspace_id (transition_scope x)
            = sc_workspace_id (transition_scope t) \<and> at_id x = i) rows)
        (ac_rollback_transition_id p))"

definition insert_transition ::
  "activation_transition \<Rightarrow> control_store \<Rightarrow> db_error + control_store" where
  "insert_transition t s =
     (if list_ex (transition_row_conflict t) (cs_transitions s) then Inl UniqueViolation
      else if \<not> transition_references t (cs_transitions s @ [t]) then Inl OtherDatabaseError
      else Inr (s\<lparr>cs_transitions := cs_transitions s @ [t]\<rparr>))"

definition write_pointer ::
  "activation_transition \<Rightarrow> control_store \<Rightarrow> control_store controlled" where
  "write_pointer t s =
     (let pointer = at_active_pointer t in
      case at_previous_pointer t of
        None \<Rightarrow>
          if list_ex (\<lambda>x. ptr_scope x = ptr_scope pointer
                       \<or> ptr_transition_id x = ptr_transition_id pointer) (cs_pointers s)
          then Inl (Transition CAS_CONFLICT)
          else Inr (s\<lparr>cs_pointers := cs_pointers s @ [pointer]\<rparr>)
      | Some previous \<Rightarrow>
          let selected = (\<lambda>x. ptr_scope x = ptr_scope pointer
                \<and> ptr_generation x = ptr_generation previous
                \<and> ptr_transition_id x = ptr_transition_id previous)
          in if list_ex (\<lambda>x. \<not> selected x \<and> ptr_transition_id x = ptr_transition_id pointer)
                  (cs_pointers s)
             then Inl (Transition CAS_CONFLICT)
             else if length (filter selected (cs_pointers s)) \<noteq> 1
             then Inl (Transition CAS_CONFLICT)
             else Inr (s\<lparr>cs_pointers := map (\<lambda>x. if selected x then pointer else x) (cs_pointers s)\<rparr>))"

definition insert_outbox :: "outbox_item \<Rightarrow> control_store \<Rightarrow> db_error + control_store" where
  "insert_outbox i s =
     (if list_ex (\<lambda>r. ob_id (ow_item r) = ob_id i
                  \<or> ob_transition_id (ow_item r) = ob_transition_id i) (cs_outbox s)
      then Inl UniqueViolation
      else Inr (s\<lparr>cs_outbox := cs_outbox s @
        [\<lparr>ow_item = i, ow_scope = ptr_scope (pj_pointer (ob_desired i)),
          ow_generation = ptr_generation (pj_pointer (ob_desired i)),
          ow_observed_projection = None, ow_updated_at = ob_created_at i,
          ow_delivered_at = None\<rparr>]\<rparr>))"

definition commit_payload :: "(instant \<Rightarrow> string) \<Rightarrow> activation_transition \<Rightarrow> outbox_item \<Rightarrow> json" where
  "commit_payload iso_text t i =
     JObj [(''transition'', transition_json iso_text t), (''outbox'', outbox_json iso_text i)]"

definition append_transition_event ::
  "(instant \<Rightarrow> string) \<Rightarrow> store_config \<Rightarrow> activation_transition \<Rightarrow> outbox_item \<Rightarrow> control_store \<Rightarrow>
   (string \<times> control_store) controlled" where
  "append_transition_event iso_text cfg t i s =
     append_audit_event cfg commit_error (sc_workspace_id (transition_scope t))
       (''registry_'' @ activation_action_value (ac_action (aa_proposal (at_approval t))))
       (Some (at_id t)) (control_event_id ''registry_transition'' (at_id t))
       (commit_payload iso_text t i) (at_committed_at t) s"

definition commit_transition ::
  "(instant \<Rightarrow> string) \<Rightarrow> store_config \<Rightarrow> ready_rows \<Rightarrow> activation_transition \<Rightarrow> outbox_item \<Rightarrow>
   control_store \<Rightarrow> (control_commit \<times> control_store) controlled" where
  "commit_transition iso_text cfg ready_row t i s =
     bindE (validate_commit_input iso_text t i) (\<lambda>_.
     bindE (load_replayed_commit iso_text t i s) (\<lambda>replay.
     case replay of Some c \<Rightarrow> Inr (c, s)
     | None \<Rightarrow>
         bindE (load_active_for_update (transition_scope t) s) (\<lambda>current.
         if current \<noteq> at_previous_pointer t then Inl (Transition CAS_CONFLICT)
         else
           bindE (require_activation_ready_handoff iso_text ready_row t) (\<lambda>_.
           bindE (database commit_error (insert_transition t s)) (\<lambda>s1.
           bindE (write_pointer t s1) (\<lambda>s2.
           bindE (database commit_error (insert_outbox i s2)) (\<lambda>s3.
           bindE (append_transition_event iso_text cfg t i s3) (\<lambda>(event_hash, s4).
           bindE (construct_model (control_commit_valid iso_text)
             \<lparr>co_transition = t, co_outbox = i, co_audit_event_hash = event_hash,
              co_replayed = False\<rparr>) (\<lambda>c. Inr (c, s4))))))))))"

section \<open>Recording a projection outcome\<close>

definition outcome_row_matches :: "outbox_row \<Rightarrow> projection_outcome \<Rightarrow> bool" where
  "outcome_row_matches r u \<longleftrightarrow>
     ob_transition_id (ow_item r) = po_transition_id u \<and> ow_scope r = po_scope u
     \<and> ow_generation r = po_generation u"

definition terminal_outcome_matches :: "outbox_row \<Rightarrow> projection_outcome \<Rightarrow> bool" where
  "terminal_outcome_matches r u \<longleftrightarrow>
     ob_status (ow_item r) = po_status u \<and> ow_observed_projection r = po_observed_projection u
     \<and> ob_last_reason_code (ow_item r) = po_reason_code u"

definition close_row :: "projection_outcome \<Rightarrow> outbox_row \<Rightarrow> outbox_row" where
  "close_row u r =
     r\<lparr>ow_item := (ow_item r)\<lparr>ob_status := po_status u, ob_attempts := ob_attempts (ow_item r) + 1,
          ob_last_reason_code := po_reason_code u\<rparr>,
       ow_observed_projection := po_observed_projection u, ow_updated_at := po_occurred_at u,
       ow_delivered_at := (if po_status u = OB_DELIVERED then Some (po_occurred_at u) else None)\<rparr>"

text \<open>The row constraints the update has to meet: \<open>registry_outbox_time_order\<close> and
  \<open>registry_outbox_reason_shape\<close>.\<close>

definition closed_row_ok :: "outbox_row \<Rightarrow> bool" where
  "closed_row_ok r \<longleftrightarrow>
     ob_created_at (ow_item r) \<le> ow_updated_at r
     \<and> optional (\<lambda>t. ob_created_at (ow_item r) \<le> t) (ow_delivered_at r)
     \<and> (ob_status (ow_item r) = OB_BLOCKED) = (ob_last_reason_code (ow_item r) \<noteq> None)"

definition record_projection_outcome ::
  "(instant \<Rightarrow> string) \<Rightarrow> store_config \<Rightarrow> projection_outcome \<Rightarrow> control_store \<Rightarrow>
   control_store controlled" where
  "record_projection_outcome iso_text cfg u s =
     (case find (\<lambda>r. ob_id (ow_item r) = po_outbox_id u) (cs_outbox s) of
        None \<Rightarrow> Inl (Transition RECONCILIATION_CONFLICT)
      | Some r \<Rightarrow>
          if \<not> outcome_row_matches r u then Inl (Transition RECONCILIATION_CONFLICT)
          else if ob_status (ow_item r) \<noteq> OB_PENDING
          then if terminal_outcome_matches r u then Inr s
               else Inl (Transition RECONCILIATION_CONFLICT)
          else if \<not> closed_row_ok (close_row u r) then Inl (Transition STORE_UNAVAILABLE)
          else
            let s1 = s\<lparr>cs_outbox := map (\<lambda>x. if ob_id (ow_item x) = po_outbox_id u
                       \<and> ob_status (ow_item x) = OB_PENDING then close_row u x else x) (cs_outbox s)\<rparr>
            in bindE (append_audit_event cfg outcome_error (sc_workspace_id (po_scope u))
                 (''registry_projection_'' @ outbox_status_value (po_status u))
                 (Some (po_transition_id u))
                 (control_event_id ''registry_projection'' (json_fingerprint (outcome_json iso_text u)))
                 (JObj [(''outcome'', outcome_json iso_text u)]) (po_occurred_at u) s1)
               (\<lambda>(h, s2). Inr s2))"

section \<open>What a successful call has done\<close>

lemma find_map_same:
  assumes "\<And>x. P (g x) = P x"
  shows "find P (map g xs) = map_option g (find P xs)"
  using assms by (induction xs) auto

lemma find_append: "find P (xs @ ys) = (case find P xs of None \<Rightarrow> find P ys | Some x \<Rightarrow> Some x)"
  by (induction xs) auto

lemma find_SomeD: "find P xs = Some x \<Longrightarrow> x \<in> set xs \<and> P x"
  by (auto simp: find_Some_iff)

lemma list_ex_find: "list_ex P xs \<longleftrightarrow> find P xs \<noteq> None"
  by (induction xs) auto

lemma database_eq_Inr [outcome_simps]: "database report m = Inr x \<longleftrightarrow> m = Inr x"
  by (cases m) (simp_all add: database_def)

definition history :: "registry_scope \<Rightarrow> control_store \<Rightarrow> activation_transition list" where
  "history scope s = filter (\<lambda>t. transition_scope t = scope) (cs_transitions s)"

text \<open>The row of a fresh outbox item, and the store after a first commit.\<close>

definition outbox_row_of :: "outbox_item \<Rightarrow> outbox_row" where
  "outbox_row_of i =
     \<lparr>ow_item = i, ow_scope = ptr_scope (pj_pointer (ob_desired i)),
      ow_generation = ptr_generation (pj_pointer (ob_desired i)), ow_observed_projection = None,
      ow_updated_at = ob_created_at i, ow_delivered_at = None\<rparr>"

lemma append_audit_cases:
  assumes "append_audit_event cfg report workspace operation transition_id event_id payload t s
    = Inr (h, s')"
  obtains key where "cf_audit_signing_keys cfg (cf_active_audit_key_version cfg) = Some key"
    "s' = s\<lparr>cs_audit := cs_audit s @
       [next_audit_event cfg key workspace operation transition_id event_id payload t s]\<rparr>"
    "h = ev_event_hash (next_audit_event cfg key workspace operation transition_id event_id payload t s)"
    "h \<notin> ev_event_hash ` set (cs_audit s)"
    "optional (\<lambda>i. i \<in> at_id ` set (cs_transitions s)) transition_id"
proof -
  obtain key where k: "cf_audit_signing_keys cfg (cf_active_audit_key_version cfg) = Some key"
    using assms by (auto simp: append_audit_event_def split: option.splits)
  define e where "e = next_audit_event cfg key workspace operation transition_id event_id payload t s"
  have e: "insert_audit_event e s = Inr s'" "h = ev_event_hash e"
    using assms k by (auto simp: append_audit_event_def e_def outcome_simps Let_def)
  have "ev_transition_id e = transition_id" by (simp add: e_def next_audit_event_def Let_def)
  with e have "optional (\<lambda>i. i \<in> at_id ` set (cs_transitions s)) transition_id"
    by (auto simp: insert_audit_event_def list_ex_iff split: option.splits if_splits)
  moreover have "h \<notin> ev_event_hash ` set (cs_audit s)" "s' = s\<lparr>cs_audit := cs_audit s @ [e]\<rparr>"
    using e by (auto simp: insert_audit_event_def list_ex_iff split: if_splits)
  ultimately show ?thesis using that k e(2) unfolding e_def by blast
qed

lemma insert_transition_cases:
  "insert_transition t s = Inr s' \<longleftrightarrow>
     s' = s\<lparr>cs_transitions := cs_transitions s @ [t]\<rparr>
     \<and> \<not> list_ex (transition_row_conflict t) (cs_transitions s)
     \<and> transition_references t (cs_transitions s @ [t])"
  by (auto simp: insert_transition_def)

lemma insert_outbox_cases:
  "insert_outbox i s = Inr s' \<longleftrightarrow>
     s' = s\<lparr>cs_outbox := cs_outbox s @ [outbox_row_of i]\<rparr>
     \<and> \<not> list_ex (\<lambda>r. ob_id (ow_item r) = ob_id i
          \<or> ob_transition_id (ow_item r) = ob_transition_id i) (cs_outbox s)"
  by (auto simp: insert_outbox_def outbox_row_of_def)

lemma write_pointer_frame:
  assumes "write_pointer t s = Inr s'"
  shows "cs_transitions s' = cs_transitions s \<and> cs_outbox s' = cs_outbox s \<and> cs_audit s' = cs_audit s"
  using assms by (auto simp: write_pointer_def Let_def split: option.splits if_splits)

lemma write_pointer_find:
  assumes w: "write_pointer t s = Inr s'"
    and current: "find_pointer (transition_scope t) s = at_previous_pointer t"
  shows "find_pointer scope s' =
    (if scope = transition_scope t then Some (at_active_pointer t) else find_pointer scope s)"
proof (cases "at_previous_pointer t")
  case None
  with w have s': "cs_pointers s' = cs_pointers s @ [at_active_pointer t]"
    by (auto simp: write_pointer_def Let_def split: if_splits)
  with None current show ?thesis
    by (auto simp: find_pointer_def find_append transition_scope_def split: option.splits)
next
  case (Some previous)
  define selected :: "active_pointer \<Rightarrow> bool" where "selected = (\<lambda>x. ptr_scope x = ptr_scope (at_active_pointer t)
    \<and> ptr_generation x = ptr_generation previous \<and> ptr_transition_id x = ptr_transition_id previous)"
  define g where "g = (\<lambda>x. if selected x then at_active_pointer t else x)"
  have s': "cs_pointers s' = map g (cs_pointers s)"
    using w Some by (auto simp: write_pointer_def Let_def g_def selected_def split: if_splits)
  have "ptr_scope (g x) = ptr_scope x" for x
    by (simp add: g_def selected_def)
  then have f: "find_pointer z s' = map_option g (find_pointer z s)" for z
    by (simp add: find_pointer_def s' find_map_same)
  have scope: "ptr_scope x = z" if "find_pointer z s = Some x" for z x
    using find_SomeD [OF that [unfolded find_pointer_def]] by simp
  have "g x = x" if "find_pointer z s = Some x" "z \<noteq> transition_scope t" for z x
    using scope [OF that(1)] that(2) by (simp add: g_def selected_def transition_scope_def)
  then have other: "map_option g (find_pointer z s) = find_pointer z s"
    if "z \<noteq> transition_scope t" for z
    using that by (cases "find_pointer z s") auto
  have "g previous = at_active_pointer t"
    using scope [of "transition_scope t" previous] current Some
    by (simp add: g_def selected_def transition_scope_def)
  with f other current Some show ?thesis by simp
qed

text \<open>Either the commit is a replay, which leaves the store alone, or it has appended one row to
  each of the three logs and moved the pointer of its scope.\<close>

lemma commit_cases:
  assumes "commit_transition f cfg ready t i s = Inr (c, s')"
  obtains (replay) "load_replayed_commit f t i s = Inr (Some c)" "s' = s"
      "validate_commit_input f t i = Inr ()"
  | (fresh) key where "validate_commit_input f t i = Inr ()"
      "find (\<lambda>x. at_id x = at_id t) (cs_transitions s) = None"
      "find_pointer (transition_scope t) s = at_previous_pointer t"
      "require_activation_ready_handoff f ready t = Inr ()"
      "\<not> list_ex (transition_row_conflict t) (cs_transitions s)"
      "transition_references t (cs_transitions s @ [t])"
      "cs_transitions s' = cs_transitions s @ [t]"
      "cs_outbox s' = cs_outbox s @ [outbox_row_of i]"
      "\<And>scope. find_pointer scope s' =
         (if scope = transition_scope t then Some (at_active_pointer t) else find_pointer scope s)"
      "cf_audit_signing_keys cfg (cf_active_audit_key_version cfg) = Some key"
      "cs_audit s' = cs_audit s @ [next_audit_event cfg key (sc_workspace_id (transition_scope t))
         (''registry_'' @ activation_action_value (ac_action (aa_proposal (at_approval t))))
         (Some (at_id t)) (control_event_id ''registry_transition'' (at_id t))
         (commit_payload f t i) (at_committed_at t) s]"
      "co_transition c = t" "co_outbox c = i" "\<not> co_replayed c"
      "co_audit_event_hash c = ev_event_hash (last (cs_audit s'))"
      "ev_event_hash (last (cs_audit s')) \<notin> ev_event_hash ` set (cs_audit s)"
proof -
  obtain v: "validate_commit_input f t i = Inr ()" and r: "\<exists>r. load_replayed_commit f t i s = Inr r"
    using assms by (auto simp: commit_transition_def outcome_simps)
  then obtain r where r: "load_replayed_commit f t i s = Inr r" by blast
  show ?thesis
  proof (cases r)
    case (Some c')
    then show ?thesis
      using assms v r by (intro replay) (auto simp: commit_transition_def)
  next
    case None
    have n: "find (\<lambda>x. at_id x = at_id t) (cs_transitions s) = None"
      using r None by (auto simp: load_replayed_commit_def outcome_simps split: option.splits if_splits)
    obtain current where "load_active_for_update (transition_scope t) s = Inr current"
      and rest: "(if current \<noteq> at_previous_pointer t then Inl (Transition CAS_CONFLICT)
        else bindE (require_activation_ready_handoff f ready t) (\<lambda>_.
           bindE (database commit_error (insert_transition t s)) (\<lambda>s1.
           bindE (write_pointer t s1) (\<lambda>s2.
           bindE (database commit_error (insert_outbox i s2)) (\<lambda>s3.
           bindE (append_transition_event f cfg t i s3) (\<lambda>(event_hash, s4).
           bindE (construct_model (control_commit_valid f)
             \<lparr>co_transition = t, co_outbox = i, co_audit_event_hash = event_hash,
              co_replayed = False\<rparr>) (\<lambda>c. Inr (c, s4)))))))) = Inr (c, s')"
      using assms unfolding commit_transition_def v r None bindE_simps option.case bindE_eq_Inr
      by blast
    then have current: "load_active_for_update (transition_scope t) s = Inr (at_previous_pointer t)"
      by (simp split: if_splits)
    obtain x s1 s2 s3 p where
      x: "require_activation_ready_handoff f ready t = Inr x"
      and s1: "insert_transition t s = Inr s1" and s2: "write_pointer t s1 = Inr s2"
      and s3: "insert_outbox i s2 = Inr s3"
      and p: "append_transition_event f cfg t i s3 = Inr p"
      and last: "(case p of (event_hash, s4) \<Rightarrow> bindE (construct_model (control_commit_valid f)
             \<lparr>co_transition = t, co_outbox = i, co_audit_event_hash = event_hash,
              co_replayed = False\<rparr>) (\<lambda>c. Inr (c, s4)))
          = (Inr (c, s') :: (control_commit \<times> control_store) controlled)"
      using rest unfolding if_Inl_eq_Inr bindE_eq_Inr database_eq_Inr
      by (elim exE conjE) (rule that)
    have ready: "require_activation_ready_handoff f ready t = Inr ()" using x by simp
    obtain h where s4: "append_transition_event f cfg t i s3 = Inr (h, s')"
      and c: "c = \<lparr>co_transition = t, co_outbox = i, co_audit_event_hash = h, co_replayed = False\<rparr>"
      using p last by (cases p) (auto simp: bindE_eq_Inr construct_model_eq_Inr)
    have p: "find_pointer (transition_scope t) s = at_previous_pointer t"
      using current by (auto simp: load_active_for_update_def outcome_simps split: option.splits)
    note i1 = s1 [unfolded insert_transition_cases]
    note frame = write_pointer_frame [OF s2]
    note i3 = s3 [unfolded insert_outbox_cases]
    have find1: "find_pointer z s1 = find_pointer z s" for z
      using i1 by (simp add: find_pointer_def)
    obtain key where k: "cf_audit_signing_keys cfg (cf_active_audit_key_version cfg) = Some key"
      and s': "s' = s3\<lparr>cs_audit := cs_audit s3 @ [next_audit_event cfg key
        (sc_workspace_id (transition_scope t))
        (''registry_'' @ activation_action_value (ac_action (aa_proposal (at_approval t))))
        (Some (at_id t)) (control_event_id ''registry_transition'' (at_id t))
        (commit_payload f t i) (at_committed_at t) s3]\<rparr>"
      and h: "h = ev_event_hash (last (cs_audit s'))"
      and new: "h \<notin> ev_event_hash ` set (cs_audit s3)"
      by (rule append_audit_cases [OF s4 [unfolded append_transition_event_def]])
        (rule that, simp_all)
    have same: "next_audit_event cfg key w op tr e pl z s3 = next_audit_event cfg key w op tr e pl z s"
      for w op tr e pl z
      using i1 frame i3 by (simp add: next_audit_event_def workspace_events_def)
    have find': "find_pointer z s' =
        (if z = transition_scope t then Some (at_active_pointer t) else find_pointer z s)" for z
      using write_pointer_find [OF s2, of z] find1 p s' i3 by (simp add: find_pointer_def)
    show ?thesis
      by (rule fresh [where key = key])
        (use v n p ready i1 frame i3 k s' same find' c h new in \<open>simp_all\<close>)
  qed
qed

lemma outcome_cases:
  assumes "record_projection_outcome f cfg u s = Inr s'"
  obtains (again) r where "s' = s"
      "find (\<lambda>r. ob_id (ow_item r) = po_outbox_id u) (cs_outbox s) = Some r"
      "outcome_row_matches r u" "terminal_outcome_matches r u"
  | (close) r key where "find (\<lambda>r. ob_id (ow_item r) = po_outbox_id u) (cs_outbox s) = Some r"
      "ob_status (ow_item r) = OB_PENDING" "outcome_row_matches r u" "closed_row_ok (close_row u r)"
      "cs_transitions s' = cs_transitions s" "cs_pointers s' = cs_pointers s"
      "cs_outbox s' = map (\<lambda>x. if ob_id (ow_item x) = po_outbox_id u
         \<and> ob_status (ow_item x) = OB_PENDING then close_row u x else x) (cs_outbox s)"
      "cf_audit_signing_keys cfg (cf_active_audit_key_version cfg) = Some key"
      "cs_audit s' = cs_audit s @ [next_audit_event cfg key (sc_workspace_id (po_scope u))
         (''registry_projection_'' @ outbox_status_value (po_status u)) (Some (po_transition_id u))
         (control_event_id ''registry_projection'' (json_fingerprint (outcome_json f u)))
         (JObj [(''outcome'', outcome_json f u)]) (po_occurred_at u) s]"
      "ev_event_hash (last (cs_audit s')) \<notin> ev_event_hash ` set (cs_audit s)"
      "po_transition_id u \<in> at_id ` set (cs_transitions s)"
proof -
  obtain r where r: "find (\<lambda>r. ob_id (ow_item r) = po_outbox_id u) (cs_outbox s) = Some r"
    and m: "outcome_row_matches r u"
    using assms by (auto simp: record_projection_outcome_def split: option.splits if_splits)
  show ?thesis
  proof (cases "ob_status (ow_item r) = OB_PENDING")
    case False
    with assms r m show ?thesis
      by (intro again [of r]) (auto simp: record_projection_outcome_def split: if_splits)
  next
    case True
    define s1 where "s1 = s\<lparr>cs_outbox := map (\<lambda>x. if ob_id (ow_item x) = po_outbox_id u
         \<and> ob_status (ow_item x) = OB_PENDING then close_row u x else x) (cs_outbox s)\<rparr>"
    from assms r m True obtain h where ok: "closed_row_ok (close_row u r)"
      and a: "append_audit_event cfg outcome_error (sc_workspace_id (po_scope u))
         (''registry_projection_'' @ outbox_status_value (po_status u)) (Some (po_transition_id u))
         (control_event_id ''registry_projection'' (json_fingerprint (outcome_json f u)))
         (JObj [(''outcome'', outcome_json f u)]) (po_occurred_at u) s1 = Inr (h, s')"
      by (auto simp: record_projection_outcome_def s1_def outcome_simps split: if_splits)
    have same: "next_audit_event cfg key w op tr e pl z s1 = next_audit_event cfg key w op tr e pl z s"
      for key w op tr e pl z
      by (simp add: next_audit_event_def workspace_events_def s1_def)
    from a show ?thesis
      by (rule append_audit_cases) (rule close [OF r True m ok], simp_all add: same, simp_all add: s1_def)
  qed
qed

end
