(* ===== verification/Control_History.thy ===== *)
theory Control_History
  imports Control_Store
begin

text \<open>
  What any sequence of commits and projection outcomes does to the store of \<open>Control_Store\<close>: the step
  relation over the calls of \<open>PostgresRegistryControlStore\<close>, the consistency of its tables, the audit
  chain, and the properties of the control plane: gapless histories, chains that verify and detect
  tampering, replays without effect, stale activations refused, final outcomes.
\<close>

section \<open>Reachable stores\<close>

text \<open>
  Any sequence of calls, by any number of services: each may use another active key of the same
  ring and see another state of the catalog. The writers share one offset.
\<close>

inductive control_step ::
  "(instant \<Rightarrow> string) \<Rightarrow> (string \<rightharpoonup> nat list) \<Rightarrow> int \<Rightarrow> control_store \<Rightarrow> control_store \<Rightarrow> bool"
  for f keys offset where
  commit: "commit_transition f cfg ready t i s = Inr (c, s') \<Longrightarrow> cf_audit_signing_keys cfg = keys \<Longrightarrow>
    cf_writer_offset cfg = offset \<Longrightarrow> control_step f keys offset s s'"
| outcome: "record_projection_outcome f cfg u s = Inr s' \<Longrightarrow> projection_outcome_valid f u \<Longrightarrow>
    cf_audit_signing_keys cfg = keys \<Longrightarrow> cf_writer_offset cfg = offset \<Longrightarrow>
    control_step f keys offset s s'"

inductive reachable_store ::
  "(instant \<Rightarrow> string) \<Rightarrow> (string \<rightharpoonup> nat list) \<Rightarrow> int \<Rightarrow> control_store \<Rightarrow> bool"
  for f keys offset where
  start: "reachable_store f keys offset empty_store"
| step: "reachable_store f keys offset s \<Longrightarrow> control_step f keys offset s s' \<Longrightarrow>
    reachable_store f keys offset s'"

text \<open>A history is a chain: each transition starts from the pointer the one before it left.\<close>

fun linked :: "active_pointer option \<Rightarrow> activation_transition list \<Rightarrow> bool" where
  "linked previous [] = True"
| "linked previous (t # ts) =
     (at_previous_pointer t = previous \<and> linked (Some (at_active_pointer t)) ts)"

definition head_pointer :: "activation_transition list \<Rightarrow> active_pointer option" where
  "head_pointer ts = (if ts = [] then None else Some (at_active_pointer (last ts)))"

text \<open>The outbox row that belongs to a transition, whatever became of it since.\<close>

definition row_of_transition ::
  "(instant \<Rightarrow> string) \<Rightarrow> activation_transition \<Rightarrow> outbox_row \<Rightarrow> bool" where
  "row_of_transition f t r \<longleftrightarrow>
     outbox_item_valid f (ow_item r) \<and> ob_transition_id (ow_item r) = at_id t
     \<and> pj_pointer (ob_desired (ow_item r)) = at_active_pointer t \<and> ow_scope r = transition_scope t
     \<and> ow_generation r = transition_generation t"

definition transition_event :: "activation_transition \<Rightarrow> audit_event \<Rightarrow> bool" where
  "transition_event t e \<longleftrightarrow>
     ev_transition_id e = Some (at_id t) \<and> ev_operation e \<in> set REGISTRY_OPERATIONS
     \<and> ev_workspace_id e = sc_workspace_id (transition_scope t)"

definition store_consistent :: "(instant \<Rightarrow> string) \<Rightarrow> control_store \<Rightarrow> bool" where
  "store_consistent f s \<longleftrightarrow>
     list_all (activation_transition_valid f) (cs_transitions s)
     \<and> distinct (map at_id (cs_transitions s))
     \<and> (\<forall>scope. linked None (history scope s))
     \<and> (\<forall>scope. find_pointer scope s = head_pointer (history scope s))
     \<and> list_all2 (row_of_transition f) (cs_transitions s) (cs_outbox s)
     \<and> list_all (\<lambda>t. list_ex (transition_event t) (cs_audit s)) (cs_transitions s)"

lemmas consistentD = store_consistent_def [THEN iffD1, THEN conjunct1]
  store_consistent_def [THEN iffD1, THEN conjunct2]

lemma linked_snoc:
  "linked previous (ts @ [t]) \<longleftrightarrow> linked previous ts
     \<and> at_previous_pointer t = (if ts = [] then previous else head_pointer ts)"
  by (induction ts arbitrary: previous) (auto simp: head_pointer_def)

lemma head_pointer_snoc [simp]: "head_pointer (ts @ [t]) = Some (at_active_pointer t)"
  by (simp add: head_pointer_def)

lemma commit_input_valid:
  assumes "validate_commit_input f t i = Inr ()"
  shows "activation_transition_valid f t" "outbox_item_valid f i" "ob_transition_id i = at_id t"
    "pj_pointer (ob_desired i) = at_active_pointer t" "ob_status i = OB_PENDING"
  using assms by (auto simp: validate_commit_input_def split: if_splits)

lemma fresh_row_of_transition:
  assumes "validate_commit_input f t i = Inr ()"
  shows "row_of_transition f t (outbox_row_of i)"
  using commit_input_valid [OF assms]
  by (simp add: row_of_transition_def outbox_row_of_def transition_scope_def transition_generation_def)

lemma registry_operation_known: "''registry_'' @ activation_action_value x \<in> set REGISTRY_OPERATIONS"
  by (cases x) (simp_all add: REGISTRY_OPERATIONS_def)

lemma closed_row_of_transition:
  assumes "row_of_transition f t r" and "projection_outcome_valid f u"
  shows "row_of_transition f t (close_row u r)"
  using assms
  by (auto simp: row_of_transition_def close_row_def outbox_item_valid_def
      projection_outcome_valid_def)

lemma outbox_ids_distinct:
  assumes "store_consistent f s"
  shows "distinct (map (ob_transition_id \<circ> ow_item) (cs_outbox s))"
proof -
  have "list_all2 (row_of_transition f) (cs_transitions s) (cs_outbox s)"
    and d: "distinct (map at_id (cs_transitions s))"
    using assms by (simp_all add: store_consistent_def)
  then have "list_all2 (\<lambda>t r. (ob_transition_id \<circ> ow_item) r = at_id t) (cs_transitions s) (cs_outbox s)"
    by (elim list_all2_mono) (simp add: row_of_transition_def)
  then have "map (ob_transition_id \<circ> ow_item) (cs_outbox s) = map at_id (cs_transitions s)"
    by (induction rule: list_all2_induct) simp_all
  with d show ?thesis by simp
qed

lemma commit_keeps_consistency:
  assumes "store_consistent f s" and "commit_transition f cfg ready t i s = Inr (c, s')"
  shows "store_consistent f s'"
  using assms(2)
proof (cases rule: commit_cases)
  case replay
  with assms show ?thesis by simp
next
  case (fresh key)
  have h: "history z s' = (if z = transition_scope t then history z s @ [t] else history z s)" for z
    by (simp add: history_def fresh)
  have p: "find_pointer z s = head_pointer (history z s)" for z
    using assms(1) by (simp add: store_consistent_def)
  have "linked None (history z s')" for z
    using assms(1) fresh(3) p [of "transition_scope t"]
    by (auto simp: h store_consistent_def linked_snoc head_pointer_def)
  moreover have "find_pointer z s' = head_pointer (history z s')" for z
    using fresh(9) p by (simp add: h)
  moreover have "at_id t \<notin> set (map at_id (cs_transitions s))"
    using fresh(2) by (auto simp: find_None_iff)
  moreover have "list_all2 (row_of_transition f) (cs_transitions s') (cs_outbox s')"
    using assms(1) fresh_row_of_transition [OF fresh(1)]
    by (simp add: store_consistent_def fresh(7,8) list_all2_appendI)
  moreover have "list_ex (transition_event x) (cs_audit s')"
    if "x \<in> set (cs_transitions s')" for x
  proof (cases "x = t")
    case True
    then show ?thesis
      by (simp add: fresh(11) transition_event_def next_audit_event_def Let_def
          registry_operation_known [simplified])
  next
    case False
    with that assms(1) have "list_ex (transition_event x) (cs_audit s)"
      by (auto simp: store_consistent_def fresh(7) list_all_iff)
    then show ?thesis by (simp add: fresh(11))
  qed
  ultimately show ?thesis
    using assms(1) commit_input_valid(1) [OF fresh(1)]
    by (simp add: store_consistent_def fresh(7) list_all_iff)
qed

lemma outcome_keeps_consistency:
  assumes "store_consistent f s" and "record_projection_outcome f cfg u s = Inr s'"
    and "projection_outcome_valid f u"
  shows "store_consistent f s'"
  using assms(2)
proof (cases rule: outcome_cases)
  case (again r)
  with assms show ?thesis by simp
next
  case (close r key)
  have "list_all2 (row_of_transition f) (cs_transitions s) (cs_outbox s)"
    using assms(1) by (simp add: store_consistent_def)
  then have "list_all2 (row_of_transition f) (cs_transitions s') (cs_outbox s')"
    unfolding close(5,7) list_all2_map2
    by (rule list_all2_mono) (simp add: closed_row_of_transition assms(3))
  then show ?thesis
    using assms(1)
    by (auto simp: store_consistent_def close(5,6,9) history_def find_pointer_def list_all_iff)
qed

lemma step_keeps_consistency:
  "control_step f keys offset s s' \<Longrightarrow> store_consistent f s \<Longrightarrow> store_consistent f s'"
  by (induction rule: control_step.induct)
    (auto intro: commit_keeps_consistency outcome_keeps_consistency)

lemma empty_store_consistent: "store_consistent f empty_store"
  by (simp add: store_consistent_def empty_store_def history_def find_pointer_def head_pointer_def)

lemma reachable_consistent: "reachable_store f keys offset s \<Longrightarrow> store_consistent f s"
  by (induction rule: reachable_store.induct)
    (auto intro: empty_store_consistent step_keeps_consistency)

section \<open>Generations\<close>

lemma valid_transition_generation:
  assumes "activation_transition_valid f t"
  shows "transition_generation t =
    (case at_previous_pointer t of None \<Rightarrow> 1 | Some q \<Rightarrow> ptr_generation q + 1)"
    and "\<And>q. at_previous_pointer t = Some q \<Longrightarrow> ptr_scope q = transition_scope t"
proof -
  obtain a previous z where t: "t = approved_transition a previous z"
    and e: "expects_pointer (aa_proposal a) previous"
    using assms by (rule transition_valid_cases)
  show "transition_generation t =
    (case at_previous_pointer t of None \<Rightarrow> 1 | Some q \<Rightarrow> ptr_generation q + 1)"
    using e by (auto simp: t approved_transition_def approved_pointer_def transition_generation_def
        expects_pointer_def pointer_matches_proposal_def split: option.splits if_splits)
  show "\<And>q. at_previous_pointer t = Some q \<Longrightarrow> ptr_scope q = transition_scope t"
    using e by (auto simp: t approved_transition_def approved_pointer_def transition_scope_def
        expects_pointer_def pointer_matches_proposal_def split: if_splits)
qed

lemma linked_generations:
  assumes "linked previous ts" and "list_all (activation_transition_valid f) ts"
  shows "map transition_generation ts =
    map (\<lambda>k. (case previous of None \<Rightarrow> 0 | Some q \<Rightarrow> ptr_generation q) + 1 + int k) [0..<length ts]"
  using assms
proof (induction ts arbitrary: previous)
  case (Cons t ts)
  have "map transition_generation ts =
      map (\<lambda>k. transition_generation t + 1 + int k) [0..<length ts]"
    using Cons.IH [of "Some (at_active_pointer t)"] Cons.prems
    by (simp add: transition_generation_def [of t])
  moreover have "transition_generation t = (case previous of None \<Rightarrow> 0 | Some q \<Rightarrow> ptr_generation q) + 1"
    using valid_transition_generation(1) [of f t] Cons.prems by (simp split: option.splits)
  ultimately show ?case
    by (simp add: upt_rec [of 0] map_Suc_upt [symmetric] del: upt_Suc)
qed simp

lemma history_generations:
  assumes "store_consistent f s"
  shows "map transition_generation (history scope s) = map (\<lambda>k. int k + 1) [0..<length (history scope s)]"
proof -
  have "list_all (activation_transition_valid f) (history scope s)" "linked None (history scope s)"
    using assms by (auto simp: store_consistent_def history_def list_all_iff)
  from linked_generations [OF this(2,1)] show ?thesis by (simp add: add.commute)
qed

section \<open>The audit chain\<close>

definition audit_head :: "audit_event list \<Rightarrow> string option" where
  "audit_head es = (if es = [] then None else Some (ev_event_hash (last es)))"

definition audit_consistent :: "control_store \<Rightarrow> bool" where
  "audit_consistent s \<longleftrightarrow>
     list_all (\<lambda>e. is_sha256 (ev_event_hash e)
       \<and> optional (\<lambda>i. i \<in> at_id ` set (cs_transitions s)) (ev_transition_id e)) (cs_audit s)
     \<and> distinct (map ev_event_hash (cs_audit s))"

definition audit_verifies :: "(string \<rightharpoonup> nat list) \<Rightarrow> int \<Rightarrow> control_store \<Rightarrow> bool" where
  "audit_verifies keys offset s \<longleftrightarrow>
     (\<forall>cfg workspace. cf_audit_signing_keys cfg = keys \<longrightarrow> cf_session_offset cfg = offset \<longrightarrow>
        verify_events cfg workspace (workspace_events s workspace) None
          = (audit_head (workspace_events s workspace), True))"

lemma next_audit_event_sel [simp]:
  "ev_workspace_id (next_audit_event cfg key w op tr e pl z s) = w"
  "ev_transition_id (next_audit_event cfg key w op tr e pl z s) = tr"
  "ev_operation (next_audit_event cfg key w op tr e pl z s) = op"
  "is_sha256 (ev_event_hash (next_audit_event cfg key w op tr e pl z s))"
  by (simp_all add: next_audit_event_def Let_def audit_hash_def)

lemma verify_events_append:
  "verify_events cfg w (es @ ds) p =
     (case verify_events cfg w es p of (h, ok) \<Rightarrow> if ok then verify_events cfg w ds h else (h, False))"
  by (induction es arbitrary: p) (auto split: option.splits)

lemma verify_next_event:
  assumes "cf_audit_signing_keys cfg (cf_active_audit_key_version cfg) = Some key"
    and "cf_audit_signing_keys vcfg = cf_audit_signing_keys cfg"
    and "cf_session_offset vcfg = cf_writer_offset cfg"
  shows "verify_events vcfg w [next_audit_event cfg key w op tr e pl z s]
      (audit_head (workspace_events s w))
    = (Some (ev_event_hash (next_audit_event cfg key w op tr e pl z s)), True)"
  using assms by (simp add: next_audit_event_def audit_head_def Let_def)

lemma appended_event_verifies:
  assumes "audit_verifies keys offset s" and "cf_audit_signing_keys cfg = keys"
    and "cf_writer_offset cfg = offset"
    and "cf_audit_signing_keys cfg (cf_active_audit_key_version cfg) = Some key"
    and s': "cs_audit s' = cs_audit s @ [next_audit_event cfg key w op tr e pl z s]"
  shows "audit_verifies keys offset s'"
  unfolding audit_verifies_def
proof (intro allI impI)
  fix vcfg :: store_config and v
  assume k: "cf_audit_signing_keys vcfg = keys" "cf_session_offset vcfg = offset"
  let ?new = "next_audit_event cfg key w op tr e pl z s"
  have old: "verify_events vcfg v (workspace_events s v) None = (audit_head (workspace_events s v), True)"
    using assms(1) k by (simp add: audit_verifies_def)
  have es: "workspace_events s' v = workspace_events s v @ (if v = w then [?new] else [])"
    by (simp add: workspace_events_def s')
  show "verify_events vcfg v (workspace_events s' v) None = (audit_head (workspace_events s' v), True)"
  proof (cases "v = w")
    case True
    have "verify_events vcfg w [?new] (audit_head (workspace_events s w)) = (Some (ev_event_hash ?new), True)"
      by (rule verify_next_event) (use assms k in simp_all)
    with True old es show ?thesis
      by (simp add: verify_events_append audit_head_def)
  next
    case False
    with old es show ?thesis by simp
  qed
qed

lemma appended_event_consistent:
  assumes "audit_consistent s" and "cs_audit s' = cs_audit s @ [next_audit_event cfg key w op tr e pl z s]"
    and "ev_event_hash (last (cs_audit s')) \<notin> ev_event_hash ` set (cs_audit s)"
    and "set (cs_transitions s) \<subseteq> set (cs_transitions s')"
    and "optional (\<lambda>i. i \<in> at_id ` set (cs_transitions s')) tr"
  shows "audit_consistent s'"
proof -
  have "optional (\<lambda>i. i \<in> at_id ` set (cs_transitions s')) j"
    if "optional (\<lambda>i. i \<in> at_id ` set (cs_transitions s)) j" for j
    using that assms(4) by (auto split: option.splits)
  with assms show ?thesis by (auto simp: audit_consistent_def list_all_iff)
qed

lemma step_keeps_audit:
  assumes "control_step f keys offset s s'" and "audit_consistent s" and "audit_verifies keys offset s"
  shows "audit_consistent s' \<and> audit_verifies keys offset s'"
  using assms(1)
proof cases
  case (commit cfg ready t i c)
  from commit(1) show ?thesis
  proof (cases rule: commit_cases)
    case replay
    with assms show ?thesis by simp
  next
    case (fresh key)
    have "audit_consistent s'"
      by (rule appended_event_consistent [OF assms(2) fresh(11,16)]) (auto simp: fresh(7))
    moreover have "audit_verifies keys offset s'"
      by (rule appended_event_verifies [OF assms(3) commit(2,3) fresh(10,11)])
    ultimately show ?thesis by blast
  qed
next
  case (outcome cfg u)
  from outcome(1) show ?thesis
  proof (cases rule: outcome_cases)
    case (again r)
    with assms show ?thesis by simp
  next
    case (close r key)
    have "audit_consistent s'"
      by (rule appended_event_consistent [OF assms(2) close(9,10)]) (use close(11) in \<open>auto simp: close(5)\<close>)
    moreover have "audit_verifies keys offset s'"
      by (rule appended_event_verifies [OF assms(3) outcome(3,4) close(8,9)])
    ultimately show ?thesis by blast
  qed
qed

lemma reachable_audit:
  "reachable_store f keys offset s \<Longrightarrow> audit_consistent s \<and> audit_verifies keys offset s"
proof (induction rule: reachable_store.induct)
  case start
  show ?case
    by (simp add: audit_consistent_def audit_verifies_def empty_store_def workspace_events_def
        audit_head_def)
next
  case (step s s')
  then show ?case using step_keeps_audit by blast
qed

text \<open>Verification follows the hash links.\<close>

fun chained :: "string option \<Rightarrow> audit_event list \<Rightarrow> bool" where
  "chained p [] = True"
| "chained p (e # es) = (ev_previous_hash e = p \<and> chained (Some (ev_event_hash e)) es)"

lemma verified_chained: "snd (verify_events cfg w es p) \<Longrightarrow> chained p es"
  by (induction es arbitrary: p) (auto split: option.splits if_splits)

lemma chained_nth:
  "chained p es \<Longrightarrow> k < length es \<Longrightarrow>
   ev_previous_hash (es ! k) = (if k = 0 then p else Some (ev_event_hash (es ! (k - 1))))"
  by (induction es arbitrary: p k) (auto simp: nth_Cons split: nat.splits)

text \<open>In a genuine chain only the next event links to the hash of a prefix.\<close>

lemma successor_unique:
  assumes "chained None (xs @ es)" and "distinct (map ev_event_hash (xs @ es))"
    and "e \<in> set (xs @ es)" and "ev_previous_hash e = audit_head xs"
  shows "\<exists>ds. es = e # ds"
proof -
  let ?all = "xs @ es"
  obtain k where k: "k < length ?all" "e = ?all ! k" using assms(3) by (metis in_set_conv_nth)
  have prev: "ev_previous_hash e = (if k = 0 then None else Some (ev_event_hash (?all ! (k - 1))))"
    using chained_nth [OF assms(1) k(1)] k(2) by simp
  have "k = length xs"
  proof (cases "xs = []")
    case True
    with prev assms(4) show ?thesis by (simp add: audit_head_def split: if_splits)
  next
    case False
    have "audit_head xs = Some (ev_event_hash (?all ! (length xs - 1)))"
      using False by (simp add: audit_head_def last_conv_nth nth_append)
    with prev assms(4) have "k \<noteq> 0" "ev_event_hash (?all ! (k - 1)) = ev_event_hash (?all ! (length xs - 1))"
      by (auto split: if_splits)
    moreover have "length xs - 1 < length ?all" "k - 1 < length ?all"
      using False k(1) by (auto simp: less_imp_diff_less)
    ultimately have "k - 1 = length xs - 1"
      using assms(2) nth_eq_iff_index_eq [of "map ev_event_hash ?all" "k - 1" "length xs - 1"]
      by (simp del: map_append)
    with \<open>k \<noteq> 0\<close> False show ?thesis by (cases k; cases xs) auto
  qed
  with k have "es \<noteq> []" "hd es = e" by (auto simp: nth_append hd_conv_nth)
  then show ?thesis by (cases es) auto
qed

lemma chained_from_genuine:
  assumes "chained None (xs @ es)" and "distinct (map ev_event_hash (xs @ es))"
    and "chained (audit_head xs) ds" and "set ds \<subseteq> set (xs @ es)"
  shows "\<exists>rest. es = ds @ rest"
  using assms
proof (induction ds arbitrary: xs es)
  case (Cons d ds)
  then obtain es' where es: "es = d # es'" using successor_unique [of xs es d] by auto
  have "audit_head (xs @ [d]) = Some (ev_event_hash d)" by (simp add: audit_head_def)
  with Cons.prems es Cons.IH [of "xs @ [d]" es'] show ?case by simp
qed simp

section \<open>Replays\<close>

lemma find_by_key:
  "distinct (map k xs) \<Longrightarrow> x \<in> set xs \<Longrightarrow> find (\<lambda>y. k y = k x) xs = Some x"
  by (induction xs) (auto simp: rev_image_eqI)

lemma projection_state_determined:
  "projection_state_valid f a \<Longrightarrow> projection_state_valid f b \<Longrightarrow> pj_pointer a = pj_pointer b \<Longrightarrow> a = b"
  by (cases a; cases b) (simp add: projection_state_valid_def)

lemma outbox_row_found:
  assumes "store_consistent f s" and "t \<in> set (cs_transitions s)"
  obtains r where "find (\<lambda>r. ob_transition_id (ow_item r) = at_id t) (cs_outbox s) = Some r"
    "row_of_transition f t r"
proof -
  have rows: "list_all2 (row_of_transition f) (cs_transitions s) (cs_outbox s)"
    and d: "distinct (map at_id (cs_transitions s))"
    using assms(1) by (simp_all add: store_consistent_def)
  obtain r where r: "r \<in> set (cs_outbox s)" "row_of_transition f t r"
    using rows assms(2) by (metis list_all2_conv_all_nth in_set_conv_nth)
  have "find (\<lambda>x. (ob_transition_id \<circ> ow_item) x = (ob_transition_id \<circ> ow_item) r) (cs_outbox s) = Some r"
    by (rule find_by_key [OF outbox_ids_distinct [OF assms(1)] r(1)])
  then show ?thesis using that r(2) by (simp add: row_of_transition_def)
qed

lemma transition_event_found:
  assumes "store_consistent f s" and "t \<in> set (cs_transitions s)"
  obtains e where "find (\<lambda>e. ev_transition_id e = Some (at_id t)
      \<and> ev_operation e \<in> set REGISTRY_OPERATIONS) (cs_audit s) = Some e" "e \<in> set (cs_audit s)"
proof -
  have "list_ex (\<lambda>e. ev_transition_id e = Some (at_id t) \<and> ev_operation e \<in> set REGISTRY_OPERATIONS)
      (cs_audit s)"
    using assms by (auto simp: store_consistent_def list_all_iff list_ex_iff transition_event_def)
  then show ?thesis using that by (auto simp: list_ex_find dest: find_SomeD)
qed

text \<open>A stored transition is always answered from the store.\<close>

lemma stored_transition_replays:
  assumes s: "store_consistent f s" "audit_consistent s" and t: "t \<in> set (cs_transitions s)"
    and v: "validate_commit_input f t i = Inr ()"
    and e: "find (\<lambda>e. ev_transition_id e = Some (at_id t)
      \<and> ev_operation e \<in> set REGISTRY_OPERATIONS) (cs_audit s) = Some e"
  shows "load_replayed_commit f t i s =
    Inr (Some \<lparr>co_transition = t, co_outbox = i, co_audit_event_hash = ev_event_hash e,
      co_replayed = True\<rparr>)"
proof -
  note input = commit_input_valid [OF v]
  have "distinct (map at_id (cs_transitions s))" using s(1) by (simp add: store_consistent_def)
  from find_by_key [OF this t] have ft: "find (\<lambda>x. at_id x = at_id t) (cs_transitions s) = Some t" .
  obtain r where r: "find (\<lambda>r. ob_transition_id (ow_item r) = at_id t) (cs_outbox s) = Some r"
    and row: "row_of_transition f t r"
    using outbox_row_found [OF s(1) t] by blast
  have item: "outbox_item_valid f (ow_item r)" "ob_transition_id (ow_item r) = at_id t"
    "pj_pointer (ob_desired (ow_item r)) = at_active_pointer t"
    using row by (simp_all add: row_of_transition_def)
  have "ob_desired (ow_item r) = ob_desired i"
    by (rule projection_state_determined [of f]) (use item input in \<open>simp_all add: outbox_item_valid_def\<close>)
  moreover have "ob_id (ow_item r) = ob_id i"
    using item input by (simp add: outbox_item_valid_def)
  moreover have "is_sha256 (ev_event_hash e)"
    using s(2) find_SomeD [OF e] by (auto simp: audit_consistent_def list_all_iff)
  ultimately show ?thesis
    using ft r e item input
    by (simp add: load_replayed_commit_def construct_model_def control_commit_valid_def)
qed

lemma step_extends:
  assumes "control_step f keys offset s s'"
  shows "\<exists>ts es. cs_transitions s' = cs_transitions s @ ts \<and> cs_audit s' = cs_audit s @ es"
  using assms
proof cases
  case (commit cfg ready t i c)
  from commit(1) show ?thesis
    by (cases rule: commit_cases) auto
next
  case (outcome cfg u)
  from outcome(1) show ?thesis
    by (cases rule: outcome_cases) auto
qed

lemma run_extends:
  "(control_step f keys offset)\<^sup>*\<^sup>* s s' \<Longrightarrow>
   \<exists>ts es. cs_transitions s' = cs_transitions s @ ts \<and> cs_audit s' = cs_audit s @ es"
  by (induction rule: rtranclp_induct) (auto dest!: step_extends)

lemma run_reachable:
  "(control_step f keys offset)\<^sup>*\<^sup>* s s' \<Longrightarrow> reachable_store f keys offset s \<Longrightarrow>
   reachable_store f keys offset s'"
  by (induction rule: rtranclp_induct) (auto intro: reachable_store.step)

text \<open>What a successful commit has left in the store.\<close>

lemma committed_is_stored:
  assumes s: "store_consistent f s" "audit_consistent s"
    and c: "commit_transition f cfg ready t i s = Inr (c, s')"
  shows "t \<in> set (cs_transitions s')" and "validate_commit_input f t i = Inr ()"
    and "\<exists>e. find (\<lambda>e. ev_transition_id e = Some (at_id t)
      \<and> ev_operation e \<in> set REGISTRY_OPERATIONS) (cs_audit s') = Some e
      \<and> c\<lparr>co_replayed := True\<rparr> = \<lparr>co_transition = t, co_outbox = i,
           co_audit_event_hash = ev_event_hash e, co_replayed = True\<rparr>"
proof -
  let ?P = "\<lambda>e. ev_transition_id e = Some (at_id t) \<and> ev_operation e \<in> set REGISTRY_OPERATIONS"
  have "t \<in> set (cs_transitions s') \<and> validate_commit_input f t i = Inr ()
    \<and> (\<exists>e. find ?P (cs_audit s') = Some e \<and> c\<lparr>co_replayed := True\<rparr> =
         \<lparr>co_transition = t, co_outbox = i, co_audit_event_hash = ev_event_hash e, co_replayed = True\<rparr>)"
    using c
  proof (cases rule: commit_cases)
    case replay
    then obtain t' e where "find (\<lambda>x. at_id x = at_id t) (cs_transitions s) = Some t'" "t' = t"
      "find ?P (cs_audit s) = Some e"
      "c = \<lparr>co_transition = t, co_outbox = i, co_audit_event_hash = ev_event_hash e, co_replayed = True\<rparr>"
      by (auto simp: load_replayed_commit_def outcome_simps split: option.splits if_splits)
    with replay show ?thesis by (auto dest: find_SomeD)
  next
    case (fresh key)
    have "at_id t \<notin> at_id ` set (cs_transitions s)"
      using fresh(2) by (auto simp: find_None_iff)
    then have "find ?P (cs_audit s) = None"
      using s(2) by (fastforce simp: audit_consistent_def list_all_iff find_None_iff)
    then have "find ?P (cs_audit s') = Some (last (cs_audit s'))"
      by (simp add: fresh(11) find_append registry_operation_known [simplified])
    with fresh(1,7,12-15) show ?thesis by (cases c) simp
  qed
  then show "t \<in> set (cs_transitions s')" "validate_commit_input f t i = Inr ()"
    "\<exists>e. find ?P (cs_audit s') = Some e \<and> c\<lparr>co_replayed := True\<rparr> =
       \<lparr>co_transition = t, co_outbox = i, co_audit_event_hash = ev_event_hash e, co_replayed = True\<rparr>"
    by blast+
qed

section \<open>Properties\<close>

text \<open>Property C22. In every store the two transactions can reach, whatever their order and
  interleaving, the activations of a scope are numbered 1, 2, 3, \<open>\<dots>\<close> without a gap, each one starts
  from exactly the pointer its predecessor left, the authoritative pointer is the one the last
  activation left, every activation has its own outbox row for that pointer, and an audit event.\<close>

theorem pointer_is_end_of_history:
  assumes "reachable_store f keys offset s"
  shows "map transition_generation (history scope s) = map (\<lambda>k. int k + 1) [0..<length (history scope s)]
    \<and> linked None (history scope s)
    \<and> find_pointer scope s =
        (if history scope s = [] then None else Some (at_active_pointer (last (history scope s))))
    \<and> list_all2 (row_of_transition f) (cs_transitions s) (cs_outbox s)
    \<and> (\<forall>t \<in> set (cs_transitions s). has_audit_event (at_id t) s)"
proof -
  have c: "store_consistent f s" using assms by (rule reachable_consistent)
  have "has_audit_event (at_id t) s" if "t \<in> set (cs_transitions s)" for t
    using c that by (auto simp: store_consistent_def has_audit_event_def list_all_iff list_ex_iff
        transition_event_def)
  with c history_generations [OF c] show ?thesis
    by (simp add: store_consistent_def head_pointer_def)
qed

text \<open>Property C25. An untouched audit always verifies: in every reachable store, for every workspace
  and with any active key of the retained ring, \<open>verify_audit_chain\<close> answers that the chain is
  valid, with the number of its events and the hash of its last one, provided the database session
  renders timestamps with the offset the writers used.\<close>

theorem audit_chain_verifies:
  assumes "reachable_store f keys offset s" and "cf_audit_signing_keys cfg = keys"
    and "cf_session_offset cfg = offset" and "len_between 1 200 workspace" and "\<not> blank workspace"
  shows "verify_audit_chain cfg workspace s =
    Inr \<lparr>av_workspace_id = workspace, av_event_count = int (length (workspace_events s workspace)),
      av_head_hash = (if workspace_events s workspace = [] then None
        else Some (ev_event_hash (last (workspace_events s workspace)))), av_valid = True\<rparr>"
proof -
  have a: "audit_consistent s" "audit_verifies keys offset s"
    using reachable_audit [OF assms(1)] by simp_all
  have "is_sha256 (ev_event_hash (last (workspace_events s workspace)))"
    if "workspace_events s workspace \<noteq> []"
  proof -
    have "last (workspace_events s workspace) \<in> set (cs_audit s)"
      using last_in_set [OF that] by (simp add: workspace_events_def)
    then show ?thesis using a(1) by (auto simp: audit_consistent_def list_all_iff)
  qed
  then have "audit_chain_verification_valid \<lparr>av_workspace_id = workspace,
      av_event_count = int (length (workspace_events s workspace)),
      av_head_hash = audit_head (workspace_events s workspace), av_valid = True\<rparr>"
    using assms(4,5) by (simp add: audit_chain_verification_valid_def audit_head_def)
  then show ?thesis
    using a(2) assms(2,3) by (simp add: verify_audit_chain_def audit_verifies_def audit_head_def)
qed

text \<open>Property C26. The audit chain exposes tampering with the rows it holds: whatever subset of the
  genuine events somebody leaves in the table, in whatever order and multiplicity, it verifies only
  if it is an initial segment of the genuine chain. Deleting an event from the middle, reordering
  or duplicating events is always reported; only cutting off the most recent ones is not.\<close>

theorem audit_tampering_is_detected:
  assumes "reachable_store f keys offset s"
    and "set (workspace_events s' workspace) \<subseteq> set (workspace_events s workspace)"
    and "verify_audit_chain cfg workspace s' = Inr v" and "av_valid v"
  shows "\<exists>rest. workspace_events s workspace = workspace_events s' workspace @ rest"
proof -
  have a: "audit_consistent s" "audit_verifies keys offset s"
    using reachable_audit [OF assms(1)] by simp_all
  obtain genuine :: store_config where g: "cf_audit_signing_keys genuine = keys" "cf_session_offset genuine = offset"
    by (metis store_config.select_convs(1,4))
  have "chained None (workspace_events s workspace)"
    by (rule verified_chained [of genuine workspace]) (use a(2) g in \<open>simp add: audit_verifies_def\<close>)
  moreover have "distinct (map ev_event_hash (workspace_events s workspace))"
    using a(1) by (simp add: audit_consistent_def workspace_events_def distinct_map_filter)
  moreover have "chained None (workspace_events s' workspace)"
    by (rule verified_chained [of cfg workspace])
      (use assms(3,4) in \<open>auto simp: verify_audit_chain_def Let_def split: prod.splits if_splits\<close>)
  ultimately show ?thesis
    using chained_from_genuine [of "[]" "workspace_events s workspace" "workspace_events s' workspace"]
      assms(2)
    by (simp add: audit_head_def)
qed

text \<open>Property C24. Replaying a commit is harmless: once a transition has committed, committing it
  again in any later state of the store, with any key and any state of the catalog, returns the
  same receipt marked as a replay and changes nothing.\<close>

theorem commit_replay_is_idempotent:
  assumes "reachable_store f keys offset s" and "commit_transition f cfg ready t i s = Inr (c, s')"
    and "cf_audit_signing_keys cfg = keys" and "cf_writer_offset cfg = offset"
    and "(control_step f keys offset)\<^sup>*\<^sup>* s' s''"
  shows "commit_transition f cfg' ready' t i s'' = Inr (c\<lparr>co_replayed := True\<rparr>, s'')"
proof -
  let ?P = "\<lambda>e. ev_transition_id e = Some (at_id t) \<and> ev_operation e \<in> set REGISTRY_OPERATIONS"
  have s: "store_consistent f s" "audit_consistent s"
    using reachable_consistent reachable_audit assms(1) by blast+
  note st = committed_is_stored [OF s assms(2)]
  obtain e where e: "find ?P (cs_audit s') = Some e"
    and c: "c\<lparr>co_replayed := True\<rparr> = \<lparr>co_transition = t, co_outbox = i,
      co_audit_event_hash = ev_event_hash e, co_replayed = True\<rparr>"
    using st(3) by blast
  have "reachable_store f keys offset s'"
    by (rule reachable_store.step [OF assms(1)]) (rule control_step.commit [OF assms(2-4)])
  then have r: "reachable_store f keys offset s''" by (rule run_reachable [OF assms(5)])
  obtain ts es where x: "cs_transitions s'' = cs_transitions s' @ ts" "cs_audit s'' = cs_audit s' @ es"
    using run_extends [OF assms(5)] by blast
  have "load_replayed_commit f t i s'' = Inr (Some (c\<lparr>co_replayed := True\<rparr>))"
    unfolding c
    by (rule stored_transition_replays)
      (use r reachable_consistent reachable_audit x st(1,2) e in \<open>auto simp: find_append\<close>)
  then show ?thesis using st(2) by (simp add: commit_transition_def)
qed

text \<open>A pointer is never older than any activation of its scope.\<close>

lemma history_bounded:
  assumes "store_consistent f s" and "t \<in> set (cs_transitions s)"
  obtains q where "find_pointer (transition_scope t) s = Some q"
    "transition_generation t \<le> ptr_generation q" "active_pointer_valid q"
proof -
  let ?h = "history (transition_scope t) s"
  have t: "t \<in> set ?h" using assms(2) by (simp add: history_def)
  then have ne: "?h \<noteq> []" by auto
  have g: "transition_generation (?h ! k) = int k + 1" if "k < length ?h" for k
    using arg_cong [OF history_generations [OF assms(1), of "transition_scope t"], of "\<lambda>xs. xs ! k"]
      that by simp
  obtain k where k: "k < length ?h" "t = ?h ! k" using t by (metis in_set_conv_nth)
  have "transition_generation (last ?h) = int (length ?h)"
    using g [of "length ?h - 1"] ne by (simp add: last_conv_nth of_nat_diff Suc_leI)
  with g [OF k(1)] k have le: "transition_generation t \<le> transition_generation (last ?h)" by simp
  have "last ?h \<in> set (cs_transitions s)" using last_in_set [OF ne] by (simp add: history_def)
  then have "active_pointer_valid (at_active_pointer (last ?h))"
    using assms(1) by (auto simp: store_consistent_def list_all_iff activation_transition_valid_def)
  moreover have "find_pointer (transition_scope t) s = Some (at_active_pointer (last ?h))"
    using assms(1) ne by (simp add: store_consistent_def head_pointer_def)
  ultimately show ?thesis using that le by (simp add: transition_generation_def)
qed

lemma same_expectation_same_generation:
  assumes "activation_transition_valid f t" and "activation_transition_valid f x"
  shows "transition_generation t = transition_generation x \<longleftrightarrow>
    ac_expected_generation (aa_proposal (at_approval t)) = ac_expected_generation (aa_proposal (at_approval x))"
proof -
  have "transition_generation z = ac_expected_generation (aa_proposal (at_approval z)) + 1"
    if "activation_transition_valid f z" for z
    using that by (simp add: activation_transition_valid_def materializes_approval_def Let_def
        transition_generation_def)
  with assms show ?thesis by simp
qed

text \<open>Two committed transitions of a scope with the same generation are one.\<close>

lemma generation_identifies:
  assumes "store_consistent f s" and "t \<in> set (cs_transitions s)" and "x \<in> set (cs_transitions s)"
    and "transition_scope t = transition_scope x" and "transition_generation t = transition_generation x"
  shows "t = x"
proof -
  let ?h = "history (transition_scope x) s"
  have "distinct (map transition_generation ?h)"
    unfolding history_generations [OF assms(1)] by (simp add: distinct_map inj_on_def)
  moreover have "t \<in> set ?h" "x \<in> set ?h" using assms(2-4) by (simp_all add: history_def)
  ultimately show ?thesis using assms(5) by (auto simp: distinct_map dest: inj_onD)
qed

text \<open>Property C23. Two approvals prepared from the same state cannot both win: once an activation of
  a scope has committed, every other well-formed transition of that scope that expects the same
  generation is refused with \<open>CAS_CONFLICT\<close>, now and in every later state, whatever the catalog and
  the keys are. No update is lost.\<close>

theorem stale_activation_is_refused:
  assumes "reachable_store f keys offset s" and "winner \<in> set (cs_transitions s)"
    and "validate_commit_input f loser i = Inr ()"
    and "transition_scope loser = transition_scope winner"
    and "ac_expected_generation (aa_proposal (at_approval loser))
      = ac_expected_generation (aa_proposal (at_approval winner))"
    and "loser \<noteq> winner"
  shows "commit_transition f cfg ready loser i s = Inl (Transition CAS_CONFLICT)"
proof -
  have s: "store_consistent f s" "audit_consistent s"
    using reachable_consistent reachable_audit assms(1) by blast+
  have lv: "activation_transition_valid f loser" by (rule commit_input_valid [OF assms(3)])
  have wv: "activation_transition_valid f winner"
    using s(1) assms(2) by (auto simp: store_consistent_def list_all_iff)
  have gen: "transition_generation loser = transition_generation winner"
    using same_expectation_same_generation [OF lv wv] assms(5) by simp
  have absent: "loser \<notin> set (cs_transitions s)"
    using generation_identifies [OF s(1) _ assms(2) assms(4) gen] assms(6) by blast
  show ?thesis
  proof (cases "find (\<lambda>x. at_id x = at_id loser) (cs_transitions s)")
    case None
    obtain q where q: "find_pointer (transition_scope winner) s = Some q"
      "transition_generation winner \<le> ptr_generation q" "active_pointer_valid q"
      using history_bounded [OF s(1) assms(2)] by blast
    have "at_previous_pointer loser \<noteq> Some q"
      using valid_transition_generation(1) [OF lv] gen q(2) by (auto split: option.splits)
    with None q assms(3,4) show ?thesis
      by (simp add: commit_transition_def load_replayed_commit_def load_active_for_update_def
          construct_model_def)
  next
    case (Some x)
    then have x: "x \<in> set (cs_transitions s)" "at_id x = at_id loser" by (auto dest: find_SomeD)
    with absent have "x \<noteq> loser" by blast
    obtain r where r: "find (\<lambda>r. ob_transition_id (ow_item r) = at_id loser) (cs_outbox s) = Some r"
      "outbox_item_valid f (ow_item r)"
      using outbox_row_found [OF s(1) x(1)] x(2) by (auto simp: row_of_transition_def)
    obtain e where "find (\<lambda>e. ev_transition_id e = Some (at_id loser)
        \<and> ev_operation e \<in> set REGISTRY_OPERATIONS) (cs_audit s) = Some e"
      using transition_event_found [OF s(1) x(1)] x(2) by auto
    moreover have "activation_transition_valid f x"
      using s(1) x(1) by (auto simp: store_consistent_def list_all_iff)
    ultimately show ?thesis
      using Some r \<open>x \<noteq> loser\<close> assms(3)
      by (simp add: commit_transition_def load_replayed_commit_def construct_model_def)
  qed
qed

text \<open>A projection outcome is recorded once: recording it again succeeds and changes
  nothing, and any other outcome for the same outbox item is refused as a conflict.\<close>

lemma outcome_is_final:
  assumes "record_projection_outcome f cfg u s = Inr s'" and "projection_outcome_valid f u"
    and "po_outbox_id w = po_outbox_id u"
  shows "record_projection_outcome f cfg' w s' =
    (if po_transition_id w = po_transition_id u \<and> po_scope w = po_scope u
        \<and> po_generation w = po_generation u \<and> po_status w = po_status u
        \<and> po_observed_projection w = po_observed_projection u \<and> po_reason_code w = po_reason_code u
     then Inr s' else Inl (Transition RECONCILIATION_CONFLICT))"
proof -
  have "\<exists>r. find (\<lambda>r. ob_id (ow_item r) = po_outbox_id u) (cs_outbox s') = Some r
      \<and> outcome_row_matches r u \<and> terminal_outcome_matches r u"
    using assms(1)
  proof (cases rule: outcome_cases)
    case (again r)
    then show ?thesis by auto
  next
    case (close r key)
    have "find (\<lambda>r. ob_id (ow_item r) = po_outbox_id u) (cs_outbox s') = Some (close_row u r)"
      unfolding close(7)
      by (subst find_map_same) (use close(1,2) find_SomeD [OF close(1)] in \<open>auto simp: close_row_def\<close>)
    with close(3) show ?thesis
      by (simp add: close_row_def outcome_row_matches_def terminal_outcome_matches_def)
  qed
  then obtain r where "find (\<lambda>r. ob_id (ow_item r) = po_outbox_id u) (cs_outbox s') = Some r"
    "outcome_row_matches r u" "terminal_outcome_matches r u" by blast
  moreover have "po_status u \<noteq> OB_PENDING" using assms(2) by (simp add: projection_outcome_valid_def)
  ultimately show ?thesis
    using assms(3) by (auto simp: record_projection_outcome_def outcome_row_matches_def
        terminal_outcome_matches_def)
qed

text \<open>The stored hash covers the timestamp as its writer rendered it, and verification renders it
  as the database session does: an event verifies only if the two keyed digests agree.\<close>

lemma verification_depends_on_session:
  assumes "cf_audit_signing_keys cfg (cf_active_audit_key_version cfg) = Some key"
    and "cf_audit_signing_keys session = cf_audit_signing_keys cfg"
  shows "snd (verify_events session w [next_audit_event cfg key w op tr i pl z s]
      (audit_head (workspace_events s w))) \<longleftrightarrow>
    audit_hash key i w op tr (audit_head (workspace_events s w)) (json_fingerprint pl)
      (cf_active_audit_key_version cfg) (isoformat (cf_session_offset session) z)
    = audit_hash key i w op tr (audit_head (workspace_events s w)) (json_fingerprint pl)
      (cf_active_audit_key_version cfg) (isoformat (cf_writer_offset cfg) z)"
  using assms by (simp add: next_audit_event_def audit_head_def Let_def)

lemma offsets_render_differently: "isoformat 0 0 \<noteq> isoformat 60 0"
  by code_simp

section \<open>A first activation\<close>

definition sample_target :: string where "sample_target = ''urn:li:document:'' @ sample_document"

definition sample_handoff_fields :: ready_handoff where
  "sample_handoff_fields =
     \<lparr>ho_job_id = ''registry-publication-'' @ json_fingerprint (job_id_payload sample_scope 1),
      ho_scope = sample_scope, ho_source_proposal_id = ''proposal-1'',
      ho_source_proposal_fingerprint = sha256_text ''proposal'',
      ho_candidate_id = registry_publication_candidate_id ''proposal-1'' (sha256_text ''proposal''),
      ho_candidate_fingerprint = sha256_text ''candidate'', ho_target_registry_version = 1,
      ho_target_registry_fingerprint = sha256_text ''registry'',
      ho_target_registry_urn = sample_target, ho_attempt_authorization_id = ''attempt-1'',
      ho_observed_authorization_id = ''authorization-1'',
      ho_catalog_authority_fingerprint = sha256_text ''catalog'', ho_observed_at = 0,
      ho_fingerprint = []\<rparr>"

definition sample_handoff :: ready_handoff where
  "sample_handoff = sample_handoff_fields\<lparr>ho_fingerprint :=
     registry_activation_ready_handoff_fingerprint sample_iso sample_handoff_fields\<rparr>"

definition sample_proposal :: activation_proposal where
  "sample_proposal =
     \<lparr>ac_action = ACTIVATE, ac_scope = sample_scope, ac_expected_generation = 0,
      ac_expected_registry_version = None, ac_expected_registry_fingerprint = None,
      ac_expected_transition_id = None, ac_target_registry_version = 1,
      ac_target_registry_fingerprint = sha256_text ''registry'',
      ac_target_registry_urn = sample_target,
      ac_target_publication_approval_id = ''authorization-1'',
      ac_activation_ready_handoff = Some sample_handoff,
      ac_decision_ids = [''decision-1'', ''decision-2''], ac_rollback_transition_id = None\<rparr>"

definition sample_approval :: "string \<Rightarrow> activation_approval" where
  "sample_approval actor =
     \<lparr>aa_id = registry_activation_approval_id sample_iso sample_proposal actor 1
        ACTIVATE_APPROVED_REGISTRY_VERSION,
      aa_proposal = sample_proposal, aa_actor = actor, aa_approved_at = 1,
      aa_confirmation = ACTIVATE_APPROVED_REGISTRY_VERSION\<rparr>"

definition sample_transition :: "string \<Rightarrow> activation_transition" where
  "sample_transition actor = approved_transition (sample_approval actor) None 2"

definition sample_outbox :: "string \<Rightarrow> outbox_item" where
  "sample_outbox actor =
     \<lparr>ob_id = registry_projection_outbox_id (at_id (sample_transition actor)),
      ob_transition_id = at_id (sample_transition actor),
      ob_desired = \<lparr>pj_pointer = at_active_pointer (sample_transition actor),
        pj_projection_fingerprint =
          registry_projection_fingerprint sample_iso (at_active_pointer (sample_transition actor))\<rparr>,
      ob_status = OB_PENDING, ob_attempts = 0, ob_created_at = 2, ob_last_reason_code = None\<rparr>"

definition sample_key :: "nat list" where "sample_key = [0..<32]"

definition sample_config :: store_config where
  "sample_config = \<lparr>cf_audit_signing_keys = [''v1'' \<mapsto> sample_key], cf_active_audit_key_version = ''v1'',
     cf_writer_offset = 0, cf_session_offset = 0\<rparr>"

definition sample_ready :: ready_rows where
  "sample_ready scope version =
     (if scope = sample_scope \<and> version = 1 then Some sample_handoff_fields else None)"

lemma sample_target_text: "len_between 3 500 sample_target" "len_between 1 500 sample_target"
  by (simp_all add: sample_target_def sample_document_def len_between_def sha256_length)

lemma sample_handoff_valid: "ready_handoff_valid sample_iso sample_handoff"
proof -
  have u: "datahub_registry_document_urn sample_scope 1
      = (Inr sample_target :: (unit, string) outcome)"
    by (simp add: sample_document_id sample_target_def)
  have "registry_activation_ready_handoff_fingerprint sample_iso sample_handoff
      = registry_activation_ready_handoff_fingerprint sample_iso sample_handoff_fields"
    by (simp add: sample_handoff_def registry_activation_ready_handoff_fingerprint_def
        handoff_members_def)
  then show ?thesis
    using u sample_target_text sample_scope_valid
    unfolding ready_handoff_valid_def
    by (simp add: sample_handoff_def sample_handoff_fields_def registry_publication_job_id_def
        registry_publication_candidate_id_def len_between_def json_fingerprint_length
        registry_activation_ready_handoff_fingerprint_def)
qed

lemma sample_decisions_canonical: "canonical_decisions [''decision-1'', ''decision-2'']"
  by (simp add: canonical_decisions_def blank_iff char_class_defs)

lemma sample_proposal_valid: "activation_proposal_valid sample_iso sample_proposal"
proof -
  have u: "datahub_registry_document_urn sample_scope 1
      = (Inr sample_target :: (unit, string) outcome)"
    by (simp add: sample_document_id sample_target_def)
  have h: "ho_scope sample_handoff = sample_scope" "ho_target_registry_version sample_handoff = 1"
    "ho_target_registry_fingerprint sample_handoff = sha256_text ''registry''"
    "ho_target_registry_urn sample_handoff = sample_target"
    "ho_observed_authorization_id sample_handoff = ''authorization-1''"
    by (simp_all add: sample_handoff_def sample_handoff_fields_def)
  have b: "\<not> blank ''authorization-1''" by (simp add: blank_iff char_class_defs)
  show ?thesis
    unfolding activation_proposal_valid_def compare_and_swap_shape_def handoff_of_target_def
    using b sample_target_text(2)
    by (simp add: sample_proposal_def sample_scope_valid sample_handoff_valid
        sample_decisions_canonical len_between_def u h)
qed

lemma sample_approval_valid:
  assumes "len_between 1 120 actor" and "\<not> blank actor"
  shows "activation_approval_valid sample_iso (sample_approval actor)"
  using assms sample_proposal_valid
  by (simp add: activation_approval_valid_def sample_approval_def)
    (simp add: sample_proposal_def)

lemma sample_transition_valid:
  assumes "len_between 1 120 actor" and "\<not> blank actor"
  shows "activation_transition_valid sample_iso (sample_transition actor)"
  using sample_approval_valid [OF assms]
  by (simp add: sample_transition_def approved_transition_valid_iff expects_pointer_def)
    (simp add: sample_approval_def sample_proposal_def)

lemma sample_input_valid:
  assumes "len_between 1 120 actor" and "\<not> blank actor"
  shows "validate_commit_input sample_iso (sample_transition actor) (sample_outbox actor) = Inr ()"
proof -
  have t: "activation_transition_valid sample_iso (sample_transition actor)"
    by (rule sample_transition_valid [OF assms])
  have "build_registry_projection_outbox sample_iso (sample_transition actor)
      = (Inr (sample_outbox actor) :: (unit, outbox_item) outcome)"
    unfolding build_outbox_eq [OF t]
    by (simp add: sample_outbox_def sample_transition_def approved_transition_def)
  then have "outbox_item_valid sample_iso (sample_outbox actor)"
    by (auto simp: build_registry_projection_outbox_def outcome_simps)
  with t show ?thesis by (simp add: validate_commit_input_def) (simp add: sample_outbox_def)
qed

lemma sample_ready_handoff:
  "require_activation_ready_handoff sample_iso sample_ready (sample_transition actor) = Inr ()"
proof -
  have "create_handoff sample_iso (sample_handoff_fields\<lparr>ho_scope := sample_scope,
      ho_target_registry_version := 1\<rparr>) = (Inr sample_handoff :: ready_handoff controlled)"
    using sample_handoff_valid
    by (simp add: create_handoff_def construct_model_def sample_handoff_def sample_handoff_fields_def
        registry_activation_ready_handoff_fingerprint_def handoff_members_def)
  then show ?thesis
    by (simp add: require_activation_ready_handoff_def sample_transition_def approved_transition_def
        sample_approval_def sample_proposal_def load_handoff_def sample_ready_def)
qed

definition sample_event :: "string \<Rightarrow> audit_event" where
  "sample_event actor = next_audit_event sample_config sample_key ''workspace-1'' ''registry_activate''
     (Some (at_id (sample_transition actor)))
     (control_event_id ''registry_transition'' (at_id (sample_transition actor)))
     (commit_payload sample_iso (sample_transition actor) (sample_outbox actor)) 2 empty_store"

definition sample_store :: "string \<Rightarrow> control_store" where
  "sample_store actor =
     \<lparr>cs_transitions = [sample_transition actor],
      cs_pointers = [at_active_pointer (sample_transition actor)],
      cs_outbox = [outbox_row_of (sample_outbox actor)], cs_audit = [sample_event actor]\<rparr>"

definition sample_commit :: "string \<Rightarrow> control_commit" where
  "sample_commit actor =
     \<lparr>co_transition = sample_transition actor, co_outbox = sample_outbox actor,
      co_audit_event_hash = ev_event_hash (sample_event actor), co_replayed = False\<rparr>"

lemma sample_transition_sel:
  "at_previous_pointer (sample_transition actor) = None"
  "at_committed_at (sample_transition actor) = 2"
  "transition_scope (sample_transition actor) = sample_scope"
  "ac_action (aa_proposal (at_approval (sample_transition actor))) = ACTIVATE"
  "ac_expected_transition_id (aa_proposal (at_approval (sample_transition actor))) = None"
  "ac_rollback_transition_id (aa_proposal (at_approval (sample_transition actor))) = None"
  "ac_expected_generation (aa_proposal (at_approval (sample_transition actor))) = 0"
  by (simp_all add: sample_transition_def approved_transition_def approved_pointer_def
      transition_scope_def sample_approval_def sample_proposal_def)

lemma sample_commit_succeeds:
  assumes "len_between 1 120 actor" and "\<not> blank actor"
  shows "commit_transition sample_iso sample_config sample_ready (sample_transition actor)
    (sample_outbox actor) empty_store = Inr (sample_commit actor, sample_store actor)"
proof -
  let ?t = "sample_transition actor" and ?i = "sample_outbox actor"
  note v = sample_input_valid [OF assms]
  have k: "cf_audit_signing_keys sample_config (cf_active_audit_key_version sample_config) = Some sample_key"
    by (simp add: sample_config_def)
  have w: "sc_workspace_id sample_scope = ''workspace-1''" by (simp add: sample_scope_def)
  have ev: "append_transition_event sample_iso sample_config ?t ?i
      (empty_store\<lparr>cs_transitions := [?t], cs_pointers := [at_active_pointer ?t],
        cs_outbox := [outbox_row_of ?i]\<rparr>)
    = Inr (ev_event_hash (sample_event actor), sample_store actor)"
    using k by (simp add: append_transition_event_def append_audit_event_def sample_transition_sel w
        insert_audit_event_def database_def sample_event_def sample_store_def next_audit_event_def
        workspace_events_def empty_store_def Let_def)
      (simp add: transition_scope_def [symmetric] sample_transition_sel w)
  have ob: "insert_outbox ?i s = Inr (s\<lparr>cs_outbox := [outbox_row_of ?i]\<rparr>)" if "cs_outbox s = []" for s
    using that by (simp add: insert_outbox_def outbox_row_of_def)
  have cv: "control_commit_valid sample_iso (sample_commit actor)"
    using commit_input_valid [OF v]
    by (simp add: control_commit_valid_def sample_commit_def sample_event_def)
  have "insert_transition ?t empty_store = Inr (empty_store\<lparr>cs_transitions := [?t]\<rparr>)"
    by (simp add: insert_transition_def empty_store_def transition_references_def sample_transition_sel
        Let_def)
  moreover have "write_pointer ?t (empty_store\<lparr>cs_transitions := [?t]\<rparr>)
      = Inr (empty_store\<lparr>cs_transitions := [?t], cs_pointers := [at_active_pointer ?t]\<rparr>)"
    by (simp add: write_pointer_def sample_transition_sel empty_store_def Let_def)
  moreover have "load_replayed_commit sample_iso ?t ?i empty_store = Inr None"
    by (simp add: load_replayed_commit_def empty_store_def)
  moreover have "load_active_for_update sample_scope empty_store = Inr None"
    by (simp add: load_active_for_update_def find_pointer_def empty_store_def)
  ultimately show ?thesis
    using v cv ev ob [of "empty_store\<lparr>cs_transitions := [?t], cs_pointers := [at_active_pointer ?t]\<rparr>"]
    by (simp add: commit_transition_def sample_transition_sel sample_ready_handoff database_def
        construct_model_def sample_commit_def empty_store_def)
qed

lemma sample_actors: "len_between 1 120 ''owner''" "\<not> blank ''owner''" "len_between 1 120 ''other''"
  "\<not> blank ''other''"
  by (simp_all add: len_between_def blank_iff char_class_defs)

lemma sample_store_reachable:
  "reachable_store sample_iso [''v1'' \<mapsto> sample_key] 0 (sample_store ''owner'')"
  by (rule reachable_store.step [OF reachable_store.start])
    (rule control_step.commit [OF sample_commit_succeeds [OF sample_actors(1,2)]],
      simp_all add: sample_config_def)

theorem pointer_is_end_of_history_witness:
  "find_pointer sample_scope (sample_store ''owner'')
     = Some (at_active_pointer (sample_transition ''owner''))
   \<and> map transition_generation (history sample_scope (sample_store ''owner'')) = [1]"
  using pointer_is_end_of_history [OF sample_store_reachable, of sample_scope]
  by (simp add: history_def sample_store_def sample_transition_sel)

lemma control_workspace: "len_between 1 200 ''workspace-1''" "\<not> blank ''workspace-1''"
  by (simp_all add: len_between_def blank_iff char_class_defs)

lemma sample_workspace_events:
  "workspace_events (sample_store actor) ''workspace-1'' = [sample_event actor]"
  by (simp add: workspace_events_def sample_store_def sample_event_def)

lemma sample_chain:
  "verify_audit_chain sample_config ''workspace-1'' (sample_store ''owner'') =
     Inr \<lparr>av_workspace_id = ''workspace-1'', av_event_count = 1,
       av_head_hash = Some (ev_event_hash (sample_event ''owner'')), av_valid = True\<rparr>"
proof -
  have a: "audit_verifies [''v1'' \<mapsto> sample_key] 0 (sample_store ''owner'')"
    using reachable_audit [OF sample_store_reachable] by simp
  have "verify_events sample_config ''workspace-1''
      (workspace_events (sample_store ''owner'') ''workspace-1'') None
    = (audit_head (workspace_events (sample_store ''owner'') ''workspace-1''), True)"
    by (rule a [unfolded audit_verifies_def, rule_format]) (simp_all add: sample_config_def)
  moreover have "is_sha256 (ev_event_hash (sample_event ''owner''))" by (simp add: sample_event_def)
  ultimately show ?thesis
    using control_workspace unfolding verify_audit_chain_def sample_workspace_events
    by (simp add: audit_head_def audit_chain_verification_valid_def del: verify_events.simps)
qed

theorem audit_chain_verifies_witness:
  "\<exists>v. verify_audit_chain sample_config ''workspace-1'' (sample_store ''owner'') = Inr v
     \<and> av_valid v \<and> av_event_count v = 1"
  using audit_chain_verifies [OF sample_store_reachable, of sample_config "''workspace-1''"]
    control_workspace
  by (simp add: sample_config_def sample_workspace_events)

theorem audit_tampering_is_detected_witness:
  "\<exists>rest. workspace_events (sample_store ''owner'') ''workspace-1'' = [sample_event ''owner''] @ rest"
  using audit_tampering_is_detected [OF sample_store_reachable _ sample_chain]
  by (simp add: sample_workspace_events)

theorem commit_replay_is_idempotent_witness:
  "commit_transition sample_iso sample_config (\<lambda>_ _. None) (sample_transition ''owner'')
     (sample_outbox ''owner'') (sample_store ''owner'')
   = Inr ((sample_commit ''owner'')\<lparr>co_replayed := True\<rparr>, sample_store ''owner'')"
  using commit_replay_is_idempotent [OF reachable_store.start
      sample_commit_succeeds [OF sample_actors(1,2)],
      of "[''v1'' \<mapsto> sample_key]" 0 "sample_store ''owner''"]
  by (simp add: sample_config_def)

lemma sample_transitions_differ: "sample_transition ''other'' \<noteq> sample_transition ''owner''"
proof
  assume "sample_transition ''other'' = sample_transition ''owner''"
  then have "aa_actor (at_approval (sample_transition ''other''))
      = aa_actor (at_approval (sample_transition ''owner''))" by simp
  then show False by (simp add: sample_transition_def approved_transition_def sample_approval_def)
qed

theorem stale_activation_is_refused_witness:
  "commit_transition sample_iso sample_config sample_ready (sample_transition ''other'')
     (sample_outbox ''other'') (sample_store ''owner'') = Inl (Transition CAS_CONFLICT)"
  by (rule stale_activation_is_refused [OF sample_store_reachable, of "sample_transition ''owner''"])
    (use sample_input_valid [OF sample_actors(3,4)] in
      \<open>simp_all add: sample_transition_sel sample_transitions_differ\<close>, simp add: sample_store_def)

text \<open>The sample activation, delivered.\<close>

definition sample_outcome :: projection_outcome where
  "sample_outcome =
     \<lparr>po_outbox_id = ob_id (sample_outbox ''owner''),
      po_transition_id = at_id (sample_transition ''owner''), po_scope = sample_scope,
      po_generation = 1, po_status = OB_DELIVERED,
      po_observed_projection = Some (ob_desired (sample_outbox ''owner'')), po_occurred_at = 3,
      po_reason_code = None\<rparr>"

definition sample_delivered :: control_store where
  "sample_delivered = (sample_store ''owner'')
     \<lparr>cs_outbox := [close_row sample_outcome (outbox_row_of (sample_outbox ''owner''))]\<rparr>"

lemma sample_pointer_sel:
  "ptr_scope (at_active_pointer (sample_transition actor)) = sample_scope"
  "ptr_generation (at_active_pointer (sample_transition actor)) = 1"
  by (simp_all add: sample_transition_def approved_transition_def approved_pointer_def
      sample_approval_def sample_proposal_def)

lemma sample_outcome_valid: "projection_outcome_valid sample_iso sample_outcome"
proof -
  have o: "outbox_item_valid sample_iso (sample_outbox ''owner'')"
    by (rule commit_input_valid [OF sample_input_valid [OF sample_actors(1,2)]])
  then have "projection_state_valid sample_iso (ob_desired (sample_outbox ''owner''))"
    "is_named_id (ob_id (sample_outbox ''owner''))"
    by (simp_all add: outbox_item_valid_def)
  moreover have "is_named_id (at_id (sample_transition ''owner''))"
    by (simp add: sample_transition_def approved_transition_def)
  moreover have "pj_pointer (ob_desired (sample_outbox ''owner''))
      = at_active_pointer (sample_transition ''owner'')"
    by (simp add: sample_outbox_def)
  ultimately show ?thesis
    by (simp add: projection_outcome_valid_def sample_outcome_def sample_scope_valid sample_pointer_sel)
qed

lemma sample_outcome_again:
  "record_projection_outcome sample_iso sample_config sample_outcome sample_delivered
     = Inr sample_delivered"
  by (simp add: record_projection_outcome_def sample_delivered_def close_row_def outbox_row_of_def
      outcome_row_matches_def terminal_outcome_matches_def sample_outcome_def)
    (simp add: sample_outbox_def sample_pointer_sel)

lemma outcome_is_final_witness:
  "record_projection_outcome sample_iso sample_config (sample_outcome\<lparr>po_status := OB_SUPERSEDED\<rparr>)
     sample_delivered = Inl (Transition RECONCILIATION_CONFLICT)"
  using outcome_is_final [OF sample_outcome_again sample_outcome_valid,
      of "sample_outcome\<lparr>po_status := OB_SUPERSEDED\<rparr>"]
  by (simp add: sample_outcome_def)

end
