(* ===== verification/Registry_Activation.thy ===== *)
theory Registry_Activation
  imports Control_History
begin

text \<open>
  The use cases of \<open>application/registry_control.py\<close> over the store of \<open>Control_Store\<close>: preparing an
  activation or a rollback, approving it, committing it, loading the active registry, and
  inspecting and repairing the DataHub projection.

  The reader of immutable versions and the DataHub projector are ports; they are arguments of the
  definitions, and the projector carries the state \<open>'w\<close> of the catalog it writes. Everything a port
  returns is validated again, as in the code, so a port may answer anything. The checks that an
  answer has the right Python class are the types of the model.
\<close>

type_synonym version_reader = "registry_scope \<Rightarrow> int \<Rightarrow> governed_version controlled"

record 'w projector =
  dh_read :: "'w \<Rightarrow> registry_scope \<Rightarrow> projection_state option controlled"
  dh_project :: "'w \<Rightarrow> projection_state \<Rightarrow> reconciliation_approval \<Rightarrow>
    (projection_state \<times> 'w) controlled"

text \<open>\<open>try: \<dots> except ValueError: raise RegistryControlError(code)\<close>. Pydantic's validation error is a
  \<open>ValueError\<close>.\<close>

definition except_value_error :: "control_code \<Rightarrow> 'a controlled \<Rightarrow> 'a controlled" where
  "except_value_error c m =
     (case m of
        Inl ValueError \<Rightarrow> Inl (Transition c)
      | Inl ValidationError \<Rightarrow> Inl (Transition c)
      | _ \<Rightarrow> m)"

section \<open>Validated reads\<close>

definition load_active_pointer ::
  "registry_scope \<Rightarrow> control_store \<Rightarrow> active_pointer option controlled" where
  "load_active_pointer scope s =
     bindE (load_active scope s) (\<lambda>raw.
       case raw of None \<Rightarrow> Inr None
       | Some p \<Rightarrow>
           if \<not> active_pointer_valid p then Inl (Transition INVALID_RESPONSE)
           else if ptr_scope p \<noteq> scope then Inl (Transition INVALID_RESPONSE)
           else Inr (Some p))"

definition load_transitions ::
  "(instant \<Rightarrow> string) \<Rightarrow> registry_scope \<Rightarrow> int \<Rightarrow> control_store \<Rightarrow>
   activation_transition list controlled" where
  "load_transitions iso_text scope limit s =
     (if \<not> (1 \<le> limit \<and> limit \<le> 1000) then Inl (Transition INVALID_RESPONSE)
      else bindE (list_transitions iso_text scope limit s) (\<lambda>raw.
        if int (length raw) > limit then Inl (Transition INVALID_RESPONSE)
        else if \<not> list_all (activation_transition_valid iso_text) raw
        then Inl (Transition INVALID_RESPONSE)
        else
          let generations = map transition_generation raw in
          if list_ex (\<lambda>t. transition_scope t \<noteq> scope) raw
             \<or> generations \<noteq> sort (remdups generations)
          then Inl (Transition INVALID_RESPONSE) else Inr raw))"

definition load_pending ::
  "(instant \<Rightarrow> string) \<Rightarrow> registry_scope \<Rightarrow> control_store \<Rightarrow> outbox_item option controlled" where
  "load_pending iso_text scope s =
     bindE (load_pending_outbox iso_text scope s) (\<lambda>raw.
       case raw of None \<Rightarrow> Inr None
       | Some i \<Rightarrow>
           if \<not> outbox_item_valid iso_text i then Inl (Transition INVALID_RESPONSE)
           else if ob_status i \<noteq> OB_PENDING \<or> ptr_scope (pj_pointer (ob_desired i)) \<noteq> scope
           then Inl (Transition INVALID_RESPONSE) else Inr (Some i))"

definition audit_chain_is_valid :: "store_config \<Rightarrow> string \<Rightarrow> control_store \<Rightarrow> bool controlled" where
  "audit_chain_is_valid cfg workspace s =
     bindE (verify_audit_chain cfg workspace s) (\<lambda>v.
       if \<not> audit_chain_verification_valid v then Inl (Transition INVALID_RESPONSE)
       else if av_workspace_id v \<noteq> workspace then Inl (Transition INVALID_RESPONSE)
       else Inr (av_valid v))"

text \<open>\<open>not has_event or not chain_is_valid\<close>: the chain is only verified when the event is there.\<close>

definition audit_gap :: "store_config \<Rightarrow> string \<Rightarrow> string \<Rightarrow> control_store \<Rightarrow> bool controlled" where
  "audit_gap cfg transition_id workspace s =
     (if \<not> has_audit_event transition_id s then Inr True
      else bindE (audit_chain_is_valid cfg workspace s) (\<lambda>ok. Inr (\<not> ok)))"

definition validate_projection_response ::
  "(instant \<Rightarrow> string) \<Rightarrow> projection_state \<Rightarrow> registry_scope \<Rightarrow> projection_state controlled" where
  "validate_projection_response iso_text raw scope =
     (if \<not> projection_state_valid iso_text raw then Inl (Transition INVALID_RESPONSE)
      else if ptr_scope (pj_pointer raw) \<noteq> scope then Inl (Transition INVALID_RESPONSE)
      else Inr raw)"

definition read_projection ::
  "(instant \<Rightarrow> string) \<Rightarrow> 'w projector \<Rightarrow> 'w \<Rightarrow> registry_scope \<Rightarrow> projection_state option controlled" where
  "read_projection iso_text port w scope =
     bindE (dh_read port w scope) (\<lambda>raw.
       case raw of None \<Rightarrow> Inr None
       | Some p \<Rightarrow> bindE (validate_projection_response iso_text p scope) (\<lambda>p. Inr (Some p)))"

definition load_strict_version ::
  "version_reader \<Rightarrow> registry_scope \<Rightarrow> int \<Rightarrow> governed_version controlled" where
  "load_strict_version versions scope version =
     bindE (versions scope version) (\<lambda>loaded.
       if \<not> governed_version_valid loaded then Inl (Transition VERSION_INVALID)
       else if ss_scope (gv_snapshot loaded) \<noteq> scope then Inl (Transition VERSION_INVALID)
       else if gv_trust loaded \<noteq> STRICT then Inl (Transition LEGACY_VERSION)
       else Inr loaded)"

section \<open>Versions, pointers and proposals\<close>

abbreviation registry_of :: "governed_version \<Rightarrow> registry_snapshot" where
  "registry_of v \<equiv> ss_registry (gv_snapshot v)"

abbreviation scope_of :: "governed_version \<Rightarrow> registry_scope" where
  "scope_of v \<equiv> ss_scope (gv_snapshot v)"

definition target_urn :: "registry_scope \<Rightarrow> int \<Rightarrow> string option" where
  "target_urn scope version =
     (case (datahub_registry_document_urn scope version :: (unit, string) outcome) of
        Inl _ \<Rightarrow> None | Inr u \<Rightarrow> Some u)"

definition ready_handoff_matches :: "governed_version \<Rightarrow> ready_handoff \<Rightarrow> bool" where
  "ready_handoff_matches target h \<longleftrightarrow>
     ho_scope h = scope_of target \<and> ho_target_registry_version h = rs_version (registry_of target)
     \<and> ho_target_registry_fingerprint h = rs_fingerprint (registry_of target)
     \<and> target_urn (scope_of target) (rs_version (registry_of target)) = Some (ho_target_registry_urn h)
     \<and> ho_observed_authorization_id h = gv_publication_approval_id target
     \<and> list_ex (\<lambda>b. pb_source_proposal_id b = ho_source_proposal_id h
           \<and> pb_source_proposal_fingerprint b = ho_source_proposal_fingerprint h)
         (rs_physical_bindings (registry_of target))"

definition load_ready_handoff ::
  "(instant \<Rightarrow> string) \<Rightarrow> ready_rows \<Rightarrow> governed_version \<Rightarrow> ready_handoff controlled" where
  "load_ready_handoff iso_text ready_row target =
     (if rs_format_version (registry_of target) \<noteq> 2 then Inl (Transition LEGACY_VERSION)
      else bindE (load_activation_ready_handoff iso_text ready_row (scope_of target)
                   (rs_version (registry_of target))) (\<lambda>loaded.
        case loaded of None \<Rightarrow> Inl (Transition ACTIVATION_NOT_READY)
        | Some h \<Rightarrow>
            if \<not> ready_handoff_valid iso_text h then Inl (Transition ACTIVATION_HANDOFF_MISMATCH)
            else if \<not> ready_handoff_matches target h
            then Inl (Transition ACTIVATION_HANDOFF_MISMATCH)
            else Inr h))"

definition version_matches_proposal :: "governed_version \<Rightarrow> activation_proposal \<Rightarrow> bool" where
  "version_matches_proposal v p \<longleftrightarrow>
     scope_of v = ac_scope p \<and> rs_version (registry_of v) = ac_target_registry_version p
     \<and> rs_fingerprint (registry_of v) = ac_target_registry_fingerprint p
     \<and> target_urn (ac_scope p) (rs_version (registry_of v)) = Some (ac_target_registry_urn p)
     \<and> gv_publication_approval_id v = ac_target_publication_approval_id p
     \<and> semantic_registry_decision_ids (registry_of v) = ac_decision_ids p"

definition version_matches_pointer :: "governed_version \<Rightarrow> active_pointer \<Rightarrow> bool" where
  "version_matches_pointer v p \<longleftrightarrow>
     scope_of v = ptr_scope p \<and> rs_version (registry_of v) = ptr_registry_version p
     \<and> rs_fingerprint (registry_of v) = ptr_registry_fingerprint p
     \<and> target_urn (ptr_scope p) (rs_version (registry_of v)) = Some (ptr_registry_target p)
     \<and> semantic_registry_decision_ids (registry_of v) = ptr_decision_ids p"

definition ensure_not_already_active ::
  "active_pointer option \<Rightarrow> governed_version \<Rightarrow> unit controlled" where
  "ensure_not_already_active current target =
     (if optional (\<lambda>p. \<not> version_matches_pointer target p) current then Inr ()
      else Inl (Transition ALREADY_ACTIVE))"

definition current_matches_proposal :: "active_pointer option \<Rightarrow> activation_proposal \<Rightarrow> bool" where
  "current_matches_proposal current p \<longleftrightarrow>
     (if ac_expected_generation p = 0 then current = None
      else (case current of None \<Rightarrow> False | Some pointer \<Rightarrow> pointer_matches_proposal pointer p))"

definition build_proposal ::
  "(instant \<Rightarrow> string) \<Rightarrow> activation_action \<Rightarrow> active_pointer option \<Rightarrow> governed_version \<Rightarrow>
   string option \<Rightarrow> ready_handoff option \<Rightarrow> activation_proposal controlled" where
  "build_proposal iso_text action current target rollback handoff =
     bindE (datahub_registry_document_urn (scope_of target) (rs_version (registry_of target))) (\<lambda>urn.
     construct_model (activation_proposal_valid iso_text)
       \<lparr>ac_action = action, ac_scope = scope_of target,
        ac_expected_generation = (case current of None \<Rightarrow> 0 | Some p \<Rightarrow> ptr_generation p),
        ac_expected_registry_version = map_option ptr_registry_version current,
        ac_expected_registry_fingerprint = map_option ptr_registry_fingerprint current,
        ac_expected_transition_id = map_option ptr_transition_id current,
        ac_target_registry_version = rs_version (registry_of target),
        ac_target_registry_fingerprint = rs_fingerprint (registry_of target),
        ac_target_registry_urn = urn,
        ac_target_publication_approval_id = gv_publication_approval_id target,
        ac_activation_ready_handoff = handoff,
        ac_decision_ids = semantic_registry_decision_ids (registry_of target),
        ac_rollback_transition_id = rollback\<rparr>)"

definition load_proposal_previous_pointer ::
  "(instant \<Rightarrow> string) \<Rightarrow> activation_proposal \<Rightarrow> control_store \<Rightarrow> active_pointer option controlled" where
  "load_proposal_previous_pointer iso_text p s =
     (if ac_expected_generation p = 0 then Inr None
      else case ac_expected_transition_id p of
        None \<Rightarrow> Inl AssertionError
      | Some expected \<Rightarrow>
          bindE (load_transitions iso_text (ac_scope p) 1000 s) (\<lambda>rows.
          case find (\<lambda>t. at_id t = expected) rows of
            None \<Rightarrow> Inl (Transition CAS_CONFLICT)
          | Some t \<Rightarrow>
              if pointer_matches_proposal (at_active_pointer t) p then Inr (Some (at_active_pointer t))
              else Inl (Transition CAS_CONFLICT)))"

section \<open>Activation and rollback\<close>

definition prepare_registry_activation ::
  "(instant \<Rightarrow> string) \<Rightarrow> ready_rows \<Rightarrow> version_reader \<Rightarrow> registry_scope \<Rightarrow> int \<Rightarrow> control_store \<Rightarrow>
   activation_proposal controlled" where
  "prepare_registry_activation iso_text ready_row versions scope target_version s =
     bindE (load_active_pointer scope s) (\<lambda>current.
     bindE (load_strict_version versions scope target_version) (\<lambda>target.
     bindE (load_ready_handoff iso_text ready_row target) (\<lambda>handoff.
     bindE (ensure_not_already_active current target) (\<lambda>_.
     build_proposal iso_text ACTIVATE current target None (Some handoff)))))"

definition prepare_registry_rollback ::
  "(instant \<Rightarrow> string) \<Rightarrow> store_config \<Rightarrow> version_reader \<Rightarrow> registry_scope \<Rightarrow> int \<Rightarrow> string \<Rightarrow>
   control_store \<Rightarrow> activation_proposal controlled" where
  "prepare_registry_rollback iso_text cfg versions scope history_limit target_id s =
     bindE (load_active_pointer scope s) (\<lambda>found.
     case found of None \<Rightarrow> Inl (Transition POINTER_NOT_FOUND)
     | Some current \<Rightarrow>
         bindE (load_transitions iso_text scope history_limit s) (\<lambda>rows.
         case find (\<lambda>t. at_id t = target_id) rows of
           None \<Rightarrow> Inl (Transition ROLLBACK_NOT_ALLOWED)
         | Some historical \<Rightarrow>
             if transition_scope historical \<noteq> scope
                \<or> transition_generation historical \<ge> ptr_generation current
             then Inl (Transition ROLLBACK_NOT_ALLOWED)
             else
               bindE (audit_gap cfg (at_id historical) (sc_workspace_id scope) s) (\<lambda>gap.
               if gap then Inl (Transition ROLLBACK_NOT_ALLOWED)
               else
                 bindE (load_strict_version versions scope
                   (ptr_registry_version (at_active_pointer historical))) (\<lambda>target.
                 if \<not> version_matches_pointer target (at_active_pointer historical)
                 then Inl (Transition VERSION_INVALID)
                 else
                   bindE (ensure_not_already_active (Some current) target) (\<lambda>_.
                   build_proposal iso_text ROLLBACK (Some current) target (Some (at_id historical))
                     None)))))"

definition prepare_registry_activation_approval ::
  "(instant \<Rightarrow> string) \<Rightarrow> activation_proposal \<Rightarrow> string \<Rightarrow> datetime \<Rightarrow> activation_confirmation \<Rightarrow>
   activation_approval controlled" where
  "prepare_registry_activation_approval iso_text p actor approved confirm =
     except_value_error APPROVAL_MISMATCH
       (bindE (require_aware approved) (\<lambda>t.
        construct_model (activation_approval_valid iso_text)
          \<lparr>aa_id = registry_activation_approval_id iso_text p actor t confirm, aa_proposal = p,
           aa_actor = actor, aa_approved_at = t, aa_confirmation = confirm\<rparr>))"

definition materialize ::
  "(instant \<Rightarrow> string) \<Rightarrow> activation_proposal \<Rightarrow> activation_approval \<Rightarrow> datetime \<Rightarrow> bool \<Rightarrow>
   active_pointer option \<Rightarrow> control_store \<Rightarrow> (activation_transition \<times> outbox_item) controlled" where
  "materialize iso_text p a committed replaying current s =
     except_value_error APPROVAL_MISMATCH
       (bindE (if replaying then load_proposal_previous_pointer iso_text p s else Inr current) (\<lambda>previous.
        bindE (build_registry_activation_transition iso_text p a previous committed) (\<lambda>t.
        bindE (build_registry_projection_outbox iso_text t) (\<lambda>i. Inr (t, i)))))"

definition commit_registry_activation ::
  "(instant \<Rightarrow> string) \<Rightarrow> store_config \<Rightarrow> ready_rows \<Rightarrow> version_reader \<Rightarrow> activation_proposal \<Rightarrow>
   activation_approval \<Rightarrow> datetime \<Rightarrow> control_store \<Rightarrow> (control_commit \<times> control_store) controlled" where
  "commit_registry_activation iso_text cfg ready_row versions p a committed s =
     bindE (except_value_error APPROVAL_MISMATCH (validate_registry_activation_approval iso_text p a)) (\<lambda>_.
     bindE (load_active_pointer (ac_scope p) s) (\<lambda>current.
     let replaying = (case current of None \<Rightarrow> False | Some q \<Rightarrow>
           ptr_transition_id q = registry_activation_transition_id a
           \<and> ptr_generation q = ac_expected_generation p + 1)
     in if \<not> current_matches_proposal current p \<and> \<not> replaying then Inl (Transition CAS_CONFLICT)
        else
          bindE (load_strict_version versions (ac_scope p) (ac_target_registry_version p)) (\<lambda>target.
          if \<not> version_matches_proposal target p then Inl (Transition VERSION_INVALID)
          else
            bindE (if \<not> replaying \<and> ac_action p = ACTIVATE
                   then bindE (load_ready_handoff iso_text ready_row target) (\<lambda>observed.
                     if Some observed \<noteq> ac_activation_ready_handoff p
                     then Inl (Transition ACTIVATION_HANDOFF_MISMATCH) else Inr ())
                   else Inr ()) (\<lambda>_.
            bindE (materialize iso_text p a committed replaying current s) (\<lambda>(t, i).
            if replaying \<and> Some (at_active_pointer t) \<noteq> current then Inl (Transition CAS_CONFLICT)
            else
              bindE (commit_transition iso_text cfg ready_row t i s) (\<lambda>(result, s').
              if \<not> control_commit_valid iso_text result then Inl (Transition INVALID_RESPONSE)
              else if co_transition result \<noteq> t \<or> co_outbox result \<noteq> i
              then Inl (Transition INVALID_RESPONSE)
              else Inr (result, s')))))))"

definition load_active_governed_registry ::
  "(instant \<Rightarrow> string) \<Rightarrow> version_reader \<Rightarrow> registry_scope \<Rightarrow> control_store \<Rightarrow> scoped_snapshot controlled" where
  "load_active_governed_registry iso_text versions scope s =
     bindE (load_active_pointer scope s) (\<lambda>found.
     case found of None \<Rightarrow> Inl (Transition POINTER_NOT_FOUND)
     | Some pointer \<Rightarrow>
         bindE (load_strict_version versions scope (ptr_registry_version pointer)) (\<lambda>version.
         if \<not> version_matches_pointer version pointer then Inl (Transition VERSION_INVALID)
         else Inr ((gv_snapshot version)\<lparr>ss_activation_generation := Some (ptr_generation pointer),
                ss_active_pointer_fingerprint :=
                  Some (registry_projection_fingerprint iso_text pointer)\<rparr>)))"

section \<open>Reconciliation\<close>

text \<open>\<open>{finding.code: finding for finding in findings}\<close>: a later finding with the same code replaces
  the earlier one at its place.\<close>

fun unique_findings :: "reconciliation_finding list \<Rightarrow> reconciliation_finding list" where
  "unique_findings [] = []"
| "unique_findings (x # xs) =
     (let last_x = last (x # filter (\<lambda>y. fi_code y = fi_code x) xs)
      in last_x # unique_findings (filter (\<lambda>y. fi_code y \<noteq> fi_code x) xs))"

definition finding_of ::
  "reconciliation_code \<Rightarrow> reconciliation_severity \<Rightarrow> string \<Rightarrow> reconciliation_finding" where
  "finding_of kind severity message = \<lparr>fi_code = kind, fi_severity = severity, fi_message = message\<rparr>"

definition version_findings ::
  "version_reader \<Rightarrow> registry_scope \<Rightarrow> active_pointer \<Rightarrow> reconciliation_finding list controlled" where
  "version_findings versions scope pointer =
     (let corrupt = [finding_of VERSION_CORRUPT SEV_BLOCKING
            ''The active immutable registry version is unavailable or invalid.'']
      in case load_strict_version versions scope (ptr_registry_version pointer) of
           Inl (Transition _) \<Rightarrow> Inr corrupt
         | Inl e \<Rightarrow> Inl e
         | Inr version \<Rightarrow> Inr (if version_matches_pointer version pointer then [] else corrupt))"

definition pending_findings ::
  "active_pointer \<Rightarrow> projection_state \<Rightarrow> outbox_item option \<Rightarrow> reconciliation_finding list" where
  "pending_findings pointer desired pending =
     (case pending of None \<Rightarrow> []
      | Some i \<Rightarrow>
          if ptr_generation (pj_pointer (ob_desired i)) < ptr_generation pointer
          then [finding_of SUPERSEDED SEV_WARNING
                  ''The pending projection was superseded by a newer activation.'']
          else if ob_desired i \<noteq> desired
          then [finding_of PROJECTION_CONFLICT SEV_BLOCKING
                  ''The pending projection conflicts with the authoritative pointer.'']
          else [finding_of PENDING_OUTBOX SEV_WARNING
                  ''The authoritative activation still has a pending projection.''])"

definition observed_finding ::
  "active_pointer \<Rightarrow> projection_state \<Rightarrow> projection_state option \<Rightarrow> reconciliation_finding" where
  "observed_finding pointer desired observed =
     (case observed of
        None \<Rightarrow> finding_of PROJECTION_MISSING SEV_WARNING
                 ''The DataHub active-pointer projection is missing.''
      | Some p \<Rightarrow>
          if ptr_generation (pj_pointer p) < ptr_generation pointer
          then finding_of PROJECTION_BEHIND SEV_WARNING
                 ''The DataHub active-pointer projection is behind.''
          else if ptr_generation (pj_pointer p) > ptr_generation pointer
          then finding_of PROJECTION_AHEAD SEV_BLOCKING
                 ''The DataHub active-pointer projection has an unknown newer generation.''
          else if p \<noteq> desired
          then finding_of PROJECTION_CONFLICT SEV_BLOCKING
                 ''The DataHub active-pointer projection conflicts at the current generation.''
          else finding_of IN_SYNC SEV_INFO
                 ''The DataHub active-pointer projection matches the control plane.'')"

definition inspect_registry_reconciliation ::
  "(instant \<Rightarrow> string) \<Rightarrow> store_config \<Rightarrow> version_reader \<Rightarrow> 'w projector \<Rightarrow> registry_scope \<Rightarrow>
   datetime \<Rightarrow> 'w \<Rightarrow> control_store \<Rightarrow> reconciliation_report controlled" where
  "inspect_registry_reconciliation iso_text cfg versions port scope inspected w s =
     bindE (load_active_pointer scope s) (\<lambda>found.
     case found of None \<Rightarrow> Inl (Transition POINTER_NOT_FOUND)
     | Some pointer \<Rightarrow>
         bindE (construct_model (projection_state_valid iso_text)
           \<lparr>pj_pointer = pointer,
            pj_projection_fingerprint = registry_projection_fingerprint iso_text pointer\<rparr>) (\<lambda>desired.
         bindE (read_projection iso_text port w scope) (\<lambda>observed.
         bindE (load_pending iso_text scope s) (\<lambda>pending.
         bindE (version_findings versions scope pointer) (\<lambda>version.
         bindE (audit_gap cfg (ptr_transition_id pointer) (sc_workspace_id scope) s) (\<lambda>gap.
         case inspected of Naive _ \<Rightarrow> Inl ValidationError
         | Aware inspected_at \<Rightarrow> construct_model (reconciliation_report_valid iso_text)
           \<lparr>re_scope = scope, re_active_pointer = pointer, re_desired_projection = desired,
            re_observed_projection = observed, re_pending_outbox = pending,
            re_findings = unique_findings
              (version @ pending_findings pointer desired pending
               @ (if gap then [finding_of AUDIT_GAP SEV_BLOCKING
                    ''The authoritative activation audit chain is missing or invalid.''] else [])
               @ [observed_finding pointer desired observed]),
            re_inspected_at = inspected_at\<rparr>))))))"

definition prepare_registry_reconciliation_approval ::
  "(instant \<Rightarrow> string) \<Rightarrow> reconciliation_report \<Rightarrow> string \<Rightarrow> datetime \<Rightarrow> reconciliation_confirmation \<Rightarrow>
   reconciliation_approval controlled" where
  "prepare_registry_reconciliation_approval iso_text r actor approved confirm =
     except_value_error APPROVAL_MISMATCH
       (bindE (require_aware approved) (\<lambda>t.
        bindE (registry_reconciliation_approval_id iso_text r actor t confirm) (\<lambda>i.
        construct_model reconciliation_approval_valid
          \<lparr>rc_id = i, rc_report_fingerprint = report_fingerprint iso_text r, rc_scope = re_scope r,
           rc_generation = ptr_generation (re_active_pointer r),
           rc_registry_fingerprint = ptr_registry_fingerprint (re_active_pointer r),
           rc_actor = actor, rc_approved_at = t, rc_confirmation = confirm\<rparr>)))"

definition build_projection_outcome ::
  "(instant \<Rightarrow> string) \<Rightarrow> reconciliation_report \<Rightarrow> outbox_item \<Rightarrow> outbox_status \<Rightarrow> datetime \<Rightarrow>
   projection_state option \<Rightarrow> projection_outcome controlled" where
  "build_projection_outcome iso_text r pending status occurred observed =
     (case occurred of Naive _ \<Rightarrow> Inl ValidationError
      | Aware occurred_at \<Rightarrow> construct_model (projection_outcome_valid iso_text)
       \<lparr>po_outbox_id = ob_id pending, po_transition_id = ob_transition_id pending,
        po_scope = re_scope r, po_generation = ptr_generation (pj_pointer (ob_desired pending)),
        po_status = status, po_observed_projection = observed, po_occurred_at = occurred_at,
        po_reason_code = None\<rparr>)"

definition BLOCKING_CODES :: "reconciliation_code set" where
  "BLOCKING_CODES = {PROJECTION_AHEAD, PROJECTION_CONFLICT, VERSION_CORRUPT, AUDIT_GAP}"

definition project_and_read_back ::
  "(instant \<Rightarrow> string) \<Rightarrow> 'w projector \<Rightarrow> reconciliation_report \<Rightarrow> reconciliation_approval \<Rightarrow> 'w \<Rightarrow>
   (projection_state \<times> 'w) controlled" where
  "project_and_read_back iso_text port r a w =
     bindE (dh_project port w (re_desired_projection r) a) (\<lambda>(raw, w').
     bindE (validate_projection_response iso_text raw (re_scope r)) (\<lambda>observed.
     if observed \<noteq> re_desired_projection r then Inl (Transition INVALID_RESPONSE)
     else bindE (read_projection iso_text port w' (re_scope r)) (\<lambda>read_back.
       if read_back \<noteq> Some (re_desired_projection r) then Inl (Transition INVALID_RESPONSE)
       else Inr (re_desired_projection r, w'))))"

definition reconcile_registry_projection ::
  "(instant \<Rightarrow> string) \<Rightarrow> store_config \<Rightarrow> version_reader \<Rightarrow> 'w projector \<Rightarrow> reconciliation_report \<Rightarrow>
   reconciliation_approval \<Rightarrow> datetime \<Rightarrow> 'w \<Rightarrow> control_store \<Rightarrow>
   (projection_outcome \<times> 'w \<times> control_store) controlled" where
  "reconcile_registry_projection iso_text cfg versions port r a occurred w s =
     bindE (except_value_error APPROVAL_MISMATCH
       (validate_registry_reconciliation_approval iso_text r a)) (\<lambda>_.
     bindE (inspect_registry_reconciliation iso_text cfg versions port (re_scope r)
       (Aware (re_inspected_at r)) w s) (\<lambda>current.
     if current \<noteq> r then Inl (Transition RECONCILIATION_CONFLICT)
     else case re_pending_outbox r of
       None \<Rightarrow> Inl (Transition RECONCILIATION_CONFLICT)
     | Some pending \<Rightarrow>
         let codes = set (map fi_code (re_findings r)) in
         if codes \<inter> BLOCKING_CODES \<noteq> {} then Inl (Transition RECONCILIATION_CONFLICT)
         else if SUPERSEDED \<in> codes
         then bindE (build_projection_outcome iso_text r pending OB_SUPERSEDED occurred None) (\<lambda>u.
              bindE (record_projection_outcome iso_text cfg u s) (\<lambda>s'. Inr (u, w, s')))
         else
           bindE (if IN_SYNC \<in> codes
                  then (case re_observed_projection r of None \<Rightarrow> Inl AssertionError
                        | Some observed \<Rightarrow> Inr (observed, w))
                  else project_and_read_back iso_text port r a w) (\<lambda>(observed, w').
           bindE (build_projection_outcome iso_text r pending OB_DELIVERED occurred
             (Some observed)) (\<lambda>u.
           bindE (record_projection_outcome iso_text cfg u s) (\<lambda>s'. Inr (u, w', s'))))))"

end
