(* ===== verification/Activation_Properties.thy ===== *)
theory Activation_Properties
  imports Registry_Activation
begin

text \<open>
  Properties of the use cases of \<open>Registry_Activation\<close>: what a successful commit, read, rollback and
  reconciliation guarantee, that an approved activation does commit, and what a rollback cannot
  reach. The samples at the end run the use cases on a concrete store, catalog and projector.
\<close>

section \<open>What a successful use case has checked\<close>

lemma except_value_error_Inr [outcome_simps]:
  "except_value_error c m = Inr x \<longleftrightarrow> m = Inr x"
  by (auto simp: except_value_error_def split: sum.splits exn.splits)

lemma except_value_error_returns [simp]: "except_value_error c (Inr x) = Inr x"
  by (simp add: except_value_error_def)

lemma load_active_pointer_eq:
  "load_active_pointer scope s = Inr current \<longleftrightarrow>
     find_pointer scope s = current \<and> optional active_pointer_valid current"
proof (cases "find_pointer scope s")
  case (Some p)
  then have "ptr_scope p = scope"
    using find_SomeD [OF Some [unfolded find_pointer_def]] by simp
  with Some show ?thesis by (auto simp: load_active_pointer_def load_active_def)
qed (auto simp: load_active_pointer_def load_active_def)

lemma load_strict_version_eq:
  "load_strict_version versions scope v = Inr target \<longleftrightarrow>
     versions scope v = Inr target \<and> governed_version_valid target \<and> scope_of target = scope
     \<and> gv_trust target = STRICT"
  by (auto simp: load_strict_version_def bindE_eq_Inr)

lemma validate_approval_eq:
  "validate_registry_activation_approval f p a = Inr u \<longleftrightarrow>
     activation_proposal_valid f p \<and> activation_approval_valid f a \<and> aa_proposal a = p"
  by (auto simp: validate_registry_activation_approval_def)

lemma load_transitions_cases:
  assumes "load_transitions f scope limit s = Inr rows"
  shows "rows = take (nat limit) (sort_key transition_generation (history scope s))"
    and "1 \<le> limit" and "limit \<le> 1000" and "list_all (activation_transition_valid f) rows"
  using assms
  by (auto simp: load_transitions_def list_transitions_def history_def bindE_eq_Inr Let_def
      split: if_splits)

lemma current_matches_expects: "current_matches_proposal current p = expects_pointer p current"
  by (simp add: current_matches_proposal_def expects_pointer_def)

lemma materialize_cases:
  assumes "materialize f p a committed replaying current s = Inr (tr, i)"
  obtains previous t where "committed = Aware t" "tr = approved_transition a previous t"
    "activation_transition_valid f tr" "\<not> replaying \<Longrightarrow> previous = current"
    "build_registry_projection_outbox f tr = (Inr i :: outbox_item controlled)" "aa_proposal a = p"
proof -
  from assms obtain previous where
    p: "(if replaying then load_proposal_previous_pointer f p s else Inr current) = Inr previous"
    and b: "build_registry_activation_transition f p a previous committed
        = (Inr tr :: activation_transition controlled)"
    and o: "build_registry_projection_outbox f tr = (Inr i :: outbox_item controlled)"
    by (auto simp: materialize_def outcome_simps)
  from b obtain t where "committed = Aware t" "tr = approved_transition a previous t"
    "activation_transition_valid f tr" "aa_proposal a = p"
    by (auto simp: build_transition_eq construct_model_eq_Inr split: if_splits datetime.splits)
  with p o show ?thesis by (intro that) auto
qed

text \<open>A successful commit, taken apart.\<close>

lemma commit_activation_cases:
  assumes "commit_registry_activation f cfg ready versions p a committed s = Inr (c, s')"
  obtains current target previous t i where
    "activation_approval_valid f a" "aa_proposal a = p" "committed = Aware t"
    "find_pointer (ac_scope p) s = current"
    "load_strict_version versions (ac_scope p) (ac_target_registry_version p) = Inr target"
    "version_matches_proposal target p"
    "activation_transition_valid f (approved_transition a previous t)"
    "commit_transition f cfg ready (approved_transition a previous t) i s = Inr (c, s')"
    "co_transition c = approved_transition a previous t"
    "current = Some (approved_pointer a t) \<or> previous = current"
proof -
  let ?replaying = "\<lambda>current. case current of None \<Rightarrow> False | Some q \<Rightarrow>
    ptr_transition_id q = registry_activation_transition_id a
    \<and> ptr_generation q = ac_expected_generation p + 1"
  obtain u current target w tr i c0 s0 where
    v: "validate_registry_activation_approval f p a = (Inr u :: unit controlled)"
    and l: "load_active_pointer (ac_scope p) s = Inr current"
    and m: "\<not> (\<not> current_matches_proposal current p \<and> \<not> ?replaying current)"
    and st: "load_strict_version versions (ac_scope p) (ac_target_registry_version p) = Inr target"
    and vm: "\<not> \<not> version_matches_proposal target p"
    and ma: "materialize f p a committed (?replaying current) current s = Inr (tr, i)"
    and rp: "\<not> (?replaying current \<and> Some (at_active_pointer tr) \<noteq> current)"
    and ct: "commit_transition f cfg ready tr i s = Inr (c0, s0)"
    and v0: "\<not> \<not> control_commit_valid f c0"
    and same: "\<not> (co_transition c0 \<noteq> tr \<or> co_outbox c0 \<noteq> i)"
    and r0: "(Inr (c0, s0) :: (control_commit \<times> control_store) controlled) = Inr (c, s')"
    using assms
    unfolding commit_registry_activation_def bindE_eq_Inr except_value_error_Inr Let_def if_Inl_eq_Inr
      split_paired_Ex prod.case
    by (elim exE conjE) (rule that)
  obtain previous t where t: "committed = Aware t" "tr = approved_transition a previous t"
    "activation_transition_valid f tr" "\<not> ?replaying current \<Longrightarrow> previous = current"
    using materialize_cases [OF ma] by metis
  have r: "c0 = c" "s0 = s'" "co_transition c = tr"
    using same r0 by auto
  have ap: "at_active_pointer tr = approved_pointer a t" by (simp add: t(2) approved_transition_def)
  show ?thesis
  proof (rule that [OF _ _ t(1) _ st vm [unfolded not_not]])
    show "current = Some (approved_pointer a t) \<or> previous = current"
      using rp t(4) ap by auto
  qed (use v l t r ct in \<open>auto simp: validate_approval_eq load_active_pointer_eq\<close>)
qed

text \<open>An approved transition that is in the store left its pointer there or an older one.\<close>

lemma stored_transition_not_expected:
  assumes "store_consistent f s" and "t \<in> set (cs_transitions s)" and "activation_transition_valid f t"
  shows "find_pointer (transition_scope t) s \<noteq> at_previous_pointer t"
proof -
  obtain q where q: "find_pointer (transition_scope t) s = Some q" "transition_generation t \<le> ptr_generation q"
    by (rule history_bounded [OF assms(1,2)])
  have g: "transition_generation t = (case at_previous_pointer t of None \<Rightarrow> 1 | Some p \<Rightarrow> ptr_generation p + 1)"
    using valid_transition_generation [OF assms(3)] by simp
  show ?thesis
  proof
    assume "find_pointer (transition_scope t) s = at_previous_pointer t"
    with q g show False by simp
  qed
qed

lemma approved_transition_sel [simp]:
  "at_active_pointer (approved_transition a previous t) = approved_pointer a t"
  "at_previous_pointer (approved_transition a previous t) = previous"
  "transition_scope (approved_transition a previous t) = ac_scope (aa_proposal a)"
  "at_approval (approved_transition a previous t) = a"
  "at_id (approved_transition a previous t) = registry_activation_transition_id a"
  "at_committed_at (approved_transition a previous t) = t"
  by (simp_all add: approved_transition_def approved_pointer_def transition_scope_def)

lemma replayed_is_stored:
  assumes "load_replayed_commit f t i s = Inr (Some c)"
  shows "t \<in> set (cs_transitions s)"
proof -
  from assms obtain x where x: "find (\<lambda>x. at_id x = at_id t) (cs_transitions s) = Some x" "x = t"
    by (auto simp: load_replayed_commit_def outcome_simps split: option.splits if_splits)
  then show ?thesis using find_SomeD [OF x(1)] by simp
qed

text \<open>After a successful commit, the first or a retry, exactly one pointer has moved.\<close>

lemma commit_activation_effect:
  assumes "reachable_store f keys offset s"
    and "commit_registry_activation f cfg ready versions p a committed s = Inr (c, s')"
  shows "\<exists>t target. committed = Aware t
    \<and> activation_approval_valid f a \<and> aa_proposal a = p \<and> aa_approved_at a \<le> t
    \<and> versions (ac_scope p) (ac_target_registry_version p) = Inr target
    \<and> gv_trust target = STRICT \<and> version_matches_proposal target p
    \<and> at_active_pointer (co_transition c) = approved_pointer a t
    \<and> ptr_generation (approved_pointer a t) = ac_expected_generation p + 1
    \<and> (\<forall>scope. find_pointer scope s' =
         (if scope = ac_scope p then Some (approved_pointer a t) else find_pointer scope s))"
proof -
  have s: "store_consistent f s" by (rule reachable_consistent [OF assms(1)])
  obtain current target previous t i where
    a: "activation_approval_valid f a" "aa_proposal a = p" "committed = Aware t"
    and cur: "find_pointer (ac_scope p) s = current"
    and st: "load_strict_version versions (ac_scope p) (ac_target_registry_version p) = Inr target"
      "version_matches_proposal target p"
    and tv: "activation_transition_valid f (approved_transition a previous t)"
    and ct: "commit_transition f cfg ready (approved_transition a previous t) i s = Inr (c, s')"
    and c: "co_transition c = approved_transition a previous t"
    and alt: "current = Some (approved_pointer a t) \<or> previous = current"
    by (rule commit_activation_cases [OF assms(2)])
  have find: "find_pointer scope s' =
      (if scope = ac_scope p then Some (approved_pointer a t) else find_pointer scope s)" for scope
    using ct
  proof (cases rule: commit_cases)
    case replay
    have "previous \<noteq> current"
      using stored_transition_not_expected [OF s replayed_is_stored [OF replay(1)] tv] a(2) cur by auto
    with alt replay(2) cur show ?thesis by simp
  next
    case (fresh key)
    then show ?thesis using a(2) by simp
  qed
  have "aa_approved_at a \<le> t" using tv by (simp add: approved_transition_valid_iff)
  then show ?thesis
    using a st find c by (intro exI [of _ t] exI [of _ target]) (auto simp: load_strict_version_eq approved_pointer_def)
qed

text \<open>Property C27. Committing an approved activation or rollback moves exactly one pointer. After a
  successful commit, the first or a retry, the authoritative pointer of the proposal's scope is the
  pointer the approval stands for, one generation after the state the proposal was prepared from;
  the approval is genuine and for this very proposal; the immutable version was re-read, is strict
  and matches the proposal; and the pointers of all other scopes are unchanged.\<close>

theorem commit_moves_one_pointer:
  assumes "reachable_store f keys offset s"
    and "commit_registry_activation f cfg ready versions p a committed s = Inr (c, s')"
  shows "\<exists>t target. committed = Aware t
    \<and> activation_approval_valid f a \<and> aa_proposal a = p \<and> aa_approved_at a \<le> t
    \<and> versions (ac_scope p) (ac_target_registry_version p) = Inr target
    \<and> gv_trust target = STRICT \<and> version_matches_proposal target p
    \<and> at_active_pointer (co_transition c) = approved_pointer a t
    \<and> ptr_generation (approved_pointer a t) = ac_expected_generation p + 1
    \<and> (\<forall>scope. find_pointer scope s' =
         (if scope = ac_scope p then Some (approved_pointer a t) else find_pointer scope s))"
  using commit_activation_effect [OF assms] .

text \<open>Property C29. What readers of the active registry get: the snapshot is well formed, belongs to
  the scope, is the strict immutable version the authoritative pointer names, with its fingerprint
  and decisions, and carries the pointer's generation and projection fingerprint. Any other
  version, a legacy one or a missing pointer is an error, never a snapshot.\<close>

theorem active_registry_is_pointed_version:
  assumes "load_active_governed_registry f versions scope s = Inr snapshot"
  shows "\<exists>pointer version. find_pointer scope s = Some pointer
    \<and> versions scope (ptr_registry_version pointer) = Inr version \<and> gv_trust version = STRICT
    \<and> version_matches_pointer version pointer \<and> scoped_snapshot_valid snapshot
    \<and> ss_scope snapshot = scope \<and> ss_registry snapshot = ss_registry (gv_snapshot version)
    \<and> rs_version (ss_registry snapshot) = ptr_registry_version pointer
    \<and> rs_fingerprint (ss_registry snapshot) = ptr_registry_fingerprint pointer
    \<and> ss_activation_generation snapshot = Some (ptr_generation pointer)
    \<and> ss_active_pointer_fingerprint snapshot = Some (registry_projection_fingerprint f pointer)"
proof -
  from assms obtain pointer version where
    p: "load_active_pointer scope s = Inr (Some pointer)"
    and v: "load_strict_version versions scope (ptr_registry_version pointer) = Inr version"
      "version_matches_pointer version pointer"
    and sn: "snapshot = (gv_snapshot version)\<lparr>ss_activation_generation := Some (ptr_generation pointer),
       ss_active_pointer_fingerprint := Some (registry_projection_fingerprint f pointer)\<rparr>"
    by (auto simp: load_active_governed_registry_def bindE_eq_Inr split: option.splits if_splits)
  have "1 \<le> ptr_generation pointer" "find_pointer scope s = Some pointer"
    using p by (simp_all add: load_active_pointer_eq active_pointer_valid_def)
  moreover have "is_sha256 (registry_projection_fingerprint f pointer)"
    by (simp add: registry_projection_fingerprint_def)
  ultimately show ?thesis
    using v by (intro exI [of _ pointer] exI [of _ version])
      (auto simp: sn load_strict_version_eq governed_version_valid_def scoped_snapshot_valid_def
        version_matches_pointer_def)
qed

section \<open>Rollback\<close>

lemma build_proposal_cases:
  assumes "build_proposal f action current target rollback handoff = Inr p"
  shows "activation_proposal_valid f p" and "ac_action p = action" and "ac_scope p = scope_of target"
    and "ac_expected_generation p = (case current of None \<Rightarrow> 0 | Some q \<Rightarrow> ptr_generation q)"
    and "ac_expected_registry_version p = map_option ptr_registry_version current"
    and "ac_expected_registry_fingerprint p = map_option ptr_registry_fingerprint current"
    and "ac_expected_transition_id p = map_option ptr_transition_id current"
    and "ac_target_registry_version p = rs_version (registry_of target)"
    and "ac_target_registry_fingerprint p = rs_fingerprint (registry_of target)"
    and "target_urn (scope_of target) (rs_version (registry_of target)) = Some (ac_target_registry_urn p)"
    and "ac_target_publication_approval_id p = gv_publication_approval_id target"
    and "ac_decision_ids p = semantic_registry_decision_ids (registry_of target)"
    and "ac_rollback_transition_id p = rollback" and "ac_activation_ready_handoff p = handoff"
proof -
  from assms have v: "activation_proposal_valid f p"
    and rest: "ac_action p = action \<and> ac_scope p = scope_of target
     \<and> ac_expected_generation p = (case current of None \<Rightarrow> 0 | Some q \<Rightarrow> ptr_generation q)
     \<and> ac_expected_registry_version p = map_option ptr_registry_version current
     \<and> ac_expected_registry_fingerprint p = map_option ptr_registry_fingerprint current
     \<and> ac_expected_transition_id p = map_option ptr_transition_id current
     \<and> ac_target_registry_version p = rs_version (registry_of target)
     \<and> ac_target_registry_fingerprint p = rs_fingerprint (registry_of target)
     \<and> ac_target_publication_approval_id p = gv_publication_approval_id target
     \<and> ac_decision_ids p = semantic_registry_decision_ids (registry_of target)
     \<and> ac_rollback_transition_id p = rollback \<and> ac_activation_ready_handoff p = handoff"
    by (auto simp: build_proposal_def bindE_eq_Inr construct_model_eq_Inr)
  from v rest show "activation_proposal_valid f p" "ac_action p = action" "ac_scope p = scope_of target"
    "ac_expected_generation p = (case current of None \<Rightarrow> 0 | Some q \<Rightarrow> ptr_generation q)"
    "ac_expected_registry_version p = map_option ptr_registry_version current"
    "ac_expected_registry_fingerprint p = map_option ptr_registry_fingerprint current"
    "ac_expected_transition_id p = map_option ptr_transition_id current"
    "ac_target_registry_version p = rs_version (registry_of target)"
    "ac_target_registry_fingerprint p = rs_fingerprint (registry_of target)"
    "ac_target_publication_approval_id p = gv_publication_approval_id target"
    "ac_decision_ids p = semantic_registry_decision_ids (registry_of target)"
    "ac_rollback_transition_id p = rollback" "ac_activation_ready_handoff p = handoff" by blast+
  show "target_urn (scope_of target) (rs_version (registry_of target)) = Some (ac_target_registry_urn p)"
    using v rest
    by (auto simp: activation_proposal_valid_def compare_and_swap_shape_def target_urn_def Let_def
        split: sum.splits)
qed

lemma prepare_rollback_cases:
  assumes "prepare_registry_rollback f cfg versions scope limit target_id s = Inr p"
  obtains current historical rows target where
    "find_pointer scope s = Some current" "load_transitions f scope limit s = Inr rows"
    "find (\<lambda>t. at_id t = target_id) rows = Some historical"
    "transition_scope historical = scope" "transition_generation historical < ptr_generation current"
    "has_audit_event target_id s"
    "load_strict_version versions scope (ptr_registry_version (at_active_pointer historical)) = Inr target"
    "version_matches_pointer target (at_active_pointer historical)"
    "build_proposal f ROLLBACK (Some current) target (Some target_id) None = Inr p"
proof -
  from assms obtain current rows historical target where
    l: "load_active_pointer scope s = Inr (Some current)" "load_transitions f scope limit s = Inr rows"
    and h: "find (\<lambda>t. at_id t = target_id) rows = Some historical"
    and g: "transition_scope historical = scope" "transition_generation historical < ptr_generation current"
    and gap: "audit_gap cfg (at_id historical) (sc_workspace_id scope) s = Inr False"
    and v: "load_strict_version versions scope (ptr_registry_version (at_active_pointer historical)) = Inr target"
      "version_matches_pointer target (at_active_pointer historical)"
    and b: "build_proposal f ROLLBACK (Some current) target (Some (at_id historical)) None = Inr p"
    unfolding prepare_registry_rollback_def bindE_eq_Inr
    by (auto simp: bindE_eq_Inr not_le split: option.splits if_splits)
  have "at_id historical = target_id" using find_SomeD [OF h] by simp
  moreover have "has_audit_event (at_id historical) s"
    using gap by (simp add: audit_gap_def split: if_splits)
  ultimately show ?thesis
    using l h g v b by (intro that) (simp_all add: load_active_pointer_eq)
qed

text \<open>The facts both statements below rest on.\<close>

lemma rollback_anchored:
  assumes "prepare_registry_rollback f cfg versions scope limit target_id s = Inr p"
  shows "\<exists>historical current. historical \<in> set (history scope s) \<and> at_id historical = target_id
    \<and> find_pointer scope s = Some current
    \<and> ptr_generation (at_active_pointer historical) < ptr_generation current
    \<and> has_audit_event target_id s
    \<and> activation_proposal_valid f p \<and> ac_action p = ROLLBACK
    \<and> ac_rollback_transition_id p = Some target_id \<and> pointer_matches_proposal current p
    \<and> (\<forall>a t. aa_proposal a = p \<longrightarrow>
         ptr_scope (approved_pointer a t) = scope
         \<and> ptr_registry_version (approved_pointer a t) = ptr_registry_version (at_active_pointer historical)
         \<and> ptr_registry_fingerprint (approved_pointer a t)
             = ptr_registry_fingerprint (at_active_pointer historical)
         \<and> ptr_registry_target (approved_pointer a t) = ptr_registry_target (at_active_pointer historical)
         \<and> ptr_decision_ids (approved_pointer a t) = ptr_decision_ids (at_active_pointer historical)
         \<and> ptr_generation (approved_pointer a t) = ptr_generation current + 1)"
proof -
  obtain current historical rows target where
    cur: "find_pointer scope s = Some current" and rows: "load_transitions f scope limit s = Inr rows"
    and h: "find (\<lambda>t. at_id t = target_id) rows = Some historical"
    and sc: "transition_scope historical = scope" "transition_generation historical < ptr_generation current"
    and ev: "has_audit_event target_id s"
    and v: "load_strict_version versions scope (ptr_registry_version (at_active_pointer historical)) = Inr target"
      "version_matches_pointer target (at_active_pointer historical)"
    and b: "build_proposal f ROLLBACK (Some current) target (Some target_id) None = Inr p"
    by (rule prepare_rollback_cases [OF assms(1)])
  note bp = build_proposal_cases [OF b]
  have hist: "historical \<in> set (history scope s)" "at_id historical = target_id"
    using find_SomeD [OF h] set_take_subset unfolding load_transitions_cases(1) [OF rows] by fastforce+
  have "ac_scope p = scope" using bp(3) v(1) by (simp add: load_strict_version_eq)
  moreover have "ptr_scope current = scope" using find_SomeD [OF cur [unfolded find_pointer_def]] by simp
  moreover have "ptr_scope (at_active_pointer historical) = scope_of target"
    using v(2) by (simp add: version_matches_pointer_def)
  ultimately show ?thesis
    using cur hist sc ev bp v(2)
    by (intro exI [of _ historical] exI [of _ current])
      (simp add: approved_pointer_def version_matches_pointer_def transition_generation_def
        pointer_matches_proposal_def)
qed

text \<open>Approved and committed, at once or in any later state of the store, a rollback restores that pointer.\<close>

lemma rollback_restores_history:
  assumes "prepare_registry_rollback f cfg versions scope limit target_id s = Inr p"
    and "reachable_store f keys offset s'"
    and "commit_registry_activation f cfg' ready versions' p a committed s' = Inr (c, s'')"
  shows "\<exists>historical current active. historical \<in> set (history scope s) \<and> at_id historical = target_id
    \<and> find_pointer scope s = Some current
    \<and> ptr_generation (at_active_pointer historical) < ptr_generation current
    \<and> has_audit_event target_id s
    \<and> find_pointer scope s'' = Some active
    \<and> ptr_registry_version active = ptr_registry_version (at_active_pointer historical)
    \<and> ptr_registry_fingerprint active = ptr_registry_fingerprint (at_active_pointer historical)
    \<and> ptr_registry_target active = ptr_registry_target (at_active_pointer historical)
    \<and> ptr_decision_ids active = ptr_decision_ids (at_active_pointer historical)
    \<and> ptr_generation active = ptr_generation current + 1"
proof -
  obtain historical current where hist: "historical \<in> set (history scope s)" "at_id historical = target_id"
    "find_pointer scope s = Some current"
    "ptr_generation (at_active_pointer historical) < ptr_generation current" "has_audit_event target_id s"
    and target: "\<forall>a t. aa_proposal a = p \<longrightarrow>
         ptr_scope (approved_pointer a t) = scope
         \<and> ptr_registry_version (approved_pointer a t) = ptr_registry_version (at_active_pointer historical)
         \<and> ptr_registry_fingerprint (approved_pointer a t)
             = ptr_registry_fingerprint (at_active_pointer historical)
         \<and> ptr_registry_target (approved_pointer a t) = ptr_registry_target (at_active_pointer historical)
         \<and> ptr_decision_ids (approved_pointer a t) = ptr_decision_ids (at_active_pointer historical)
         \<and> ptr_generation (approved_pointer a t) = ptr_generation current + 1"
    using rollback_anchored [OF assms(1)] by blast
  obtain t where a: "aa_proposal a = p"
    and fp: "find_pointer (ac_scope p) s'' = Some (approved_pointer a t)"
    using commit_activation_effect [OF assms(2,3)] by auto
  have "ac_scope p = scope" using target a by (auto simp: approved_pointer_def)
  with hist target a fp show ?thesis
    by (intro exI [of _ historical] exI [of _ current] exI [of _ "approved_pointer a t"]) simp
qed

text \<open>Property C30. A prepared rollback is anchored in the audited history: its target is a transition of
  the scope's history, older than the active pointer and with an audit event, whose version was
  re-read and is strict; it expects exactly the active pointer; and whoever approves it and whenever,
  the pointer the approval stands for has the version, fingerprint, document and decisions the
  transition had activated, in the generation after the active one.\<close>

theorem rollback_targets_history:
  assumes "prepare_registry_rollback f cfg versions scope limit target_id s = Inr p"
  shows "\<exists>historical current. historical \<in> set (history scope s) \<and> at_id historical = target_id
    \<and> find_pointer scope s = Some current
    \<and> ptr_generation (at_active_pointer historical) < ptr_generation current
    \<and> has_audit_event target_id s
    \<and> activation_proposal_valid f p \<and> ac_action p = ROLLBACK
    \<and> ac_rollback_transition_id p = Some target_id \<and> pointer_matches_proposal current p
    \<and> (\<forall>a t. aa_proposal a = p \<longrightarrow>
         ptr_scope (approved_pointer a t) = scope
         \<and> ptr_registry_version (approved_pointer a t) = ptr_registry_version (at_active_pointer historical)
         \<and> ptr_registry_fingerprint (approved_pointer a t)
             = ptr_registry_fingerprint (at_active_pointer historical)
         \<and> ptr_registry_target (approved_pointer a t) = ptr_registry_target (at_active_pointer historical)
         \<and> ptr_decision_ids (approved_pointer a t) = ptr_decision_ids (at_active_pointer historical)
         \<and> ptr_generation (approved_pointer a t) = ptr_generation current + 1)"
  using rollback_anchored [OF assms] .

text \<open>Property C32. Rollback sees only the oldest transitions. \<open>PrepareRegistryRollback\<close> reads the
  history with \<open>ORDER BY generation LIMIT history_limit\<close>, so once a scope has more than
  \<open>history_limit\<close> activations (100 by default) every later one is refused as a target, although it is
  a previously active transition of the scope.\<close>

theorem rollback_reaches_only_oldest:
  assumes "load_active_pointer scope s = Inr (Some current)"
    and "load_transitions f scope limit s = Inr rows"
    and "distinct (map at_id (history scope s))"
    and "sorted (map transition_generation (history scope s))"
    and "nat limit \<le> k" and "k < length (history scope s)"
  shows "prepare_registry_rollback f cfg versions scope limit (at_id (history scope s ! k)) s
    = Inl (Transition ROLLBACK_NOT_ALLOWED)"
proof -
  let ?h = "history scope s"
  have "sort_key transition_generation ?h = ?h" using assms(4) by (rule sort_key_id_if_sorted)
  then have rows: "rows = take (nat limit) ?h" using load_transitions_cases(1) [OF assms(2)] by simp
  have "at_id t \<noteq> at_id (?h ! k)" if t: "t \<in> set rows" for t
  proof -
    obtain n where "n < nat limit" "n < length ?h" "t = ?h ! n"
      using t unfolding rows by (auto simp: in_set_conv_nth)
    then show ?thesis
      using assms(3,5,6) nth_eq_iff_index_eq [of "map at_id ?h" n k] by simp
  qed
  then have "find (\<lambda>t. at_id t = at_id (?h ! k)) rows = None" by (simp add: find_None_iff)
  then show ?thesis using assms(1,2) by (simp add: prepare_registry_rollback_def)
qed

section \<open>Reconciliation\<close>

lemma set_unique_findings: "fi_code ` set (unique_findings xs) = fi_code ` set xs"
proof (induction xs rule: unique_findings.induct)
  case (2 x xs)
  let ?l = "x # filter (\<lambda>y. fi_code y = fi_code x) xs"
  have "last ?l \<in> set ?l" by (rule last_in_set) simp
  then have "fi_code (last ?l) = fi_code x" by auto
  then show ?case using 2 by (auto simp: Let_def)
qed simp

lemma distinct_unique_findings: "distinct (map fi_code (unique_findings xs))"
proof (induction xs rule: unique_findings.induct)
  case (2 x xs)
  let ?l = "x # filter (\<lambda>y. fi_code y = fi_code x) xs"
  have "last ?l \<in> set ?l" by (rule last_in_set) simp
  then have "fi_code (last ?l) = fi_code x" by auto
  then show ?case using 2 by (auto simp: Let_def set_unique_findings)
qed simp

lemma inspect_cases:
  assumes "inspect_registry_reconciliation f cfg versions port scope z w s = Inr r"
  obtains pointer desired observed pending version gap where
    "find_pointer scope s = Some pointer" "re_scope r = scope" "re_active_pointer r = pointer"
    "desired = \<lparr>pj_pointer = pointer,
       pj_projection_fingerprint = registry_projection_fingerprint f pointer\<rparr>"
    "re_desired_projection r = desired" "read_projection f port w scope = Inr observed"
    "re_observed_projection r = observed" "load_pending f scope s = Inr pending"
    "re_pending_outbox r = pending" "version_findings versions scope pointer = Inr version"
    "audit_gap cfg (ptr_transition_id pointer) (sc_workspace_id scope) s = Inr gap"
    "fi_code ` set (re_findings r) = fi_code ` set (version @ pending_findings pointer desired pending
       @ (if gap then [finding_of AUDIT_GAP SEV_BLOCKING
                    ''The authoritative activation audit chain is missing or invalid.''] else [])
       @ [observed_finding pointer desired observed])"
proof -
  obtain pointer where p: "load_active_pointer scope s = Inr (Some pointer)"
    using assms by (auto simp: inspect_registry_reconciliation_def bindE_eq_Inr split: option.splits)
  define desired where "desired = \<lparr>pj_pointer = pointer,
       pj_projection_fingerprint = registry_projection_fingerprint f pointer\<rparr>"
  obtain observed pending version gap t where
    "read_projection f port w scope = Inr observed" "load_pending f scope s = Inr pending"
    "version_findings versions scope pointer = Inr version"
    "audit_gap cfg (ptr_transition_id pointer) (sc_workspace_id scope) s = Inr gap"
    "r = \<lparr>re_scope = scope, re_active_pointer = pointer, re_desired_projection = desired,
            re_observed_projection = observed, re_pending_outbox = pending,
            re_findings = unique_findings
              (version @ pending_findings pointer desired pending
               @ (if gap then [finding_of AUDIT_GAP SEV_BLOCKING
                    ''The authoritative activation audit chain is missing or invalid.''] else [])
               @ [observed_finding pointer desired observed]),
            re_inspected_at = t\<rparr>"
    using assms unfolding inspect_registry_reconciliation_def p bindE_simps option.case bindE_eq_Inr
      construct_model_eq_Inr desired_def
    by (cases z) (auto simp: construct_model_eq_Inr)
  with p show ?thesis
    by (intro that) (simp_all add: load_active_pointer_eq desired_def set_unique_findings)
qed

text \<open>What the absence of blocking codes says of the parts of a report.\<close>

lemma version_findings_none:
  assumes "version_findings versions scope pointer = Inr fs" and "VERSION_CORRUPT \<notin> fi_code ` set fs"
  obtains version where "versions scope (ptr_registry_version pointer) = Inr version"
    "gv_trust version = STRICT" "version_matches_pointer version pointer"
  using assms that
  by (auto simp: version_findings_def Let_def finding_of_def load_strict_version_eq
      split: sum.splits exn.splits if_splits)

lemma observed_finding_code:
  "fi_code (observed_finding pointer desired observed) = IN_SYNC \<longleftrightarrow>
     observed = Some desired \<and> ptr_generation (pj_pointer desired) = ptr_generation pointer"
  by (auto simp: observed_finding_def finding_of_def split: option.splits)

lemma observed_finding_never: "fi_code (observed_finding pointer desired observed) \<noteq> SUPERSEDED"
  by (auto simp: observed_finding_def finding_of_def split: option.splits)

lemma pending_findings_codes:
  "SUPERSEDED \<in> fi_code ` set (pending_findings pointer desired (Some i)) \<longleftrightarrow>
     ptr_generation (pj_pointer (ob_desired i)) < ptr_generation pointer"
  "IN_SYNC \<notin> fi_code ` set (pending_findings pointer desired pending)"
  by (auto simp: pending_findings_def finding_of_def split: option.splits)

lemma pending_findings_unblocked:
  assumes "PROJECTION_CONFLICT \<notin> fi_code ` set (pending_findings pointer desired (Some i))"
    and "\<not> ptr_generation (pj_pointer (ob_desired i)) < ptr_generation pointer"
  shows "ob_desired i = desired"
  using assms by (auto simp: pending_findings_def finding_of_def split: if_splits)

lemma version_findings_codes:
  "version_findings versions scope pointer = Inr fs \<Longrightarrow> fi_code ` set fs \<subseteq> {VERSION_CORRUPT}"
  by (auto simp: version_findings_def Let_def finding_of_def split: sum.splits exn.splits if_splits)

lemma built_outcome:
  assumes "build_projection_outcome f r pending status z observed = Inr u"
  shows "po_outbox_id u = ob_id pending" and "po_status u = status"
  using assms
  by (cases z; auto simp: build_projection_outcome_def construct_model_eq_Inr)+

lemma project_and_read_back_cases:
  assumes "project_and_read_back f port r a w = Inr (observed, w')"
  shows "observed = re_desired_projection r"
    and "read_projection f port w' (re_scope r) = Inr (Some (re_desired_projection r))"
  using assms by (auto simp: project_and_read_back_def bindE_eq_Inr split: if_splits)


text \<open>A report without blocking findings.\<close>

lemma clear_report_cases:
  assumes ins: "inspect_registry_reconciliation f cfg versions port scope z w s = Inr r"
    and pend: "re_pending_outbox r = Some pending"
    and clear: "set (map fi_code (re_findings r)) \<inter> BLOCKING_CODES = {}"
  obtains pointer version where
    "find_pointer scope s = Some pointer" "versions scope (ptr_registry_version pointer) = Inr version"
    "gv_trust version = STRICT" "version_matches_pointer version pointer"
    "has_audit_event (ptr_transition_id pointer) s" "load_pending f scope s = Inr (Some pending)"
    "pj_pointer (re_desired_projection r) = pointer"
    "SUPERSEDED \<in> set (map fi_code (re_findings r)) \<longleftrightarrow>
       ptr_generation (pj_pointer (ob_desired pending)) < ptr_generation pointer"
    "SUPERSEDED \<notin> set (map fi_code (re_findings r)) \<longrightarrow> ob_desired pending = re_desired_projection r"
    "IN_SYNC \<in> set (map fi_code (re_findings r)) \<longrightarrow>
       read_projection f port w scope = Inr (Some (re_desired_projection r))
       \<and> re_observed_projection r = Some (re_desired_projection r)"
  using ins
proof (cases rule: inspect_cases)
  case (1 pointer desired observed pending' version gap)
  have codes: "set (map fi_code (re_findings r)) = fi_code ` set version
      \<union> fi_code ` set (pending_findings pointer desired (Some pending))
      \<union> (if gap then {AUDIT_GAP} else {}) \<union> {fi_code (observed_finding pointer desired observed)}"
    using 1(9,12) pend by (auto simp: finding_of_def)
  obtain v where v: "versions scope (ptr_registry_version pointer) = Inr v"
    "gv_trust v = STRICT" "version_matches_pointer v pointer"
    by (rule version_findings_none [OF 1(10)]) (use codes clear in \<open>auto simp: BLOCKING_CODES_def\<close>)
  have gap: "\<not> gap" using codes clear by (auto simp: BLOCKING_CODES_def)
  then have ev: "has_audit_event (ptr_transition_id pointer) s"
    using 1(11) by (simp add: audit_gap_def split: if_splits)
  have sup: "SUPERSEDED \<in> set (map fi_code (re_findings r)) \<longleftrightarrow>
      ptr_generation (pj_pointer (ob_desired pending)) < ptr_generation pointer"
    using codes version_findings_codes [OF 1(10)] gap
      observed_finding_never [of pointer desired observed] pending_findings_codes(1)
    by auto
  have des: "ob_desired pending = re_desired_projection r"
    if "SUPERSEDED \<notin> set (map fi_code (re_findings r))"
    unfolding 1(5)
    by (rule pending_findings_unblocked) (use that sup codes clear in \<open>auto simp: BLOCKING_CODES_def\<close>)
  have "read_projection f port w scope = Inr (Some (re_desired_projection r))
      \<and> re_observed_projection r = Some (re_desired_projection r)"
    if "IN_SYNC \<in> set (map fi_code (re_findings r))"
  proof -
    have "fi_code (observed_finding pointer desired observed) = IN_SYNC"
      using that codes version_findings_codes [OF 1(10)] gap pending_findings_codes(2) by auto
    then show ?thesis using 1(5,6,7) by (simp add: observed_finding_code)
  qed
  then show ?thesis
    using 1 v ev sup des pend by (intro that) simp_all
qed

text \<open>A successful reconciliation has passed its checks and ended in one of two ways.\<close>

lemma reconcile_cases:
  assumes "reconcile_registry_projection f cfg versions port r a z w s = Inr (u, w', s')"
  obtains pending where
    "inspect_registry_reconciliation f cfg versions port (re_scope r)
       (Aware (re_inspected_at r)) w s = Inr r"
    "re_pending_outbox r = Some pending"
    "set (map fi_code (re_findings r)) \<inter> BLOCKING_CODES = {}"
    "(if SUPERSEDED \<in> set (map fi_code (re_findings r))
         then bindE (build_projection_outcome f r pending OB_SUPERSEDED z None) (\<lambda>u.
              bindE (record_projection_outcome f cfg u s) (\<lambda>s'. Inr (u, w, s')))
         else
           bindE (if IN_SYNC \<in> set (map fi_code (re_findings r))
                  then (case re_observed_projection r of None \<Rightarrow> Inl AssertionError
                        | Some observed \<Rightarrow> Inr (observed, w))
                  else project_and_read_back f port r a w) (\<lambda>(observed, w').
           bindE (build_projection_outcome f r pending OB_DELIVERED z
             (Some observed)) (\<lambda>u.
           bindE (record_projection_outcome f cfg u s) (\<lambda>s'. Inr (u, w', s'))))) = Inr (u, w', s')"
  using assms that unfolding reconcile_registry_projection_def bindE_eq_Inr Let_def
    by (auto split: if_splits option.splits)

text \<open>Property C31. Repairing the DataHub projection is honest. When a reconciliation succeeds, the
  report it was approved for is the current state: the authoritative pointer has a strict version
  that matches it and an audited transition. If the outbox item is reported delivered, it asked for
  the projection of exactly that pointer, and DataHub, read back in the state the repair leaves,
  shows it; if it is reported superseded, the item was of an older generation and DataHub was not
  written. Transitions and pointers never change.\<close>

theorem reconciliation_is_honest:
  assumes "reconcile_registry_projection f cfg versions port r a z w s = Inr (u, w', s')"
  shows "\<exists>pointer version pending. find_pointer (re_scope r) s = Some pointer
    \<and> versions (re_scope r) (ptr_registry_version pointer) = Inr version \<and> gv_trust version = STRICT
    \<and> version_matches_pointer version pointer \<and> has_audit_event (ptr_transition_id pointer) s
    \<and> load_pending f (re_scope r) s = Inr (Some pending) \<and> po_outbox_id u = ob_id pending
    \<and> (po_status u = OB_DELIVERED \<and> pj_pointer (ob_desired pending) = pointer
           \<and> read_projection f port w' (re_scope r) = Inr (Some (ob_desired pending))
         \<or> po_status u = OB_SUPERSEDED \<and> w' = w
           \<and> ptr_generation (pj_pointer (ob_desired pending)) < ptr_generation pointer)
    \<and> cs_transitions s' = cs_transitions s \<and> cs_pointers s' = cs_pointers s"
proof -
  obtain pending where ins: "inspect_registry_reconciliation f cfg versions port (re_scope r)
       (Aware (re_inspected_at r)) w s = Inr r"
    and pend: "re_pending_outbox r = Some pending"
    and clear: "set (map fi_code (re_findings r)) \<inter> BLOCKING_CODES = {}"
    and rest: "(if SUPERSEDED \<in> set (map fi_code (re_findings r))
         then bindE (build_projection_outcome f r pending OB_SUPERSEDED z None) (\<lambda>u.
              bindE (record_projection_outcome f cfg u s) (\<lambda>s'. Inr (u, w, s')))
         else
           bindE (if IN_SYNC \<in> set (map fi_code (re_findings r))
                  then (case re_observed_projection r of None \<Rightarrow> Inl AssertionError
                        | Some observed \<Rightarrow> Inr (observed, w))
                  else project_and_read_back f port r a w) (\<lambda>(observed, w').
           bindE (build_projection_outcome f r pending OB_DELIVERED z
             (Some observed)) (\<lambda>u.
           bindE (record_projection_outcome f cfg u s) (\<lambda>s'. Inr (u, w', s'))))) = Inr (u, w', s')"
    by (rule reconcile_cases [OF assms])
  obtain pointer version where c: "find_pointer (re_scope r) s = Some pointer"
    "versions (re_scope r) (ptr_registry_version pointer) = Inr version" "gv_trust version = STRICT"
    "version_matches_pointer version pointer" "has_audit_event (ptr_transition_id pointer) s"
    "load_pending f (re_scope r) s = Inr (Some pending)" "pj_pointer (re_desired_projection r) = pointer"
    and sup: "SUPERSEDED \<in> set (map fi_code (re_findings r)) \<longleftrightarrow>
       ptr_generation (pj_pointer (ob_desired pending)) < ptr_generation pointer"
    and des: "SUPERSEDED \<notin> set (map fi_code (re_findings r)) \<longrightarrow> ob_desired pending = re_desired_projection r"
    and sync: "IN_SYNC \<in> set (map fi_code (re_findings r)) \<longrightarrow>
       read_projection f port w (re_scope r) = Inr (Some (re_desired_projection r))
       \<and> re_observed_projection r = Some (re_desired_projection r)"
    by (rule clear_report_cases [OF ins pend clear])
  have "record_projection_outcome f cfg u s = Inr s'" "po_outbox_id u = ob_id pending"
    using rest by (auto simp: bindE_eq_Inr dest: built_outcome split: if_splits)
  moreover from this(1) have "cs_transitions s' = cs_transitions s \<and> cs_pointers s' = cs_pointers s"
    by (cases rule: outcome_cases) auto
  moreover have "po_status u = OB_DELIVERED
      \<and> read_projection f port w' (re_scope r) = Inr (Some (re_desired_projection r))"
    if "SUPERSEDED \<notin> set (map fi_code (re_findings r))"
    using rest that sync project_and_read_back_cases(2) [of f port r a w _ w']
    by (auto simp: bindE_eq_Inr dest: built_outcome split: if_splits)
  moreover have "po_status u = OB_SUPERSEDED \<and> w' = w"
    if "SUPERSEDED \<in> set (map fi_code (re_findings r))"
    using rest that by (auto simp: bindE_eq_Inr dest: built_outcome)
  ultimately show ?thesis
    using c sup des by (intro exI [of _ pointer] exI [of _ version] exI [of _ pending]) auto
qed

section \<open>An approved activation commits\<close>

text \<open>The pointer table has one row per scope.\<close>

lemma write_pointer_scopes:
  assumes "write_pointer t s = Inr s'" and "distinct (map ptr_scope (cs_pointers s))"
  shows "distinct (map ptr_scope (cs_pointers s'))"
proof (cases "at_previous_pointer t")
  case None
  with assms show ?thesis
    by (auto simp: write_pointer_def Let_def list_ex_iff split: if_splits) blast
next
  case (Some previous)
  define g :: "active_pointer \<Rightarrow> active_pointer" where
    "g = (\<lambda>x. if ptr_scope x = ptr_scope (at_active_pointer t)
       \<and> ptr_generation x = ptr_generation previous \<and> ptr_transition_id x = ptr_transition_id previous
       then at_active_pointer t else x)"
  have "cs_pointers s' = map g (cs_pointers s)"
    using assms(1) Some by (auto simp: write_pointer_def Let_def g_def split: if_splits)
  moreover have "ptr_scope \<circ> g = ptr_scope" by (auto simp: g_def)
  ultimately show ?thesis using assms(2) by simp
qed

lemma commit_writes_pointer:
  assumes "commit_transition f cfg ready t i s = Inr (c, s')"
  shows "cs_pointers s' = cs_pointers s
    \<or> (\<exists>(s1 :: control_store) (s2 :: control_store). cs_pointers s1 = cs_pointers s \<and> write_pointer t s1 = Inr s2 \<and> cs_pointers s' = cs_pointers s2)"
proof -
  obtain r where r: "load_replayed_commit f t i s = Inr r"
    using assms by (auto simp: commit_transition_def bindE_eq_Inr)
  show ?thesis
  proof (cases r)
    case (Some c')
    with assms r show ?thesis by (auto simp: commit_transition_def bindE_eq_Inr)
  next
    case None
    obtain s1 s2 s3 h s4 where w: "insert_transition t s = Inr s1" "write_pointer t s1 = Inr s2"
      "insert_outbox i s2 = Inr s3" "append_transition_event f cfg t i s3 = Inr (h, s')"
      using assms unfolding commit_transition_def r None bindE_eq_Inr database_eq_Inr
      by (auto simp: bindE_eq_Inr database_eq_Inr construct_model_eq_Inr split: if_splits)
    have "cs_pointers s' = cs_pointers s3"
      using w(4) unfolding append_transition_event_def by (rule append_audit_cases) simp
    moreover have "cs_pointers s3 = cs_pointers s2" "cs_pointers s1 = cs_pointers s"
      using w(1,3) by (simp_all add: insert_outbox_cases insert_transition_cases)
    ultimately show ?thesis using w(2)
      by (intro disjI2 exI [of _ s1] exI [of _ s2]) simp
  qed
qed

lemma reachable_scopes:
  "reachable_store f keys offset s \<Longrightarrow> distinct (map ptr_scope (cs_pointers s))"
proof (induction rule: reachable_store.induct)
  case (step s s')
  from step(2) show ?case
  proof cases
    case (commit cfg ready t i c)
    with commit_writes_pointer [OF commit(1)] step(3) write_pointer_scopes show ?thesis by metis
  next
    case (outcome cfg u)
    from outcome(1) step(3) show ?thesis by (cases rule: outcome_cases) auto
  qed
qed (simp add: empty_store_def)

lemma pointer_row_found:
  assumes "distinct (map ptr_scope (cs_pointers s))" and "q \<in> set (cs_pointers s)"
  shows "find_pointer (ptr_scope q) s = Some q"
  unfolding find_pointer_def by (rule find_by_key [OF assms])

text \<open>The pointer in force was left by a stored transition, whose identity it carries.\<close>

lemma pointer_transition:
  assumes "store_consistent f s" and "find_pointer scope s = Some q"
  obtains x where "x \<in> set (cs_transitions s)" "transition_scope x = scope" "at_active_pointer x = q"
    "at_id x = ptr_transition_id q" "transition_generation x = ptr_generation q"
    "active_pointer_valid q" "ptr_scope q = scope"
proof -
  have h: "history scope s \<noteq> []" "q = at_active_pointer (last (history scope s))"
    using assms by (auto simp: store_consistent_def head_pointer_def split: if_splits)
  let ?x = "last (history scope s)"
  have x: "?x \<in> set (cs_transitions s)" "transition_scope ?x = scope"
    using last_in_set [OF h(1)] by (auto simp: history_def)
  then have v: "activation_transition_valid f ?x"
    using assms(1) by (auto simp: store_consistent_def list_all_iff)
  then obtain a previous t where "?x = approved_transition a previous t"
    by (rule transition_valid_cases)
  then have "at_id ?x = ptr_transition_id (at_active_pointer ?x)" by (simp add: approved_pointer_def)
  with x h v show ?thesis
    by (intro that [of ?x])
      (simp_all add: transition_generation_def transition_scope_def activation_transition_valid_def)
qed

text \<open>The identities a commit stores: those of the transition, its approval, its outbox item and its
  audit event. All are digests, and the tables refuse duplicates.\<close>

definition identities_fresh ::
  "(instant \<Rightarrow> string) \<Rightarrow> store_config \<Rightarrow> nat list \<Rightarrow> activation_transition \<Rightarrow> outbox_item \<Rightarrow> control_store \<Rightarrow> bool" where
  "identities_fresh f cfg key t i s \<longleftrightarrow>
     list_all (\<lambda>x. at_id x \<noteq> at_id t \<and> aa_id (at_approval x) \<noteq> aa_id (at_approval t)) (cs_transitions s)
     \<and> list_all (\<lambda>r. ob_id (ow_item r) \<noteq> ob_id i) (cs_outbox s)
     \<and> list_all (\<lambda>e. ev_event_id e \<noteq> control_event_id ''registry_transition'' (at_id t)
          \<and> ev_event_hash e \<noteq> ev_event_hash (next_audit_event cfg key (sc_workspace_id (transition_scope t))
              (''registry_'' @ activation_action_value (ac_action (aa_proposal (at_approval t))))
              (Some (at_id t)) (control_event_id ''registry_transition'' (at_id t))
              (commit_payload f t i) (at_committed_at t) s)) (cs_audit s)"

lemma write_pointer_succeeds:
  assumes "store_consistent f s" and "distinct (map ptr_scope (cs_pointers s))"
    and "activation_transition_valid f t" and "find_pointer (transition_scope t) s = at_previous_pointer t"
    and "list_all (\<lambda>x. at_id x \<noteq> at_id t) (cs_transitions s)" and "cs_pointers s1 = cs_pointers s"
  obtains s2 where "write_pointer t s1 = Inr s2"
proof -
  have id: "ptr_transition_id (at_active_pointer t) = at_id t"
    using assms(3) by (auto elim!: transition_valid_cases simp: approved_pointer_def)
  have fresh: "ptr_transition_id x \<noteq> at_id t" if x: "x \<in> set (cs_pointers s)" for x
  proof -
    obtain y where "y \<in> set (cs_transitions s)" "at_id y = ptr_transition_id x"
      using pointer_transition [OF assms(1) pointer_row_found [OF assms(2) x]] by metis
    then show ?thesis using assms(5) by (auto simp: list_all_iff)
  qed
  show ?thesis
  proof (cases "at_previous_pointer t")
    case None
    then have "ptr_scope x \<noteq> ptr_scope (at_active_pointer t)" if "x \<in> set (cs_pointers s)" for x
      using pointer_row_found [OF assms(2) that] assms(4) by (auto simp: transition_scope_def)
    with None fresh id show ?thesis
      by (intro that) (auto simp: write_pointer_def Let_def assms(6) list_ex_iff)
  next
    case (Some previous)
    have p: "previous \<in> set (cs_pointers s)" "ptr_scope previous = ptr_scope (at_active_pointer t)"
      using find_SomeD [OF assms(4) [unfolded find_pointer_def Some]] by (simp_all add: transition_scope_def)
    have one: "x = previous" if "x \<in> set (cs_pointers s)" "ptr_scope x = ptr_scope (at_active_pointer t)" for x
      using pointer_row_found [OF assms(2) that(1)] that(2) assms(4) Some by (simp add: transition_scope_def)
    have "filter (\<lambda>x. ptr_scope x = ptr_scope (at_active_pointer t)
         \<and> ptr_generation x = ptr_generation previous
         \<and> ptr_transition_id x = ptr_transition_id previous) (cs_pointers s)
       = filter (\<lambda>x. x = previous) (cs_pointers s)"
      by (rule filter_cong [OF refl]) (use p(2) in \<open>auto dest: one\<close>)
    moreover have "{x. x = previous} \<inter> set (cs_pointers s) = {previous}" using p(1) by auto
    then have "length (filter (\<lambda>x. x = previous) (cs_pointers s)) = 1"
      using distinct_length_filter [of "cs_pointers s" "\<lambda>x. x = previous"] assms(2)
      by (simp add: distinct_map)
    moreover have "\<not> list_ex (\<lambda>x. \<not> (ptr_scope x = ptr_scope (at_active_pointer t)
         \<and> ptr_generation x = ptr_generation previous
         \<and> ptr_transition_id x = ptr_transition_id previous)
         \<and> ptr_transition_id x = ptr_transition_id (at_active_pointer t)) (cs_pointers s)"
      using fresh id by (auto simp: list_ex_iff)
    ultimately show ?thesis
      using Some by (intro that) (simp add: write_pointer_def Let_def assms(6))
  qed
qed

lemma no_row_conflict:
  assumes "store_consistent f s" and "activation_transition_valid f t"
    and "find_pointer (transition_scope t) s = at_previous_pointer t"
    and "list_all (\<lambda>x. at_id x \<noteq> at_id t \<and> aa_id (at_approval x) \<noteq> aa_id (at_approval t)) (cs_transitions s)"
  shows "\<not> list_ex (transition_row_conflict t) (cs_transitions s)"
proof -
  have "\<not> transition_row_conflict t x" if x: "x \<in> set (cs_transitions s)" for x
  proof -
    have "transition_generation x \<noteq> transition_generation t" if "transition_scope x = transition_scope t"
    proof -
      obtain q where "find_pointer (transition_scope x) s = Some q" "transition_generation x \<le> ptr_generation q"
        by (rule history_bounded [OF assms(1) x])
      with that assms(3) valid_transition_generation(1) [OF assms(2)] show ?thesis by simp
    qed
    then show ?thesis using assms(4) x by (auto simp: transition_row_conflict_def list_all_iff)
  qed
  then show ?thesis by (auto simp: list_ex_iff)
qed

lemma expected_transition_referenced:
  assumes "store_consistent f s" and "activation_transition_valid f t"
    and "find_pointer (transition_scope t) s = at_previous_pointer t"
    and "optional (\<lambda>i. \<exists>x\<in>set (cs_transitions s). transition_scope x = transition_scope t \<and> at_id x = i)
      (ac_rollback_transition_id (aa_proposal (at_approval t)))"
  shows "transition_references t (cs_transitions s @ [t])"
proof -
  obtain a previous z where t: "t = approved_transition a previous z"
    and e: "expects_pointer (aa_proposal a) previous" "activation_approval_valid f a"
    using assms(2) by (rule transition_valid_cases)
  have "list_ex (\<lambda>x. transition_scope x = transition_scope t
      \<and> transition_generation x = ac_expected_generation (aa_proposal a) \<and> at_id x = i) (cs_transitions s @ [t])"
    if i: "ac_expected_transition_id (aa_proposal a) = Some i" for i
  proof -
    have "ac_expected_generation (aa_proposal a) \<noteq> 0"
      using e(2) i
      by (auto simp: activation_approval_valid_def activation_proposal_valid_def
          compare_and_swap_shape_def Let_def split: if_splits)
    then obtain q where q: "previous = Some q" "pointer_matches_proposal q (aa_proposal a)"
      using e(1) by (auto simp: expects_pointer_def split: option.splits)
    have f: "find_pointer (transition_scope t) s = Some q" using assms(3) q(1) t by simp
    obtain x where "x \<in> set (cs_transitions s)" "transition_scope x = transition_scope t"
      "at_id x = ptr_transition_id q" "transition_generation x = ptr_generation q"
      by (rule pointer_transition [OF assms(1) f])
    with q(2) i show ?thesis by (auto simp: list_ex_iff pointer_matches_proposal_def)
  qed
  moreover have "list_ex (\<lambda>x. sc_workspace_id (transition_scope x) = sc_workspace_id (transition_scope t)
      \<and> at_id x = i) (cs_transitions s @ [t])"
    if "ac_rollback_transition_id (aa_proposal a) = Some i" for i
    using assms(4) that by (force simp: t list_ex_iff)
  ultimately show ?thesis
    by (simp add: transition_references_def t Let_def split: option.splits)
qed

lemma built_outbox_input:
  assumes "activation_transition_valid f t"
    and "build_registry_projection_outbox f t = (Inr i :: outbox_item controlled)"
  shows "validate_commit_input f t i = Inr ()"
proof -
  have "outbox_item_valid f i"
    using assms(2) by (auto simp: build_registry_projection_outbox_def outcome_simps)
  with assms show ?thesis by (auto simp: build_outbox_eq validate_commit_input_def)
qed

lemma outbox_fresh:
  assumes "store_consistent f s" and "list_all (\<lambda>x. at_id x \<noteq> at_id t) (cs_transitions s)"
    and "list_all (\<lambda>r. ob_id (ow_item r) \<noteq> ob_id i) (cs_outbox s)" and "ob_transition_id i = at_id t"
  shows "\<not> list_ex (\<lambda>r. ob_id (ow_item r) = ob_id i \<or> ob_transition_id (ow_item r) = ob_transition_id i)
    (cs_outbox s)"
proof -
  have rows: "list_all2 (row_of_transition f) (cs_transitions s) (cs_outbox s)"
    using assms(1) by (simp add: store_consistent_def)
  have "ob_transition_id (ow_item r) \<noteq> at_id t" if r: "r \<in> set (cs_outbox s)" for r
  proof -
    obtain x where "x \<in> set (cs_transitions s)" "row_of_transition f x r"
      using rows r by (metis list_all2_conv_all_nth in_set_conv_nth)
    then show ?thesis using assms(2) by (auto simp: row_of_transition_def list_all_iff)
  qed
  then show ?thesis using assms(3,4) by (auto simp: list_ex_iff list_all_iff)
qed

lemma transition_event_appends:
  assumes "cf_audit_signing_keys cfg (cf_active_audit_key_version cfg) = Some key"
    and "identities_fresh f cfg key t i s" and "cs_audit s3 = cs_audit s" and "t \<in> set (cs_transitions s3)"
  obtains h s4 where "append_transition_event f cfg t i s3 = Inr (h, s4)" "is_sha256 h"
proof -
  define e where "e = next_audit_event cfg key (sc_workspace_id (transition_scope t))
      (''registry_'' @ activation_action_value (ac_action (aa_proposal (at_approval t))))
      (Some (at_id t)) (control_event_id ''registry_transition'' (at_id t))
      (commit_payload f t i) (at_committed_at t) s"
  have sel: "ev_event_id e = control_event_id ''registry_transition'' (at_id t)"
    "ev_transition_id e = Some (at_id t)" "ev_workspace_id e = sc_workspace_id (transition_scope t)"
    "is_sha256 (ev_event_hash e)"
    by (simp_all add: e_def next_audit_event_def audit_hash_def Let_def)
  have "list_all (\<lambda>x. ev_event_id x \<noteq> ev_event_id e \<and> ev_event_hash x \<noteq> ev_event_hash e) (cs_audit s)"
    using assms(2) unfolding identities_fresh_def sel(1) e_def [symmetric] by blast
  then have "\<not> list_ex (\<lambda>x. ev_event_id x = ev_event_id e \<or> ev_event_hash x = ev_event_hash e) (cs_audit s)"
    by (auto simp: list_ex_iff list_all_iff)
  moreover have "list_ex (\<lambda>x. at_id x = at_id t
      \<and> sc_workspace_id (ptr_scope (at_active_pointer x)) = sc_workspace_id (transition_scope t)) (cs_transitions s3)"
    using assms(4) by (auto simp: list_ex_iff transition_scope_def)
  ultimately have ins: "insert_audit_event e s3 = Inr (s3\<lparr>cs_audit := cs_audit s3 @ [e]\<rparr>)"
    unfolding insert_audit_event_def assms(3) sel by simp
  have same: "next_audit_event cfg key w op tr x pl z s3 = next_audit_event cfg key w op tr x pl z s"
    for w op tr x pl z
    using assms(3) by (simp add: next_audit_event_def workspace_events_def)
  have "append_transition_event f cfg t i s3 = Inr (ev_event_hash e, s3\<lparr>cs_audit := cs_audit s3 @ [e]\<rparr>)"
    unfolding append_transition_event_def append_audit_event_def assms(1) option.case Let_def same
      e_def [symmetric] ins database_def by simp
  then show ?thesis using sel(4) by (rule that)
qed

lemma fresh_commit_succeeds:
  assumes "reachable_store f keys offset s" and t: "activation_transition_valid f t"
    and i: "build_registry_projection_outbox f t = (Inr i :: outbox_item controlled)"
    and current: "find_pointer (transition_scope t) s = at_previous_pointer t"
    and ready: "require_activation_ready_handoff f ready t = Inr ()"
    and rolled: "optional (\<lambda>i. \<exists>x\<in>set (cs_transitions s). transition_scope x = transition_scope t \<and> at_id x = i)
      (ac_rollback_transition_id (aa_proposal (at_approval t)))"
    and key: "cf_audit_signing_keys cfg (cf_active_audit_key_version cfg) = Some key"
    and fresh: "identities_fresh f cfg key t i s"
  obtains c s' where "commit_transition f cfg ready t i s = Inr (c, s')" "co_transition c = t"
    "co_outbox c = i" "\<not> co_replayed c" "control_commit_valid f c"
proof -
  have s: "store_consistent f s" "distinct (map ptr_scope (cs_pointers s))"
    using reachable_consistent reachable_scopes assms(1) by blast+
  note v = built_outbox_input [OF t i]
  have ids: "list_all (\<lambda>x. at_id x \<noteq> at_id t) (cs_transitions s)"
    "list_all (\<lambda>x. at_id x \<noteq> at_id t \<and> aa_id (at_approval x) \<noteq> aa_id (at_approval t)) (cs_transitions s)"
    "list_all (\<lambda>r. ob_id (ow_item r) \<noteq> ob_id i) (cs_outbox s)"
    using fresh by (auto simp: identities_fresh_def list_all_iff)
  define s1 where "s1 = s\<lparr>cs_transitions := cs_transitions s @ [t]\<rparr>"
  have i1: "insert_transition t s = Inr s1"
    unfolding insert_transition_cases s1_def
    using no_row_conflict [OF s(1) t current ids(2)] expected_transition_referenced [OF s(1) t current rolled]
    by simp
  have "cs_pointers s1 = cs_pointers s" by (simp add: s1_def)
  from write_pointer_succeeds [OF s t current ids(1) this]
  obtain s2 where i2: "write_pointer t s1 = Inr s2" by blast
  note frame = write_pointer_frame [OF i2]
  have "\<not> list_ex (\<lambda>r. ob_id (ow_item r) = ob_id i \<or> ob_transition_id (ow_item r) = ob_transition_id i)
      (cs_outbox s2)"
    using outbox_fresh [OF s(1) ids(1,3)] commit_input_valid(3) [OF v] frame by (simp add: s1_def)
  then obtain s3 where i3: "insert_outbox i s2 = Inr s3" by (simp add: insert_outbox_cases)
  have "cs_audit s3 = cs_audit s" "t \<in> set (cs_transitions s3)"
    using i3 frame by (simp_all add: insert_outbox_cases s1_def)
  from transition_event_appends [OF key fresh this]
  obtain h s4 where i4: "append_transition_event f cfg t i s3 = Inr (h, s4)" "is_sha256 h" by blast
  have cv: "control_commit_valid f \<lparr>co_transition = t, co_outbox = i, co_audit_event_hash = h, co_replayed = False\<rparr>"
    using commit_input_valid [OF v] i4(2) by (simp add: control_commit_valid_def)
  have "load_replayed_commit f t i s = Inr None"
    using ids(1) by (auto simp: load_replayed_commit_def find_None_iff list_all_iff split: option.splits
        dest!: find_SomeD)
  moreover have "load_active_for_update (transition_scope t) s = Inr (at_previous_pointer t)"
    using current t by (auto simp: load_active_for_update_def construct_model_def activation_transition_valid_def
        split: option.splits)
  ultimately have "commit_transition f cfg ready t i s = Inr (\<lparr>co_transition = t, co_outbox = i,
      co_audit_event_hash = h, co_replayed = False\<rparr>, s4)"
    using v ready i1 i2 i3 i4(1) cv by (simp add: commit_transition_def database_def construct_model_def)
  then show ?thesis by (rule that) (use cv in simp_all)
qed

text \<open>The outbox item a transition asks for.\<close>

definition projected_outbox :: "(instant \<Rightarrow> string) \<Rightarrow> activation_transition \<Rightarrow> outbox_item" where
  "projected_outbox f t =
     \<lparr>ob_id = registry_projection_outbox_id (at_id t), ob_transition_id = at_id t,
      ob_desired = \<lparr>pj_pointer = at_active_pointer t,
        pj_projection_fingerprint = registry_projection_fingerprint f (at_active_pointer t)\<rparr>,
      ob_status = OB_PENDING, ob_attempts = 0, ob_created_at = at_committed_at t,
      ob_last_reason_code = None\<rparr>"

lemma prepare_activation_cases:
  assumes "prepare_registry_activation f ready versions scope v s = Inr p"
  obtains target handoff where
    "optional active_pointer_valid (find_pointer scope s)"
    "load_strict_version versions scope v = Inr target" "load_ready_handoff f ready target = Inr handoff"
    "build_proposal f ACTIVATE (find_pointer scope s) target None (Some handoff) = Inr p"
  using assms that
  by (auto simp: prepare_registry_activation_def bindE_eq_Inr load_active_pointer_eq)

lemma prepared_proposal_expects:
  assumes "build_proposal f action current target rollback handoff = Inr p"
    and "optional (\<lambda>q. active_pointer_valid q \<and> ptr_scope q = scope_of target) current"
  shows "expects_pointer p current"
proof (cases current)
  case (Some q)
  then have "1 \<le> ptr_generation q" using assms(2) by (simp add: active_pointer_valid_def)
  then show ?thesis
    using Some assms(2) build_proposal_cases [OF assms(1)]
    by (simp add: expects_pointer_def pointer_matches_proposal_def)
qed (simp add: expects_pointer_def build_proposal_cases [OF assms(1)])

lemma prepared_approval_cases:
  assumes "prepare_registry_activation_approval f p actor approved confirm = Inr a"
  shows "activation_approval_valid f a" and "aa_proposal a = p" and "approved = Aware (aa_approved_at a)"
  using assms
  by (auto simp: prepare_registry_activation_approval_def except_value_error_Inr bindE_eq_Inr
      construct_model_eq_Inr elim!: require_aware.elims)

lemma ready_handoff_required:
  assumes "load_ready_handoff f ready target = Inr h" and "ac_scope p = scope_of target"
    and "ac_target_registry_version p = rs_version (registry_of target)"
    and "ac_activation_ready_handoff p = Some h" and "aa_proposal (at_approval t) = p"
  shows "require_activation_ready_handoff f ready t = Inr ()"
proof -
  have "load_handoff f ready (scope_of target) (rs_version (registry_of target)) = Inr (Some h)"
    using assms(1)
    by (auto simp: load_ready_handoff_def load_activation_ready_handoff_def bindE_eq_Inr
        split: if_splits sum.splits option.splits)
  with assms(2-5) show ?thesis by (simp add: require_activation_ready_handoff_def Let_def)
qed

text \<open>The transition a prepared and approved activation asks for.\<close>

lemma prepared_transition:
  assumes "\<forall>w x. versions scope w = Inr x \<longrightarrow> rs_version (registry_of x) = w"
    and "prepare_registry_activation f ready versions scope v s = Inr p"
    and "prepare_registry_activation_approval f p actor approved confirm = Inr a"
    and "aa_approved_at a \<le> t"
  defines "tr \<equiv> approved_transition a (find_pointer scope s) t"
  shows "activation_transition_valid f tr" and "require_activation_ready_handoff f ready tr = Inr ()"
    and "ac_scope p = scope" and "ac_rollback_transition_id p = None" and "aa_proposal a = p"
    and "\<And>c s'. commit_transition f cfg ready tr (projected_outbox f tr) s = Inr (c, s') \<Longrightarrow>
      co_transition c = tr \<Longrightarrow> co_outbox c = projected_outbox f tr \<Longrightarrow> control_commit_valid f c \<Longrightarrow>
      commit_registry_activation f cfg ready versions p a (Aware t) s = Inr (c, s')"
proof -
  let ?current = "find_pointer scope s"
  obtain target handoff where pv: "optional active_pointer_valid ?current"
    and st: "load_strict_version versions scope v = Inr target"
    and hd: "load_ready_handoff f ready target = Inr handoff"
    and b: "build_proposal f ACTIVATE ?current target None (Some handoff) = Inr p"
    by (rule prepare_activation_cases [OF assms(2)])
  note bp = build_proposal_cases [OF b] and ap = prepared_approval_cases [OF assms(3)]
  have tg: "scope_of target = scope" "rs_version (registry_of target) = v"
    using st assms(1) by (auto simp: load_strict_version_eq)
  have sc: "ptr_scope q = scope" if "?current = Some q" for q
    using find_SomeD [OF that [unfolded find_pointer_def]] by simp
  have ex: "expects_pointer p ?current"
    by (rule prepared_proposal_expects [OF b]) (use pv sc tg(1) in \<open>auto split: option.splits\<close>)
  show scp: "ac_scope p = scope" and "ac_rollback_transition_id p = None" and "aa_proposal a = p"
    using bp(3,13) ap(2) tg(1) by simp_all
  show tv: "activation_transition_valid f tr"
    using ap pv assms(4) ex by (simp add: tr_def approved_transition_valid_iff)
  show "require_activation_ready_handoff f ready tr = Inr ()"
    by (rule ready_handoff_required [OF hd bp(3,8,14)]) (simp add: tr_def ap(2))
  fix c s'
  assume ct: "commit_transition f cfg ready tr (projected_outbox f tr) s = Inr (c, s')"
    "co_transition c = tr" "co_outbox c = projected_outbox f tr" "control_commit_valid f c"
  have ma: "materialize f p a (Aware t) False ?current s = Inr (tr, projected_outbox f tr)"
    using tv ap bp(1) by (simp add: materialize_def build_transition_eq construct_model_def tr_def
        build_outbox_eq projected_outbox_def)
  have nrep: "\<not> (case ?current of None \<Rightarrow> False | Some q \<Rightarrow>
      ptr_transition_id q = registry_activation_transition_id a \<and> ptr_generation q = ac_expected_generation p + 1)"
    using bp(4) by (auto split: option.splits)
  have vm: "version_matches_proposal target p" using bp by (simp add: version_matches_proposal_def)
  have va: "validate_registry_activation_approval f p a = (Inr () :: unit controlled)"
    using ap(1,2) bp(1) by (simp add: validate_registry_activation_approval_def)
  have l: "load_active_pointer scope s = Inr ?current" using pv by (simp add: load_active_pointer_eq)
  show "commit_registry_activation f cfg ready versions p a (Aware t) s = Inr (c, s')"
    unfolding commit_registry_activation_def va scp l except_value_error_returns bindE_simps Let_def
    using nrep ex st tg(2) bp(2,8,14) vm hd ma ct
    by (simp add: current_matches_expects)
qed

text \<open>Property C28. An activation that was prepared and approved does commit. In any store the
  control plane can reach, if nothing changed since preparation, the reader of immutable versions
  answers for the version it is asked for, the approval does not lie in the future, the active
  signing key is in the ring and none of the new identities is in the tables yet, then the commit
  succeeds at the first attempt and the approved pointer is in force.\<close>

theorem approved_activation_commits:
  assumes "reachable_store f keys offset s"
    and "\<forall>w x. versions scope w = Inr x \<longrightarrow> rs_version (registry_of x) = w"
    and "prepare_registry_activation f ready versions scope v s = Inr p"
    and "prepare_registry_activation_approval f p actor approved confirm = Inr a"
    and "aa_approved_at a \<le> t"
    and "cf_audit_signing_keys cfg (cf_active_audit_key_version cfg) = Some key"
    and "identities_fresh f cfg key (approved_transition a (find_pointer scope s) t)
      (projected_outbox f (approved_transition a (find_pointer scope s) t)) s"
  shows "\<exists>c s'. commit_registry_activation f cfg ready versions p a (Aware t) s = Inr (c, s')
    \<and> \<not> co_replayed c \<and> find_pointer scope s' = Some (approved_pointer a t)"
proof -
  let ?tr = "approved_transition a (find_pointer scope s) t"
  note p = prepared_transition [OF assms(2-5)]
  have i: "build_registry_projection_outbox f ?tr = (Inr (projected_outbox f ?tr) :: outbox_item controlled)"
    by (simp add: build_outbox_eq [OF p(1)] projected_outbox_def)
  have cur: "find_pointer (transition_scope ?tr) s = at_previous_pointer ?tr"
    by (simp add: p(3,5))
  have nr: "optional (\<lambda>i. \<exists>x\<in>set (cs_transitions s). transition_scope x = transition_scope ?tr \<and> at_id x = i)
      (ac_rollback_transition_id (aa_proposal (at_approval ?tr)))"
    by (simp add: p(4,5))
  obtain c s' where ct: "commit_transition f cfg ready ?tr (projected_outbox f ?tr) s = Inr (c, s')"
    "co_transition c = ?tr" "co_outbox c = projected_outbox f ?tr" "\<not> co_replayed c" "control_commit_valid f c"
    by (rule fresh_commit_succeeds [OF assms(1) p(1) i cur p(2) nr assms(6,7)])
  have run: "commit_registry_activation f cfg ready versions p a (Aware t) s = Inr (c, s')"
    by (rule p(6) [OF ct(1,2,3,5)])
  then have "find_pointer scope s' = Some (approved_pointer a t)"
    using commit_activation_effect [OF assms(1) run] p(3) by auto
  with run ct(4) show ?thesis by blast
qed

section \<open>The sample activation through the use cases\<close>

definition sample_version :: governed_version where
  "sample_version =
     \<lparr>gv_snapshot = \<lparr>ss_scope = sample_scope, ss_registry = sample_snapshot,
        ss_activation_generation = None, ss_active_pointer_fingerprint = None\<rparr>,
      gv_publication_approval_id = ''authorization-1'', gv_trust = STRICT\<rparr>"

definition sample_versions :: version_reader where
  "sample_versions scope v =
     (if scope = sample_scope \<and> v = 1 then Inr sample_version else Inl (Transition VERSION_UNAVAILABLE))"

lemma sample_version_sel [simp]:
  "scope_of sample_version = sample_scope" "registry_of sample_version = sample_snapshot"
  "gv_publication_approval_id sample_version = ''authorization-1''" "gv_trust sample_version = STRICT"
  by (simp_all add: sample_version_def)

lemma sample_snapshot_sel [simp]:
  "rs_version sample_snapshot = 1" "rs_format_version sample_snapshot = 2"
  "rs_fingerprint sample_snapshot = sha256_text ''registry''"
  by (simp_all add: sample_snapshot_def)

lemma sample_target_urn: "target_urn sample_scope 1 = Some sample_target"
  by (simp add: target_urn_def sample_document_id sample_target_def)

lemma sample_version_valid: "governed_version_valid sample_version"
proof -
  have "source_bound sample_scope sample_snapshot"
    by (simp add: source_bound_def sample_snapshot_def sample_document_id)
  moreover have "len_between 1 200 ''authorization-1''" "\<not> blank ''authorization-1''"
    by (simp_all add: len_between_def blank_iff char_class_defs)
  ultimately show ?thesis
    using sample_scope_valid
    by (simp add: governed_version_valid_def scoped_snapshot_valid_def)
      (simp add: sample_version_def sample_snapshot_def sample_scope_def)
qed

lemma sample_strict_version: "load_strict_version sample_versions sample_scope 1 = Inr sample_version"
  by (simp add: load_strict_version_eq sample_versions_def sample_version_valid)

lemma sample_ready_loaded:
  "load_ready_handoff sample_iso sample_ready sample_version = Inr sample_handoff"
proof -
  have "create_handoff sample_iso (sample_handoff_fields\<lparr>ho_scope := sample_scope,
      ho_target_registry_version := 1\<rparr>) = (Inr sample_handoff :: ready_handoff controlled)"
    using sample_handoff_valid
    by (simp add: create_handoff_def construct_model_def sample_handoff_def sample_handoff_fields_def
        registry_activation_ready_handoff_fingerprint_def handoff_members_def)
  then have "load_activation_ready_handoff sample_iso sample_ready sample_scope 1 = Inr (Some sample_handoff)"
    by (simp add: load_activation_ready_handoff_def load_handoff_def sample_ready_def)
  moreover have "ready_handoff_matches sample_version sample_handoff"
    by (simp add: ready_handoff_matches_def sample_target_urn)
      (simp add: sample_handoff_def sample_handoff_fields_def sample_snapshot_def)
  ultimately show ?thesis
    by (simp add: load_ready_handoff_def sample_handoff_valid)
qed

lemma sample_proposal_built:
  "build_proposal sample_iso ACTIVATE None sample_version None (Some sample_handoff) = Inr sample_proposal"
proof -
  have "datahub_registry_document_urn sample_scope 1 = (Inr sample_target :: string controlled)"
    by (simp add: sample_document_id sample_target_def)
  then show ?thesis
    using sample_proposal_valid
    by (simp add: build_proposal_def construct_model_def sample_decisions sample_proposal_def)
qed

lemma sample_prepared:
  "prepare_registry_activation sample_iso sample_ready sample_versions sample_scope 1 empty_store
     = Inr sample_proposal"
  by (simp add: prepare_registry_activation_def load_active_pointer_def load_active_def
      find_pointer_def empty_store_def sample_strict_version sample_ready_loaded
      ensure_not_already_active_def sample_proposal_built)

lemma sample_approved:
  assumes "len_between 1 120 actor" and "\<not> blank actor"
  shows "prepare_registry_activation_approval sample_iso sample_proposal actor (Aware 1)
    ACTIVATE_APPROVED_REGISTRY_VERSION = Inr (sample_approval actor)"
  using sample_approval_valid [OF assms]
  by (simp add: prepare_registry_activation_approval_def construct_model_def sample_approval_def)

lemma sample_approval_sel [simp]:
  "aa_proposal (sample_approval actor) = sample_proposal" "aa_approved_at (sample_approval actor) = 1"
  "ac_scope sample_proposal = sample_scope"
  by (simp_all add: sample_approval_def sample_proposal_def)

theorem approved_activation_commits_witness:
  "\<exists>c s'. commit_registry_activation sample_iso sample_config sample_ready sample_versions
      sample_proposal (sample_approval ''owner'') (Aware 2) empty_store = Inr (c, s')
    \<and> \<not> co_replayed c \<and> find_pointer sample_scope s' = Some (approved_pointer (sample_approval ''owner'') 2)"
proof (rule approved_activation_commits [OF reachable_store.start _ sample_prepared
      sample_approved [OF sample_actors(1,2)], where key = sample_key])
  show "\<forall>w x. sample_versions sample_scope w = Inr x \<longrightarrow> rs_version (registry_of x) = w"
    by (auto simp: sample_versions_def)
qed (simp_all add: sample_config_def identities_fresh_def empty_store_def)

lemma sample_committed:
  "commit_registry_activation sample_iso sample_config sample_ready sample_versions sample_proposal
     (sample_approval ''owner'') (Aware 2) empty_store = Inr (sample_commit ''owner'', sample_store ''owner'')"
proof -
  let ?a = "sample_approval ''owner''"
  have va: "validate_registry_activation_approval sample_iso sample_proposal ?a = (Inr () :: unit controlled)"
    using sample_approval_valid [OF sample_actors(1,2)] sample_proposal_valid
    by (simp add: validate_registry_activation_approval_def)
  have l: "load_active_pointer sample_scope empty_store = Inr None"
    by (simp add: load_active_pointer_def load_active_def find_pointer_def empty_store_def)
  have e: "expects_pointer sample_proposal None" "ac_target_registry_version sample_proposal = 1"
    "ac_activation_ready_handoff sample_proposal = Some sample_handoff"
    by (simp_all add: expects_pointer_def sample_proposal_def)
  have vm: "version_matches_proposal sample_version sample_proposal"
    by (simp add: version_matches_proposal_def sample_decisions sample_target_urn sample_proposal_def)
  note tv = sample_transition_valid [OF sample_actors(1,2)]
  have ma: "materialize sample_iso sample_proposal ?a (Aware 2) False None empty_store
      = Inr (sample_transition ''owner'', sample_outbox ''owner'')"
    using tv sample_approval_valid [OF sample_actors(1,2)] sample_proposal_valid
      build_outbox_eq [OF tv, where ?'a = control_code]
    by (simp add: materialize_def build_transition_eq construct_model_def sample_transition_def sample_outbox_def)
  have cv: "control_commit_valid sample_iso (sample_commit ''owner'')"
    using commit_input_valid [OF sample_input_valid [OF sample_actors(1,2)]]
    by (simp add: control_commit_valid_def sample_commit_def sample_event_def)
  show ?thesis
    unfolding commit_registry_activation_def va sample_approval_sel l except_value_error_returns
      bindE_simps Let_def
    using e vm ma cv sample_commit_succeeds [OF sample_actors(1,2)]
    by (simp add: current_matches_expects sample_strict_version sample_ready_loaded)
      (simp add: sample_commit_def)
qed

theorem commit_moves_one_pointer_witness:
  "find_pointer sample_scope (sample_store ''owner'') = Some (approved_pointer (sample_approval ''owner'') 2)"
  using commit_moves_one_pointer [OF reachable_store.start sample_committed] by auto

lemma sample_pointer_found:
  "load_active_pointer sample_scope (sample_store actor) = Inr (Some (approved_pointer (sample_approval actor) 2))"
  if "len_between 1 120 actor" "\<not> blank actor" for actor
  using approved_pointer_valid [OF sample_approval_valid [OF that]]
  by (simp add: load_active_pointer_eq find_pointer_def sample_store_def sample_transition_def)
    (simp add: approved_pointer_def)

lemma sample_version_matches:
  "version_matches_pointer sample_version (approved_pointer (sample_approval actor) t)"
  by (simp add: version_matches_pointer_def approved_pointer_def sample_decisions sample_target_urn)
    (simp add: sample_proposal_def)

theorem active_registry_is_pointed_version_witness:
  "\<exists>snapshot. load_active_governed_registry sample_iso sample_versions sample_scope (sample_store ''owner'')
      = Inr snapshot \<and> scoped_snapshot_valid snapshot \<and> ss_registry snapshot = sample_snapshot
    \<and> ss_activation_generation snapshot = Some 1"
proof -
  let ?p = "approved_pointer (sample_approval ''owner'') 2"
  have v: "ptr_registry_version ?p = 1" "ptr_generation ?p = 1"
    by (simp_all add: approved_pointer_def) (simp_all add: sample_proposal_def)
  obtain snapshot where r: "load_active_governed_registry sample_iso sample_versions sample_scope
      (sample_store ''owner'') = Inr snapshot"
    using sample_pointer_found [OF sample_actors(1,2)] v
    by (simp add: load_active_governed_registry_def sample_strict_version sample_version_matches)
  have f: "find_pointer sample_scope (sample_store ''owner'') = Some ?p"
    using sample_pointer_found [OF sample_actors(1,2)] by (simp add: load_active_pointer_eq)
  show ?thesis
    using active_registry_is_pointed_version [OF r] r f v by (auto simp: sample_versions_def)
qed

text \<open>A second version was activated after the sample one; the history is read one row at a time.\<close>

definition newer_pointer :: active_pointer where
  "newer_pointer =
     \<lparr>ptr_scope = sample_scope, ptr_generation = 2, ptr_registry_version = 2,
      ptr_registry_fingerprint = sha256_text ''registry-2'',
      ptr_registry_target = ''urn:li:document:schemabridge-semantic-registry-registry_main-v2-w''
        @ take 24 (sha256_text ''workspace-1''),
      ptr_transition_id = ''other-id'', ptr_activated_by = ''other'', ptr_activated_at = 3,
      ptr_decision_ids = [''decision-1'', ''decision-2'']\<rparr>"

definition newer_transition :: activation_transition where
  "newer_transition = (sample_transition ''owner'')\<lparr>at_id := ''other-id'', at_active_pointer := newer_pointer\<rparr>"

definition newer_store :: control_store where
  "newer_store =
     \<lparr>cs_transitions = [sample_transition ''owner'', newer_transition], cs_pointers = [newer_pointer],
      cs_outbox = [], cs_audit = [sample_event ''owner'']\<rparr>"

lemma newer_urn:
  "datahub_registry_document_urn sample_scope 2
     = Inr (''urn:li:document:schemabridge-semantic-registry-registry_main-v2-w''
        @ take 24 (sha256_text ''workspace-1''))"
proof -
  have "str_of_int 2 = ''2''" by code_simp
  then show ?thesis
    by (simp add: datahub_registry_document_urn_def datahub_registry_document_id_def sample_scope_def)
qed

lemma newer_pointer_valid: "active_pointer_valid newer_pointer"
proof -
  have "is_named_id ''other-id''" "\<not> blank ''other''" "len_between 1 120 ''other''"
    by (simp_all add: is_named_id_def re_head_run_def class_defs char_class_defs blank_iff len_between_def)
  moreover have "len_between 3 200 ''other-id''" "len_between 1 200 ''other-id''"
    by (simp_all add: len_between_def)
  ultimately show ?thesis
    using sample_scope_valid sample_decisions_canonical
    by (simp add: active_pointer_valid_def newer_pointer_def newer_urn [simplified])
      (simp add: len_between_def sha256_length)
qed

lemma newer_history:
  "history sample_scope newer_store = [sample_transition ''owner'', newer_transition]"
  "map transition_generation (history sample_scope newer_store) = [1, 2]"
  by (simp_all add: history_def newer_store_def newer_transition_def transition_scope_def
      transition_generation_def sample_pointer_sel newer_pointer_def)

lemma newer_rows:
  "load_transitions sample_iso sample_scope 1 newer_store = Inr [sample_transition ''owner'']"
proof -
  have "sort_key transition_generation (history sample_scope newer_store) = history sample_scope newer_store"
    by (rule sort_key_id_if_sorted) (simp only: newer_history(2), simp)
  then have "list_transitions sample_iso sample_scope 1 newer_store = Inr [sample_transition ''owner'']"
    using sample_transition_valid [OF sample_actors(1,2)]
    by (simp add: list_transitions_def history_def [symmetric] newer_history(1))
  then show ?thesis
    using sample_transition_valid [OF sample_actors(1,2)]
    by (simp add: load_transitions_def sample_transition_sel)
qed

lemma newer_current: "load_active_pointer sample_scope newer_store = Inr (Some newer_pointer)"
  using newer_pointer_valid
  by (simp add: load_active_pointer_eq find_pointer_def newer_store_def) (simp add: newer_pointer_def)

theorem rollback_reaches_only_oldest_witness:
  "prepare_registry_rollback sample_iso sample_config sample_versions sample_scope 1 ''other-id'' newer_store
     = Inl (Transition ROLLBACK_NOT_ALLOWED)"
proof -
  have "at_id (sample_transition ''owner'') \<noteq> ''other-id''"
    by (simp add: sample_transition_def registry_activation_transition_id_def)
  moreover have "at_id newer_transition = ''other-id''" by (simp add: newer_transition_def)
  moreover have "sorted (map transition_generation (history sample_scope newer_store))"
    unfolding newer_history(2) by simp
  ultimately show ?thesis
    using rollback_reaches_only_oldest [OF newer_current newer_rows, of 1 sample_config sample_versions]
    by (simp add: newer_history(1))
qed

definition sample_rollback :: activation_proposal where
  "sample_rollback =
     \<lparr>ac_action = ROLLBACK, ac_scope = sample_scope, ac_expected_generation = 2,
      ac_expected_registry_version = Some 2,
      ac_expected_registry_fingerprint = Some (sha256_text ''registry-2''),
      ac_expected_transition_id = Some ''other-id'', ac_target_registry_version = 1,
      ac_target_registry_fingerprint = sha256_text ''registry'',
      ac_target_registry_urn = sample_target,
      ac_target_publication_approval_id = ''authorization-1'', ac_activation_ready_handoff = None,
      ac_decision_ids = [''decision-1'', ''decision-2''],
      ac_rollback_transition_id = Some (at_id (sample_transition ''owner''))\<rparr>"

lemma sample_rollback_valid: "activation_proposal_valid sample_iso sample_rollback"
proof -
  have u: "datahub_registry_document_urn sample_scope 1
      = (Inr sample_target :: (unit, string) outcome)"
    by (simp add: sample_document_id sample_target_def)
  have b: "\<not> blank ''authorization-1''" "len_between 3 200 ''other-id''" "is_named_id ''other-id''"
    by (simp_all add: blank_iff is_named_id_def re_head_run_def class_defs char_class_defs len_between_def)
  have n: "is_named_id (at_id (sample_transition ''owner''))" by (simp add: sample_transition_def)
  then have "len_between 3 200 (at_id (sample_transition ''owner''))" by simp
  then show ?thesis
    unfolding activation_proposal_valid_def compare_and_swap_shape_def
    using b n sample_target_text(2) sample_scope_valid sample_decisions_canonical
    by (simp add: sample_rollback_def u) (simp add: len_between_def)
qed

lemma newer_audit: "audit_gap sample_config (at_id (sample_transition ''owner'')) ''workspace-1'' newer_store = Inr False"
proof -
  have "workspace_events newer_store ''workspace-1'' = workspace_events (sample_store ''owner'') ''workspace-1''"
    by (simp add: workspace_events_def newer_store_def sample_store_def)
  then have "verify_audit_chain sample_config ''workspace-1'' newer_store
      = Inr \<lparr>av_workspace_id = ''workspace-1'', av_event_count = 1,
       av_head_hash = Some (ev_event_hash (sample_event ''owner'')), av_valid = True\<rparr>"
    using sample_chain unfolding verify_audit_chain_def by simp
  moreover from this have "audit_chain_verification_valid \<lparr>av_workspace_id = ''workspace-1'', av_event_count = 1,
       av_head_hash = Some (ev_event_hash (sample_event ''owner'')), av_valid = True\<rparr>"
    unfolding verify_audit_chain_def by (auto simp: Let_def split: prod.splits if_splits)
  moreover have "has_audit_event (at_id (sample_transition ''owner'')) newer_store"
    by (simp add: has_audit_event_def newer_store_def sample_event_def next_audit_event_def Let_def
        REGISTRY_OPERATIONS_def)
  ultimately show ?thesis by (simp add: audit_gap_def audit_chain_is_valid_def)
qed

lemma sample_rolled:
  "prepare_registry_rollback sample_iso sample_config sample_versions sample_scope 1
     (at_id (sample_transition ''owner'')) newer_store = Inr sample_rollback"
proof -
  have ap: "at_active_pointer (sample_transition ''owner'') = approved_pointer (sample_approval ''owner'') 2"
    by (simp add: sample_transition_def)
  have v: "ptr_registry_version (approved_pointer (sample_approval ''owner'') 2) = 1"
    by (simp add: approved_pointer_def) (simp add: sample_proposal_def)
  have n: "ensure_not_already_active (Some newer_pointer) sample_version = Inr ()"
    by (simp add: ensure_not_already_active_def version_matches_pointer_def newer_pointer_def)
  have g: "transition_generation (sample_transition ''owner'') < ptr_generation newer_pointer"
    by (simp add: transition_generation_def sample_pointer_sel newer_pointer_def)
  have w: "sc_workspace_id sample_scope = ''workspace-1''" by (simp add: sample_scope_def)
  have "datahub_registry_document_urn sample_scope 1 = (Inr sample_target :: string controlled)"
    by (simp add: sample_document_id sample_target_def)
  then have b: "build_proposal sample_iso ROLLBACK (Some newer_pointer) sample_version
      (Some (at_id (sample_transition ''owner''))) None = Inr sample_rollback"
    using sample_rollback_valid
    by (simp add: build_proposal_def construct_model_def sample_decisions sample_rollback_def newer_pointer_def)
  show ?thesis
    using g newer_audit b n
    by (simp add: prepare_registry_rollback_def newer_current newer_rows w ap v sample_transition_sel
        sample_strict_version sample_version_matches)
qed

theorem rollback_targets_history_witness:
  "pointer_matches_proposal newer_pointer sample_rollback
   \<and> has_audit_event (at_id (sample_transition ''owner'')) newer_store"
proof -
  have "find_pointer sample_scope newer_store = Some newer_pointer"
    using newer_current by (simp add: load_active_pointer_eq)
  then show ?thesis using rollback_targets_history [OF sample_rolled] by auto
qed

text \<open>Repairing the projection of the sample activation. The only audit event of the store carries
  no digest, so that the new event is distinct from it by its shape alone.\<close>

definition sample_projector :: "projection_state option projector" where
  "sample_projector = \<lparr>dh_read = (\<lambda>w scope. Inr w), dh_project = (\<lambda>w p a. Inr (p, Some p))\<rparr>"

definition repair_store :: control_store where
  "repair_store = (sample_store ''owner'')\<lparr>cs_audit :=
     [(sample_event ''owner'')\<lparr>ev_workspace_id := ''workspace-2'', ev_event_id := ''event-0'', ev_event_hash := []\<rparr>]\<rparr>"

definition sample_report :: reconciliation_report where
  "sample_report =
     \<lparr>re_scope = sample_scope, re_active_pointer = approved_pointer (sample_approval ''owner'') 2,
      re_desired_projection = ob_desired (sample_outbox ''owner''), re_observed_projection = None,
      re_pending_outbox = Some (sample_outbox ''owner''),
      re_findings =
        [finding_of PENDING_OUTBOX SEV_WARNING
           ''The authoritative activation still has a pending projection.'',
         finding_of PROJECTION_MISSING SEV_WARNING
           ''The DataHub active-pointer projection is missing.''],
      re_inspected_at = 3\<rparr>"

lemma repair_pointer:
  "load_active_pointer sample_scope repair_store = Inr (Some (approved_pointer (sample_approval ''owner'') 2))"
  using sample_pointer_found [OF sample_actors(1,2)]
  by (simp add: load_active_pointer_eq find_pointer_def repair_store_def)

lemma repair_audit:
  "audit_gap sample_config (registry_activation_transition_id (sample_approval ''owner'')) ''workspace-1'' repair_store
     = Inr False"
proof -
  have "has_audit_event (registry_activation_transition_id (sample_approval ''owner'')) repair_store"
    by (simp add: has_audit_event_def repair_store_def sample_event_def next_audit_event_def Let_def
        REGISTRY_OPERATIONS_def sample_transition_def)
  moreover have "workspace_events repair_store ''workspace-1'' = []"
    by (simp add: workspace_events_def repair_store_def)
  ultimately show ?thesis
    using control_workspace
    by (simp add: audit_gap_def audit_chain_is_valid_def verify_audit_chain_def
        audit_chain_verification_valid_def)
qed

lemma sample_outbox_valid: "outbox_item_valid sample_iso (sample_outbox ''owner'')"
  by (rule commit_input_valid [OF sample_input_valid [OF sample_actors(1,2)]])

lemma sample_outbox_sel [simp]:
  "pj_pointer (ob_desired (sample_outbox actor)) = approved_pointer (sample_approval actor) 2"
  "ob_status (sample_outbox actor) = OB_PENDING"
  by (simp_all add: sample_outbox_def sample_transition_def)

lemma sample_pointer_parts [simp]:
  "ptr_scope (approved_pointer (sample_approval actor) t) = sample_scope"
  "ptr_generation (approved_pointer (sample_approval actor) t) = 1"
  "ptr_registry_version (approved_pointer (sample_approval actor) t) = 1"
  "ptr_transition_id (approved_pointer (sample_approval actor) t)
     = registry_activation_transition_id (sample_approval actor)"
  by (simp_all add: approved_pointer_def) (simp_all add: sample_proposal_def)

lemma repair_pending: "load_pending sample_iso sample_scope repair_store = Inr (Some (sample_outbox ''owner''))"
  using sample_outbox_valid
  by (simp add: load_pending_def load_pending_outbox_def repair_store_def sample_store_def outbox_row_of_def)

lemma sample_report_valid: "reconciliation_report_valid sample_iso sample_report"
proof -
  have "active_pointer_valid (approved_pointer (sample_approval ''owner'') 2)"
    using sample_pointer_found [OF sample_actors(1,2)] by (simp add: load_active_pointer_eq)
  moreover have "projection_state_valid sample_iso (ob_desired (sample_outbox ''owner''))"
    using sample_outbox_valid by (simp add: outbox_item_valid_def)
  moreover have "list_all reconciliation_finding_valid (re_findings sample_report)"
    by (simp add: sample_report_def finding_of_def reconciliation_finding_valid_def len_between_def
        blank_iff char_class_defs)
  moreover have "len_between 1 12 (re_findings sample_report)"
    "length (map fi_code (re_findings sample_report)) = card (set (map fi_code (re_findings sample_report)))"
    by (simp_all add: sample_report_def finding_of_def len_between_def)
  ultimately show ?thesis
    using sample_scope_valid sample_outbox_valid
    unfolding reconciliation_report_valid_def by (simp add: sample_report_def)
qed

lemma sample_inspected:
  "inspect_registry_reconciliation sample_iso sample_config sample_versions sample_projector sample_scope (Aware 3)
     None repair_store = Inr sample_report"
proof -
  let ?p = "approved_pointer (sample_approval ''owner'') 2"
  have d: "\<lparr>pj_pointer = ?p, pj_projection_fingerprint = registry_projection_fingerprint sample_iso ?p\<rparr>
      = ob_desired (sample_outbox ''owner'')"
    by (simp add: sample_outbox_def sample_transition_def)
  have dv: "construct_model (projection_state_valid sample_iso) (ob_desired (sample_outbox ''owner''))
      = (Inr (ob_desired (sample_outbox ''owner'')) :: projection_state controlled)"
    using sample_outbox_valid by (simp add: construct_model_def outbox_item_valid_def)
  have vf: "version_findings sample_versions sample_scope ?p = Inr []"
    by (simp add: version_findings_def sample_strict_version sample_version_matches)
  have rp: "read_projection sample_iso sample_projector None sample_scope = Inr None"
    by (simp add: read_projection_def sample_projector_def)
  have w: "sc_workspace_id sample_scope = ''workspace-1''" by (simp add: sample_scope_def)
  show ?thesis
    unfolding inspect_registry_reconciliation_def repair_pointer bindE_simps option.case d dv rp
      repair_pending vf sample_pointer_parts w repair_audit
    using sample_report_valid
    by (simp add: construct_model_def pending_findings_def observed_finding_def sample_report_def)
      (simp add: finding_of_def)
qed

definition sample_repair_approval :: reconciliation_approval where
  "sample_repair_approval =
     \<lparr>rc_id = ''registry-reconcile-v1-'' @ json_fingerprint (JObj
        [(''report'', JStr (report_fingerprint sample_iso sample_report)), (''actor'', JStr ''owner''),
         (''approved_at'', JStr (canonical_datetime 3)),
         (''confirmation'', JStr (reconciliation_confirmation_value REPAIR_ACTIVE_REGISTRY_PROJECTION))]),
      rc_report_fingerprint = report_fingerprint sample_iso sample_report, rc_scope = sample_scope,
      rc_generation = 1, rc_registry_fingerprint = sha256_text ''registry'', rc_actor = ''owner'',
      rc_approved_at = 3, rc_confirmation = REPAIR_ACTIVE_REGISTRY_PROJECTION\<rparr>"

lemma sample_repair_id:
  "registry_reconciliation_approval_id_from_fingerprint (report_fingerprint sample_iso sample_report) ''owner'' 3
     REPAIR_ACTIVE_REGISTRY_PROJECTION = Inr (rc_id sample_repair_approval)"
  by (simp add: registry_reconciliation_approval_id_from_fingerprint_def report_fingerprint_def
      sample_repair_approval_def)

lemma sample_repair_approval_valid: "reconciliation_approval_valid sample_repair_approval"
proof -
  have "is_named_id (rc_id sample_repair_approval)" "len_between 3 200 (rc_id sample_repair_approval)"
    unfolding sample_repair_approval_def reconciliation_approval.select_convs
    by (rule prefixed_id_named [OF control_prefixes(4)])+
  then show ?thesis
    using sample_scope_valid sample_actors(1,2) sample_repair_id [where ?'a = unit]
    unfolding reconciliation_approval_valid_def
    by (simp add: sample_repair_approval_def report_fingerprint_def)
qed

lemma sample_repair_approved:
  "validate_registry_reconciliation_approval sample_iso sample_report sample_repair_approval
     = (Inr () :: unit controlled)"
proof -
  have p: "rc_scope sample_repair_approval = re_scope sample_report"
    "rc_generation sample_repair_approval = ptr_generation (re_active_pointer sample_report)"
    "rc_registry_fingerprint sample_repair_approval = ptr_registry_fingerprint (re_active_pointer sample_report)"
    "rc_report_fingerprint sample_repair_approval = report_fingerprint sample_iso sample_report"
    "rc_confirmation sample_repair_approval = REPAIR_ACTIVE_REGISTRY_PROJECTION"
    "rc_actor sample_repair_approval = ''owner''" "rc_approved_at sample_repair_approval = 3"
    by (simp_all add: sample_repair_approval_def sample_report_def)
      (simp_all add: approved_pointer_def sample_proposal_def)
  show ?thesis
    unfolding validate_registry_reconciliation_approval_def registry_reconciliation_approval_id_def p
      sample_repair_id
    by (simp add: sample_report_valid sample_repair_approval_valid)
qed

lemma sample_read_back:
  "project_and_read_back sample_iso sample_projector sample_report sample_repair_approval None
     = Inr (ob_desired (sample_outbox ''owner''), Some (ob_desired (sample_outbox ''owner'')))"
proof -
  have r: "re_desired_projection sample_report = ob_desired (sample_outbox ''owner'')"
    "re_scope sample_report = sample_scope"
    by (simp_all add: sample_report_def)
  have v: "validate_projection_response sample_iso (ob_desired (sample_outbox ''owner'')) sample_scope
      = Inr (ob_desired (sample_outbox ''owner''))"
    using sample_outbox_valid by (simp add: validate_projection_response_def outbox_item_valid_def)
  show ?thesis
    by (simp add: project_and_read_back_def read_projection_def sample_projector_def r v)
qed

lemma sample_outcome_built:
  "build_projection_outcome sample_iso sample_report (sample_outbox ''owner'') OB_DELIVERED (Aware 3)
     (Some (ob_desired (sample_outbox ''owner''))) = Inr sample_outcome"
proof -
  have "\<lparr>po_outbox_id = ob_id (sample_outbox ''owner''), po_transition_id = ob_transition_id (sample_outbox ''owner''),
      po_scope = re_scope sample_report, po_generation = 1, po_status = OB_DELIVERED,
      po_observed_projection = Some (ob_desired (sample_outbox ''owner'')), po_occurred_at = 3,
      po_reason_code = None\<rparr> = sample_outcome"
    by (simp add: sample_outcome_def sample_report_def) (simp add: sample_outbox_def)
  then show ?thesis
    using sample_outcome_valid by (simp add: build_projection_outcome_def construct_model_def)
qed

lemma sample_recorded:
  "\<exists>s'. record_projection_outcome sample_iso sample_config sample_outcome repair_store = Inr s'"
proof -
  let ?r = "outbox_row_of (sample_outbox ''owner'')"
  define s1 where "s1 = repair_store\<lparr>cs_outbox := [close_row sample_outcome ?r]\<rparr>"
  define append where "append = append_audit_event sample_config outcome_error (sc_workspace_id (po_scope sample_outcome))
       (''registry_projection_'' @ outbox_status_value (po_status sample_outcome))
       (Some (po_transition_id sample_outcome))
       (control_event_id ''registry_projection'' (json_fingerprint (outcome_json sample_iso sample_outcome)))
       (JObj [(''outcome'', outcome_json sample_iso sample_outcome)]) (po_occurred_at sample_outcome) s1"
  have sel: "po_outbox_id sample_outcome = ob_id (sample_outbox ''owner'')"
    "po_transition_id sample_outcome = at_id (sample_transition ''owner'')" "po_scope sample_outcome = sample_scope"
    by (simp_all add: sample_outcome_def)
  have ex: "\<exists>h s2. append = Inr (h, s2)"
  proof -
    have h: "is_sha256 (ev_event_hash (next_audit_event sample_config sample_key w op tr e pl z s))" for w op tr e pl z s
      by (simp add: next_audit_event_def audit_hash_def Let_def)
    have n: "[] \<noteq> ev_event_hash (next_audit_event sample_config sample_key w op tr e pl z s)" for w op tr e pl z s
      using h [of w op tr e pl z s] by (auto simp: is_sha256_def re_exactly_def)
    have t: "sc_workspace_id (ptr_scope (at_active_pointer (sample_transition ''owner''))) = sc_workspace_id sample_scope"
      by (simp add: sample_pointer_sel)
    have ev: "ev_event_id (next_audit_event sample_config sample_key w op tr e pl z s) = e"
      "ev_transition_id (next_audit_event sample_config sample_key w op tr e pl z s) = tr"
      "ev_workspace_id (next_audit_event sample_config sample_key w op tr e pl z s) = w" for w op tr e pl z s
      by (simp_all add: next_audit_event_def Let_def)
    have k: "cf_audit_signing_keys sample_config (cf_active_audit_key_version sample_config) = Some sample_key"
      by (simp add: sample_config_def)
    have i: "control_event_id kind x \<noteq> ''event-0''" for kind x by (simp add: control_event_id_def)
    show ?thesis
      unfolding append_def append_audit_event_def k option.case Let_def
      by (simp add: insert_audit_event_def database_def s1_def repair_store_def sample_store_def n ev t sel
          i [symmetric] del: next_audit_event_sel)
  qed
  have m: "outcome_row_matches ?r sample_outcome" "ob_status (ow_item ?r) = OB_PENDING"
    "closed_row_ok (close_row sample_outcome ?r)" "cs_outbox repair_store = [?r]"
    by (simp_all add: outcome_row_matches_def closed_row_ok_def close_row_def outbox_row_of_def
        sample_outcome_def repair_store_def sample_store_def)
      (simp_all add: sample_outbox_def)
  have "ob_id (ow_item ?r) = po_outbox_id sample_outcome" by (simp add: sel outbox_row_of_def)
  then have "record_projection_outcome sample_iso sample_config sample_outcome repair_store
      = bindE append (\<lambda>(h, s2). Inr s2)"
    using m by (simp add: record_projection_outcome_def append_def s1_def Let_def)
  with ex show ?thesis by auto
qed

theorem reconciliation_is_honest_witness:
  "\<exists>u w' s'. reconcile_registry_projection sample_iso sample_config sample_versions sample_projector
      sample_report sample_repair_approval (Aware 3) None repair_store = Inr (u, w', s')
    \<and> read_projection sample_iso sample_projector w' sample_scope = Inr (Some (ob_desired (sample_outbox ''owner'')))
    \<and> cs_pointers s' = cs_pointers repair_store"
proof -
  obtain s' where rec: "record_projection_outcome sample_iso sample_config sample_outcome repair_store = Inr s'"
    using sample_recorded by blast
  have r: "re_scope sample_report = sample_scope" "re_inspected_at sample_report = 3"
    "re_pending_outbox sample_report = Some (sample_outbox ''owner'')"
    "set (map fi_code (re_findings sample_report)) = {PENDING_OUTBOX, PROJECTION_MISSING}"
    by (simp_all add: sample_report_def finding_of_def)
  have run: "reconcile_registry_projection sample_iso sample_config sample_versions sample_projector
      sample_report sample_repair_approval (Aware 3) None repair_store
    = Inr (sample_outcome, Some (ob_desired (sample_outbox ''owner'')), s')"
    unfolding reconcile_registry_projection_def sample_repair_approved r sample_inspected option.case Let_def
      except_value_error_returns bindE_simps
    using rec by (simp add: BLOCKING_CODES_def sample_read_back sample_outcome_built)
  have "po_status sample_outcome = OB_DELIVERED" by (simp add: sample_outcome_def)
  then show ?thesis
    using reconciliation_is_honest [OF run] run repair_pending by (auto simp: r)
qed

end
