(* ===== verification/Workflows.thy ===== *)
theory Workflows
  imports Governance Canonical_Digest "HOL-Library.Product_Lexorder" "HOL-Library.Option_ord"
begin

text \<open>
  The typed contracts of the resumable agent workflow: \<open>domain/workflows.py\<close> and the audit facts of
  \<open>domain/publication_audit.py\<close>.

  A value the workflow only stores and fingerprints (the validated request, the resolved plan, the
  intent vocabulary, the proposed requests, the validation findings) has the type \<open>'x\<close>. A \<open>datetime\<close>
  of a draft has no validator unless the source gives it one, so it may be naive. A float cell of a
  preview is kept as the literal that \<open>json.dumps\<close> writes for it, and a date, datetime or Decimal as
  its \<open>str\<close>. A pydantic model that another component returns is a valid one; the draft that stores it
  validates it again.
\<close>

section \<open>Enumerations\<close>

datatype agent_stage =
    ST_CREATED | ST_CONTEXT_RETRIEVAL | ST_INTENT_RESOLUTION | ST_DECISION_REQUIRED
  | ST_SEMANTIC_RESOLUTION | ST_PLAN_READY | ST_VALIDATED | ST_EXECUTION | ST_EXECUTED
  | ST_PUBLICATION_PROPOSED | ST_PUBLICATION_COMPLETED | ST_COMPLETED | ST_FAILED

datatype workflow_checkpoint_kind =
    CK_INTENT_CONFIRMATION | CK_EXECUTION_APPROVAL | CK_PUBLICATION_DECISION | CK_RETRY

datatype workflow_operation =
    OP_CATALOG_CONTEXT_READ | OP_INTENT_RESOLUTION | OP_HUMAN_DECISION | OP_SEMANTIC_RESOLUTION
  | OP_SQL_VALIDATION | OP_QUERY_RECIPE_LOOKUP | OP_PREVIEW_EXECUTION | OP_REJECTION_INSPECTION
  | OP_CONTEXT_PUBLICATION

fun operation_value :: "workflow_operation \<Rightarrow> string" where
  "operation_value OP_CATALOG_CONTEXT_READ = ''catalog_context_read''"
| "operation_value OP_INTENT_RESOLUTION = ''intent_resolution''"
| "operation_value OP_HUMAN_DECISION = ''human_decision''"
| "operation_value OP_SEMANTIC_RESOLUTION = ''semantic_resolution''"
| "operation_value OP_SQL_VALIDATION = ''sql_validation''"
| "operation_value OP_QUERY_RECIPE_LOOKUP = ''query_recipe_lookup''"
| "operation_value OP_PREVIEW_EXECUTION = ''preview_execution''"
| "operation_value OP_REJECTION_INSPECTION = ''rejection_inspection''"
| "operation_value OP_CONTEXT_PUBLICATION = ''context_publication''"

datatype workflow_trace_status = TR_STARTED | TR_SUCCEEDED | TR_FAILED

datatype workflow_decision_kind = DK_INTENT | DK_EXECUTION | DK_PUBLICATION | DK_RETRY

fun decision_kind_value :: "workflow_decision_kind \<Rightarrow> string" where
  "decision_kind_value DK_INTENT = ''intent''"
| "decision_kind_value DK_EXECUTION = ''execution''"
| "decision_kind_value DK_PUBLICATION = ''publication''"
| "decision_kind_value DK_RETRY = ''retry''"

datatype workflow_decision_action =
  DA_CONFIRM | DA_APPROVE | DA_DECLINE | DA_PUBLISH | DA_SKIP | DA_RETRY

fun decision_action_value :: "workflow_decision_action \<Rightarrow> string" where
  "decision_action_value DA_CONFIRM = ''confirm''"
| "decision_action_value DA_APPROVE = ''approve''"
| "decision_action_value DA_DECLINE = ''decline''"
| "decision_action_value DA_PUBLISH = ''publish''"
| "decision_action_value DA_SKIP = ''skip''"
| "decision_action_value DA_RETRY = ''retry''"

datatype workflow_publication_confirmation = PUBLISH_EXECUTION_CONTEXT

datatype workflow_publication_status = PS_CREATED | PS_ALREADY_CURRENT | PS_FAILED

fun publication_status_value :: "workflow_publication_status \<Rightarrow> string" where
  "publication_status_value PS_CREATED = ''created''"
| "publication_status_value PS_ALREADY_CURRENT = ''already_current''"
| "publication_status_value PS_FAILED = ''failed''"

datatype user_language = SPANISH | ENGLISH

datatype intent_ambiguity =
    COUNT_OR_LIST | DISTINCT_OR_RELATIONSHIP_COUNT | DATE_MEANING | UNKNOWN_ROLE_VALUE
  | UNRESOLVED_BUSINESS_REQUEST

datatype intent_alternative_id =
    CONFIRM_INTERPRETATION | COUNT_DISTINCT_CUSTOMERS | COUNT_HOLDER_RELATIONSHIPS
  | LIST_CUSTOMERS | USE_REGISTRATION_DATE | USE_RELATIONSHIP_DATE | USE_PRIMARY_ROLE
  | USE_SECONDARY_ROLE

datatype audit_outcome = AO_SUCCEEDED | AO_ALREADY_CURRENT | AO_FAILED | AO_NOT_ATTEMPTED

datatype publication_family = PF_CANONICAL | PF_JOIN | PF_REGISTRY | PF_WORKFLOW | PF_RECIPE

datatype recipe_reuse_status = RU_NOT_FOUND | RU_REUSABLE | RU_STALE

fun recipe_reuse_status_value :: "recipe_reuse_status \<Rightarrow> string" where
  "recipe_reuse_status_value RU_NOT_FOUND = ''not_found''"
| "recipe_reuse_status_value RU_REUSABLE = ''reusable''"
| "recipe_reuse_status_value RU_STALE = ''stale''"

datatype recipe_staleness =
    ACTIVE_REGISTRY_CHANGED | MODEL_CONTEXT_CHANGED | MAPPING_VERSION_CHANGED
  | JOIN_VERSION_CHANGED | SOURCE_SCHEMA_CHANGED | COMPILER_VERSION_CHANGED | PLAN_CHANGED
  | QUERY_CHANGED | SEMANTIC_EVIDENCE_CHANGED

fun recipe_staleness_value :: "recipe_staleness \<Rightarrow> string" where
  "recipe_staleness_value ACTIVE_REGISTRY_CHANGED = ''active_registry_changed''"
| "recipe_staleness_value MODEL_CONTEXT_CHANGED = ''model_context_changed''"
| "recipe_staleness_value MAPPING_VERSION_CHANGED = ''mapping_version_changed''"
| "recipe_staleness_value JOIN_VERSION_CHANGED = ''join_version_changed''"
| "recipe_staleness_value SOURCE_SCHEMA_CHANGED = ''source_schema_changed''"
| "recipe_staleness_value COMPILER_VERSION_CHANGED = ''compiler_version_changed''"
| "recipe_staleness_value PLAN_CHANGED = ''plan_changed''"
| "recipe_staleness_value QUERY_CHANGED = ''query_changed''"
| "recipe_staleness_value SEMANTIC_EVIDENCE_CHANGED = ''semantic_evidence_changed''"

section \<open>Patterns\<close>

text \<open>\<open>^[a-z0-9][a-z0-9_-]{2,63}$\<close>, \<open>^[a-z][a-z0-9_]{1,63}$\<close> and \<open>^[a-z][a-z0-9_]{0,47}$\<close>.\<close>

definition is_workflow_id :: "string \<Rightarrow> bool" where
  "is_workflow_id s \<longleftrightarrow> re_head_run lower_or_digit lower_digit_dash 2 63 s"

definition is_inert_code :: "string \<Rightarrow> bool" where
  "is_inert_code s \<longleftrightarrow> re_head_run is_lower lower_digit_under 1 63 s"

definition is_trace_key :: "string \<Rightarrow> bool" where
  "is_trace_key s \<longleftrightarrow> re_head_run is_lower lower_digit_under 0 47 s
     \<and> s \<notin> {''chain_of_thought'', ''password'', ''prompt'', ''reasoning'', ''secret'', ''token''}"

definition bounded_actor :: "string \<Rightarrow> bool" where
  "bounded_actor s \<longleftrightarrow> len_between 1 120 s \<and> \<not> blank s"

section \<open>Commands\<close>

record start_command =
  sw_id :: string
  sw_text :: string
  sw_language :: user_language
  sw_datasets :: "string list"

definition start_command_valid :: "start_command \<Rightarrow> bool" where
  "start_command_valid c \<longleftrightarrow>
     is_workflow_id (sw_id c) \<and> len_between 1 2000 (sw_text c) \<and> \<not> blank (sw_text c)
     \<and> len_between 1 3 (sw_datasets c) \<and> list_all is_physical_dataset_ref (sw_datasets c)
     \<and> distinct (sw_datasets c)"

record intent_decision =
  id_actor :: string
  id_interpretation_fingerprint :: string
  id_selected_alternative :: intent_alternative_id

definition intent_decision_valid :: "intent_decision \<Rightarrow> bool" where
  "intent_decision_valid d \<longleftrightarrow> bounded_actor (id_actor d) \<and> is_sha256 (id_interpretation_fingerprint d)"

record execution_decision =
  ed_actor :: string
  ed_plan_fingerprint :: string
  ed_action :: workflow_decision_action

definition execution_decision_valid :: "execution_decision \<Rightarrow> bool" where
  "execution_decision_valid d \<longleftrightarrow>
     bounded_actor (ed_actor d) \<and> is_sha256 (ed_plan_fingerprint d)
     \<and> ed_action d \<in> {DA_APPROVE, DA_DECLINE}"

record publication_decision =
  pd_actor :: string
  pd_proposal_fingerprint :: string
  pd_action :: workflow_decision_action
  pd_confirmation :: "workflow_publication_confirmation option"

definition publication_decision_valid :: "publication_decision \<Rightarrow> bool" where
  "publication_decision_valid d \<longleftrightarrow>
     bounded_actor (pd_actor d) \<and> is_sha256 (pd_proposal_fingerprint d)
     \<and> pd_action d \<in> {DA_PUBLISH, DA_SKIP}
     \<and> \<not> (pd_action d = DA_PUBLISH \<and> pd_confirmation d = None)
     \<and> \<not> (pd_action d = DA_SKIP \<and> pd_confirmation d \<noteq> None)"

record retry_decision =
  rd_actor :: string
  rd_failure_fingerprint :: string
  rd_operation :: workflow_operation
  rd_action :: workflow_decision_action

definition retry_decision_valid :: "retry_decision \<Rightarrow> bool" where
  "retry_decision_valid d \<longleftrightarrow>
     bounded_actor (rd_actor d) \<and> is_sha256 (rd_failure_fingerprint d) \<and> rd_action d = DA_RETRY"

section \<open>Parts of a draft\<close>

record catalog_asset =
  ca_dataset :: string
  ca_urn :: string
  ca_field_count :: int
  ca_partial :: bool
  ca_schema_fingerprint :: "string option"

definition catalog_asset_valid :: "catalog_asset \<Rightarrow> bool" where
  "catalog_asset_valid a \<longleftrightarrow>
     is_physical_dataset_ref (ca_dataset a) \<and> len_between 1 500 (ca_urn a)
     \<and> 0 \<le> ca_field_count a \<and> ca_field_count a \<le> 1000
     \<and> optional is_sha256 (ca_schema_fingerprint a)"

record 'x intent_alternative =
  ia_id :: intent_alternative_id
  ia_label :: string
  ia_rationale :: string
  ia_resolves :: "intent_ambiguity list"
  ia_request :: "'x option"

definition intent_alternative_valid :: "'x intent_alternative \<Rightarrow> bool" where
  "intent_alternative_valid a \<longleftrightarrow>
     len_between 1 160 (ia_label a) \<and> len_between 1 500 (ia_rationale a)"

record 'x intent_snapshot =
  is_language :: user_language
  is_adapter :: string
  is_vocabulary :: 'x
  is_interpretation_fingerprint :: string
  is_proposed_request :: "'x option"
  is_ambiguities :: "intent_ambiguity list"
  is_alternatives :: "'x intent_alternative list"
  is_findings :: "'x list"

definition intent_snapshot_valid :: "'x intent_snapshot \<Rightarrow> bool" where
  "intent_snapshot_valid s \<longleftrightarrow>
     len_between 1 100 (is_adapter s) \<and> is_sha256 (is_interpretation_fingerprint s)
     \<and> list_all intent_alternative_valid (is_alternatives s)"

record workflow_checkpoint =
  cp_kind :: workflow_checkpoint_kind
  cp_fingerprint :: string
  cp_reason :: string

definition checkpoint_valid :: "workflow_checkpoint \<Rightarrow> bool" where
  "checkpoint_valid c \<longleftrightarrow> is_sha256 (cp_fingerprint c) \<and> len_between 1 300 (cp_reason c)"

record trace_fact =
  tf_key :: string
  tf_value :: string

definition trace_fact_valid :: "trace_fact \<Rightarrow> bool" where
  "trace_fact_valid f \<longleftrightarrow> is_trace_key (tf_key f) \<and> len_between 1 200 (tf_value f)"

record trace_event =
  te_sequence :: int
  te_stage :: agent_stage
  te_operation :: workflow_operation
  te_status :: workflow_trace_status
  te_occurred_at :: datetime
  te_input_refs :: "string list"
  te_facts :: "trace_fact list"
  te_duration_ms :: "int option"

definition trace_event_valid :: "trace_event \<Rightarrow> bool" where
  "trace_event_valid e \<longleftrightarrow>
     1 \<le> te_sequence e \<and> length (te_input_refs e) \<le> 6 \<and> length (te_facts e) \<le> 8
     \<and> list_all trace_fact_valid (te_facts e) \<and> optional (\<lambda>d. 0 \<le> d) (te_duration_ms e)
     \<and> \<not> (te_status e = TR_STARTED \<and> te_duration_ms e \<noteq> None)
     \<and> \<not> (te_status e \<noteq> TR_STARTED \<and> te_duration_ms e = None)"

record workflow_decision_record =
  de_actor :: string
  de_kind :: workflow_decision_kind
  de_action :: workflow_decision_action
  de_decided_at :: datetime
  de_bound_fingerprint :: string

definition workflow_decision_valid :: "workflow_decision_record \<Rightarrow> bool" where
  "workflow_decision_valid d \<longleftrightarrow> bounded_actor (de_actor d) \<and> is_sha256 (de_bound_fingerprint d)"

record workflow_failure =
  wf_code :: string
  wf_operation :: workflow_operation
  wf_retryable :: bool
  wf_attempt :: int
  wf_occurred_at :: datetime
  wf_fingerprint :: string

definition failure_valid :: "workflow_failure \<Rightarrow> bool" where
  "failure_valid f \<longleftrightarrow> is_inert_code (wf_code f) \<and> 1 \<le> wf_attempt f \<and> is_sha256 (wf_fingerprint f)"

text \<open>The ISO text of a timestamp is a parameter of the fingerprints that contain one.\<close>

definition failure_payload ::
  "(datetime \<Rightarrow> string) \<Rightarrow> string \<Rightarrow> workflow_operation \<Rightarrow> bool \<Rightarrow> int \<Rightarrow> datetime \<Rightarrow> json" where
  "failure_payload iso_text c operation retryable attempt occurred_at =
     JObj [(''code'', JStr c), (''operation'', JStr (operation_value operation)),
       (''retryable'', JBool retryable), (''attempt'', JInt attempt),
       (''occurred_at'', JStr (iso_text occurred_at))]"

definition failure_create ::
  "(datetime \<Rightarrow> string) \<Rightarrow> string \<Rightarrow> workflow_operation \<Rightarrow> bool \<Rightarrow> int \<Rightarrow> datetime \<Rightarrow>
   ('c, workflow_failure) outcome" where
  "failure_create iso_text c operation retryable attempt occurred_at =
     construct_model failure_valid
       \<lparr>wf_code = c, wf_operation = operation, wf_retryable = retryable, wf_attempt = attempt,
        wf_occurred_at = occurred_at,
        wf_fingerprint =
          json_fingerprint (failure_payload iso_text c operation retryable attempt occurred_at)\<rparr>"

section \<open>Execution records\<close>

datatype cell = CellNone | CellBool bool | CellInt int | CellFloat string | CellStr string

text \<open>The text \<open>json.dumps\<close> writes for a cell, for a list of rendered items, and for an object whose
  members are already rendered.\<close>

fun cell_text :: "cell \<Rightarrow> string" where
  "cell_text CellNone = dumps escape_ascii JNull"
| "cell_text (CellBool b) = dumps escape_ascii (JBool b)"
| "cell_text (CellInt i) = dumps escape_ascii (JInt i)"
| "cell_text (CellFloat literal) = literal"
| "cell_text (CellStr s) = dumps escape_ascii (JStr s)"

definition array_text :: "string list \<Rightarrow> string" where
  "array_text ts = ''['' @ join_with (CHR '','') ts @ '']''"

definition object_text :: "(string \<times> string) list \<Rightarrow> string" where
  "object_text kvs =
     ''{'' @ join_with (CHR '','')
               (map (\<lambda>(k, t). quote escape_ascii k @ CHR '':'' # t) (sort_key fst kvs)) @ ''}''"

abbreviation plain_text :: "json \<Rightarrow> string" where
  "plain_text \<equiv> dumps escape_ascii"

abbreviation strings_json :: "string list \<Rightarrow> json" where
  "strings_json ss \<equiv> JArr (map JStr ss)"

definition rows_text :: "cell list list \<Rightarrow> string" where
  "rows_text rows = array_text (map (\<lambda>row. array_text (map cell_text row)) rows)"

definition MAX_REJECTED_TOTAL :: int where
  "MAX_REJECTED_TOTAL = 2147483647"

record execution_record =
  er_plan_fingerprint :: string
  er_query_fingerprint :: string
  er_columns :: "string list"
  er_rows :: "cell list list"
  er_row_count :: "int option"
  er_database_user :: string
  er_transaction_read_only :: bool
  er_statement_timeout_ms :: int
  er_truncated :: bool
  er_preview_fingerprint :: string
  er_rejection_codes :: "string list"
  er_rejected_count :: int
  er_rejection_truncated :: bool
  er_rejection_complete :: bool

definition execution_record_valid :: "execution_record \<Rightarrow> bool" where
  "execution_record_valid r \<longleftrightarrow>
     is_sha256 (er_plan_fingerprint r) \<and> is_sha256 (er_query_fingerprint r)
     \<and> length (er_columns r) \<le> 50 \<and> length (er_rows r) \<le> 10000
     \<and> optional (\<lambda>n. 0 \<le> n \<and> n \<le> 10000) (er_row_count r)
     \<and> len_between 1 120 (er_database_user r) \<and> 1 \<le> er_statement_timeout_ms r
     \<and> is_sha256 (er_preview_fingerprint r)
     \<and> 0 \<le> er_rejected_count r \<and> er_rejected_count r \<le> MAX_REJECTED_TOTAL
     \<and> list_all (\<lambda>row. length row = length (er_columns r)) (er_rows r)
     \<and> optional (\<lambda>n. er_rows r = [] \<or> n = int (length (er_rows r))) (er_row_count r)
     \<and> er_transaction_read_only r
     \<and> (if er_rejection_complete r
        then int (length (er_rejection_codes r)) \<le> er_rejected_count r
          \<and> er_rejection_truncated r = (int (length (er_rejection_codes r)) < er_rejected_count r)
        else er_rejected_count r = 0 \<and> er_rejection_codes r = [] \<and> \<not> er_rejection_truncated r)"

definition observed_row_count :: "execution_record \<Rightarrow> int" where
  "observed_row_count r = (case er_row_count r of Some n \<Rightarrow> n | None \<Rightarrow> int (length (er_rows r)))"

definition any_truncated :: "execution_record \<Rightarrow> bool" where
  "any_truncated r \<longleftrightarrow> er_truncated r \<or> er_rejection_truncated r"

definition execution_text :: "execution_record \<Rightarrow> string" where
  "execution_text r = object_text
     [(''plan_fingerprint'', plain_text (JStr (er_plan_fingerprint r))),
      (''query_fingerprint'', plain_text (JStr (er_query_fingerprint r))),
      (''columns'', plain_text (strings_json (er_columns r))),
      (''rows'', rows_text (er_rows r)),
      (''row_count'', plain_text (optional_json JInt (er_row_count r))),
      (''database_user'', plain_text (JStr (er_database_user r))),
      (''transaction_read_only'', plain_text (JBool (er_transaction_read_only r))),
      (''statement_timeout_ms'', plain_text (JInt (er_statement_timeout_ms r))),
      (''truncated'', plain_text (JBool (er_truncated r))),
      (''preview_fingerprint'', plain_text (JStr (er_preview_fingerprint r))),
      (''rejection_codes'', plain_text (strings_json (er_rejection_codes r))),
      (''rejected_count'', plain_text (JInt (er_rejected_count r))),
      (''rejection_truncated'', plain_text (JBool (er_rejection_truncated r))),
      (''rejection_complete'', plain_text (JBool (er_rejection_complete r)))]"

section \<open>Publication\<close>

record publication_proposal =
  wr_workflow_id :: string
  wr_plan_fingerprint :: string
  wr_execution_fingerprint :: string
  wr_request_fingerprint :: string
  wr_idempotency_key :: string
  wr_fingerprint :: string

definition publication_payload :: "string \<Rightarrow> string \<Rightarrow> string \<Rightarrow> string \<Rightarrow> (string \<times> json) list" where
  "publication_payload workflow_id plan_fp execution_fp request_fp =
     [(''workflow_id'', JStr workflow_id), (''plan_fingerprint'', JStr plan_fp),
      (''execution_fingerprint'', JStr execution_fp), (''request_fingerprint'', JStr request_fp)]"

definition publication_proposal_valid :: "publication_proposal \<Rightarrow> bool" where
  "publication_proposal_valid p \<longleftrightarrow>
     is_sha256 (wr_plan_fingerprint p) \<and> is_sha256 (wr_execution_fingerprint p)
     \<and> is_sha256 (wr_request_fingerprint p) \<and> is_sha256 (wr_idempotency_key p)
     \<and> is_sha256 (wr_fingerprint p)
     \<and> (let payload = publication_payload (wr_workflow_id p) (wr_plan_fingerprint p)
               (wr_execution_fingerprint p) (wr_request_fingerprint p);
            key = json_fingerprint (JObj payload)
        in wr_idempotency_key p = key
           \<and> wr_fingerprint p = json_fingerprint (JObj (payload @ [(''idempotency_key'', JStr key)])))"

definition publication_proposal_create ::
  "string \<Rightarrow> string \<Rightarrow> string \<Rightarrow> string \<Rightarrow> ('c, publication_proposal) outcome" where
  "publication_proposal_create workflow_id plan_fp execution_fp request_fp =
     (let payload = publication_payload workflow_id plan_fp execution_fp request_fp;
          key = json_fingerprint (JObj payload)
      in construct_model publication_proposal_valid
           \<lparr>wr_workflow_id = workflow_id, wr_plan_fingerprint = plan_fp,
            wr_execution_fingerprint = execution_fp, wr_request_fingerprint = request_fp,
            wr_idempotency_key = key,
            wr_fingerprint = json_fingerprint (JObj (payload @ [(''idempotency_key'', JStr key)]))\<rparr>)"

record publication_approval =
  wa_id :: string
  wa_workflow_id :: string
  wa_proposal_fingerprint :: string
  wa_idempotency_key :: string
  wa_actor :: string
  wa_approved_at :: datetime
  wa_confirmation :: workflow_publication_confirmation

definition publication_approval_valid :: "publication_approval \<Rightarrow> bool" where
  "publication_approval_valid a \<longleftrightarrow>
     len_between 1 200 (wa_id a) \<and> \<not> blank (wa_id a) \<and> \<not> blank (wa_workflow_id a)
     \<and> is_sha256 (wa_proposal_fingerprint a) \<and> is_sha256 (wa_idempotency_key a)
     \<and> bounded_actor (wa_actor a) \<and> is_aware (wa_approved_at a)"

record publication_audit_record =
  pr_family :: publication_family
  pr_operation :: string
  pr_target :: string
  pr_approval_id :: string
  pr_audit_actor :: string
  pr_approved_at :: datetime
  pr_previous_fingerprint :: "string option"
  pr_new_fingerprint :: string
  pr_outcome :: audit_outcome
  pr_decision_ids :: "string list"
  pr_reason_code :: "string option"

definition publication_audit_record_valid :: "publication_audit_record \<Rightarrow> bool" where
  "publication_audit_record_valid r \<longleftrightarrow>
     is_inert_code (pr_operation r)
     \<and> len_between 1 500 (pr_target r) \<and> \<not> blank (pr_target r)
     \<and> len_between 1 200 (pr_approval_id r) \<and> \<not> blank (pr_approval_id r)
     \<and> bounded_actor (pr_audit_actor r) \<and> is_aware (pr_approved_at r)
     \<and> optional is_sha256 (pr_previous_fingerprint r) \<and> is_sha256 (pr_new_fingerprint r)
     \<and> distinct (pr_decision_ids r) \<and> list_all (\<lambda>i. \<not> blank i) (pr_decision_ids r)
     \<and> optional is_inert_code (pr_reason_code r)
     \<and> (pr_outcome r \<in> {AO_FAILED, AO_NOT_ATTEMPTED}) = (pr_reason_code r \<noteq> None)
     \<and> \<not> (pr_outcome r = AO_ALREADY_CURRENT
           \<and> pr_previous_fingerprint r \<noteq> Some (pr_new_fingerprint r))"

text \<open>Both loops of \<open>validate_publication_audit_binding\<close>, which raises \<open>ValueError\<close>.\<close>

definition audit_record_bound ::
  "string \<Rightarrow> string \<Rightarrow> datetime \<Rightarrow> string \<Rightarrow> string list \<Rightarrow> publication_audit_record \<Rightarrow> bool" where
  "audit_record_bound approval_id actor approved_at new_fingerprint decision_ids r \<longleftrightarrow>
     pr_approval_id r = approval_id \<and> pr_audit_actor r = actor \<and> pr_approved_at r = approved_at
     \<and> pr_new_fingerprint r = new_fingerprint \<and> set (pr_decision_ids r) = set decision_ids"

definition validate_publication_audit_binding ::
  "publication_audit_record list \<Rightarrow> string \<Rightarrow> string \<Rightarrow> datetime \<Rightarrow> string \<Rightarrow> string list \<Rightarrow>
   ('c, unit) outcome" where
  "validate_publication_audit_binding records approval_id actor approved_at new_fp decision_ids =
     (if records = [] then Inl ValueError
      else if list_all (audit_record_bound approval_id actor approved_at new_fp decision_ids) records
      then Inr () else Inl ValueError)"

record publication_result =
  pu_status :: workflow_publication_status
  pu_approval_id :: string
  pu_proposal_fingerprint :: string
  pu_idempotency_key :: string
  pu_document_ref :: string
  pu_published_at :: datetime
  pu_failure_code :: "string option"
  pu_audit_record :: publication_audit_record

fun expected_audit_outcome :: "workflow_publication_status \<Rightarrow> audit_outcome" where
  "expected_audit_outcome PS_CREATED = AO_SUCCEEDED"
| "expected_audit_outcome PS_ALREADY_CURRENT = AO_ALREADY_CURRENT"
| "expected_audit_outcome PS_FAILED = AO_FAILED"

definition publication_result_valid :: "publication_result \<Rightarrow> bool" where
  "publication_result_valid r \<longleftrightarrow>
     len_between 1 200 (pu_approval_id r) \<and> is_sha256 (pu_proposal_fingerprint r)
     \<and> is_sha256 (pu_idempotency_key r) \<and> len_between 1 500 (pu_document_ref r)
     \<and> optional is_inert_code (pu_failure_code r)
     \<and> publication_audit_record_valid (pu_audit_record r)
     \<and> (pu_status r = PS_FAILED) = (pu_failure_code r \<noteq> None)
     \<and> pr_family (pu_audit_record r) = PF_WORKFLOW
     \<and> pr_operation (pu_audit_record r) = ''upsert_document''
     \<and> pr_target (pu_audit_record r) = pu_document_ref r
     \<and> pr_approval_id (pu_audit_record r) = pu_approval_id r
     \<and> pr_new_fingerprint (pu_audit_record r) = pu_proposal_fingerprint r
     \<and> pr_outcome (pu_audit_record r) = expected_audit_outcome (pu_status r)
     \<and> pr_reason_code (pu_audit_record r) = pu_failure_code r"

record recipe_reuse =
  ru_status :: recipe_reuse_status
  ru_intent_fingerprint :: string
  ru_recipe_id :: "string option"
  ru_recipe_version :: "int option"
  ru_recipe_fingerprint :: "string option"
  ru_provenance_document_urn :: "string option"
  ru_reasons :: "recipe_staleness list"
  ru_revalidated :: bool

definition recipe_reuse_valid :: "recipe_reuse \<Rightarrow> bool" where
  "recipe_reuse_valid a \<longleftrightarrow>
     is_sha256 (ru_intent_fingerprint a) \<and> optional (\<lambda>v. 1 \<le> v) (ru_recipe_version a)
     \<and> optional is_sha256 (ru_recipe_fingerprint a)
     \<and> (if ru_status a = RU_NOT_FOUND
        then ru_recipe_id a = None \<and> ru_recipe_version a = None \<and> ru_recipe_fingerprint a = None
          \<and> ru_provenance_document_urn a = None \<and> ru_reasons a = []
        else ru_recipe_id a \<noteq> None \<and> ru_recipe_version a \<noteq> None \<and> ru_recipe_fingerprint a \<noteq> None
          \<and> ru_provenance_document_urn a \<noteq> None)
     \<and> \<not> (ru_status a = RU_REUSABLE \<and> ru_reasons a \<noteq> [])
     \<and> \<not> (ru_status a = RU_STALE \<and> ru_reasons a = [])
     \<and> ru_revalidated a"

section \<open>The draft\<close>

record 'x draft =
  dw_id :: string
  dw_revision :: int
  dw_stage :: agent_stage
  dw_text :: string
  dw_language :: user_language
  dw_requested_datasets :: "string list"
  dw_context_source :: "string option"
  dw_context_assets :: "catalog_asset list"
  dw_intent :: "'x intent_snapshot option"
  dw_validated_request :: "'x option"
  dw_resolved_plan :: "'x option"
  dw_plan_fingerprint :: "string option"
  dw_query_fingerprint :: "string option"
  dw_recipe_reuse :: "recipe_reuse option"
  dw_execution :: "execution_record option"
  dw_publication_proposal :: "publication_proposal option"
  dw_publication_approval :: "publication_approval option"
  dw_publication_result :: "publication_result option"
  dw_checkpoint :: "workflow_checkpoint option"
  dw_failure :: "workflow_failure option"
  dw_decisions :: "workflow_decision_record list"
  dw_trace :: "trace_event list"
  dw_created_at :: datetime
  dw_updated_at :: datetime

text \<open>The constraints of the fields, then \<open>state_is_internally_consistent\<close>.\<close>

definition draft_fields_valid :: "'x draft \<Rightarrow> bool" where
  "draft_fields_valid d \<longleftrightarrow>
     is_workflow_id (dw_id d) \<and> 1 \<le> dw_revision d \<and> len_between 1 2000 (dw_text d)
     \<and> len_between 1 3 (dw_requested_datasets d)
     \<and> list_all is_physical_dataset_ref (dw_requested_datasets d)
     \<and> optional (\<lambda>s. length s \<le> 120) (dw_context_source d)
     \<and> list_all catalog_asset_valid (dw_context_assets d)
     \<and> optional intent_snapshot_valid (dw_intent d)
     \<and> optional is_sha256 (dw_plan_fingerprint d) \<and> optional is_sha256 (dw_query_fingerprint d)
     \<and> optional recipe_reuse_valid (dw_recipe_reuse d)
     \<and> optional execution_record_valid (dw_execution d)
     \<and> optional publication_proposal_valid (dw_publication_proposal d)
     \<and> optional publication_approval_valid (dw_publication_approval d)
     \<and> optional publication_result_valid (dw_publication_result d)
     \<and> optional checkpoint_valid (dw_checkpoint d) \<and> optional failure_valid (dw_failure d)
     \<and> list_all workflow_decision_valid (dw_decisions d) \<and> list_all trace_event_valid (dw_trace d)"

definition state_is_internally_consistent :: "'x draft \<Rightarrow> bool" where
  "state_is_internally_consistent d \<longleftrightarrow>
     map te_sequence (dw_trace d) = [1..int (length (dw_trace d))]
     \<and> \<not> (dw_stage d = ST_DECISION_REQUIRED \<and> dw_checkpoint d = None)
     \<and> \<not> (dw_stage d = ST_FAILED \<and> dw_failure d = None)
     \<and> \<not> (dw_stage d \<noteq> ST_FAILED \<and> dw_failure d \<noteq> None)
     \<and> \<not> (dw_resolved_plan d \<noteq> None \<and> dw_plan_fingerprint d = None)
     \<and> \<not> (dw_execution d \<noteq> None \<and> dw_resolved_plan d = None)
     \<and> (case dw_execution d of None \<Rightarrow> True
        | Some r \<Rightarrow> dw_plan_fingerprint d = Some (er_plan_fingerprint r)
            \<and> dw_query_fingerprint d = Some (er_query_fingerprint r))
     \<and> \<not> (dw_publication_result d \<noteq> None \<and> dw_publication_approval d = None)"

definition draft_valid :: "'x draft \<Rightarrow> bool" where
  "draft_valid d \<longleftrightarrow> draft_fields_valid d \<and> state_is_internally_consistent d"

end
