(* ===== verification/Orchestrator.thy ===== *)
theory Orchestrator
  imports Workflows
begin

text \<open>
  \<open>AgentWorkflowOrchestrator\<close> of \<open>application/workflow_orchestration.py\<close>: every public operation and
  every internal step, over the injected ports.

  The ports are one record of functions over the state \<open>'w\<close> of everything outside the orchestrator
  (the clock, the draft store, the catalog, the intent service, the planner, the source, the
  publisher, the audit store, other processes). Each of them may answer anything and may raise
  anything. An operation is a function of a session: the outside world, and the list of drafts handed
  to the store so far. That list is the history a crash can leave behind: a process that stops at any
  moment has persisted a prefix of it.
\<close>

section \<open>Errors\<close>

datatype workflow_error_code =
    WE_NOT_FOUND | WE_CONFLICT | WE_STORE_FAILURE | WE_INVALID_TRANSITION | WE_DECISION_MISMATCH
  | WE_RETRY_NOT_ALLOWED | WE_PUBLICATION_FAILED

fun workflow_error_value :: "workflow_error_code \<Rightarrow> string" where
  "workflow_error_value WE_NOT_FOUND = ''workflow_not_found''"
| "workflow_error_value WE_CONFLICT = ''workflow_conflict''"
| "workflow_error_value WE_STORE_FAILURE = ''workflow_store_failure''"
| "workflow_error_value WE_INVALID_TRANSITION = ''workflow_invalid_transition''"
| "workflow_error_value WE_DECISION_MISMATCH = ''workflow_decision_mismatch''"
| "workflow_error_value WE_RETRY_NOT_ALLOWED = ''workflow_retry_not_allowed''"
| "workflow_error_value WE_PUBLICATION_FAILED = ''workflow_publication_failed''"

datatype query_cost_error_code = QE_REJECTED | QE_TIMEOUT | QE_UNAVAILABLE | QE_INVALID

fun query_cost_error_value :: "query_cost_error_code \<Rightarrow> string" where
  "query_cost_error_value QE_REJECTED = ''query_cost_rejected''"
| "query_cost_error_value QE_TIMEOUT = ''query_cost_timeout''"
| "query_cost_error_value QE_UNAVAILABLE = ''query_cost_unavailable''"
| "query_cost_error_value QE_INVALID = ''query_cost_invalid''"

datatype query_cost_decision = QC_ACCEPTED | QC_REJECTED

fun query_cost_decision_value :: "query_cost_decision \<Rightarrow> string" where
  "query_cost_decision_value QC_ACCEPTED = ''accepted''"
| "query_cost_decision_value QC_REJECTED = ''rejected''"

datatype query_cost_rejection =
    QR_TOTAL_COST_EXCEEDED | QR_ESTIMATED_ROWS_EXCEEDED | QR_PLAN_WIDTH_EXCEEDED
  | QR_PLAN_NODES_EXCEEDED | QR_PLAN_DEPTH_EXCEEDED | QR_RESPONSE_BYTES_EXCEEDED | QR_TIMEOUT
  | QR_UNAVAILABLE | QR_INVALID | QR_TARGET_FINGERPRINT_MISMATCH | QR_BUDGET_FINGERPRINT_MISMATCH

text \<open>The facts of a cost assessment the trace shows. A Decimal is its \<open>str\<close>; the assessment's own
  fingerprint is a given text.\<close>

record cost_assessment =
  qa_decision :: query_cost_decision
  qa_rejection_codes :: "query_cost_rejection list"
  qa_total_cost :: "string option"
  qa_estimated_root_rows :: "int option"
  qa_plan_node_count :: "int option"
  qa_fingerprint :: string

text \<open>
  The exception classes the orchestrator tells apart, with the \<open>code.value\<close> of those that carry one.
  \<open>SqlPolicyViolation\<close> has no code, and every other class is \<open>OtherError\<close>.
\<close>

datatype port_error =
    CatalogReadError string
  | IntentParserError string
  | RequestWorkflowError string
  | IntentConfirmationError string
  | ConnectorTargetError string
  | PlanningPortError string
  | SemanticResolutionError string
  | SemanticChangeError string
  | QueryCostError query_cost_error_code "cost_assessment option"
  | QueryCompilationError string
  | SqlPolicyViolation
  | QueryPreviewTimeoutError
  | QueryPreviewUnavailableError
  | QueryPreviewError
  | ProtectedSourceOperationCancelled
  | RecipeError string
  | PublicationAuditStoreError
  | OtherError string

datatype workflow_fault = WorkflowError workflow_error_code | Raised port_error

type_synonym 'a raised = "workflow_fault exn + 'a"

definition require_accepted :: "cost_assessment \<Rightarrow> unit raised" where
  "require_accepted a =
     (if qa_decision a = QC_ACCEPTED then Inr ()
      else
        let codes = set (qa_rejection_codes a);
            c = (if QR_TIMEOUT \<in> codes then QE_TIMEOUT
                 else if QR_UNAVAILABLE \<in> codes then QE_UNAVAILABLE
                 else if QR_INVALID \<in> codes \<or> QR_TARGET_FINGERPRINT_MISMATCH \<in> codes
                         \<or> QR_BUDGET_FINGERPRINT_MISMATCH \<in> codes then QE_INVALID
                 else QE_REJECTED)
        in Inl (Transition (Raised (QueryCostError c (Some a)))))"

section \<open>What the ports exchange\<close>

record catalog_field =
  fd_id :: string
  fd_field_path :: "string list"
  fd_native_type :: "string option"
  fd_description :: "string option"
  fd_nullable :: "bool option"
  fd_is_part_of_key :: "bool option"
  fd_tags :: "string list"
  fd_glossary_terms :: "string list"

record catalog_page =
  pg_items :: "catalog_field list"
  pg_next_cursor :: "string option"
  pg_partial :: bool

datatype source_value =
  SvNone | SvBool bool | SvInt int | SvFloat string | SvStr string
  | SvDate string | SvDatetime string | SvDecimal string | SvOther

record 'x intent_preview =
  ip_language :: user_language
  ip_adapter :: string
  ip_vocabulary :: 'x
  ip_interpretation_fingerprint :: string
  ip_proposed_request :: "'x option"
  ip_ambiguities :: "intent_ambiguity list"
  ip_alternatives :: "'x intent_alternative list"
  ip_findings :: "'x list"

record 'x prepared_query =
  pq_resolved_plan :: 'x
  pq_sql :: string
  pq_parameters :: "source_value list"
  pq_max_rows :: int
  pq_statement_timeout_ms :: int
  pq_dialect :: string
  pq_target_fingerprint :: "string option"
  pq_semantic_evidence :: "'x option"
  pq_cost_assessment :: "cost_assessment option"
  pq_policy_status :: string

record preview_result =
  pv_columns :: "string list"
  pv_rows :: "source_value list list"
  pv_database_user :: string
  pv_transaction_read_only :: bool
  pv_statement_timeout_ms :: int
  pv_truncated :: bool

record rejection_report =
  rr_codes :: "string list"
  rr_total_records :: int
  rr_truncated :: bool
  rr_database_user :: "string option"
  rr_transaction_read_only :: "bool option"

record 'x confirmed_request =
  cq_original_text :: "string option"
  cq_language :: "user_language option"
  cq_validated_request :: 'x

record 'x recipe_query =
  rq_validated_request :: 'x
  rq_resolved_plan :: 'x
  rq_plan_fingerprint :: string
  rq_query_fingerprint :: string
  rq_source_schema_fingerprint :: string

text \<open>
  The injected dependencies, with the parts of opaque values the orchestrator reads: the canonical
  JSON text of a request or plan, a plan's context version, and the datasets of its query policy.
\<close>

record ('w, 'x) ports =
  wp_iso_text :: "datetime \<Rightarrow> string"
  wp_dump_text :: "'x \<Rightarrow> string"
  wp_context_version :: "'x \<Rightarrow> int"
  wp_policy_datasets :: "'x \<Rightarrow> string list"
  wp_now :: "'w \<Rightarrow> datetime \<times> 'w"
  wp_load :: "string \<Rightarrow> 'w \<Rightarrow> 'x draft option raised \<times> 'w"
  wp_save :: "'x draft \<Rightarrow> int option \<Rightarrow> 'w \<Rightarrow> unit raised \<times> 'w"
  wp_source_label :: string
  wp_get_asset :: "string \<Rightarrow> 'w \<Rightarrow> string raised \<times> 'w"
  wp_list_schema_fields :: "string \<Rightarrow> int \<Rightarrow> 'w \<Rightarrow> catalog_page raised \<times> 'w"
  wp_preview :: "string \<Rightarrow> user_language \<Rightarrow> 'w \<Rightarrow> 'x intent_preview raised \<times> 'w"
  wp_confirm :: "'x intent_preview \<Rightarrow> string \<Rightarrow> intent_alternative_id \<Rightarrow> 'w \<Rightarrow> 'x raised \<times> 'w"
  wp_planner :: "'x \<Rightarrow> 'w \<Rightarrow> 'x raised \<times> 'w"
  wp_plan :: "'x \<Rightarrow> 'w \<Rightarrow> 'x raised \<times> 'w"
  wp_refresh_and_validate :: "'x \<Rightarrow> 'x \<Rightarrow> 'w \<Rightarrow> 'x prepared_query raised \<times> 'w"
  wp_execute_preview :: "'x prepared_query \<Rightarrow> 'w \<Rightarrow> preview_result raised \<times> 'w"
  wp_inspect_rejections ::
    "'x prepared_query \<Rightarrow> ('w \<Rightarrow> bool \<times> 'w) \<Rightarrow> 'w \<Rightarrow> rejection_report raised \<times> 'w"
  wp_publish :: "publication_proposal \<Rightarrow> publication_approval \<Rightarrow> 'w \<Rightarrow> publication_result raised \<times> 'w"
  wp_append_audit :: "publication_audit_record list \<Rightarrow> 'w \<Rightarrow> unit raised \<times> 'w"
  wp_assess_recipe :: "('x recipe_query \<Rightarrow> 'w \<Rightarrow> recipe_reuse raised \<times> 'w) option"

section \<open>Sessions\<close>

record ('w, 'x) session =
  se_world :: 'w
  se_submitted :: "'x draft list"

type_synonym ('w, 'x, 'a) action = "('w, 'x) session \<Rightarrow> 'a raised \<times> ('w, 'x) session"

definition returnW :: "'a \<Rightarrow> ('w, 'x, 'a) action" where
  "returnW x s = (Inr x, s)"

definition liftW :: "'a raised \<Rightarrow> ('w, 'x, 'a) action" where
  "liftW r s = (r, s)"

definition raiseW :: "workflow_error_code \<Rightarrow> ('w, 'x, 'a) action" where
  "raiseW c = liftW (Inl (Transition (WorkflowError c)))"

definition bindW :: "('w, 'x, 'a) action \<Rightarrow> ('a \<Rightarrow> ('w, 'x, 'b) action) \<Rightarrow> ('w, 'x, 'b) action" where
  "bindW m f s = (case m s of (Inl e, s') \<Rightarrow> (Inl e, s') | (Inr x, s') \<Rightarrow> f x s')"

definition callW :: "('w \<Rightarrow> 'a \<times> 'w) \<Rightarrow> ('w, 'x, 'a) action" where
  "callW f s = (case f (se_world s) of (x, w) \<Rightarrow> (Inr x, s\<lparr>se_world := w\<rparr>))"

text \<open>A call whose exceptions the caller looks at (\<open>try\<close>), and one whose exceptions escape.\<close>

definition tryW :: "('w, 'x, 'a) action \<Rightarrow> ('w, 'x, 'a raised) action" where
  "tryW m s = (case m s of (r, s') \<Rightarrow> (Inr r, s'))"

definition portW :: "('w \<Rightarrow> 'a raised \<times> 'w) \<Rightarrow> ('w, 'x, 'a) action" where
  "portW f = bindW (callW f) liftW"

definition nowW :: "('w, 'x) ports \<Rightarrow> ('w, 'x, datetime) action" where
  "nowW P = callW (wp_now P)"

definition submitW :: "('w, 'x) ports \<Rightarrow> 'x draft \<Rightarrow> int option \<Rightarrow> ('w, 'x, unit) action" where
  "submitW P d expected_revision s =
     portW (wp_save P d expected_revision) (s\<lparr>se_submitted := se_submitted s @ [d]\<rparr>)"

abbreviation escapeW :: "workflow_fault exn \<Rightarrow> ('w, 'x, 'a) action" where
  "escapeW e \<equiv> liftW (Inl e)"

section \<open>Small helpers\<close>

definition validated_analytical_request_fingerprint :: "('w, 'x) ports \<Rightarrow> 'x \<Rightarrow> string" where
  "validated_analytical_request_fingerprint P request = sha256_text (wp_dump_text P request)"

definition resolved_semantic_plan_fingerprint :: "('w, 'x) ports \<Rightarrow> 'x \<Rightarrow> string" where
  "resolved_semantic_plan_fingerprint P plan = sha256_text (wp_dump_text P plan)"

fun to_scalar :: "source_value \<Rightarrow> cell raised" where
  "to_scalar SvNone = Inr CellNone"
| "to_scalar (SvBool b) = Inr (CellBool b)"
| "to_scalar (SvInt i) = Inr (CellInt i)"
| "to_scalar (SvFloat literal) = Inr (CellFloat literal)"
| "to_scalar (SvStr s) = Inr (CellStr s)"
| "to_scalar (SvDate s) = Inr (CellStr s)"
| "to_scalar (SvDatetime s) = Inr (CellStr s)"
| "to_scalar (SvDecimal s) = Inr (CellStr s)"
| "to_scalar SvOther = Inl (Transition (WorkflowError WE_INVALID_TRANSITION))"

fun collect :: "('a \<Rightarrow> 'b raised) \<Rightarrow> 'a list \<Rightarrow> 'b list raised" where
  "collect f [] = Inr []"
| "collect f (x # xs) = bindE (f x) (\<lambda>y. bindE (collect f xs) (\<lambda>ys. Inr (y # ys)))"

definition trace_fact_of :: "string \<Rightarrow> string \<Rightarrow> trace_fact" where
  "trace_fact_of key rendered =
     \<lparr>tf_key = key, tf_value = take 200 (if rendered = [] then ''none'' else rendered)\<rparr>"

text \<open>\<open>str\<close> of a bool, of an optional text and of an optional integer.\<close>

definition str_of_bool :: "bool \<Rightarrow> string" where
  "str_of_bool b = (if b then ''True'' else ''False'')"

definition str_of_option :: "('a \<Rightarrow> string) \<Rightarrow> 'a option \<Rightarrow> string" where
  "str_of_option f v = (case v of None \<Rightarrow> ''None'' | Some x \<Rightarrow> f x)"

text \<open>\<open>value or default\<close> for an optional text.\<close>

definition text_or :: "string \<Rightarrow> string option \<Rightarrow> string" where
  "text_or fallback v = (case v of None \<Rightarrow> fallback | Some s \<Rightarrow> if s = [] then fallback else s)"

text \<open>
  \<open>int((finished - started).total_seconds() * 1000)\<close> in IEEE doubles: \<open>total_seconds\<close> is the double
  nearest to the microseconds over a million, and the product is rounded again before it is cut.
  A double is its significand and exponent.
\<close>

function bit_length :: "int \<Rightarrow> int" where
  "bit_length n = (if n \<le> 0 then 0 else bit_length (n div 2) + 1)"
  by pat_completeness auto
termination
  by (relation "measure nat") auto

declare bit_length.simps [simp del]

definition round_half_even :: "int \<Rightarrow> int \<Rightarrow> int" where
  "round_half_even n d =
     (let q = n div d; r = n mod d in
      if 2 * r < d then q else if d < 2 * r then q + 1 else q + q mod 2)"

definition nearest_double :: "int \<Rightarrow> int \<Rightarrow> int \<times> int" where
  "nearest_double p q =
     (let e0 = bit_length p - bit_length q - 53;
          scaled = (\<lambda>e. (if e < 0 then p * 2 ^ nat (- e) else p, if e < 0 then q else q * 2 ^ nat e));
          e = (case scaled e0 of (n, d) \<Rightarrow> if 2 ^ 53 * d \<le> n then e0 + 1 else e0)
      in case scaled e of (n, d) \<Rightarrow> (round_half_even n d, e))"

definition millis_of :: "int \<Rightarrow> int" where
  "millis_of micros =
     (case nearest_double micros 1000000 of (m, e) \<Rightarrow>
      case nearest_double (if e < 0 then m * 1000 else m * 1000 * 2 ^ nat e)
             (if e < 0 then 2 ^ nat (- e) else 1) of (m', e') \<Rightarrow>
      if e' < 0 then m' div 2 ^ nat (- e') else m' * 2 ^ nat e')"

text \<open>Subtracting a naive from an aware timestamp raises \<open>TypeError\<close>; a negative duration is zero.\<close>

fun duration_ms :: "datetime \<Rightarrow> datetime \<Rightarrow> int raised" where
  "duration_ms (Aware s) (Aware f) = Inr (millis_of (max 0 (f - s)))"
| "duration_ms (Naive s) (Naive f) = Inr (millis_of (max 0 (f - s)))"
| "duration_ms s f = Inl TypeError"

text \<open>\<open>str.isalnum\<close>, \<open>str.isalpha\<close> and \<open>str.lower\<close> for the code points below 256.\<close>

definition is_alpha :: "char \<Rightarrow> bool" where
  "is_alpha c \<longleftrightarrow> is_lower c \<or> is_upper c \<or> code c \<in> {170, 181, 186}
     \<or> (192 \<le> code c \<and> code c \<noteq> 215 \<and> code c \<noteq> 247)"

definition is_alnum :: "char \<Rightarrow> bool" where
  "is_alnum c \<longleftrightarrow> is_alpha c \<or> is_digit c \<or> code c \<in> {178, 179, 185, 188, 189, 190}"

definition lower_char :: "char \<Rightarrow> char" where
  "lower_char c =
     (if is_upper c \<or> (192 \<le> code c \<and> code c \<le> 222 \<and> code c \<noteq> 215)
      then char_of (code c + 32) else c)"

definition strip_underscores :: "string \<Rightarrow> string" where
  "strip_underscores s =
     rev (dropWhile (\<lambda>c. c = CHR ''_'') (rev (dropWhile (\<lambda>c. c = CHR ''_'') s)))"

definition normalize_error_code :: "string \<Rightarrow> string" where
  "normalize_error_code value =
     (let normalized = take 64 (strip_underscores
            (map (\<lambda>c. if is_alnum c then c else CHR ''_'') (map lower_char value)))
      in if length normalized < 2 \<or> \<not> is_alpha (hd normalized)
         then ''workflow_external_failure'' else normalized)"

fun retry_stage :: "workflow_operation \<Rightarrow> agent_stage" where
  "retry_stage OP_CATALOG_CONTEXT_READ = ST_CREATED"
| "retry_stage OP_INTENT_RESOLUTION = ST_CONTEXT_RETRIEVAL"
| "retry_stage OP_SEMANTIC_RESOLUTION = ST_SEMANTIC_RESOLUTION"
| "retry_stage OP_SQL_VALIDATION = ST_PLAN_READY"
| "retry_stage OP_QUERY_RECIPE_LOOKUP = ST_VALIDATED"
| "retry_stage OP_PREVIEW_EXECUTION = ST_VALIDATED"
| "retry_stage OP_REJECTION_INSPECTION = ST_EXECUTION"
| "retry_stage OP_CONTEXT_PUBLICATION = ST_PUBLICATION_PROPOSED"
| "retry_stage OP_HUMAN_DECISION = ST_FAILED"

definition pending_resume_operation :: "'x draft \<Rightarrow> workflow_operation option" where
  "pending_resume_operation d =
     (if dw_stage d = ST_CREATED then Some OP_CATALOG_CONTEXT_READ
      else if dw_stage d = ST_CONTEXT_RETRIEVAL \<and> dw_context_assets d \<noteq> []
      then Some OP_INTENT_RESOLUTION
      else if dw_stage d = ST_SEMANTIC_RESOLUTION \<and> dw_validated_request d \<noteq> None
      then Some OP_SEMANTIC_RESOLUTION
      else if dw_stage d = ST_PLAN_READY \<and> dw_resolved_plan d \<noteq> None then Some OP_SQL_VALIDATION
      else if dw_stage d = ST_EXECUTION
      then Some (if dw_execution d \<noteq> None then OP_REJECTION_INSPECTION else OP_PREVIEW_EXECUTION)
      else None)"

definition in_flight :: "'x draft \<Rightarrow> bool" where
  "in_flight d \<longleftrightarrow> dw_trace d \<noteq> [] \<and> te_status (last (dw_trace d)) = TR_STARTED"

definition workflow_recovery_operation :: "'x draft \<Rightarrow> workflow_operation option" where
  "workflow_recovery_operation d =
     (if in_flight d then Some (te_operation (last (dw_trace d)))
      else if pending_resume_operation d \<noteq> None then pending_resume_operation d
      else if dw_stage d = ST_VALIDATED \<and> dw_checkpoint d = None \<and> dw_plan_fingerprint d \<noteq> None
      then Some OP_HUMAN_DECISION
      else if dw_stage d = ST_EXECUTED then Some OP_HUMAN_DECISION
      else None)"

definition snapshot_intent_preview :: "'x intent_preview \<Rightarrow> 'x intent_snapshot raised" where
  "snapshot_intent_preview p =
     construct_model intent_snapshot_valid
       \<lparr>is_language = ip_language p, is_adapter = ip_adapter p, is_vocabulary = ip_vocabulary p,
        is_interpretation_fingerprint = ip_interpretation_fingerprint p,
        is_proposed_request = ip_proposed_request p, is_ambiguities = ip_ambiguities p,
        is_alternatives = ip_alternatives p, is_findings = ip_findings p\<rparr>"

definition restore_intent_preview :: "'x intent_snapshot \<Rightarrow> 'x intent_preview" where
  "restore_intent_preview s =
     \<lparr>ip_language = is_language s, ip_adapter = is_adapter s, ip_vocabulary = is_vocabulary s,
      ip_interpretation_fingerprint = is_interpretation_fingerprint s,
      ip_proposed_request = is_proposed_request s, ip_ambiguities = is_ambiguities s,
      ip_alternatives = is_alternatives s, ip_findings = is_findings s\<rparr>"

definition prepared_query_fingerprint :: "'x prepared_query \<Rightarrow> string raised" where
  "prepared_query_fingerprint q =
     bindE (collect to_scalar (pq_parameters q)) (\<lambda>parameters.
     Inr (sha256_text (object_text
       [(''sql'', plain_text (JStr (pq_sql q))),
        (''parameters'', array_text (map cell_text parameters)),
        (''max_rows'', plain_text (JInt (pq_max_rows q))),
        (''statement_timeout_ms'', plain_text (JInt (pq_statement_timeout_ms q))),
        (''dialect'', plain_text (JStr (pq_dialect q))),
        (''target_fingerprint'', plain_text (optional_json JStr (pq_target_fingerprint q)))])))"

definition cost_trace_facts :: "cost_assessment option \<Rightarrow> trace_fact list" where
  "cost_trace_facts assessment =
     (case assessment of None \<Rightarrow> []
      | Some a \<Rightarrow>
          [trace_fact_of ''cost_decision'' (query_cost_decision_value (qa_decision a)),
           trace_fact_of ''cost_assessment'' (qa_fingerprint a),
           trace_fact_of ''estimated_total_cost'' (str_of_option id (qa_total_cost a)),
           trace_fact_of ''estimated_root_rows'' (str_of_option str_of_int (qa_estimated_root_rows a)),
           trace_fact_of ''plan_node_count'' (str_of_option str_of_int (qa_plan_node_count a))])"

definition execution_record_of :: "'x draft \<Rightarrow> preview_result \<Rightarrow> execution_record raised" where
  "execution_record_of d v =
     (case (dw_plan_fingerprint d, dw_query_fingerprint d) of
        (Some plan, Some query) \<Rightarrow>
          bindE (collect (collect to_scalar) (pv_rows v)) (\<lambda>rows.
          construct_model execution_record_valid
            \<lparr>er_plan_fingerprint = plan, er_query_fingerprint = query, er_columns = pv_columns v,
             er_rows = rows, er_row_count = Some (int (length rows)),
             er_database_user = pv_database_user v,
             er_transaction_read_only = pv_transaction_read_only v,
             er_statement_timeout_ms = pv_statement_timeout_ms v, er_truncated = pv_truncated v,
             er_preview_fingerprint = sha256_text (object_text
               [(''columns'', plain_text (strings_json (pv_columns v))),
                (''rows'', rows_text rows),
                (''database_user'', plain_text (JStr (pv_database_user v))),
                (''transaction_read_only'', plain_text (JBool (pv_transaction_read_only v))),
                (''statement_timeout_ms'', plain_text (JInt (pv_statement_timeout_ms v))),
                (''truncated'', plain_text (JBool (pv_truncated v)))]),
             er_rejection_codes = [], er_rejected_count = 0, er_rejection_truncated = False,
             er_rejection_complete = False\<rparr>)
      | _ \<Rightarrow> Inl (Transition (WorkflowError WE_INVALID_TRANSITION)))"

definition complete_rejections :: "execution_record \<Rightarrow> rejection_report \<Rightarrow> execution_record raised" where
  "complete_rejections r report =
     construct_model execution_record_valid
       (r\<lparr>er_rejection_codes := rr_codes report, er_rejected_count := rr_total_records report,
          er_rejection_truncated := rr_truncated report, er_rejection_complete := True\<rparr>)"

text \<open>\<open>source_schema_fingerprint\<close> of \<open>application/query_recipes.py\<close>, over the assets of the resolved
  plan.\<close>

definition source_schema_fingerprint :: "('w, 'x) ports \<Rightarrow> 'x draft \<Rightarrow> string raised" where
  "source_schema_fingerprint P d =
     (case dw_resolved_plan d of
        None \<Rightarrow> Inl (Transition (Raised (RecipeError ''recipe_invalid_workflow'')))
      | Some plan \<Rightarrow>
          let required = set (wp_policy_datasets P plan);
              chosen = filter (\<lambda>a. ca_dataset a \<in> required) (dw_context_assets d);
              selected = sort (map ca_urn chosen);
              source_facts = sort (map (\<lambda>a. (ca_dataset a, ca_urn a, ca_field_count a, ca_partial a,
                ca_schema_fingerprint a)) chosen)
          in if length selected \<noteq> card required
                \<or> list_ex (\<lambda>(_, _, _, partial, _). partial) source_facts
                \<or> list_ex (\<lambda>(_, _, _, _, fingerprint). fingerprint = None) source_facts
             then Inl (Transition (Raised (RecipeError ''recipe_invalid_workflow'')))
             else Inr (json_fingerprint (JArr (map (\<lambda>(dataset, urn, count, partial, fingerprint).
               JArr [JStr dataset, JStr urn, JInt count, JBool partial, optional_json JStr fingerprint])
               source_facts))))"

section \<open>Durable transitions\<close>

definition save_changes ::
  "('w, 'x) ports \<Rightarrow> 'x draft \<Rightarrow> ('x draft \<Rightarrow> 'x draft) \<Rightarrow> ('w, 'x, 'x draft) action" where
  "save_changes P d updates =
     bindW (nowW P) (\<lambda>now.
     bindW (liftW (construct_model draft_valid
       ((updates d)\<lparr>dw_revision := dw_revision d + 1, dw_updated_at := now\<rparr>))) (\<lambda>updated.
     bindW (submitW P updated (Some (dw_revision d))) (\<lambda>_.
     returnW updated)))"

definition load_draft :: "('w, 'x) ports \<Rightarrow> string \<Rightarrow> ('w, 'x, 'x draft) action" where
  "load_draft P workflow_id =
     bindW (portW (wp_load P workflow_id)) (\<lambda>found.
     case found of None \<Rightarrow> raiseW WE_NOT_FOUND | Some d \<Rightarrow> returnW d)"

definition require_checkpoint ::
  "'x draft \<Rightarrow> workflow_checkpoint_kind \<Rightarrow> ('w, 'x, unit) action" where
  "require_checkpoint d kind =
     (if dw_stage d \<notin> {ST_DECISION_REQUIRED, ST_PUBLICATION_PROPOSED}
         \<or> (case dw_checkpoint d of None \<Rightarrow> True | Some c \<Rightarrow> cp_kind c \<noteq> kind)
      then raiseW WE_INVALID_TRANSITION else returnW ())"

definition begin_external ::
  "('w, 'x) ports \<Rightarrow> 'x draft \<Rightarrow> agent_stage \<Rightarrow> workflow_operation \<Rightarrow> string list \<Rightarrow>
   ('w, 'x, 'x draft) action" where
  "begin_external P d stage operation input_refs =
     bindW (nowW P) (\<lambda>now.
     bindW (liftW (construct_model trace_event_valid
       \<lparr>te_sequence = int (length (dw_trace d)) + 1, te_stage = stage, te_operation = operation,
        te_status = TR_STARTED, te_occurred_at = now, te_input_refs = input_refs, te_facts = [],
        te_duration_ms = None\<rparr>)) (\<lambda>event.
     save_changes P d (\<lambda>d. d\<lparr>dw_stage := stage, dw_checkpoint := None, dw_failure := None,
       dw_trace := dw_trace d @ [event]\<rparr>)))"

definition elapsed_since_last :: "'x draft \<Rightarrow> datetime \<Rightarrow> int raised" where
  "elapsed_since_last d now =
     (if dw_trace d = [] then Inl (Transition (Raised (OtherError ''IndexError'')))
      else duration_ms (te_occurred_at (last (dw_trace d))) now)"

definition finish_external ::
  "('w, 'x) ports \<Rightarrow> 'x draft \<Rightarrow> workflow_operation \<Rightarrow> agent_stage \<Rightarrow> trace_fact list \<Rightarrow>
   ('x draft \<Rightarrow> 'x draft) \<Rightarrow> ('w, 'x, 'x draft) action" where
  "finish_external P d operation stage facts updates =
     bindW (nowW P) (\<lambda>now.
     bindW (liftW (elapsed_since_last d now)) (\<lambda>elapsed.
     bindW (liftW (construct_model trace_event_valid
       \<lparr>te_sequence = int (length (dw_trace d)) + 1, te_stage = stage, te_operation = operation,
        te_status = TR_SUCCEEDED, te_occurred_at = now, te_input_refs = [], te_facts = facts,
        te_duration_ms = Some elapsed\<rparr>)) (\<lambda>event.
     save_changes P d (\<lambda>d. (updates d)\<lparr>dw_stage := stage, dw_trace := dw_trace d @ [event]\<rparr>))))"

definition started_attempts :: "'x draft \<Rightarrow> workflow_operation \<Rightarrow> int" where
  "started_attempts d operation =
     int (length (filter (\<lambda>e. te_operation e = operation \<and> te_status e = TR_STARTED) (dw_trace d)))"

definition fail_external ::
  "('w, 'x) ports \<Rightarrow> 'x draft \<Rightarrow> workflow_operation \<Rightarrow> string \<Rightarrow> bool \<Rightarrow> ('x draft \<Rightarrow> 'x draft) \<Rightarrow>
   trace_fact list \<Rightarrow> ('w, 'x, 'x draft) action" where
  "fail_external P d operation c retryable updates extra_facts =
     bindW (nowW P) (\<lambda>now.
     bindW (liftW (failure_create (wp_iso_text P) (normalize_error_code c) operation retryable
       (started_attempts d operation) now)) (\<lambda>failure.
     bindW (liftW (elapsed_since_last d now)) (\<lambda>elapsed.
     bindW (liftW (construct_model trace_event_valid
       \<lparr>te_sequence = int (length (dw_trace d)) + 1, te_stage = dw_stage d, te_operation = operation,
        te_status = TR_FAILED, te_occurred_at = now, te_input_refs = [],
        te_facts = [trace_fact_of ''error_code'' (wf_code failure),
          trace_fact_of ''retryable'' (str_of_bool (wf_retryable failure))] @ extra_facts,
        te_duration_ms = Some elapsed\<rparr>)) (\<lambda>event.
     save_changes P d (\<lambda>d. (updates d)\<lparr>dw_stage := ST_FAILED, dw_failure := Some failure,
       dw_checkpoint :=
         (if retryable
          then Some \<lparr>cp_kind = CK_RETRY, cp_fingerprint = wf_fingerprint failure,
            cp_reason = ''A typed retry decision is required; no fallback context is used.''\<rparr>
          else None),
       dw_trace := dw_trace d @ [event]\<rparr>)))))"

abbreviation fail_simply ::
  "('w, 'x) ports \<Rightarrow> 'x draft \<Rightarrow> workflow_operation \<Rightarrow> string \<Rightarrow> bool \<Rightarrow> ('w, 'x, 'x draft) action" where
  "fail_simply P d operation c retryable \<equiv> fail_external P d operation c retryable (\<lambda>d. d) []"

definition pause_for_retry ::
  "('w, 'x) ports \<Rightarrow> 'x draft \<Rightarrow> workflow_operation \<Rightarrow> ('w, 'x, 'x draft) action" where
  "pause_for_retry P d operation =
     bindW (nowW P) (\<lambda>now.
     bindW (liftW (failure_create (wp_iso_text P) ''workflow_resume_required'' operation True
       (started_attempts d operation + 1) now)) (\<lambda>failure.
     save_changes P d (\<lambda>d. d\<lparr>dw_stage := ST_FAILED, dw_failure := Some failure,
       dw_checkpoint := Some \<lparr>cp_kind = CK_RETRY, cp_fingerprint = wf_fingerprint failure,
         cp_reason = ''The prior process stopped between durable stages; retry explicitly.''\<rparr>\<rparr>)))"

definition record_decision ::
  "('w, 'x) ports \<Rightarrow> 'x draft \<Rightarrow> workflow_decision_kind \<Rightarrow> workflow_decision_action \<Rightarrow> string \<Rightarrow>
   string \<Rightarrow> ('x draft \<Rightarrow> 'x draft) \<Rightarrow> ('w, 'x, 'x draft) action" where
  "record_decision P d kind action actor bound_fingerprint updates =
     bindW (nowW P) (\<lambda>now.
     bindW (liftW (construct_model workflow_decision_valid
       \<lparr>de_actor = actor, de_kind = kind, de_action = action, de_decided_at = now,
        de_bound_fingerprint = bound_fingerprint\<rparr>)) (\<lambda>decision.
     bindW (liftW (construct_model trace_event_valid
       \<lparr>te_sequence = int (length (dw_trace d)) + 1, te_stage = dw_stage d,
        te_operation = OP_HUMAN_DECISION, te_status = TR_SUCCEEDED, te_occurred_at = now,
        te_input_refs = [],
        te_facts = [trace_fact_of ''decision_kind'' (decision_kind_value kind),
          trace_fact_of ''decision_action'' (decision_action_value action),
          trace_fact_of ''actor'' actor],
        te_duration_ms = Some 0\<rparr>)) (\<lambda>event.
     save_changes P d (\<lambda>d. (updates d)\<lparr>dw_decisions := dw_decisions d @ [decision],
       dw_trace := dw_trace d @ [event]\<rparr>))))"

definition execution_checkpoint :: "string \<Rightarrow> workflow_checkpoint" where
  "execution_checkpoint plan_fingerprint =
     \<lparr>cp_kind = CK_EXECUTION_APPROVAL, cp_fingerprint = plan_fingerprint,
      cp_reason = ''Approve the exact validated plan before bounded preview execution.''\<rparr>"

definition pause_for_execution :: "('w, 'x) ports \<Rightarrow> 'x draft \<Rightarrow> ('w, 'x, 'x draft) action" where
  "pause_for_execution P d =
     (case dw_plan_fingerprint d of None \<Rightarrow> escapeW AssertionError
      | Some fingerprint \<Rightarrow>
          save_changes P d (\<lambda>d. d\<lparr>dw_stage := ST_DECISION_REQUIRED,
            dw_checkpoint := Some (execution_checkpoint fingerprint)\<rparr>))"

definition propose_publication :: "('w, 'x) ports \<Rightarrow> 'x draft \<Rightarrow> ('w, 'x, 'x draft) action" where
  "propose_publication P d =
     (if dw_publication_proposal d \<noteq> None then returnW d
      else case (dw_execution d, dw_validated_request d, dw_plan_fingerprint d) of
        (Some execution, Some request, Some plan) \<Rightarrow>
          if \<not> er_rejection_complete execution then raiseW WE_INVALID_TRANSITION
          else
            bindW (liftW (publication_proposal_create (dw_id d) plan
              (sha256_text (execution_text execution))
              (validated_analytical_request_fingerprint P request))) (\<lambda>proposal.
            save_changes P d (\<lambda>d. d\<lparr>dw_stage := ST_PUBLICATION_PROPOSED,
              dw_publication_proposal := Some proposal,
              dw_checkpoint := Some \<lparr>cp_kind = CK_PUBLICATION_DECISION,
                cp_fingerprint = wr_fingerprint proposal,
                cp_reason =
                  ''Explicitly publish or skip the bounded execution-context proposal.''\<rparr>\<rparr>))
      | _ \<Rightarrow> raiseW WE_INVALID_TRANSITION)"

section \<open>Failures by exception class\<close>

text \<open>
  The \<open>except\<close> clauses of each external step, in their order: the failure code, whether a retry is
  allowed, and the extra facts. \<open>None\<close> is an exception the step does not catch.
\<close>

type_synonym failure_report = "string \<times> bool \<times> trace_fact list"

fun context_failure :: "workflow_fault exn \<Rightarrow> failure_report option" where
  "context_failure (Transition (Raised (CatalogReadError c))) =
     Some (c, c = ''catalog_unavailable'', [])"
| "context_failure _ = None"

fun intent_failure :: "workflow_fault exn \<Rightarrow> failure_report option" where
  "intent_failure (Transition (Raised (IntentParserError c))) =
     Some (c, c \<in> {''intent_provider_unavailable'', ''request_context_unavailable''}, [])"
| "intent_failure (Transition (Raised (RequestWorkflowError c))) =
     Some (c, c \<in> {''intent_provider_unavailable'', ''request_context_unavailable''}, [])"
| "intent_failure _ = None"

fun semantic_failure :: "workflow_fault exn \<Rightarrow> failure_report option" where
  "semantic_failure (Transition (Raised (ConnectorTargetError c))) =
     Some (c, c = ''planning_context_unavailable'', [])"
| "semantic_failure (Transition (Raised (PlanningPortError c))) =
     Some (c, c = ''planning_context_unavailable'', [])"
| "semantic_failure (Transition (Raised (SemanticResolutionError c))) =
     Some (c, c = ''planning_context_unavailable'', [])"
| "semantic_failure _ = None"

fun recipe_failure :: "workflow_fault exn \<Rightarrow> failure_report option" where
  "recipe_failure (Transition (Raised (RecipeError c))) =
     Some (c, c = ''recipe_catalog_unavailable'', [])"
| "recipe_failure _ = None"

definition transient_cost :: "query_cost_error_code \<Rightarrow> bool" where
  "transient_cost c \<longleftrightarrow> c \<in> {QE_TIMEOUT, QE_UNAVAILABLE}"

fun validation_failure :: "workflow_fault exn \<Rightarrow> failure_report option" where
  "validation_failure (Transition (Raised (SemanticChangeError c))) = Some (c, False, [])"
| "validation_failure (Transition (Raised (PlanningPortError c))) =
     Some (c, c = ''planning_context_unavailable'', [])"
| "validation_failure (Transition (Raised (QueryCostError c _))) =
     Some (query_cost_error_value c, transient_cost c, [])"
| "validation_failure (Transition (Raised (ConnectorTargetError c))) = Some (c, False, [])"
| "validation_failure (Transition (Raised (QueryCompilationError c))) = Some (c, False, [])"
| "validation_failure (Transition (Raised SqlPolicyViolation)) =
     Some (''sql_policy_rejected'', False, [])"
| "validation_failure (Transition (Raised (SemanticResolutionError c))) = Some (c, False, [])"
| "validation_failure _ = None"

fun preview_failure :: "workflow_fault exn \<Rightarrow> failure_report option" where
  "preview_failure (Transition (Raised (SemanticChangeError c))) = Some (c, False, [])"
| "preview_failure (Transition (Raised (ConnectorTargetError c))) =
     Some (c, c = ''connector_target_unavailable'', [])"
| "preview_failure (Transition (Raised (QueryCostError c assessment))) =
     Some (query_cost_error_value c, transient_cost c, cost_trace_facts assessment)"
| "preview_failure (Transition (Raised QueryPreviewTimeoutError)) = Some (''source_timeout'', True, [])"
| "preview_failure (Transition (Raised QueryPreviewUnavailableError)) =
     Some (''source_unavailable'', True, [])"
| "preview_failure (Transition (Raised QueryPreviewError)) =
     Some (''source_policy_rejected'', False, [])"
| "preview_failure _ = None"

fun rejection_failure :: "workflow_fault exn \<Rightarrow> failure_report option" where
  "rejection_failure (Transition (Raised (SemanticChangeError c))) = Some (c, False, [])"
| "rejection_failure (Transition (Raised (ConnectorTargetError c))) =
     Some (c, c = ''connector_target_unavailable'', [])"
| "rejection_failure (Transition (Raised ProtectedSourceOperationCancelled)) =
     Some (''operation_cancelled'', True, [])"
| "rejection_failure (Transition (Raised (PlanningPortError c))) =
     (if c = ''rejection_inspection_timeout'' then Some (''source_timeout'', True, [])
      else if c = ''rejection_inspection_unavailable'' then Some (''source_unavailable'', True, [])
      else Some (''source_policy_rejected'', False, []))"
| "rejection_failure _ = None"

fun publish_failure :: "workflow_fault exn \<Rightarrow> failure_report option" where
  "publish_failure (Transition (WorkflowError c)) =
     Some (workflow_error_value c, c = WE_PUBLICATION_FAILED, [])"
| "publish_failure _ = None"

fun audit_failure :: "workflow_fault exn \<Rightarrow> failure_report option" where
  "audit_failure ValueError = Some (''workflow_publication_invalid_audit'', False, [])"
| "audit_failure ValidationError = Some (''workflow_publication_invalid_audit'', False, [])"
| "audit_failure (Transition (Raised PublicationAuditStoreError)) =
     Some (''workflow_audit_store_failed'', True, [])"
| "audit_failure _ = None"

text \<open>Reacting to an exception: a durable failure when the step catches it, else it escapes.\<close>

definition fail_or_escape ::
  "('w, 'x) ports \<Rightarrow> 'x draft \<Rightarrow> workflow_operation \<Rightarrow> failure_report option \<Rightarrow> workflow_fault exn \<Rightarrow>
   ('w, 'x, 'x draft) action" where
  "fail_or_escape P started operation report e =
     (case report of None \<Rightarrow> escapeW e
      | Some (c, retryable, facts) \<Rightarrow> fail_external P started operation c retryable (\<lambda>d. d) facts)"

section \<open>External steps\<close>

definition catalog_field_json :: "catalog_field \<Rightarrow> json" where
  "catalog_field_json f =
     JObj [(''id'', JStr (fd_id f)), (''field_path'', strings_json (fd_field_path f)),
       (''native_type'', optional_json JStr (fd_native_type f)),
       (''description'', optional_json JStr (fd_description f)),
       (''nullable'', optional_json JBool (fd_nullable f)),
       (''is_part_of_key'', optional_json JBool (fd_is_part_of_key f)),
       (''tags'', strings_json (fd_tags f)),
       (''glossary_terms'', strings_json (fd_glossary_terms f))]"

definition read_asset :: "('w, 'x) ports \<Rightarrow> string \<Rightarrow> ('w, 'x, catalog_asset) action" where
  "read_asset P dataset =
     bindW (portW (wp_get_asset P dataset)) (\<lambda>urn.
     bindW (portW (wp_list_schema_fields P dataset 50)) (\<lambda>page.
     liftW (construct_model catalog_asset_valid
       \<lparr>ca_dataset = dataset, ca_urn = urn, ca_field_count = int (length (pg_items page)),
        ca_partial = (pg_partial page \<or> pg_next_cursor page \<noteq> None),
        ca_schema_fingerprint =
          Some (json_fingerprint (JArr (map catalog_field_json (pg_items page))))\<rparr>)))"

fun read_assets :: "('w, 'x) ports \<Rightarrow> string list \<Rightarrow> ('w, 'x, catalog_asset list) action" where
  "read_assets P [] = returnW []"
| "read_assets P (dataset # datasets) =
     bindW (read_asset P dataset) (\<lambda>asset.
     bindW (read_assets P datasets) (\<lambda>assets.
     returnW (asset # assets)))"

definition resolve_intent :: "('w, 'x) ports \<Rightarrow> 'x draft \<Rightarrow> ('w, 'x, 'x draft) action" where
  "resolve_intent P d =
     bindW (begin_external P d ST_INTENT_RESOLUTION OP_INTENT_RESOLUTION
       (map ca_urn (dw_context_assets d))) (\<lambda>started.
     bindW (tryW (portW (wp_preview P (dw_text started) (dw_language started)))) (\<lambda>answer.
     case answer of
       Inl e \<Rightarrow> fail_or_escape P started OP_INTENT_RESOLUTION (intent_failure e) e
     | Inr preview \<Rightarrow>
         bindW (liftW (snapshot_intent_preview preview)) (\<lambda>snapshot.
         finish_external P started OP_INTENT_RESOLUTION ST_DECISION_REQUIRED
           [trace_fact_of ''adapter'' (ip_adapter preview),
            trace_fact_of ''ambiguity_count'' (str_of_nat (length (ip_ambiguities preview))),
            trace_fact_of ''alternative_count'' (str_of_nat (length (ip_alternatives preview))),
            trace_fact_of ''interpretation'' (ip_interpretation_fingerprint preview)]
           (\<lambda>d. d\<lparr>dw_intent := Some snapshot,
              dw_checkpoint := Some \<lparr>cp_kind = CK_INTENT_CONFIRMATION,
                cp_fingerprint = ip_interpretation_fingerprint preview,
                cp_reason = ''Confirm one typed interpretation before semantic resolution.''\<rparr>\<rparr>))))"

definition lookup_recipe :: "('w, 'x) ports \<Rightarrow> 'x draft \<Rightarrow> ('w, 'x, 'x draft) action" where
  "lookup_recipe P d =
     (case wp_assess_recipe P of
        None \<Rightarrow> returnW d
      | Some assess \<Rightarrow>
          if dw_recipe_reuse d \<noteq> None then returnW d
          else case (dw_validated_request d, dw_resolved_plan d, dw_plan_fingerprint d,
                     dw_query_fingerprint d) of
            (Some request, Some plan, Some plan_fingerprint, Some query_fingerprint) \<Rightarrow>
              bindW (begin_external P d ST_VALIDATED OP_QUERY_RECIPE_LOOKUP
                [plan_fingerprint, query_fingerprint]) (\<lambda>started.
              bindW (tryW (bindW (liftW (source_schema_fingerprint P started)) (\<lambda>schema.
                portW (assess \<lparr>rq_validated_request = request, rq_resolved_plan = plan,
                  rq_plan_fingerprint = text_or ''missing'' (dw_plan_fingerprint started),
                  rq_query_fingerprint = text_or ''missing'' (dw_query_fingerprint started),
                  rq_source_schema_fingerprint = schema\<rparr>)))) (\<lambda>answer.
              case answer of
                Inl e \<Rightarrow> fail_or_escape P started OP_QUERY_RECIPE_LOOKUP (recipe_failure e) e
              | Inr assessment \<Rightarrow>
                  finish_external P started OP_QUERY_RECIPE_LOOKUP ST_VALIDATED
                    [trace_fact_of ''reuse_status'' (recipe_reuse_status_value (ru_status assessment)),
                     trace_fact_of ''recipe_id'' (text_or ''none'' (ru_recipe_id assessment)),
                     trace_fact_of ''stale_reasons''
                       (join_with (CHR '','') (map recipe_staleness_value (ru_reasons assessment))),
                     trace_fact_of ''revalidated'' (str_of_bool (ru_revalidated assessment))]
                    (\<lambda>d. d\<lparr>dw_recipe_reuse := Some assessment\<rparr>)))
          | _ \<Rightarrow> raiseW WE_INVALID_TRANSITION)"

text \<open>\<open>(None, draft)\<close> of the source is \<open>(None, draft)\<close> here: the step ended in a durable failure.\<close>

definition validate_failed ::
  "('w, 'x) ports \<Rightarrow> 'x draft \<Rightarrow> failure_report option \<Rightarrow> workflow_fault exn \<Rightarrow>
   ('w, 'x, 'x prepared_query option \<times> 'x draft) action" where
  "validate_failed P started report e =
     bindW (fail_or_escape P started OP_SQL_VALIDATION report e) (\<lambda>failed. returnW (None, failed))"

definition accept_cost :: "'x prepared_query \<Rightarrow> unit raised" where
  "accept_cost prepared =
     (case pq_cost_assessment prepared of None \<Rightarrow> Inr () | Some a \<Rightarrow> require_accepted a)"

definition revalidate_resolved ::
  "('w, 'x) ports \<Rightarrow> 'x draft \<Rightarrow> ('w, 'x, 'x prepared_query option \<times> 'x draft) action" where
  "revalidate_resolved P d =
     (case (dw_resolved_plan d, dw_plan_fingerprint d, dw_validated_request d) of
        (Some plan, Some fingerprint, Some request) \<Rightarrow>
          if resolved_semantic_plan_fingerprint P plan \<noteq> fingerprint
          then raiseW WE_DECISION_MISMATCH
          else
            bindW (begin_external P d ST_PLAN_READY OP_SQL_VALIDATION [fingerprint]) (\<lambda>started.
            bindW (tryW (portW (wp_refresh_and_validate P request plan))) (\<lambda>answer.
            case answer of
              Inl e \<Rightarrow> validate_failed P started (validation_failure e) e
            | Inr prepared \<Rightarrow>
                case accept_cost prepared of
                  Inl e \<Rightarrow> validate_failed P started
                    (map_option (\<lambda>(c, retryable, _).
                       (c, retryable, cost_trace_facts (pq_cost_assessment prepared)))
                       (validation_failure e)) e
                | Inr _ \<Rightarrow>
                    bindW (liftW (prepared_query_fingerprint prepared)) (\<lambda>query_fingerprint.
                    if dw_query_fingerprint d \<noteq> None
                       \<and> dw_query_fingerprint d \<noteq> Some query_fingerprint
                    then raiseW WE_DECISION_MISMATCH
                    else
                      bindW (finish_external P started OP_SQL_VALIDATION ST_VALIDATED
                        ([trace_fact_of ''query'' query_fingerprint,
                          trace_fact_of ''policy_status'' (pq_policy_status prepared),
                          trace_fact_of ''preview_limit'' (str_of_int (pq_max_rows prepared))]
                         @ cost_trace_facts (pq_cost_assessment prepared))
                        (\<lambda>d. d\<lparr>dw_query_fingerprint := Some query_fingerprint\<rparr>)) (\<lambda>validated.
                      returnW (Some prepared, validated)))))
      | _ \<Rightarrow> raiseW WE_INVALID_TRANSITION)"

definition resolve_semantics :: "('w, 'x) ports \<Rightarrow> 'x draft \<Rightarrow> ('w, 'x, 'x draft) action" where
  "resolve_semantics P d =
     (case dw_validated_request d of
        None \<Rightarrow> raiseW WE_INVALID_TRANSITION
      | Some request \<Rightarrow>
          bindW (begin_external P d ST_SEMANTIC_RESOLUTION OP_SEMANTIC_RESOLUTION
            [validated_analytical_request_fingerprint P request]) (\<lambda>started.
          bindW (tryW (portW (wp_plan P request))) (\<lambda>answer.
          case answer of
            Inl e \<Rightarrow> fail_or_escape P started OP_SEMANTIC_RESOLUTION (semantic_failure e) e
          | Inr resolved \<Rightarrow>
              bindW (finish_external P started OP_SEMANTIC_RESOLUTION ST_PLAN_READY
                [trace_fact_of ''plan'' (resolved_semantic_plan_fingerprint P resolved),
                 trace_fact_of ''context_version'' (str_of_int (wp_context_version P resolved)),
                 trace_fact_of ''table_count''
                   (str_of_nat (length (wp_policy_datasets P resolved)))]
                (\<lambda>d. d\<lparr>dw_resolved_plan := Some resolved,
                   dw_plan_fingerprint := Some (resolved_semantic_plan_fingerprint P resolved)\<rparr>)) (\<lambda>planned.
              bindW (revalidate_resolved P planned) (\<lambda>(prepared, current).
              if prepared = None then returnW current
              else
                bindW (lookup_recipe P current) (\<lambda>assessed.
                if dw_stage assessed = ST_FAILED then returnW assessed
                else pause_for_execution P assessed))))))"

definition retrieve_context :: "('w, 'x) ports \<Rightarrow> 'x draft \<Rightarrow> ('w, 'x, 'x draft) action" where
  "retrieve_context P d =
     bindW (begin_external P d ST_CONTEXT_RETRIEVAL OP_CATALOG_CONTEXT_READ
       (dw_requested_datasets d)) (\<lambda>started.
     bindW (tryW (read_assets P (dw_requested_datasets started))) (\<lambda>answer.
     case answer of
       Inl e \<Rightarrow> fail_or_escape P started OP_CATALOG_CONTEXT_READ (context_failure e) e
     | Inr assets \<Rightarrow>
         bindW (finish_external P started OP_CATALOG_CONTEXT_READ ST_CONTEXT_RETRIEVAL
           [trace_fact_of ''asset_count'' (str_of_nat (length assets)),
            trace_fact_of ''catalog_source'' (wp_source_label P)]
           (\<lambda>d. d\<lparr>dw_context_source := Some (wp_source_label P), dw_context_assets := assets\<rparr>)) (\<lambda>completed.
         if dw_validated_request completed \<noteq> None then resolve_semantics P completed
         else resolve_intent P completed)))"

definition inspect_rejections ::
  "('w, 'x) ports \<Rightarrow> 'x draft \<Rightarrow> 'x prepared_query \<Rightarrow> ('w \<Rightarrow> bool \<times> 'w) \<Rightarrow> ('w, 'x, 'x draft) action" where
  "inspect_rejections P d prepared should_continue =
     (case dw_execution d of
        None \<Rightarrow> raiseW WE_INVALID_TRANSITION
      | Some execution \<Rightarrow>
          if er_rejection_complete execution then propose_publication P d
          else
            bindW (callW should_continue) (\<lambda>go.
            if \<not> go then returnW d
            else
              bindW (begin_external P d ST_EXECUTION OP_REJECTION_INSPECTION
                [er_preview_fingerprint execution]) (\<lambda>started.
              bindW (tryW (portW (wp_inspect_rejections P prepared should_continue))) (\<lambda>answer.
              case answer of
                Inl e \<Rightarrow> fail_or_escape P started OP_REJECTION_INSPECTION (rejection_failure e) e
              | Inr report \<Rightarrow>
                  bindW (liftW (complete_rejections execution report)) (\<lambda>completed_record.
                  bindW (finish_external P started OP_REJECTION_INSPECTION ST_EXECUTED
                    [trace_fact_of ''rejected_count'' (str_of_int (er_rejected_count completed_record)),
                     trace_fact_of ''inspection_truncated''
                       (str_of_bool (er_rejection_truncated completed_record)),
                     trace_fact_of ''inspection_user'' (text_or ''none'' (rr_database_user report)),
                     trace_fact_of ''read_only''
                       (str_of_bool (rr_transaction_read_only report = Some True))]
                    (\<lambda>d. d\<lparr>dw_execution := Some completed_record\<rparr>)) (\<lambda>completed.
                  propose_publication P completed))))))"

definition execute_preview ::
  "('w, 'x) ports \<Rightarrow> 'x draft \<Rightarrow> 'x prepared_query \<Rightarrow> ('w \<Rightarrow> bool \<times> 'w) \<Rightarrow> ('w, 'x, 'x draft) action" where
  "execute_preview P d prepared should_continue =
     (if dw_execution d \<noteq> None then inspect_rejections P d prepared should_continue
      else
        bindW (callW should_continue) (\<lambda>go.
        if \<not> go then returnW d
        else
          bindW (begin_external P d ST_EXECUTION OP_PREVIEW_EXECUTION
            [text_or ''missing'' (dw_plan_fingerprint d),
             text_or ''missing'' (dw_query_fingerprint d)]) (\<lambda>started.
          bindW (tryW (portW (wp_execute_preview P prepared))) (\<lambda>answer.
          case answer of
            Inl e \<Rightarrow> fail_or_escape P started OP_PREVIEW_EXECUTION (preview_failure e) e
          | Inr preview \<Rightarrow>
              bindW (liftW (execution_record_of started preview)) (\<lambda>execution.
              bindW (finish_external P started OP_PREVIEW_EXECUTION ST_EXECUTION
                [trace_fact_of ''row_count'' (str_of_nat (length (er_rows execution))),
                 trace_fact_of ''database_user'' (er_database_user execution),
                 trace_fact_of ''read_only'' (str_of_bool (er_transaction_read_only execution)),
                 trace_fact_of ''preview'' (er_preview_fingerprint execution)]
                (\<lambda>d. d\<lparr>dw_execution := Some execution\<rparr>)) (\<lambda>executed.
              inspect_rejections P executed prepared should_continue))))))"

definition publish_context :: "('w, 'x) ports \<Rightarrow> 'x draft \<Rightarrow> ('w, 'x, 'x draft) action" where
  "publish_context P d =
     (case (dw_publication_proposal d, dw_publication_approval d) of
        (Some proposal, Some approval) \<Rightarrow>
          bindW (begin_external P d ST_PUBLICATION_PROPOSED OP_CONTEXT_PUBLICATION
            [wr_fingerprint proposal, wr_idempotency_key proposal]) (\<lambda>started.
          bindW (tryW (portW (wp_publish P proposal approval))) (\<lambda>answer.
          case answer of
            Inl e \<Rightarrow> fail_or_escape P started OP_CONTEXT_PUBLICATION (publish_failure e) e
          | Inr result \<Rightarrow>
              if pu_idempotency_key result \<noteq> wr_idempotency_key proposal
              then raiseW WE_DECISION_MISMATCH
              else
                bindW (tryW (bindW (liftW (validate_publication_audit_binding [pu_audit_record result]
                    (wa_id approval) (wa_actor approval) (wa_approved_at approval)
                    (wr_fingerprint proposal) [])) (\<lambda>_.
                  portW (wp_append_audit P [pu_audit_record result])))) (\<lambda>audited.
                case audited of
                  Inl e \<Rightarrow> fail_or_escape P started OP_CONTEXT_PUBLICATION (audit_failure e) e
                | Inr _ \<Rightarrow>
                    if pu_status result = PS_FAILED
                    then (case pu_failure_code result of None \<Rightarrow> escapeW AssertionError
                      | Some c \<Rightarrow> fail_external P started OP_CONTEXT_PUBLICATION c True
                          (\<lambda>d. d\<lparr>dw_publication_result := Some result\<rparr>) [])
                    else
                      finish_external P started OP_CONTEXT_PUBLICATION ST_PUBLICATION_COMPLETED
                        [trace_fact_of ''publication_status''
                           (publication_status_value (pu_status result)),
                         trace_fact_of ''document_ref'' (pu_document_ref result),
                         trace_fact_of ''idempotency_key'' (pu_idempotency_key result)]
                        (\<lambda>d. d\<lparr>dw_publication_result := Some result\<rparr>))))
      | _ \<Rightarrow> raiseW WE_INVALID_TRANSITION)"

section \<open>Operations\<close>

definition new_draft ::
  "string \<Rightarrow> string \<Rightarrow> user_language \<Rightarrow> string list \<Rightarrow> 'x option \<Rightarrow> datetime \<Rightarrow> 'x draft" where
  "new_draft workflow_id txt language datasets request now =
     \<lparr>dw_id = workflow_id, dw_revision = 1, dw_stage = ST_CREATED, dw_text = txt,
      dw_language = language, dw_requested_datasets = datasets, dw_context_source = None,
      dw_context_assets = [], dw_intent = None, dw_validated_request = request,
      dw_resolved_plan = None, dw_plan_fingerprint = None, dw_query_fingerprint = None,
      dw_recipe_reuse = None, dw_execution = None, dw_publication_proposal = None,
      dw_publication_approval = None, dw_publication_result = None, dw_checkpoint = None,
      dw_failure = None, dw_decisions = [], dw_trace = [], dw_created_at = now,
      dw_updated_at = now\<rparr>"

definition start_workflow :: "('w, 'x) ports \<Rightarrow> start_command \<Rightarrow> ('w, 'x, 'x draft) action" where
  "start_workflow P c =
     bindW (nowW P) (\<lambda>now.
     bindW (liftW (construct_model draft_valid
       (new_draft (sw_id c) (sw_text c) (sw_language c) (sw_datasets c) None now))) (\<lambda>d.
     bindW (submitW P d None) (\<lambda>_.
     retrieve_context P d)))"

fun preflight_failure :: "workflow_fault exn \<Rightarrow> bool" where
  "preflight_failure (Transition (Raised (ConnectorTargetError c))) = True"
| "preflight_failure (Transition (Raised (PlanningPortError c))) = True"
| "preflight_failure (Transition (Raised (SemanticResolutionError c))) = True"
| "preflight_failure _ = False"

definition start_confirmed ::
  "('w, 'x) ports \<Rightarrow> string \<Rightarrow> 'x confirmed_request \<Rightarrow> ('w, 'x, 'x draft) action" where
  "start_confirmed P workflow_id confirmed =
     bindW (tryW (portW (wp_planner P (cq_validated_request confirmed)))) (\<lambda>answer.
     case answer of
       Inl e \<Rightarrow> if preflight_failure e then raiseW WE_INVALID_TRANSITION else escapeW e
     | Inr preflight \<Rightarrow>
         bindW (nowW P) (\<lambda>now.
         bindW (liftW (construct_model draft_valid
           (new_draft workflow_id
             (case cq_original_text confirmed of Some t \<Rightarrow> t
              | None \<Rightarrow> ''Confirmed guided Query Studio request.'')
             (case cq_language confirmed of Some l \<Rightarrow> l | None \<Rightarrow> ENGLISH)
             (wp_policy_datasets P preflight) (Some (cq_validated_request confirmed)) now))) (\<lambda>d.
         bindW (submitW P d None) (\<lambda>_.
         retrieve_context P d))))"

definition inspect_workflow :: "('w, 'x) ports \<Rightarrow> string \<Rightarrow> ('w, 'x, 'x draft) action" where
  "inspect_workflow P workflow_id = load_draft P workflow_id"

definition recover_interrupted ::
  "('w, 'x) ports \<Rightarrow> string \<Rightarrow> workflow_operation \<Rightarrow> ('w, 'x, 'x draft) action" where
  "recover_interrupted P workflow_id expected_operation =
     bindW (load_draft P workflow_id) (\<lambda>d.
     case workflow_recovery_operation d of
       None \<Rightarrow> raiseW WE_INVALID_TRANSITION
     | Some operation \<Rightarrow>
         if operation \<noteq> expected_operation then raiseW WE_DECISION_MISMATCH
         else if in_flight d
         then fail_simply P d (te_operation (last (dw_trace d)))
                ''workflow_external_action_interrupted'' True
         else case pending_resume_operation d of
           Some pending \<Rightarrow> pause_for_retry P d pending
         | None \<Rightarrow>
             if dw_stage d = ST_VALIDATED \<and> dw_checkpoint d = None \<and> dw_plan_fingerprint d \<noteq> None
             then pause_for_execution P d
             else if dw_stage d = ST_EXECUTED then propose_publication P d
             else returnW d)"

fun confirmation_failure :: "workflow_fault exn \<Rightarrow> bool" where
  "confirmation_failure (Transition (Raised (IntentConfirmationError c))) = True"
| "confirmation_failure (Transition (Raised (RequestWorkflowError c))) = True"
| "confirmation_failure _ = False"

definition decide_intent ::
  "('w, 'x) ports \<Rightarrow> string \<Rightarrow> intent_decision \<Rightarrow> ('w, 'x, 'x draft) action" where
  "decide_intent P workflow_id decision =
     bindW (load_draft P workflow_id) (\<lambda>d.
     bindW (require_checkpoint d CK_INTENT_CONFIRMATION) (\<lambda>_.
     case dw_checkpoint d of
       None \<Rightarrow> escapeW AssertionError
     | Some checkpoint \<Rightarrow>
         if id_interpretation_fingerprint decision \<noteq> cp_fingerprint checkpoint
         then raiseW WE_DECISION_MISMATCH
         else case dw_intent d of
           None \<Rightarrow> raiseW WE_INVALID_TRANSITION
         | Some snapshot \<Rightarrow>
             bindW (tryW (portW (wp_confirm P (restore_intent_preview snapshot)
               (id_interpretation_fingerprint decision) (id_selected_alternative decision)))) (\<lambda>answer.
             case answer of
               Inl e \<Rightarrow> if confirmation_failure e then raiseW WE_DECISION_MISMATCH else escapeW e
             | Inr validated \<Rightarrow>
                 bindW (record_decision P d DK_INTENT DA_CONFIRM (id_actor decision)
                   (id_interpretation_fingerprint decision)
                   (\<lambda>d. d\<lparr>dw_validated_request := Some validated,
                      dw_stage := ST_SEMANTIC_RESOLUTION, dw_checkpoint := None\<rparr>)) (\<lambda>decided.
                 resolve_semantics P decided))))"

definition decide_execution ::
  "('w, 'x) ports \<Rightarrow> string \<Rightarrow> execution_decision \<Rightarrow> ('w \<Rightarrow> bool \<times> 'w) \<Rightarrow> ('w, 'x, 'x draft) action" where
  "decide_execution P workflow_id decision should_continue =
     bindW (load_draft P workflow_id) (\<lambda>d.
     bindW (require_checkpoint d CK_EXECUTION_APPROVAL) (\<lambda>_.
     case dw_checkpoint d of
       None \<Rightarrow> escapeW AssertionError
     | Some checkpoint \<Rightarrow>
         if ed_plan_fingerprint decision \<noteq> cp_fingerprint checkpoint
         then raiseW WE_DECISION_MISMATCH
         else if ed_action decision = DA_DECLINE
         then record_decision P d DK_EXECUTION (ed_action decision) (ed_actor decision)
           (ed_plan_fingerprint decision) (\<lambda>d. d\<lparr>dw_stage := ST_COMPLETED, dw_checkpoint := None\<rparr>)
         else
           bindW (record_decision P d DK_EXECUTION (ed_action decision) (ed_actor decision)
             (ed_plan_fingerprint decision)
             (\<lambda>d. d\<lparr>dw_stage := ST_VALIDATED, dw_checkpoint := None\<rparr>)) (\<lambda>decided.
           bindW (revalidate_resolved P decided) (\<lambda>(answer, current).
           case answer of None \<Rightarrow> returnW current
           | Some prepared \<Rightarrow> execute_preview P current prepared should_continue))))"

definition decide_publication ::
  "('w, 'x) ports \<Rightarrow> string \<Rightarrow> publication_decision \<Rightarrow> ('w, 'x, 'x draft) action" where
  "decide_publication P workflow_id decision =
     bindW (load_draft P workflow_id) (\<lambda>d.
     if dw_publication_result d \<noteq> None then returnW d
     else
       bindW (require_checkpoint d CK_PUBLICATION_DECISION) (\<lambda>_.
       case dw_publication_proposal d of
         None \<Rightarrow> raiseW WE_DECISION_MISMATCH
       | Some proposal \<Rightarrow>
           if pd_proposal_fingerprint decision \<noteq> wr_fingerprint proposal
           then raiseW WE_DECISION_MISMATCH
           else if pd_action decision = DA_SKIP
           then record_decision P d DK_PUBLICATION (pd_action decision) (pd_actor decision)
             (wr_fingerprint proposal) (\<lambda>d. d\<lparr>dw_stage := ST_COMPLETED, dw_checkpoint := None\<rparr>)
           else case pd_confirmation decision of
             None \<Rightarrow> escapeW AssertionError
           | Some confirmation \<Rightarrow>
               bindW (nowW P) (\<lambda>approved_at.
               bindW (liftW (construct_model publication_approval_valid
                 \<lparr>wa_id = ''workflow-publication-'' @ wr_idempotency_key proposal,
                  wa_workflow_id = dw_id d, wa_proposal_fingerprint = wr_fingerprint proposal,
                  wa_idempotency_key = wr_idempotency_key proposal, wa_actor = pd_actor decision,
                  wa_approved_at = approved_at, wa_confirmation = confirmation\<rparr>)) (\<lambda>approval.
               bindW (record_decision P d DK_PUBLICATION (pd_action decision) (pd_actor decision)
                 (wr_fingerprint proposal)
                 (\<lambda>d. d\<lparr>dw_publication_approval := Some approval, dw_checkpoint := None\<rparr>)) (\<lambda>decided.
               publish_context P decided)))))"

definition reserved_execution_matches ::
  "'x draft \<Rightarrow> retry_decision \<Rightarrow> workflow_operation \<Rightarrow> execution_decision \<Rightarrow> bool" where
  "reserved_execution_matches d decision operation reserved \<longleftrightarrow>
     ed_action reserved = DA_APPROVE \<and> ed_actor reserved = rd_actor decision
     \<and> Some (ed_plan_fingerprint reserved) = dw_plan_fingerprint d
     \<and> operation \<in> {OP_SQL_VALIDATION, OP_PREVIEW_EXECUTION, OP_REJECTION_INSPECTION}
     \<and> list_ex (\<lambda>prior. de_kind prior = DK_EXECUTION \<and> de_action prior = DA_APPROVE
           \<and> de_actor prior = ed_actor reserved
           \<and> de_bound_fingerprint prior = ed_plan_fingerprint reserved) (dw_decisions d)"

text \<open>What \<open>retry\<close> does after recording the decision, by the operation that failed.\<close>

fun resume_operation ::
  "('w, 'x) ports \<Rightarrow> workflow_operation \<Rightarrow> 'x draft \<Rightarrow> execution_decision option \<Rightarrow>
   ('w \<Rightarrow> bool \<times> 'w) \<Rightarrow> ('w, 'x, 'x draft) action" where
  "resume_operation P OP_CATALOG_CONTEXT_READ retried reserved continuation = retrieve_context P retried"
| "resume_operation P OP_INTENT_RESOLUTION retried reserved continuation = resolve_intent P retried"
| "resume_operation P OP_SEMANTIC_RESOLUTION retried reserved continuation = resolve_semantics P retried"
| "resume_operation P OP_SQL_VALIDATION retried reserved continuation =
     bindW (revalidate_resolved P retried) (\<lambda>(answer, current).
     case answer of None \<Rightarrow> returnW current
     | Some prepared \<Rightarrow>
         bindW (lookup_recipe P current) (\<lambda>assessed.
         if dw_stage assessed = ST_FAILED then returnW assessed
         else if reserved = None then pause_for_execution P assessed
         else execute_preview P assessed prepared continuation))"
| "resume_operation P OP_QUERY_RECIPE_LOOKUP retried reserved continuation =
     bindW (lookup_recipe P retried) (\<lambda>assessed.
     if dw_stage assessed = ST_FAILED then returnW assessed
     else bindW (revalidate_resolved P assessed) (\<lambda>(answer, current).
       if answer = None then returnW current else pause_for_execution P current))"
| "resume_operation P OP_PREVIEW_EXECUTION retried reserved continuation =
     bindW (revalidate_resolved P retried) (\<lambda>(answer, current).
     case answer of None \<Rightarrow> returnW current
     | Some prepared \<Rightarrow> execute_preview P current prepared continuation)"
| "resume_operation P OP_REJECTION_INSPECTION retried reserved continuation =
     bindW (revalidate_resolved P retried) (\<lambda>(answer, current).
     case answer of None \<Rightarrow> returnW current
     | Some prepared \<Rightarrow> inspect_rejections P current prepared continuation)"
| "resume_operation P OP_CONTEXT_PUBLICATION retried reserved continuation = publish_context P retried"
| "resume_operation P OP_HUMAN_DECISION retried reserved continuation = raiseW WE_RETRY_NOT_ALLOWED"

definition retry_workflow ::
  "('w, 'x) ports \<Rightarrow> string \<Rightarrow> retry_decision \<Rightarrow> execution_decision option \<Rightarrow> ('w \<Rightarrow> bool \<times> 'w) \<Rightarrow>
   ('w, 'x, 'x draft) action" where
  "retry_workflow P workflow_id decision reserved continuation =
     bindW (load_draft P workflow_id) (\<lambda>d.
     case dw_failure d of
       None \<Rightarrow> raiseW WE_RETRY_NOT_ALLOWED
     | Some failure \<Rightarrow>
         if dw_stage d \<noteq> ST_FAILED \<or> \<not> wf_retryable failure then raiseW WE_RETRY_NOT_ALLOWED
         else if rd_failure_fingerprint decision \<noteq> wf_fingerprint failure
                 \<or> rd_operation decision \<noteq> wf_operation failure
         then raiseW WE_DECISION_MISMATCH
         else if \<not> optional (reserved_execution_matches d decision (wf_operation failure)) reserved
         then raiseW WE_DECISION_MISMATCH
         else
           bindW (record_decision P d DK_RETRY DA_RETRY (rd_actor decision) (wf_fingerprint failure)
             (\<lambda>d. d\<lparr>dw_stage := retry_stage (wf_operation failure), dw_failure := None,
                dw_checkpoint := None\<rparr>)) (\<lambda>retried.
           resume_operation P (wf_operation failure) retried reserved continuation))"

end
