(* ===== verification/Orchestrator_Invariant.thy ===== *)
theory Orchestrator_Invariant
  imports Orchestrator "HOL-Library.Sublist"
begin

text \<open>
  What every draft of the agent workflow satisfies, whatever the ports answer and wherever a process
  stops: a small logic for sessions with one rule per construct, the invariant of a stored draft, and
  one lemma per step and command of the orchestrator, up to \<open>stored_invariant\<close>.
\<close>

section \<open>Reasoning about sessions\<close>

text \<open>
  \<open>keeps I Q m\<close>: every draft \<open>m\<close> submits satisfies \<open>I\<close>, however \<open>m\<close> ends, and a value \<open>m\<close> returns
  satisfies \<open>Q\<close>. There is one rule per construct.
\<close>

named_theorems keeps_intros \<open>rules that walk through an operation of the orchestrator\<close>

definition keeps :: "('x draft \<Rightarrow> bool) \<Rightarrow> ('a \<Rightarrow> bool) \<Rightarrow> ('w, 'x, 'a) action \<Rightarrow> bool" where
  "keeps I Q m \<longleftrightarrow>
     (\<forall>s r s'. m s = (r, s') \<longrightarrow>
        (\<exists>new. se_submitted s' = se_submitted s @ new \<and> list_all I new) \<and> (\<forall>x. r = Inr x \<longrightarrow> Q x))"

lemma keepsD:
  assumes "keeps I Q m" and "m s = (r, s')"
  shows "(\<exists>new. se_submitted s' = se_submitted s @ new \<and> list_all I new) \<and> (\<forall>x. r = Inr x \<longrightarrow> Q x)"
  using assms by (simp add: keeps_def)

lemma keeps_returnW [keeps_intros]: "Q x \<Longrightarrow> keeps I Q (returnW x)"
  by (simp add: keeps_def returnW_def)

lemma keeps_liftW: "returns Q r \<Longrightarrow> keeps I Q (liftW r)"
  by (simp add: keeps_def liftW_def returns_def)

lemma keeps_escape [keeps_intros]: "keeps I Q (liftW (Inl e))"
  by (rule keeps_liftW) (rule returns_Inl)

lemma keeps_raiseW [keeps_intros]: "keeps I Q (raiseW c)"
  by (simp add: raiseW_def keeps_escape)

lemma keeps_callW: "keeps I (\<lambda>_. True) (callW f)"
  by (auto simp: keeps_def callW_def split: prod.splits)

lemma keeps_bind:
  assumes "keeps I R m" and "\<And>x. R x \<Longrightarrow> keeps I Q (f x)"
  shows "keeps I Q (bindW m f)"
  unfolding keeps_def
proof (intro allI impI)
  fix s r s'
  assume run: "bindW m f s = (r, s')"
  obtain r1 s1 where m: "m s = (r1, s1)" by (cases "m s")
  obtain new where 1: "se_submitted s1 = se_submitted s @ new" "list_all I new"
      "\<forall>x. r1 = Inr x \<longrightarrow> R x"
    using keepsD [OF assms(1) m] by blast
  show "(\<exists>new. se_submitted s' = se_submitted s @ new \<and> list_all I new) \<and> (\<forall>x. r = Inr x \<longrightarrow> Q x)"
  proof (cases r1)
    case (Inl e)
    then show ?thesis using run m 1 by (auto simp: bindW_def)
  next
    case (Inr x)
    then have rest: "f x s1 = (r, s')" using run m by (simp add: bindW_def)
    have "keeps I Q (f x)" using assms(2) 1(3) Inr by blast
    from keepsD [OF this rest] obtain new' where "se_submitted s' = se_submitted s1 @ new'" "list_all I new'"
        "\<forall>x. r = Inr x \<longrightarrow> Q x"
      by blast
    with 1 show ?thesis by (auto intro!: exI [of _ "new @ new'"])
  qed
qed

lemma keeps_weaken: "keeps I Q m \<Longrightarrow> (\<And>d. I d \<Longrightarrow> J d) \<Longrightarrow> keeps J Q m"
  unfolding keeps_def list_all_iff by blast

lemma keeps_mono: "keeps I R m \<Longrightarrow> (\<And>x. R x \<Longrightarrow> Q x) \<Longrightarrow> keeps I Q m"
  unfolding keeps_def by blast

lemma keeps_portW: "keeps I (\<lambda>_. True) (portW f)"
  unfolding portW_def by (rule keeps_bind [OF keeps_callW], rule keeps_liftW) (simp add: returns_def)

lemma keeps_tryW: "keeps I R m \<Longrightarrow> keeps I (\<lambda>r. \<forall>x. r = Inr x \<longrightarrow> R x) (tryW m)"
  by (auto simp: keeps_def tryW_def split: prod.splits)

text \<open>The bind rules for what changes no draft.\<close>

lemma keeps_bind_call [keeps_intros]:
  "(\<And>x. keeps I Q (f x)) \<Longrightarrow> keeps I Q (bindW (callW g) f)"
  by (rule keeps_bind [OF keeps_callW])

lemma keeps_bind_now [keeps_intros]: "(\<And>x. keeps I Q (f x)) \<Longrightarrow> keeps I Q (bindW (nowW P) f)"
  by (simp add: nowW_def keeps_bind_call)

lemma keeps_bind_port [keeps_intros]: "(\<And>x. keeps I Q (f x)) \<Longrightarrow> keeps I Q (bindW (portW g) f)"
  by (rule keeps_bind [OF keeps_portW])

lemma keeps_bind_try_port [keeps_intros]:
  "(\<And>x. keeps I Q (f x)) \<Longrightarrow> keeps I Q (bindW (tryW (portW g)) f)"
  by (rule keeps_bind [OF keeps_tryW [OF keeps_portW]])

lemma keeps_bind_lift [keeps_intros]:
  "(\<And>x. r = Inr x \<Longrightarrow> keeps I Q (f x)) \<Longrightarrow> keeps I Q (bindW (liftW r) f)"
  by (rule keeps_bind [where R = "\<lambda>x. r = Inr x"], rule keeps_liftW) (simp_all add: returns_def)

lemma keeps_if [keeps_intros]:
  "(b \<Longrightarrow> keeps I Q x) \<Longrightarrow> (\<not> b \<Longrightarrow> keeps I Q y) \<Longrightarrow> keeps I Q (if b then x else y)"
  by simp

lemma keeps_option [keeps_intros]:
  "(v = None \<Longrightarrow> keeps I Q x) \<Longrightarrow> (\<And>a. v = Some a \<Longrightarrow> keeps I Q (f a)) \<Longrightarrow>
   keeps I Q (case v of None \<Rightarrow> x | Some a \<Rightarrow> f a)"
  by (cases v) simp_all

lemma keeps_sum [keeps_intros]:
  "(\<And>e. v = Inl e \<Longrightarrow> keeps I Q (g e)) \<Longrightarrow> (\<And>x. v = Inr x \<Longrightarrow> keeps I Q (f x)) \<Longrightarrow>
   keeps I Q (case v of Inl e \<Rightarrow> g e | Inr x \<Rightarrow> f x)"
  by (cases v) simp_all

lemma keeps_prod [keeps_intros]:
  "(\<And>a b. p = (a, b) \<Longrightarrow> keeps I Q (f a b)) \<Longrightarrow> keeps I Q (case p of (a, b) \<Rightarrow> f a b)"
  by (cases p) simp

lemma keeps_submit: "I d \<Longrightarrow> keeps I (\<lambda>_. True) (submitW P d expected)"
  unfolding keeps_def
proof (intro allI impI)
  fix s r s'
  assume "I d" "submitW P d expected s = (r, s')"
  then have "portW (wp_save P d expected) (s\<lparr>se_submitted := se_submitted s @ [d]\<rparr>) = (r, s')"
    by (simp add: submitW_def)
  then have "se_submitted s' = se_submitted s @ [d]"
    by (auto simp: portW_def bindW_def callW_def liftW_def split: prod.splits sum.splits)
  with \<open>I d\<close> show "(\<exists>new. se_submitted s' = se_submitted s @ new \<and> list_all I new)
      \<and> (\<forall>x. r = Inr x \<longrightarrow> True)"
    by simp
qed

text \<open>Every draft is persisted through \<^const>\<open>save_changes\<close>: the new draft passed its validators.\<close>

definition saved :: "'x draft \<Rightarrow> ('x draft \<Rightarrow> 'x draft) \<Rightarrow> datetime \<Rightarrow> 'x draft" where
  "saved d updates now = (updates d)\<lparr>dw_revision := dw_revision d + 1, dw_updated_at := now\<rparr>"

lemma keeps_save_changes:
  assumes "\<And>now. draft_valid (saved d updates now) \<Longrightarrow>
      I (saved d updates now) \<and> Q (saved d updates now)"
  shows "keeps I Q (save_changes P d updates)"
  unfolding save_changes_def saved_def [symmetric]
proof (intro keeps_intros)
  fix now x
  assume "construct_model draft_valid (saved d updates now) = (Inr x :: 'a draft raised)"
  then have x: "I x" "Q x" using assms by (auto simp: outcome_simps)
  show "keeps I Q (bindW (submitW P x (Some (dw_revision d))) (\<lambda>_. returnW x))"
    by (rule keeps_bind [OF keeps_submit [of I, OF x(1)] keeps_returnW [of Q, OF x(2)]])
qed

section \<open>Drafts an orchestrator can have written\<close>

definition approved_plan :: "'x draft \<Rightarrow> bool" where
  "approved_plan d \<longleftrightarrow>
     (\<exists>x \<in> set (dw_decisions d). de_kind x = DK_EXECUTION \<and> de_action x = DA_APPROVE
        \<and> dw_plan_fingerprint d = Some (de_bound_fingerprint x))"

definition publication_authorized :: "'x draft \<Rightarrow> bool" where
  "publication_authorized d \<longleftrightarrow>
     (\<exists>p a. dw_publication_proposal d = Some p \<and> dw_publication_approval d = Some a
        \<and> wa_workflow_id a = dw_id d \<and> wa_proposal_fingerprint a = wr_fingerprint p
        \<and> wa_idempotency_key a = wr_idempotency_key p
        \<and> (\<exists>x \<in> set (dw_decisions d). de_kind x = DK_PUBLICATION \<and> de_action x = DA_PUBLISH
             \<and> de_actor x = wa_actor a \<and> de_bound_fingerprint x = wr_fingerprint p))"

definition proposal_bound :: "('w, 'x) ports \<Rightarrow> 'x draft \<Rightarrow> publication_proposal \<Rightarrow> bool" where
  "proposal_bound P d p \<longleftrightarrow>
     wr_workflow_id p = dw_id d \<and> dw_plan_fingerprint d = Some (wr_plan_fingerprint p)
     \<and> (\<exists>e. dw_execution d = Some e \<and> er_rejection_complete e
          \<and> wr_execution_fingerprint p = sha256_text (execution_text e))
     \<and> (\<exists>r. dw_validated_request d = Some r
          \<and> wr_request_fingerprint p = validated_analytical_request_fingerprint P r)"

definition attempted :: "'x draft \<Rightarrow> workflow_operation \<Rightarrow> bool" where
  "attempted d operation \<longleftrightarrow> (\<exists>e \<in> set (dw_trace d). te_operation e = operation)"

text \<open>What holds of a draft at every moment.\<close>

definition grounded :: "('w, 'x) ports \<Rightarrow> 'x draft \<Rightarrow> bool" where
  "grounded P d \<longleftrightarrow>
     dw_plan_fingerprint d = map_option (resolved_semantic_plan_fingerprint P) (dw_resolved_plan d)
     \<and> (dw_execution d \<noteq> None \<or> attempted d OP_PREVIEW_EXECUTION \<longrightarrow> approved_plan d)
     \<and> (case dw_publication_proposal d of None \<Rightarrow> dw_publication_approval d = None
        | Some p \<Rightarrow> proposal_bound P d p)
     \<and> (dw_publication_approval d \<noteq> None \<or> attempted d OP_CONTEXT_PUBLICATION \<longrightarrow>
          publication_authorized d)"

definition unplanned :: "'x draft \<Rightarrow> bool" where
  "unplanned d \<longleftrightarrow> dw_resolved_plan d = None \<and> dw_plan_fingerprint d = None
     \<and> dw_query_fingerprint d = None \<and> dw_execution d = None \<and> dw_publication_proposal d = None
     \<and> dw_publication_approval d = None"

definition planned :: "('w, 'x) ports \<Rightarrow> 'x draft \<Rightarrow> bool" where
  "planned P d \<longleftrightarrow>
     (\<exists>p. dw_resolved_plan d = Some p
        \<and> dw_plan_fingerprint d = Some (resolved_semantic_plan_fingerprint P p))
     \<and> dw_validated_request d \<noteq> None"

definition unproposed :: "('w, 'x) ports \<Rightarrow> 'x draft \<Rightarrow> bool" where
  "unproposed P d \<longleftrightarrow> planned P d \<and> dw_publication_proposal d = None"

definition guarded_plan :: "('w, 'x) ports \<Rightarrow> 'x draft \<Rightarrow> bool" where
  "guarded_plan P d \<longleftrightarrow> unproposed P d \<and> dw_query_fingerprint d \<noteq> None"

text \<open>What an operation needs of the draft it runs on.\<close>

fun ready_for :: "('w, 'x) ports \<Rightarrow> workflow_operation \<Rightarrow> 'x draft \<Rightarrow> bool" where
  "ready_for P OP_CATALOG_CONTEXT_READ d = unplanned d"
| "ready_for P OP_INTENT_RESOLUTION d = (unplanned d \<and> dw_context_assets d \<noteq> [])"
| "ready_for P OP_SEMANTIC_RESOLUTION d = (unplanned d \<and> dw_validated_request d \<noteq> None)"
| "ready_for P OP_SQL_VALIDATION d = unproposed P d"
| "ready_for P OP_QUERY_RECIPE_LOOKUP d = guarded_plan P d"
| "ready_for P OP_PREVIEW_EXECUTION d = (guarded_plan P d \<and> approved_plan d)"
| "ready_for P OP_REJECTION_INSPECTION d = (guarded_plan P d \<and> dw_execution d \<noteq> None)"
| "ready_for P OP_CONTEXT_PUBLICATION d =
     (dw_publication_proposal d \<noteq> None \<and> dw_publication_approval d \<noteq> None)"
| "ready_for P OP_HUMAN_DECISION d = False"

definition awaits_checkpoint :: "('w, 'x) ports \<Rightarrow> 'x draft \<Rightarrow> workflow_checkpoint \<Rightarrow> bool" where
  "awaits_checkpoint P d c \<longleftrightarrow>
     (case cp_kind c of
        CK_INTENT_CONFIRMATION \<Rightarrow> ready_for P OP_INTENT_RESOLUTION d
          \<and> map_option is_interpretation_fingerprint (dw_intent d) = Some (cp_fingerprint c)
      | CK_EXECUTION_APPROVAL \<Rightarrow> guarded_plan P d \<and> dw_plan_fingerprint d = Some (cp_fingerprint c)
      | _ \<Rightarrow> False)"

fun settled_at :: "('w, 'x) ports \<Rightarrow> agent_stage \<Rightarrow> 'x draft \<Rightarrow> bool" where
  "settled_at P ST_CREATED d = ready_for P OP_CATALOG_CONTEXT_READ d"
| "settled_at P ST_CONTEXT_RETRIEVAL d = ready_for P OP_INTENT_RESOLUTION d"
| "settled_at P ST_INTENT_RESOLUTION d = False"
| "settled_at P ST_DECISION_REQUIRED d =
     (case dw_checkpoint d of None \<Rightarrow> False | Some c \<Rightarrow> awaits_checkpoint P d c)"
| "settled_at P ST_SEMANTIC_RESOLUTION d = ready_for P OP_SEMANTIC_RESOLUTION d"
| "settled_at P ST_PLAN_READY d = ready_for P OP_SQL_VALIDATION d"
| "settled_at P ST_VALIDATED d = (guarded_plan P d \<and> dw_checkpoint d = None)"
| "settled_at P ST_EXECUTION d = (guarded_plan P d \<and> approved_plan d)"
| "settled_at P ST_EXECUTED d = (guarded_plan P d \<and> optional er_rejection_complete (dw_execution d)
     \<and> dw_execution d \<noteq> None)"
| "settled_at P ST_PUBLICATION_PROPOSED d =
     (case dw_publication_proposal d of None \<Rightarrow> False
      | Some p \<Rightarrow>
          case dw_checkpoint d of None \<Rightarrow> dw_publication_approval d \<noteq> None
          | Some c \<Rightarrow> cp_kind c = CK_PUBLICATION_DECISION \<and> cp_fingerprint c = wr_fingerprint p
              \<and> dw_publication_approval d = None)"
| "settled_at P ST_PUBLICATION_COMPLETED d = True"
| "settled_at P ST_COMPLETED d = True"
| "settled_at P ST_FAILED d =
     (case dw_failure d of None \<Rightarrow> False
      | Some f \<Rightarrow> ready_for P (wf_operation f) d
          \<and> (wf_retryable f \<longrightarrow>
               map_option (\<lambda>c. (cp_kind c, cp_fingerprint c)) (dw_checkpoint d)
                 = Some (CK_RETRY, wf_fingerprint f)))"

definition consistent :: "('w, 'x) ports \<Rightarrow> 'x draft \<Rightarrow> bool" where
  "consistent P d \<longleftrightarrow>
     (if in_flight d
      then dw_stage d \<notin> {ST_FAILED, ST_COMPLETED, ST_PUBLICATION_COMPLETED}
        \<and> dw_checkpoint d = None
        \<and> ready_for P (te_operation (last (dw_trace d))) d
      else settled_at P (dw_stage d) d)"

definition workflow_invariant :: "('w, 'x) ports \<Rightarrow> 'x draft \<Rightarrow> bool" where
  "workflow_invariant P d \<longleftrightarrow> draft_valid d \<and> grounded P d \<and> consistent P d"

text \<open>What a later draft of the same workflow keeps of an earlier one.\<close>

definition set_once :: "'a option \<Rightarrow> 'a option \<Rightarrow> bool" where
  "set_once before after \<longleftrightarrow> before = None \<or> after = before"

definition continues :: "'x draft \<Rightarrow> 'x draft \<Rightarrow> bool" where
  "continues d d' \<longleftrightarrow>
     dw_id d' = dw_id d \<and> dw_text d' = dw_text d \<and> dw_language d' = dw_language d
     \<and> dw_requested_datasets d' = dw_requested_datasets d \<and> dw_created_at d' = dw_created_at d
     \<and> dw_revision d \<le> dw_revision d'
     \<and> prefix (dw_decisions d) (dw_decisions d') \<and> prefix (dw_trace d) (dw_trace d')
     \<and> set_once (dw_resolved_plan d) (dw_resolved_plan d')
     \<and> set_once (dw_plan_fingerprint d) (dw_plan_fingerprint d')
     \<and> set_once (dw_query_fingerprint d) (dw_query_fingerprint d')
     \<and> set_once (dw_publication_proposal d) (dw_publication_proposal d')
     \<and> set_once (dw_publication_approval d) (dw_publication_approval d')"

definition succeeds :: "('w, 'x) ports \<Rightarrow> 'x draft \<Rightarrow> 'x draft \<Rightarrow> bool" where
  "succeeds P base d \<longleftrightarrow> workflow_invariant P d \<and> continues base d"

text \<open>The part of a draft an external step leaves alone when it begins or fails.\<close>

definition same_core :: "'x draft \<Rightarrow> 'x draft \<Rightarrow> bool" where
  "same_core d d' \<longleftrightarrow>
     dw_id d' = dw_id d \<and> dw_text d' = dw_text d \<and> dw_language d' = dw_language d
     \<and> dw_requested_datasets d' = dw_requested_datasets d \<and> dw_created_at d' = dw_created_at d
     \<and> dw_context_assets d' = dw_context_assets d \<and> dw_intent d' = dw_intent d
     \<and> dw_validated_request d' = dw_validated_request d
     \<and> dw_resolved_plan d' = dw_resolved_plan d
     \<and> dw_plan_fingerprint d' = dw_plan_fingerprint d
     \<and> dw_query_fingerprint d' = dw_query_fingerprint d
     \<and> dw_recipe_reuse d' = dw_recipe_reuse d \<and> dw_execution d' = dw_execution d
     \<and> dw_publication_proposal d' = dw_publication_proposal d
     \<and> dw_publication_approval d' = dw_publication_approval d \<and> dw_decisions d' = dw_decisions d"

lemmas plan_defs = approved_plan_def unplanned_def planned_def unproposed_def guarded_plan_def

lemma continues_refl: "continues d d"
  by (simp add: continues_def set_once_def)

lemma set_once_trans: "set_once a b \<Longrightarrow> set_once b c \<Longrightarrow> set_once a c"
  by (auto simp: set_once_def)

lemma continues_trans: "continues a b \<Longrightarrow> continues b c \<Longrightarrow> continues a c"
  unfolding continues_def
  by (elim conjE, intro conjI) (simp | blast intro: prefix_order.trans set_once_trans)+

lemma ready_for_same_core:
  assumes "same_core d d'" shows "ready_for P op d' = ready_for P op d"
  using assms by (cases op) (simp_all add: same_core_def plan_defs)

lemma same_core_predicates:
  assumes "same_core d d'"
  shows "approved_plan d' = approved_plan d" "publication_authorized d' = publication_authorized d"
    "proposal_bound P d' = proposal_bound P d"
    "guarded_plan P d' = guarded_plan P d" "unproposed P d' = unproposed P d" "unplanned d' = unplanned d"
  using assms by (simp_all add: same_core_def plan_defs publication_authorized_def
      proposal_bound_def fun_eq_iff)

text \<open>Appending an event to the trace.\<close>

lemma attempted_append [simp]:
  "attempted (d\<lparr>dw_trace := t @ [e]\<rparr>) op \<longleftrightarrow> attempted (d\<lparr>dw_trace := t\<rparr>) op \<or> te_operation e = op"
  by (auto simp: attempted_def)

lemma same_core_step:
  assumes "same_core d d'" and "dw_trace d' = dw_trace d @ [e]"
    and "dw_revision d \<le> dw_revision d'" and "grounded P d" and "ready_for P (te_operation e) d"
  shows "grounded P d'" "continues d d'"
proof -
  have trace: "attempted d' op \<longleftrightarrow> attempted d op \<or> te_operation e = op" for op
    using assms(2) by (auto simp: attempted_def)
  have fields: "dw_execution d' = dw_execution d"
      "dw_publication_proposal d' = dw_publication_proposal d"
      "dw_publication_approval d' = dw_publication_approval d"
      "dw_plan_fingerprint d' = dw_plan_fingerprint d" "dw_resolved_plan d' = dw_resolved_plan d"
    using assms(1) by (simp_all add: same_core_def)
  show "grounded P d'"
    using assms(4,5) unfolding grounded_def trace same_core_predicates [OF assms(1)] fields
    by auto
  show "continues d d'"
    using assms(1-3) by (auto simp: continues_def same_core_def set_once_def)
qed

section \<open>Durable transitions keep the invariant\<close>

definition started :: "workflow_operation \<Rightarrow> 'x draft \<Rightarrow> bool" where
  "started operation d \<longleftrightarrow> in_flight d \<and> te_operation (last (dw_trace d)) = operation"

text \<open>The draft a decision or a finished step writes: the caller's updates, then one event.\<close>

definition extended :: "'x draft \<Rightarrow> workflow_operation \<Rightarrow> ('x draft \<Rightarrow> 'x draft) \<Rightarrow> 'x draft \<Rightarrow> bool" where
  "extended d operation updates d' \<longleftrightarrow>
     (\<exists>e now. te_operation e = operation \<and> te_status e \<noteq> TR_STARTED
        \<and> d' = saved d (\<lambda>d. (updates d)\<lparr>dw_trace := dw_trace d @ [e]\<rparr>) now)"

lemma keeps_begin_external:
  assumes "succeeds P b d" and "ready_for P operation d" and "stage \<notin> {ST_FAILED, ST_COMPLETED, ST_PUBLICATION_COMPLETED}"
  shows "keeps (succeeds P b) (\<lambda>d'. succeeds P b d' \<and> same_core d d' \<and> started operation d')
    (begin_external P d stage operation refs)"
  unfolding begin_external_def
proof (intro keeps_intros keeps_save_changes)
  fix now e now'
  let ?d = "saved d (\<lambda>d. d\<lparr>dw_stage := stage, dw_checkpoint := None, dw_failure := None,
    dw_trace := dw_trace d @ [e]\<rparr>) now'"
  assume "construct_model trace_event_valid
      \<lparr>te_sequence = int (length (dw_trace d)) + 1, te_stage = stage, te_operation = operation,
       te_status = TR_STARTED, te_occurred_at = now, te_input_refs = refs, te_facts = [],
       te_duration_ms = None\<rparr> = (Inr e :: trace_event raised)"
  then have e: "te_operation e = operation" "te_status e = TR_STARTED"
    by (auto simp: outcome_simps)
  assume valid: "draft_valid ?d"
  have core: "same_core d ?d" and trace: "dw_trace ?d = dw_trace d @ [e]"
    by (simp_all add: same_core_def saved_def)
  have "grounded P ?d" "continues d ?d"
    using same_core_step [OF core trace] assms(1,2) e
    by (auto simp: saved_def succeeds_def workflow_invariant_def)
  moreover have "consistent P ?d"
    unfolding consistent_def in_flight_def trace ready_for_same_core [OF core]
    using e assms(2,3) by (simp add: saved_def)
  moreover have "started operation ?d"
    unfolding started_def in_flight_def trace using e by simp
  moreover have "continues b d" using assms(1) by (simp add: succeeds_def)
  ultimately show "succeeds P b ?d \<and> succeeds P b ?d \<and> same_core d ?d \<and> started operation ?d"
    using valid core continues_trans by (auto simp: succeeds_def workflow_invariant_def)
qed

lemma succeeds_failed:
  assumes "succeeds P b d" and "started operation d" and "same_core d d'"
    and "dw_trace d' = dw_trace d @ [e]" and "te_operation e = operation"
    and "te_status e \<noteq> TR_STARTED" and "dw_revision d \<le> dw_revision d'" and "draft_valid d'"
    and "dw_stage d' = ST_FAILED" and "dw_failure d' = Some f" and "wf_operation f = operation"
    and "wf_retryable f \<Longrightarrow> map_option (\<lambda>c. (cp_kind c, cp_fingerprint c)) (dw_checkpoint d')
      = Some (CK_RETRY, wf_fingerprint f)"
  shows "succeeds P b d'"
proof -
  have inv: "grounded P d" "consistent P d" "continues b d"
    using assms(1) by (simp_all add: succeeds_def workflow_invariant_def)
  then have ready: "ready_for P operation d"
    using assms(2) by (simp add: consistent_def started_def)
  have "grounded P d'" "continues d d'"
    using same_core_step [OF assms(3,4,7) inv(1)] ready assms(5) by simp_all
  moreover have "consistent P d'"
    using ready assms(4,6,9-12) ready_for_same_core [OF assms(3), of P operation]
    by (simp add: consistent_def in_flight_def)
  ultimately show ?thesis
    using assms(8) inv(3) continues_trans by (auto simp: succeeds_def workflow_invariant_def)
qed

lemma keeps_fail_external:
  assumes "succeeds P b d" and "started operation d"
    and "\<And>d. same_core d (updates d)" and "\<And>d. dw_trace (updates d) = dw_trace d"
  shows "keeps (succeeds P b) (\<lambda>d'. succeeds P b d' \<and> dw_stage d' = ST_FAILED)
    (fail_external P d operation c retryable updates facts)"
  unfolding fail_external_def
proof (intro keeps_intros keeps_save_changes)
  fix now f elapsed e now'
  let ?d = "saved d (\<lambda>d. (updates d)\<lparr>dw_stage := ST_FAILED, dw_failure := Some f,
       dw_checkpoint := (if retryable then Some \<lparr>cp_kind = CK_RETRY, cp_fingerprint = wf_fingerprint f,
            cp_reason = ''A typed retry decision is required; no fallback context is used.''\<rparr>
          else None), dw_trace := dw_trace d @ [e]\<rparr>) now'"
  assume "failure_create (wp_iso_text P) (normalize_error_code c) operation retryable
      (started_attempts d operation) now = (Inr f :: workflow_failure raised)"
  then have f: "wf_operation f = operation" "wf_retryable f = retryable"
    by (auto simp: failure_create_def outcome_simps)
  assume "construct_model trace_event_valid
      \<lparr>te_sequence = int (length (dw_trace d)) + 1, te_stage = dw_stage d, te_operation = operation,
       te_status = TR_FAILED, te_occurred_at = now, te_input_refs = [],
       te_facts = [trace_fact_of ''error_code'' (wf_code f),
         trace_fact_of ''retryable'' (str_of_bool (wf_retryable f))] @ facts,
       te_duration_ms = Some elapsed\<rparr> = (Inr e :: trace_event raised)"
  then have e: "te_operation e = operation" "te_status e = TR_FAILED"
    by (auto simp: outcome_simps)
  assume valid: "draft_valid ?d"
  have core: "same_core d ?d"
    using assms(3) [of d] by (simp add: same_core_def saved_def)
  have "succeeds P b ?d"
    by (rule succeeds_failed [OF assms(1,2) core _ e(1) _ _ valid _ _ f(1)])
      (simp_all add: saved_def e f)
  then show "succeeds P b ?d \<and> succeeds P b ?d \<and> dw_stage ?d = ST_FAILED"
    by (simp add: saved_def)
qed

lemma keeps_fail_or_escape:
  assumes "succeeds P b d" and "started operation d"
  shows "keeps (succeeds P b) (\<lambda>d'. succeeds P b d' \<and> dw_stage d' = ST_FAILED)
    (fail_or_escape P d operation report e)"
  unfolding fail_or_escape_def
  by (intro keeps_intros keeps_fail_external [OF assms]) (simp_all add: same_core_def)

lemma keeps_finish_external:
  assumes "\<And>d'. draft_valid d' \<Longrightarrow> extended d operation (\<lambda>d. (updates d)\<lparr>dw_stage := stage\<rparr>) d' \<Longrightarrow>
      I d' \<and> Q d'"
  shows "keeps I Q (finish_external P d operation stage facts updates)"
  unfolding finish_external_def
proof (intro keeps_intros keeps_save_changes assms)
  fix now elapsed e now'
  assume "construct_model trace_event_valid
      \<lparr>te_sequence = int (length (dw_trace d)) + 1, te_stage = stage, te_operation = operation,
       te_status = TR_SUCCEEDED, te_occurred_at = now, te_input_refs = [], te_facts = facts,
       te_duration_ms = Some elapsed\<rparr> = (Inr e :: trace_event raised)"
  then show "extended d operation (\<lambda>d. (updates d)\<lparr>dw_stage := stage\<rparr>)
      (saved d (\<lambda>d. (updates d)\<lparr>dw_stage := stage, dw_trace := dw_trace d @ [e]\<rparr>) now')"
    by (auto simp: extended_def outcome_simps intro!: exI [of _ e] exI [of _ now'])
qed

lemma keeps_record_decision:
  assumes "\<And>x d'. draft_valid d' \<Longrightarrow> workflow_decision_valid x \<Longrightarrow> de_kind x = kind \<Longrightarrow>
      de_action x = action \<Longrightarrow> de_actor x = actor \<Longrightarrow> de_bound_fingerprint x = bound \<Longrightarrow>
      extended d OP_HUMAN_DECISION (\<lambda>d. (updates d)\<lparr>dw_decisions := dw_decisions d @ [x]\<rparr>) d' \<Longrightarrow>
      I d' \<and> Q d'"
  shows "keeps I Q (record_decision P d kind action actor bound updates)"
  unfolding record_decision_def
proof (intro keeps_intros keeps_save_changes assms)
  fix now x e now'
  assume "construct_model workflow_decision_valid
      \<lparr>de_actor = actor, de_kind = kind, de_action = action, de_decided_at = now,
       de_bound_fingerprint = bound\<rparr> = (Inr x :: workflow_decision_record raised)"
  then show "workflow_decision_valid x" "de_kind x = kind" "de_action x = action"
      "de_actor x = actor" "de_bound_fingerprint x = bound"
    by (auto simp: outcome_simps)
  assume "construct_model trace_event_valid
      \<lparr>te_sequence = int (length (dw_trace d)) + 1, te_stage = dw_stage d,
       te_operation = OP_HUMAN_DECISION, te_status = TR_SUCCEEDED, te_occurred_at = now,
       te_input_refs = [],
       te_facts = [trace_fact_of ''decision_kind'' (decision_kind_value kind),
         trace_fact_of ''decision_action'' (decision_action_value action),
         trace_fact_of ''actor'' actor],
       te_duration_ms = Some 0\<rparr> = (Inr e :: trace_event raised)"
  then show "extended d OP_HUMAN_DECISION (\<lambda>d. (updates d)\<lparr>dw_decisions := dw_decisions d @ [x]\<rparr>)
      (saved d (\<lambda>d. (updates d)\<lparr>dw_decisions := dw_decisions d @ [x],
         dw_trace := dw_trace d @ [e]\<rparr>) now')"
    by (auto simp: extended_def outcome_simps intro!: exI [of _ e] exI [of _ now'])
qed

lemma extendedD:
  assumes "extended d operation updates d'"
  shows "\<not> in_flight d'" "attempted d' op \<longleftrightarrow> attempted d op \<or> op = operation"
    "prefix (dw_trace d) (dw_trace d')" "dw_revision d < dw_revision d'"
    "dw_stage d' = dw_stage (updates d)" "dw_checkpoint d' = dw_checkpoint (updates d)"
    "dw_failure d' = dw_failure (updates d)" "dw_id d' = dw_id (updates d)"
    "dw_text d' = dw_text (updates d)" "dw_language d' = dw_language (updates d)"
    "dw_requested_datasets d' = dw_requested_datasets (updates d)"
    "dw_created_at d' = dw_created_at (updates d)"
    "dw_context_assets d' = dw_context_assets (updates d)" "dw_intent d' = dw_intent (updates d)"
    "dw_validated_request d' = dw_validated_request (updates d)"
    "dw_resolved_plan d' = dw_resolved_plan (updates d)"
    "dw_plan_fingerprint d' = dw_plan_fingerprint (updates d)"
    "dw_query_fingerprint d' = dw_query_fingerprint (updates d)"
    "dw_recipe_reuse d' = dw_recipe_reuse (updates d)"
    "dw_execution d' = dw_execution (updates d)"
    "dw_publication_proposal d' = dw_publication_proposal (updates d)"
    "dw_publication_approval d' = dw_publication_approval (updates d)"
    "dw_decisions d' = dw_decisions (updates d)"
  using assms by (auto simp: extended_def saved_def in_flight_def attempted_def)

text \<open>A later draft with the same plan, proposal and approval keeps what holds at every moment.\<close>

lemma grounded_mono:
  assumes "grounded P d" and "dw_id d' = dw_id d"
    and "dw_plan_fingerprint d' = dw_plan_fingerprint d"
    and "dw_publication_proposal d' = dw_publication_proposal d"
    and "dw_publication_approval d' = dw_publication_approval d"
    and "dw_resolved_plan d' = dw_resolved_plan d"
    and "set (dw_decisions d) \<subseteq> set (dw_decisions d')"
    and "dw_publication_proposal d = None \<or>
      dw_execution d' = dw_execution d \<and> dw_validated_request d' = dw_validated_request d"
    and "dw_execution d' \<noteq> None \<or> attempted d' OP_PREVIEW_EXECUTION \<Longrightarrow>
      dw_execution d \<noteq> None \<or> attempted d OP_PREVIEW_EXECUTION \<or> approved_plan d"
    and "attempted d' OP_CONTEXT_PUBLICATION \<Longrightarrow>
      attempted d OP_CONTEXT_PUBLICATION \<or> dw_publication_approval d \<noteq> None"
  shows "grounded P d'"
proof -
  have "approved_plan d \<Longrightarrow> approved_plan d'"
    using assms(3,7) by (auto simp: approved_plan_def)
  moreover have "publication_authorized d \<Longrightarrow> publication_authorized d'"
    using assms(2,4,5,7) unfolding publication_authorized_def by fastforce
  moreover have "dw_publication_proposal d = Some p \<Longrightarrow> proposal_bound P d p \<Longrightarrow> proposal_bound P d' p" for p
    using assms(2,3,8) by (auto simp: proposal_bound_def)
  ultimately show ?thesis
    using assms(1,9,10) unfolding grounded_def assms(3-6) by (auto split: option.splits)
qed

lemma continues_extended:
  assumes "extended d operation updates d'" and "continues d (updates d)"
  shows "continues d d'"
  using assms(2) extendedD(3,4) [OF assms(1)] unfolding continues_def extendedD(8-23) [OF assms(1)]
  by simp

lemma succeeds_extended:
  assumes "succeeds P b d" and "extended d operation updates d'" and "draft_valid d'"
    and "continues d (updates d)" and "grounded P d'" and "settled_at P (dw_stage d') d'"
  shows "succeeds P b d'"
proof -
  have "continues b d" using assms(1) by (simp add: succeeds_def)
  then have "continues b d'" using continues_extended [OF assms(2,4)] continues_trans by blast
  then show ?thesis
    using assms extendedD(1) [OF assms(2)]
    by (simp add: succeeds_def workflow_invariant_def consistent_def)
qed

lemma succeedsD:
  assumes "succeeds P b d"
  shows "grounded P d" "consistent P d" "draft_valid d" "continues b d"
  using assms by (simp_all add: succeeds_def workflow_invariant_def)

lemma startedD: "succeeds P b d \<Longrightarrow> started operation d \<Longrightarrow> ready_for P operation d"
  by (auto simp: succeeds_def workflow_invariant_def consistent_def started_def)

lemma settledD: "succeeds P b d \<Longrightarrow> \<not> in_flight d \<Longrightarrow> settled_at P (dw_stage d) d"
  by (simp add: succeeds_def workflow_invariant_def consistent_def)

text \<open>Saving without an event: the pauses of the workflow.\<close>

lemma succeeds_saved:
  assumes "succeeds P b d" and "\<not> in_flight d" and "draft_valid (saved d updates now)"
    and "continues d (updates d)" and "dw_trace (updates d) = dw_trace d"
    and "grounded P (saved d updates now)"
    and "settled_at P (dw_stage (updates d)) (saved d updates now)"
  shows "succeeds P b (saved d updates now)"
proof -
  have "continues d (saved d updates now)"
    using assms(4) by (simp add: continues_def saved_def)
  then show ?thesis
    using assms continues_trans succeedsD(4) [OF assms(1)]
    by (auto simp: succeeds_def workflow_invariant_def consistent_def in_flight_def saved_def)
qed

lemma saved_fields [simp]:
  "dw_stage (saved d u now) = dw_stage (u d)" "dw_checkpoint (saved d u now) = dw_checkpoint (u d)"
  "dw_failure (saved d u now) = dw_failure (u d)" "dw_trace (saved d u now) = dw_trace (u d)"
  "dw_id (saved d u now) = dw_id (u d)"
  "dw_context_assets (saved d u now) = dw_context_assets (u d)"
  "dw_intent (saved d u now) = dw_intent (u d)"
  "dw_validated_request (saved d u now) = dw_validated_request (u d)"
  "dw_resolved_plan (saved d u now) = dw_resolved_plan (u d)"
  "dw_plan_fingerprint (saved d u now) = dw_plan_fingerprint (u d)"
  "dw_query_fingerprint (saved d u now) = dw_query_fingerprint (u d)"
  "dw_execution (saved d u now) = dw_execution (u d)"
  "dw_publication_proposal (saved d u now) = dw_publication_proposal (u d)"
  "dw_publication_approval (saved d u now) = dw_publication_approval (u d)"
  "dw_decisions (saved d u now) = dw_decisions (u d)"
  by (simp_all add: saved_def)

lemma attempted_trace: "dw_trace d' = dw_trace d \<Longrightarrow> attempted d' op = attempted d op"
  by (simp add: attempted_def)

lemma keeps_pause_for_retry:
  assumes "succeeds P b d" and "\<not> in_flight d" and "ready_for P operation d"
  shows "keeps (succeeds P b) (succeeds P b) (pause_for_retry P d operation)"
  unfolding pause_for_retry_def
proof (intro keeps_intros keeps_save_changes)
  fix now f now'
  let ?u = "\<lambda>d. d\<lparr>dw_stage := ST_FAILED, dw_failure := Some f,
    dw_checkpoint := Some \<lparr>cp_kind = CK_RETRY, cp_fingerprint = wf_fingerprint f,
      cp_reason = ''The prior process stopped between durable stages; retry explicitly.''\<rparr>\<rparr>"
  assume "failure_create (wp_iso_text P) ''workflow_resume_required'' operation True
      (started_attempts d operation + 1) now = (Inr f :: workflow_failure raised)"
  then have f: "wf_operation f = operation"
    by (auto simp: failure_create_def outcome_simps)
  assume valid: "draft_valid (saved d ?u now')"
  have core: "same_core d (saved d ?u now')" by (simp add: same_core_def saved_def)
  have "succeeds P b (saved d ?u now')"
  proof (rule succeeds_saved [OF assms(1,2) valid])
    show "grounded P (saved d ?u now')"
      by (rule grounded_mono [OF succeedsD(1) [OF assms(1)]]) (auto simp: attempted_def)
    show "settled_at P (dw_stage (?u d)) (saved d ?u now')"
      using assms(3) f ready_for_same_core [OF core, of P operation] by simp
  qed (simp_all add: continues_def set_once_def)
  then show "succeeds P b (saved d ?u now') \<and> succeeds P b (saved d ?u now')" by simp
qed

lemma keeps_pause_for_execution:
  assumes "succeeds P b d" and "\<not> in_flight d" and "guarded_plan P d"
  shows "keeps (succeeds P b) (succeeds P b) (pause_for_execution P d)"
  unfolding pause_for_execution_def
proof (intro keeps_intros keeps_save_changes)
  fix fingerprint now
  let ?u = "\<lambda>d. d\<lparr>dw_stage := ST_DECISION_REQUIRED,
    dw_checkpoint := Some (execution_checkpoint fingerprint)\<rparr>"
  assume fingerprint: "dw_plan_fingerprint d = Some fingerprint"
  assume valid: "draft_valid (saved d ?u now)"
  have core: "same_core d (saved d ?u now)" by (simp add: same_core_def saved_def)
  have "succeeds P b (saved d ?u now)"
  proof (rule succeeds_saved [OF assms(1,2) valid])
    show "grounded P (saved d ?u now)"
      by (rule grounded_mono [OF succeedsD(1) [OF assms(1)]]) (auto simp: attempted_def)
    show "settled_at P (dw_stage (?u d)) (saved d ?u now)"
      using assms(3) fingerprint same_core_predicates(4) [OF core, of P]
      by (simp add: awaits_checkpoint_def execution_checkpoint_def)
  qed (simp_all add: continues_def set_once_def)
  then show "succeeds P b (saved d ?u now) \<and> succeeds P b (saved d ?u now)" by simp
qed

lemma keeps_propose_publication:
  assumes "succeeds P b d" and "\<not> in_flight d" and "guarded_plan P d"
  shows "keeps (succeeds P b) (succeeds P b) (propose_publication P d)"
proof -
  have none: "dw_publication_proposal d = None" "dw_publication_approval d = None"
    using assms(3) succeedsD(1) [OF assms(1)] by (simp_all add: plan_defs grounded_def)
  show ?thesis
  proof (cases "\<exists>e r p. dw_execution d = Some e \<and> dw_validated_request d = Some r
      \<and> dw_plan_fingerprint d = Some p \<and> er_rejection_complete e")
    case False
    then have "propose_publication P d = raiseW WE_INVALID_TRANSITION"
      using none by (auto simp: propose_publication_def split: option.splits)
    then show ?thesis by (simp add: keeps_raiseW)
  next
    case True
    then obtain e r p where parts: "dw_execution d = Some e" "dw_validated_request d = Some r"
        "dw_plan_fingerprint d = Some p" "er_rejection_complete e"
      by blast
    show ?thesis
      unfolding propose_publication_def parts none prod.case option.case
    proof (simp only: parts if_False not_True_eq_False, intro keeps_intros keeps_save_changes)
      fix proposal now
      let ?u = "\<lambda>d. d\<lparr>dw_stage := ST_PUBLICATION_PROPOSED,
        dw_publication_proposal := Some proposal,
        dw_checkpoint := Some \<lparr>cp_kind = CK_PUBLICATION_DECISION,
          cp_fingerprint = wr_fingerprint proposal,
          cp_reason = ''Explicitly publish or skip the bounded execution-context proposal.''\<rparr>\<rparr>"
      assume "publication_proposal_create (dw_id d) p (sha256_text (execution_text e))
          (validated_analytical_request_fingerprint P r) = (Inr proposal :: publication_proposal raised)"
      then have proposal: "proposal_bound P (saved d ?u now) proposal"
        using parts by (auto simp: publication_proposal_create_def Let_def outcome_simps proposal_bound_def)
      assume valid: "draft_valid (saved d ?u now)"
      have "succeeds P b (saved d ?u now)"
      proof (rule succeeds_saved [OF assms(1,2) valid])
        show "grounded P (saved d ?u now)"
        proof -
          have "approved_plan (saved d ?u now) = approved_plan d"
              "attempted (saved d ?u now) op = attempted d op" for op
            by (simp_all add: approved_plan_def attempted_def)
          moreover have "\<not> publication_authorized d"
            using none by (simp add: publication_authorized_def)
          ultimately show ?thesis
            using succeedsD(1) [OF assms(1)] proposal none by (simp add: grounded_def)
        qed
      qed (simp_all add: none continues_def set_once_def)
      then show "succeeds P b (saved d ?u now) \<and> succeeds P b (saved d ?u now)" by simp
    qed simp
  qed
qed

section \<open>External steps keep the invariant\<close>

text \<open>The failing branch of a step, for a client that only needs the invariant.\<close>

lemma keeps_failed:
  "succeeds P b d \<Longrightarrow> started operation d \<Longrightarrow>
   keeps (succeeds P b) (succeeds P b) (fail_or_escape P d operation report e)"
  by (rule keeps_mono [OF keeps_fail_or_escape]) auto

lemma succeeds_finished_intent:
  assumes "succeeds P b d" and "started OP_INTENT_RESOLUTION d" and "draft_valid d'"
    and "extended d OP_INTENT_RESOLUTION (\<lambda>d. (d\<lparr>dw_intent := Some snapshot,
        dw_checkpoint := Some c\<rparr>)\<lparr>dw_stage := ST_DECISION_REQUIRED\<rparr>) d'"
    and "cp_kind c = CK_INTENT_CONFIRMATION"
    and "cp_fingerprint c = is_interpretation_fingerprint snapshot"
  shows "succeeds P b d'"
proof (rule succeeds_extended [OF assms(1,4,3)])
  note ready = startedD [OF assms(1,2)]
  note fields = extendedD [OF assms(4)]
  show "grounded P d'"
    by (rule grounded_mono [OF succeedsD(1) [OF assms(1)]]) (auto simp: fields)
  show "settled_at P (dw_stage d') d'"
    using ready assms(5,6) by (simp add: fields awaits_checkpoint_def plan_defs)
qed (simp add: continues_def set_once_def)

lemma keeps_resolve_intent:
  assumes "succeeds P b d" and "ready_for P OP_INTENT_RESOLUTION d"
  shows "keeps (succeeds P b) (succeeds P b) (resolve_intent P d)"
  unfolding resolve_intent_def
proof (rule keeps_bind [OF keeps_begin_external [OF assms]], simp, elim conjE, intro keeps_intros)
  fix d1 answer e
  assume "succeeds P b d1" "started OP_INTENT_RESOLUTION d1"
  then show "keeps (succeeds P b) (succeeds P b)
      (fail_or_escape P d1 OP_INTENT_RESOLUTION (intent_failure e) e)"
    by (rule keeps_failed)
next
  fix d1 answer preview snapshot
  assume d1: "succeeds P b d1" "started OP_INTENT_RESOLUTION d1"
  assume "snapshot_intent_preview preview = (Inr snapshot :: 'b intent_snapshot raised)"
  then have "ip_interpretation_fingerprint preview = is_interpretation_fingerprint snapshot"
    by (auto simp: snapshot_intent_preview_def outcome_simps)
  then show "keeps (succeeds P b) (succeeds P b)
      (finish_external P d1 OP_INTENT_RESOLUTION ST_DECISION_REQUIRED
        [trace_fact_of ''adapter'' (ip_adapter preview),
         trace_fact_of ''ambiguity_count'' (str_of_nat (length (ip_ambiguities preview))),
         trace_fact_of ''alternative_count'' (str_of_nat (length (ip_alternatives preview))),
         trace_fact_of ''interpretation'' (ip_interpretation_fingerprint preview)]
        (\<lambda>d. d\<lparr>dw_intent := Some snapshot,
           dw_checkpoint := Some \<lparr>cp_kind = CK_INTENT_CONFIRMATION,
             cp_fingerprint = ip_interpretation_fingerprint preview,
             cp_reason = ''Confirm one typed interpretation before semantic resolution.''\<rparr>\<rparr>))"
    using succeeds_finished_intent [OF d1, where snapshot = snapshot]
    by (intro keeps_finish_external) fastforce
qed

definition validated_draft :: "('w, 'x) ports \<Rightarrow> 'x draft \<Rightarrow> 'x draft \<Rightarrow> bool" where
  "validated_draft P d d' \<longleftrightarrow>
     \<not> in_flight d' \<and> dw_stage d' \<noteq> ST_FAILED \<and> guarded_plan P d' \<and> dw_execution d' = dw_execution d
     \<and> (approved_plan d \<longrightarrow> approved_plan d')"

lemma finished_validation:
  assumes "succeeds P b d" and "started OP_SQL_VALIDATION d" and "draft_valid d'"
    and "extended d OP_SQL_VALIDATION
        (\<lambda>d. (d\<lparr>dw_query_fingerprint := Some q\<rparr>)\<lparr>dw_stage := ST_VALIDATED\<rparr>) d'"
    and "dw_query_fingerprint d = None \<or> dw_query_fingerprint d = Some q"
  shows "succeeds P b d' \<and> validated_draft P d d'"
proof
  note ready = startedD [OF assms(1,2)]
  note fields = extendedD [OF assms(4)]
  have guarded_plan: "guarded_plan P d'" using ready by (simp add: fields plan_defs)
  have flight: "dw_checkpoint d = None"
    using succeedsD(2) [OF assms(1)] assms(2) by (simp add: consistent_def started_def)
  show "succeeds P b d'"
  proof (rule succeeds_extended [OF assms(1,4,3)])
    show "grounded P d'"
      by (rule grounded_mono [OF succeedsD(1) [OF assms(1)]]) (auto simp: fields)
    show "settled_at P (dw_stage d') d'"
      using guarded_plan flight by (simp add: fields)
  qed (use assms(5) in \<open>auto simp: continues_def set_once_def\<close>)
  show "validated_draft P d d'"
    using guarded_plan by (simp add: validated_draft_def fields approved_plan_def)
qed

lemma validated_draft_core:
  "same_core d d1 \<Longrightarrow> validated_draft P d1 d' \<Longrightarrow> validated_draft P d d'"
  by (auto simp: validated_draft_def same_core_def approved_plan_def)

abbreviation revalidated :: "('w, 'x) ports \<Rightarrow> 'x draft \<Rightarrow> 'x draft \<Rightarrow> 'a option \<times> 'x draft \<Rightarrow> bool" where
  "revalidated P b d \<equiv>
     (\<lambda>(answer, d'). succeeds P b d' \<and> (answer \<noteq> None \<longrightarrow> validated_draft P d d'))"

lemma keeps_validate_failed:
  assumes "succeeds P b d" and "started OP_SQL_VALIDATION d"
  shows "keeps (succeeds P b) (revalidated P b d0) (validate_failed P d report e)"
  unfolding validate_failed_def
  by (rule keeps_bind [OF keeps_failed [OF assms]], rule keeps_returnW) simp

lemma keeps_finish_validation:
  assumes d1: "succeeds P b d1" "started OP_SQL_VALIDATION d1" and core: "same_core d d1"
    and q: "\<not> (dw_query_fingerprint d \<noteq> None \<and> dw_query_fingerprint d \<noteq> Some q)"
  shows "keeps (succeeds P b) (revalidated P b d)
    (bindW (finish_external P d1 OP_SQL_VALIDATION ST_VALIDATED facts
      (\<lambda>d. d\<lparr>dw_query_fingerprint := Some q\<rparr>)) (\<lambda>validated. returnW (Some prepared, validated)))"
proof (rule keeps_bind [OF keeps_finish_external])
  have q1: "dw_query_fingerprint d1 = None \<or> dw_query_fingerprint d1 = Some q"
    using q core by (auto simp: same_core_def)
  fix d'
  assume d': "draft_valid d'" "extended d1 OP_SQL_VALIDATION
      (\<lambda>d. (d\<lparr>dw_query_fingerprint := Some q\<rparr>)\<lparr>dw_stage := ST_VALIDATED\<rparr>) d'"
  then show "succeeds P b d' \<and> succeeds P b d' \<and> validated_draft P d d'"
    using finished_validation [OF d1 d' q1] validated_draft_core [OF core] by blast
next
  fix d'
  assume "succeeds P b d' \<and> validated_draft P d d'"
  then show "keeps (succeeds P b) (revalidated P b d) (returnW (Some prepared, d'))"
    by (intro keeps_returnW) simp
qed

lemma keeps_revalidate_resolved:
  assumes "succeeds P b d" and "ready_for P OP_SQL_VALIDATION d"
  shows "keeps (succeeds P b) (revalidated P b d) (revalidate_resolved P d)"
proof -
  obtain plan request where parts: "dw_resolved_plan d = Some plan"
      "dw_plan_fingerprint d = Some (resolved_semantic_plan_fingerprint P plan)"
      "dw_validated_request d = Some request"
    using assms(2) by (auto simp: plan_defs)
  show ?thesis
    unfolding revalidate_resolved_def parts prod.case option.case
    by (simp only: not_True_eq_False if_False simp_thms,
      rule keeps_bind [OF keeps_begin_external [OF assms]], simp, elim conjE, intro keeps_intros)
      (rule keeps_validate_failed keeps_finish_validation, assumption+)+
qed

lemma finished_recipe:
  assumes "succeeds P b d" and "started OP_QUERY_RECIPE_LOOKUP d" and "draft_valid d'"
    and "extended d OP_QUERY_RECIPE_LOOKUP
        (\<lambda>d. (d\<lparr>dw_recipe_reuse := Some assessment\<rparr>)\<lparr>dw_stage := ST_VALIDATED\<rparr>) d'"
  shows "succeeds P b d' \<and> validated_draft P d d'"
proof
  note ready = startedD [OF assms(1,2)]
  note fields = extendedD [OF assms(4)]
  have guarded_plan: "guarded_plan P d'" using ready by (simp add: fields plan_defs)
  have flight: "dw_checkpoint d = None"
    using succeedsD(2) [OF assms(1)] assms(2) by (simp add: consistent_def started_def)
  show "succeeds P b d'"
  proof (rule succeeds_extended [OF assms(1,4,3)])
    show "grounded P d'"
      by (rule grounded_mono [OF succeedsD(1) [OF assms(1)]]) (auto simp: fields)
    show "settled_at P (dw_stage d') d'"
      using guarded_plan flight by (simp add: fields)
  qed (simp add: continues_def set_once_def)
  show "validated_draft P d d'"
    using guarded_plan by (simp add: validated_draft_def fields approved_plan_def)
qed

abbreviation assessed :: "('w, 'x) ports \<Rightarrow> 'x draft \<Rightarrow> 'x draft \<Rightarrow> 'x draft \<Rightarrow> bool" where
  "assessed P b d \<equiv> (\<lambda>d'. succeeds P b d' \<and> (dw_stage d' \<noteq> ST_FAILED \<longrightarrow> validated_draft P d d'))"

lemma keeps_finish_recipe:
  assumes d1: "succeeds P b d1" "started OP_QUERY_RECIPE_LOOKUP d1" and core: "same_core d d1"
  shows "keeps (succeeds P b) (assessed P b d)
    (finish_external P d1 OP_QUERY_RECIPE_LOOKUP ST_VALIDATED facts
      (\<lambda>d. d\<lparr>dw_recipe_reuse := Some assessment\<rparr>))"
proof (rule keeps_finish_external)
  fix d'
  assume "draft_valid d'" "extended d1 OP_QUERY_RECIPE_LOOKUP
      (\<lambda>d. (d\<lparr>dw_recipe_reuse := Some assessment\<rparr>)\<lparr>dw_stage := ST_VALIDATED\<rparr>) d'"
  then show "succeeds P b d' \<and> assessed P b d d'"
    using finished_recipe [OF d1] validated_draft_core [OF core] by blast
qed

lemma keeps_failed_recipe:
  "succeeds P b d1 \<Longrightarrow> started OP_QUERY_RECIPE_LOOKUP d1 \<Longrightarrow>
   keeps (succeeds P b) (assessed P b d) (fail_or_escape P d1 OP_QUERY_RECIPE_LOOKUP report e)"
  by (rule keeps_mono [OF keeps_fail_or_escape]) auto

lemma keeps_bind_try_source [keeps_intros]:
  "(\<And>x. keeps I Q (f x)) \<Longrightarrow> keeps I Q (bindW (tryW (bindW (liftW r) (\<lambda>x. portW (g x)))) f)"
  by (rule keeps_bind [OF keeps_tryW [OF keeps_bind_lift [OF keeps_portW]]])

lemma keeps_lookup_recipe:
  assumes "succeeds P b d" and "validated_draft P d0 d"
  shows "keeps (succeeds P b) (assessed P b d) (lookup_recipe P d)"
proof -
  have ready: "ready_for P OP_QUERY_RECIPE_LOOKUP d" and stay: "assessed P b d d"
    using assms by (simp_all add: validated_draft_def)
  then obtain plan request fingerprint q where parts: "dw_resolved_plan d = Some plan"
      "dw_plan_fingerprint d = Some fingerprint" "dw_validated_request d = Some request"
      "dw_query_fingerprint d = Some q"
    by (auto simp: plan_defs)
  show ?thesis
    unfolding lookup_recipe_def
  proof (intro keeps_option keeps_if keeps_returnW [where Q = "assessed P b d", OF stay])
    fix assess
    show "keeps (succeeds P b) (assessed P b d)
      (case (dw_validated_request d, dw_resolved_plan d, dw_plan_fingerprint d,
          dw_query_fingerprint d) of
        (Some request, Some plan, Some plan_fingerprint, Some query_fingerprint) \<Rightarrow>
          bindW (begin_external P d ST_VALIDATED OP_QUERY_RECIPE_LOOKUP
            [plan_fingerprint, query_fingerprint]) (\<lambda>started.
          bindW (tryW (bindW (liftW (source_schema_fingerprint P started)) (\<lambda>schema.
            portW (assess \<lparr>rq_validated_request = request, rq_resolved_plan = plan,
              rq_plan_fingerprint = text_or ''missing'' (dw_plan_fingerprint started),
              rq_query_fingerprint = text_or ''missing'' (dw_query_fingerprint started),
              rq_source_schema_fingerprint = schema\<rparr>)))) (\<lambda>answer.
          case answer of
            Inl e \<Rightarrow> fail_or_escape P started OP_QUERY_RECIPE_LOOKUP (recipe_failure e) e
          | Inr assessment \<Rightarrow>
              finish_external P started OP_QUERY_RECIPE_LOOKUP ST_VALIDATED
                [trace_fact_of ''reuse_status'' (recipe_reuse_status_value (ru_status assessment)),
                 trace_fact_of ''recipe_id'' (text_or ''none'' (ru_recipe_id assessment)),
                 trace_fact_of ''stale_reasons''
                   (join_with (CHR '','') (map recipe_staleness_value (ru_reasons assessment))),
                 trace_fact_of ''revalidated'' (str_of_bool (ru_revalidated assessment))]
                (\<lambda>d. d\<lparr>dw_recipe_reuse := Some assessment\<rparr>)))
      | _ \<Rightarrow> raiseW WE_INVALID_TRANSITION)"
      unfolding parts prod.case option.case
      by (rule keeps_bind [OF keeps_begin_external [OF assms(1) ready]], simp, elim conjE,
          intro keeps_intros)
        (rule keeps_failed_recipe keeps_finish_recipe, assumption+)+
  qed
qed

lemma finished_plan:
  assumes "succeeds P b d" and "started OP_SEMANTIC_RESOLUTION d" and "draft_valid d'"
    and "extended d OP_SEMANTIC_RESOLUTION (\<lambda>d. (d\<lparr>dw_resolved_plan := Some plan,
        dw_plan_fingerprint := Some (resolved_semantic_plan_fingerprint P plan)\<rparr>)
          \<lparr>dw_stage := ST_PLAN_READY\<rparr>) d'"
  shows "succeeds P b d' \<and> ready_for P OP_SQL_VALIDATION d'"
proof -
  note ready = startedD [OF assms(1,2)]
  note fields = extendedD [OF assms(4)]
  have sql: "ready_for P OP_SQL_VALIDATION d'" using ready by (simp add: fields plan_defs)
  have "\<not> approved_plan d" "\<not> publication_authorized d"
    using ready by (auto simp: plan_defs publication_authorized_def)
  then have "\<not> attempted d OP_PREVIEW_EXECUTION" "\<not> attempted d OP_CONTEXT_PUBLICATION"
    using succeedsD(1) [OF assms(1)] by (auto simp: grounded_def)
  then have "grounded P d'"
    using ready by (simp add: grounded_def fields unplanned_def)
  then have "succeeds P b d'"
    using sql ready
    by (intro succeeds_extended [OF assms(1,4,3)])
      (simp_all add: fields continues_def set_once_def unplanned_def)
  with sql show ?thesis by blast
qed

lemma keeps_pause_validated:
  "succeeds P b d' \<Longrightarrow> validated_draft P d d' \<Longrightarrow>
   keeps (succeeds P b) (succeeds P b) (pause_for_execution P d')"
  by (rule keeps_pause_for_execution) (simp_all add: validated_draft_def)

lemma keeps_resolve_semantics:
  assumes "succeeds P b d" and "ready_for P OP_SEMANTIC_RESOLUTION d"
  shows "keeps (succeeds P b) (succeeds P b) (resolve_semantics P d)"
  unfolding resolve_semantics_def
proof (intro keeps_intros, rule keeps_bind [OF keeps_begin_external [OF assms]], simp, elim conjE,
    intro keeps_intros)
  fix request d1 answer e
  assume "succeeds P b d1" "started OP_SEMANTIC_RESOLUTION d1"
  then show "keeps (succeeds P b) (succeeds P b)
      (fail_or_escape P d1 OP_SEMANTIC_RESOLUTION (semantic_failure e) e)"
    by (rule keeps_failed)
next
  fix request d1 answer plan
  assume d1: "succeeds P b d1" "started OP_SEMANTIC_RESOLUTION d1"
  show "keeps (succeeds P b) (succeeds P b)
      (bindW (finish_external P d1 OP_SEMANTIC_RESOLUTION ST_PLAN_READY
          [trace_fact_of ''plan'' (resolved_semantic_plan_fingerprint P plan),
           trace_fact_of ''context_version'' (str_of_int (wp_context_version P plan)),
           trace_fact_of ''table_count'' (str_of_nat (length (wp_policy_datasets P plan)))]
          (\<lambda>d. d\<lparr>dw_resolved_plan := Some plan,
             dw_plan_fingerprint := Some (resolved_semantic_plan_fingerprint P plan)\<rparr>)) (\<lambda>planned.
        bindW (revalidate_resolved P planned) (\<lambda>(prepared, current).
        if prepared = None then returnW current
        else bindW (lookup_recipe P current) (\<lambda>assessed.
          if dw_stage assessed = ST_FAILED then returnW assessed
          else pause_for_execution P assessed))))"
  proof (rule keeps_bind [OF keeps_finish_external])
    fix d' :: "'b draft"
    assume "succeeds P b d' \<and> ready_for P OP_SQL_VALIDATION d'"
    then show "keeps (succeeds P b) (succeeds P b)
      (bindW (revalidate_resolved P d') (\<lambda>(prepared, current).
        if prepared = None then returnW current
        else bindW (lookup_recipe P current) (\<lambda>assessed.
          if dw_stage assessed = ST_FAILED then returnW assessed
          else pause_for_execution P assessed)))"
      by (auto intro!: keeps_intros keeps_bind [OF keeps_revalidate_resolved]
          keeps_bind [OF keeps_lookup_recipe] keeps_pause_validated)
  qed (use finished_plan [OF d1] in blast)
qed

lemma keeps_read_assets: "keeps I (\<lambda>assets. length assets = length datasets) (read_assets P datasets)"
proof (induction datasets)
  case (Cons dataset datasets)
  have "keeps I (\<lambda>_. True) (read_asset P dataset)"
    unfolding read_asset_def by (intro keeps_intros keeps_liftW) (simp add: returns_def)
  then show ?case
    by (auto intro!: keeps_bind [OF _ keeps_bind [OF Cons.IH]] keeps_returnW)
qed (simp add: keeps_returnW)

lemma finished_context:
  assumes "succeeds P b d" and "started OP_CATALOG_CONTEXT_READ d" and "draft_valid d'"
    and "extended d OP_CATALOG_CONTEXT_READ (\<lambda>d. (d\<lparr>dw_context_source := source,
        dw_context_assets := assets\<rparr>)\<lparr>dw_stage := ST_CONTEXT_RETRIEVAL\<rparr>) d'"
    and "assets \<noteq> []"
  shows "succeeds P b d' \<and> ready_for P OP_INTENT_RESOLUTION d'"
proof -
  note ready = startedD [OF assms(1,2)]
  note fields = extendedD [OF assms(4)]
  have intent: "ready_for P OP_INTENT_RESOLUTION d'"
    using ready assms(5) by (simp add: fields plan_defs)
  have "grounded P d'"
    by (rule grounded_mono [OF succeedsD(1) [OF assms(1)]]) (auto simp: fields)
  then have "succeeds P b d'"
    using intent
    by (intro succeeds_extended [OF assms(1,4,3)]) (simp_all add: fields continues_def set_once_def)
  with intent show ?thesis by blast
qed

lemma requested_nonempty: "draft_valid d \<Longrightarrow> dw_requested_datasets d \<noteq> []"
  by (auto simp: draft_valid_def draft_fields_valid_def len_between_def)

lemma keeps_retrieve_context:
  assumes "succeeds P b d" and "ready_for P OP_CATALOG_CONTEXT_READ d"
  shows "keeps (succeeds P b) (succeeds P b) (retrieve_context P d)"
  unfolding retrieve_context_def
proof (rule keeps_bind [OF keeps_begin_external [OF assms]], simp, elim conjE,
    rule keeps_bind [OF keeps_tryW [OF keeps_read_assets]], intro keeps_intros)
  fix d1 answer e
  assume "succeeds P b d1" "started OP_CATALOG_CONTEXT_READ d1"
  then show "keeps (succeeds P b) (succeeds P b)
      (fail_or_escape P d1 OP_CATALOG_CONTEXT_READ (context_failure e) e)"
    by (rule keeps_failed)
next
  fix d1 answer and assets :: "catalog_asset list"
  assume d1: "succeeds P b d1" "started OP_CATALOG_CONTEXT_READ d1"
  assume "\<forall>x. answer = Inr x \<longrightarrow> length x = length (dw_requested_datasets d1)" "answer = Inr assets"
  then have assets: "assets \<noteq> []" using requested_nonempty [OF succeedsD(3) [OF d1(1)]] by auto
  show "keeps (succeeds P b) (succeeds P b)
      (bindW (finish_external P d1 OP_CATALOG_CONTEXT_READ ST_CONTEXT_RETRIEVAL
          [trace_fact_of ''asset_count'' (str_of_nat (length assets)),
           trace_fact_of ''catalog_source'' (wp_source_label P)]
          (\<lambda>d. d\<lparr>dw_context_source := Some (wp_source_label P), dw_context_assets := assets\<rparr>)) (\<lambda>completed.
        if dw_validated_request completed \<noteq> None then resolve_semantics P completed
        else resolve_intent P completed))"
  proof (rule keeps_bind [OF keeps_finish_external])
    fix d'
    assume "succeeds P b d' \<and> ready_for P OP_INTENT_RESOLUTION d'"
    then show "keeps (succeeds P b) (succeeds P b)
        (if dw_validated_request d' \<noteq> None then resolve_semantics P d' else resolve_intent P d')"
      by (auto intro!: keeps_resolve_semantics keeps_resolve_intent)
  qed (use finished_context [OF d1 _ _ assets] in blast)
qed

lemma keeps_finish_rejections:
  assumes d1: "succeeds P b d1" "started OP_REJECTION_INSPECTION d1"
    and old: "dw_execution d1 = Some r" and new: "complete_rejections r report = (Inr r' :: execution_record raised)"
  shows "keeps (succeeds P b) (succeeds P b)
    (bindW (finish_external P d1 OP_REJECTION_INSPECTION ST_EXECUTED facts
      (\<lambda>d. d\<lparr>dw_execution := Some r'\<rparr>)) (propose_publication P))"
proof (rule keeps_bind [OF keeps_finish_external])
  fix d'
  assume d': "draft_valid d'" "extended d1 OP_REJECTION_INSPECTION
      (\<lambda>d. (d\<lparr>dw_execution := Some r'\<rparr>)\<lparr>dw_stage := ST_EXECUTED\<rparr>) d'"
  note ready = startedD [OF d1] and fields = extendedD [OF d'(2)]
  have complete: "er_rejection_complete r'"
    using new by (auto simp: complete_rejections_def outcome_simps)
  have guarded_plan: "guarded_plan P d'" using ready by (simp add: fields plan_defs)
  have "grounded P d'"
    by (rule grounded_mono [OF succeedsD(1) [OF d1(1)]])
      (use old ready in \<open>auto simp: fields plan_defs\<close>)
  then have "succeeds P b d'"
    using guarded_plan complete ready
    by (intro succeeds_extended [OF d1(1) d'(2,1)]) (simp_all add: fields continues_def set_once_def)
  then show "succeeds P b d' \<and> succeeds P b d' \<and> guarded_plan P d' \<and> \<not> in_flight d'"
    using guarded_plan fields(1) by blast
qed (auto intro: keeps_propose_publication)

lemma keeps_inspect_rejections:
  assumes "succeeds P b d" and "\<not> in_flight d" and "guarded_plan P d"
  shows "keeps (succeeds P b) (succeeds P b) (inspect_rejections P d prepared should_continue)"
  unfolding inspect_rejections_def
proof (intro keeps_intros keeps_propose_publication assms)
  fix r go
  assume r: "dw_execution d = Some r"
  then have ready: "ready_for P OP_REJECTION_INSPECTION d" using assms(3) by simp
  show "keeps (succeeds P b) (succeeds P b)
      (bindW (begin_external P d ST_EXECUTION OP_REJECTION_INSPECTION [er_preview_fingerprint r])
        (\<lambda>started.
          bindW (tryW (portW (wp_inspect_rejections P prepared should_continue))) (\<lambda>answer.
          case answer of
            Inl e \<Rightarrow> fail_or_escape P started OP_REJECTION_INSPECTION (rejection_failure e) e
          | Inr report \<Rightarrow>
              bindW (liftW (complete_rejections r report)) (\<lambda>completed_record.
              bindW (finish_external P started OP_REJECTION_INSPECTION ST_EXECUTED
                [trace_fact_of ''rejected_count'' (str_of_int (er_rejected_count completed_record)),
                 trace_fact_of ''inspection_truncated''
                   (str_of_bool (er_rejection_truncated completed_record)),
                 trace_fact_of ''inspection_user'' (text_or ''none'' (rr_database_user report)),
                 trace_fact_of ''read_only''
                   (str_of_bool (rr_transaction_read_only report = Some True))]
                (\<lambda>d. d\<lparr>dw_execution := Some completed_record\<rparr>)) (propose_publication P)))))"
  proof (rule keeps_bind [OF keeps_begin_external [OF assms(1) ready]], simp, elim conjE,
      intro keeps_intros)
    fix d1 answer report r'
    assume "succeeds P b d1" "started OP_REJECTION_INSPECTION d1" "same_core d d1"
      "complete_rejections r report = (Inr r' :: execution_record raised)"
    then show "keeps (succeeds P b) (succeeds P b)
      (bindW (finish_external P d1 OP_REJECTION_INSPECTION ST_EXECUTED
        [trace_fact_of ''rejected_count'' (str_of_int (er_rejected_count r')),
         trace_fact_of ''inspection_truncated'' (str_of_bool (er_rejection_truncated r')),
         trace_fact_of ''inspection_user'' (text_or ''none'' (rr_database_user report)),
         trace_fact_of ''read_only'' (str_of_bool (rr_transaction_read_only report = Some True))]
        (\<lambda>d. d\<lparr>dw_execution := Some r'\<rparr>)) (propose_publication P))"
      using r by (intro keeps_finish_rejections [where r = r and report = report])
        (simp_all add: same_core_def)
  qed (auto intro: keeps_failed)
qed

lemma keeps_execute_preview:
  assumes "succeeds P b d" and "validated_draft P d0 d" and "approved_plan d"
  shows "keeps (succeeds P b) (succeeds P b) (execute_preview P d prepared should_continue)"
proof -
  have ready: "ready_for P OP_PREVIEW_EXECUTION d" "\<not> in_flight d" "guarded_plan P d"
    using assms(2,3) by (simp_all add: validated_draft_def)
  have finish: "keeps (succeeds P b) (succeeds P b)
      (bindW (finish_external P d1 OP_PREVIEW_EXECUTION ST_EXECUTION facts
        (\<lambda>d. d\<lparr>dw_execution := Some r\<rparr>))
        (\<lambda>executed. inspect_rejections P executed prepared should_continue))"
    if d1: "succeeds P b d1" "started OP_PREVIEW_EXECUTION d1" for d1 r facts
  proof (rule keeps_bind [OF keeps_finish_external])
    fix d'
    assume d': "draft_valid d'" "extended d1 OP_PREVIEW_EXECUTION
        (\<lambda>d. (d\<lparr>dw_execution := Some r\<rparr>)\<lparr>dw_stage := ST_EXECUTION\<rparr>) d'"
    note at_start = startedD [OF d1] and fields = extendedD [OF d'(2)]
    have guarded_plan: "guarded_plan P d'" "approved_plan d'"
      using at_start by (simp_all add: fields plan_defs)
    have "grounded P d'"
      by (rule grounded_mono [OF succeedsD(1) [OF d1(1)]])
        (use at_start in \<open>auto simp: fields plan_defs\<close>)
    then have "succeeds P b d'"
      using guarded_plan
      by (intro succeeds_extended [OF d1(1) d'(2,1)]) (simp_all add: fields continues_def set_once_def)
    then show "succeeds P b d' \<and> succeeds P b d' \<and> guarded_plan P d' \<and> \<not> in_flight d'"
      using guarded_plan fields(1) by blast
  qed (auto intro: keeps_inspect_rejections)
  show ?thesis
    unfolding execute_preview_def
    by (intro keeps_if keeps_inspect_rejections assms(1) ready(2,3) keeps_bind_call keeps_returnW,
        rule keeps_bind [OF keeps_begin_external [OF assms(1) ready(1)]], simp, elim conjE,
        intro keeps_intros) (auto intro: keeps_failed finish)
qed

lemma keeps_finish_publication:
  assumes d1: "succeeds P b d1" "started OP_CONTEXT_PUBLICATION d1"
  shows "keeps (succeeds P b) (succeeds P b)
    (finish_external P d1 OP_CONTEXT_PUBLICATION ST_PUBLICATION_COMPLETED facts
      (\<lambda>d. d\<lparr>dw_publication_result := Some result\<rparr>))"
proof (rule keeps_finish_external)
  fix d'
  assume d': "draft_valid d'" "extended d1 OP_CONTEXT_PUBLICATION
      (\<lambda>d. (d\<lparr>dw_publication_result := Some result\<rparr>)\<lparr>dw_stage := ST_PUBLICATION_COMPLETED\<rparr>) d'"
  note ready = startedD [OF d1] and fields = extendedD [OF d'(2)]
  have "grounded P d'"
    by (rule grounded_mono [OF succeedsD(1) [OF d1(1)]]) (use ready in \<open>auto simp: fields\<close>)
  then have "succeeds P b d'"
    by (intro succeeds_extended [OF d1(1) d'(2,1)]) (simp_all add: fields continues_def set_once_def)
  then show "succeeds P b d' \<and> succeeds P b d'" by blast
qed

lemma keeps_fail_publication:
  "succeeds P b d \<Longrightarrow> started OP_CONTEXT_PUBLICATION d \<Longrightarrow>
   keeps (succeeds P b) (succeeds P b) (fail_external P d OP_CONTEXT_PUBLICATION c True
     (\<lambda>d. d\<lparr>dw_publication_result := Some result\<rparr>) [])"
  by (rule keeps_mono [OF keeps_fail_external]) (auto simp: same_core_def)

lemma keeps_publish_context:
  assumes "succeeds P b d" and "ready_for P OP_CONTEXT_PUBLICATION d"
  shows "keeps (succeeds P b) (succeeds P b) (publish_context P d)"
proof -
  obtain p a where parts: "dw_publication_proposal d = Some p" "dw_publication_approval d = Some a"
    using assms(2) by auto
  show ?thesis
    unfolding publish_context_def parts prod.case option.case
    by (rule keeps_bind [OF keeps_begin_external [OF assms]], simp, elim conjE, intro keeps_intros)
      (auto intro: keeps_failed keeps_finish_publication keeps_fail_publication)
qed

section \<open>Decisions keep the invariant\<close>

lemma checkpoint_settled:
  assumes "succeeds P b d" and "dw_checkpoint d = Some c"
  shows "\<not> in_flight d \<and> settled_at P (dw_stage d) d"
proof -
  have "\<not> in_flight d"
    using assms succeedsD(2) [OF assms(1)] by (auto simp: consistent_def)
  then show ?thesis using settledD [OF assms(1)] by blast
qed

lemma require_checkpointD:
  assumes "succeeds P b d" and "dw_stage d \<in> {ST_DECISION_REQUIRED, ST_PUBLICATION_PROPOSED}"
    and "dw_checkpoint d = Some c"
  shows "cp_kind c = CK_INTENT_CONFIRMATION \<Longrightarrow> ready_for P OP_INTENT_RESOLUTION d"
    and "cp_kind c = CK_EXECUTION_APPROVAL \<Longrightarrow>
      guarded_plan P d \<and> dw_plan_fingerprint d = Some (cp_fingerprint c)"
    and "cp_kind c = CK_PUBLICATION_DECISION \<Longrightarrow>
      dw_stage d = ST_PUBLICATION_PROPOSED \<and> dw_publication_proposal d \<noteq> None
      \<and> dw_publication_approval d = None"
  using checkpoint_settled [OF assms(1,3)] assms(2,3)
  by (auto simp: awaits_checkpoint_def split: option.splits)

lemma keeps_require_checkpoint [keeps_intros]:
  assumes "\<And>c. dw_stage d \<in> {ST_DECISION_REQUIRED, ST_PUBLICATION_PROPOSED} \<Longrightarrow>
      dw_checkpoint d = Some c \<Longrightarrow> cp_kind c = kind \<Longrightarrow> keeps I Q (f ())"
  shows "keeps I Q (bindW (require_checkpoint d kind) f)"
proof (rule keeps_bind [where R = "\<lambda>_. dw_stage d \<in> {ST_DECISION_REQUIRED, ST_PUBLICATION_PROPOSED}
    \<and> (\<exists>c. dw_checkpoint d = Some c \<and> cp_kind c = kind)"])
  show "keeps I (\<lambda>_. dw_stage d \<in> {ST_DECISION_REQUIRED, ST_PUBLICATION_PROPOSED}
      \<and> (\<exists>c. dw_checkpoint d = Some c \<and> cp_kind c = kind)) (require_checkpoint d kind)"
    unfolding require_checkpoint_def by (intro keeps_intros) (auto split: option.splits)
  show "keeps I Q (f x)" if "dw_stage d \<in> {ST_DECISION_REQUIRED, ST_PUBLICATION_PROPOSED}
      \<and> (\<exists>c. dw_checkpoint d = Some c \<and> cp_kind c = kind)" for x
    using that assms by (cases x) auto
qed

text \<open>A recorded decision leaves the draft settled at its new stage.\<close>

lemma decided:
  assumes "succeeds P b d" and "draft_valid d'" and "extended d OP_HUMAN_DECISION
      (\<lambda>d. (updates d)\<lparr>dw_decisions := dw_decisions d @ [x]\<rparr>) d'"
    and "same_core d (updates d)" and "settled_at P (dw_stage d') d'"
    and "dw_trace (updates d) = dw_trace d" and "dw_revision (updates d) = dw_revision d"
  shows "succeeds P b d'"
proof (rule succeeds_extended [OF assms(1,3,2) _ _ assms(5)])
  note fields = extendedD [OF assms(3)]
  show "grounded P d'"
    by (rule grounded_mono [OF succeedsD(1) [OF assms(1)]])
      (use assms(4) in \<open>auto simp: fields same_core_def\<close>)
  show "continues d ((updates d)\<lparr>dw_decisions := dw_decisions d @ [x]\<rparr>)"
    using assms(4,6,7) by (auto simp: continues_def set_once_def same_core_def)
qed

lemma keeps_record_completion:
  assumes "succeeds P b d"
  shows "keeps (succeeds P b) (succeeds P b) (record_decision P d kind action actor bound
    (\<lambda>d. d\<lparr>dw_stage := ST_COMPLETED, dw_checkpoint := None\<rparr>))"
proof (rule keeps_record_decision)
  fix x d'
  assume "draft_valid d'" and ext: "extended d OP_HUMAN_DECISION
      (\<lambda>d. (d\<lparr>dw_stage := ST_COMPLETED, dw_checkpoint := None\<rparr>)\<lparr>dw_decisions := dw_decisions d @ [x]\<rparr>) d'"
  then have "succeeds P b d'"
    by (intro decided [OF assms _ ext]) (simp_all add: same_core_def extendedD [OF ext])
  then show "succeeds P b d' \<and> succeeds P b d'" by blast
qed

lemma keeps_record_confirmation:
  assumes "succeeds P b d" and "ready_for P OP_INTENT_RESOLUTION d"
  shows "keeps (succeeds P b) (\<lambda>d'. succeeds P b d' \<and> ready_for P OP_SEMANTIC_RESOLUTION d')
    (record_decision P d DK_INTENT DA_CONFIRM actor bound
      (\<lambda>d. d\<lparr>dw_validated_request := Some validated, dw_stage := ST_SEMANTIC_RESOLUTION,
         dw_checkpoint := None\<rparr>))"
proof (rule keeps_record_decision)
  fix x d'
  assume d': "draft_valid d'" and ext: "extended d OP_HUMAN_DECISION
      (\<lambda>d. (d\<lparr>dw_validated_request := Some validated, dw_stage := ST_SEMANTIC_RESOLUTION,
         dw_checkpoint := None\<rparr>)\<lparr>dw_decisions := dw_decisions d @ [x]\<rparr>) d'"
  note fields = extendedD [OF ext]
  have ready: "ready_for P OP_SEMANTIC_RESOLUTION d'"
    using assms(2) by (simp add: fields plan_defs)
  have "grounded P d'"
    by (rule grounded_mono [OF succeedsD(1) [OF assms(1)]])
      (use assms(2) in \<open>auto simp: fields plan_defs\<close>)
  then have "succeeds P b d'"
    using ready
    by (intro succeeds_extended [OF assms(1) ext d']) (simp_all add: fields continues_def set_once_def)
  with ready show "succeeds P b d' \<and> succeeds P b d' \<and> ready_for P OP_SEMANTIC_RESOLUTION d'"
    by blast
qed

lemma keeps_record_approval:
  assumes "succeeds P b d" and "guarded_plan P d" and "dw_plan_fingerprint d = Some bound"
  shows "keeps (succeeds P b)
    (\<lambda>d'. succeeds P b d' \<and> ready_for P OP_SQL_VALIDATION d' \<and> approved_plan d')
    (record_decision P d DK_EXECUTION DA_APPROVE actor bound
      (\<lambda>d. d\<lparr>dw_stage := ST_VALIDATED, dw_checkpoint := None\<rparr>))"
proof (rule keeps_record_decision)
  fix x d'
  assume d': "draft_valid d'" and ext: "extended d OP_HUMAN_DECISION
      (\<lambda>d. (d\<lparr>dw_stage := ST_VALIDATED, dw_checkpoint := None\<rparr>)\<lparr>dw_decisions := dw_decisions d @ [x]\<rparr>) d'"
    and x: "de_kind x = DK_EXECUTION" "de_action x = DA_APPROVE" "de_bound_fingerprint x = bound"
  note fields = extendedD [OF ext]
  have guarded_plan: "guarded_plan P d'" "approved_plan d'"
    using assms(2,3) x by (auto simp: fields plan_defs)
  have "succeeds P b d'"
    using guarded_plan by (intro decided [OF assms(1) d' ext]) (simp_all add: same_core_def fields)
  then show "succeeds P b d' \<and> succeeds P b d' \<and> ready_for P OP_SQL_VALIDATION d' \<and> approved_plan d'"
    using guarded_plan by (simp add: guarded_plan_def)
qed

lemma keeps_record_publication:
  assumes "succeeds P b d" and "dw_stage d = ST_PUBLICATION_PROPOSED"
    and "dw_publication_approval d = None" and "dw_publication_proposal d = Some p"
    and a: "wa_workflow_id a = dw_id d" "wa_proposal_fingerprint a = wr_fingerprint p"
      "wa_idempotency_key a = wr_idempotency_key p" "wa_actor a = actor"
  shows "keeps (succeeds P b) (\<lambda>d'. succeeds P b d' \<and> ready_for P OP_CONTEXT_PUBLICATION d')
    (record_decision P d DK_PUBLICATION DA_PUBLISH actor (wr_fingerprint p)
      (\<lambda>d. d\<lparr>dw_publication_approval := Some a, dw_checkpoint := None\<rparr>))"
proof (rule keeps_record_decision)
  fix x d'
  assume d': "draft_valid d'" and ext: "extended d OP_HUMAN_DECISION
      (\<lambda>d. (d\<lparr>dw_publication_approval := Some a, dw_checkpoint := None\<rparr>)
        \<lparr>dw_decisions := dw_decisions d @ [x]\<rparr>) d'"
    and x: "de_kind x = DK_PUBLICATION" "de_action x = DA_PUBLISH" "de_actor x = actor"
      "de_bound_fingerprint x = wr_fingerprint p"
  note fields = extendedD [OF ext]
  have auth: "publication_authorized d'"
    using a x assms(4) by (auto simp: publication_authorized_def fields)
  have approved: "approved_plan d \<Longrightarrow> approved_plan d'"
    by (auto simp: approved_plan_def fields)
  have "proposal_bound P d' p \<longleftrightarrow> proposal_bound P d p"
    by (simp add: proposal_bound_def fields)
  then have "grounded P d'"
    using succeedsD(1) [OF assms(1)] auth approved assms(4) by (auto simp: grounded_def fields)
  then have "succeeds P b d'"
    using assms(2-4)
    by (intro succeeds_extended [OF assms(1) ext d']) (simp_all add: fields continues_def set_once_def)
  then show "succeeds P b d' \<and> succeeds P b d' \<and> ready_for P OP_CONTEXT_PUBLICATION d'"
    using assms(4) by (simp add: fields)
qed

lemma keeps_record_retry:
  assumes "succeeds P b d" and "\<not> in_flight d" and "ready_for P operation d"
  shows "keeps (succeeds P b)
    (\<lambda>d'. succeeds P b d' \<and> ready_for P operation d' \<and> \<not> in_flight d'
       \<and> dw_stage d' = retry_stage operation \<and> dw_failure d' = None \<and> dw_checkpoint d' = None
       \<and> (approved_plan d \<longrightarrow> approved_plan d') \<and> dw_plan_fingerprint d' = dw_plan_fingerprint d)
    (record_decision P d DK_RETRY DA_RETRY actor bound
      (\<lambda>d. d\<lparr>dw_stage := retry_stage operation, dw_failure := None, dw_checkpoint := None\<rparr>))"
proof (rule keeps_record_decision)
  fix x d'
  assume d': "draft_valid d'" and ext: "extended d OP_HUMAN_DECISION
      (\<lambda>d. (d\<lparr>dw_stage := retry_stage operation, dw_failure := None, dw_checkpoint := None\<rparr>)
        \<lparr>dw_decisions := dw_decisions d @ [x]\<rparr>) d'"
  note fields = extendedD [OF ext]
  have ready: "ready_for P operation d'" and approved: "approved_plan d \<longrightarrow> approved_plan d'"
    using assms(3) by (cases operation; auto simp: fields plan_defs; blast)+
  have "settled_at P (retry_stage operation) d'"
    using ready assms succeedsD(1) [OF assms(1)] approved
    by (cases operation) (auto simp: fields grounded_def)
  then have "succeeds P b d'"
    by (intro decided [OF assms(1) d' ext]) (simp_all add: same_core_def fields)
  then show "succeeds P b d' \<and> succeeds P b d' \<and> ready_for P operation d' \<and> \<not> in_flight d'
      \<and> dw_stage d' = retry_stage operation \<and> dw_failure d' = None \<and> dw_checkpoint d' = None
      \<and> (approved_plan d \<longrightarrow> approved_plan d') \<and> dw_plan_fingerprint d' = dw_plan_fingerprint d"
    using ready approved by (simp add: fields)
qed

section \<open>Commands\<close>

text \<open>
  The requests a caller can make of an existing workflow, each with a validated command object, and
  the drafts any sequence of them can leave in the store: the world between two commands, what every
  port answers, and the moment a process stops are arbitrary.
\<close>

datatype 'w workflow_command =
    Inspect
  | Recover workflow_operation
  | DecideIntent intent_decision
  | DecideExecution execution_decision "'w \<Rightarrow> bool \<times> 'w"
  | DecidePublication publication_decision
  | Retry retry_decision "execution_decision option" "'w \<Rightarrow> bool \<times> 'w"

fun command_valid :: "'w workflow_command \<Rightarrow> bool" where
  "command_valid Inspect = True"
| "command_valid (Recover operation) = True"
| "command_valid (DecideIntent decision) = intent_decision_valid decision"
| "command_valid (DecideExecution decision continuation) = execution_decision_valid decision"
| "command_valid (DecidePublication decision) = publication_decision_valid decision"
| "command_valid (Retry decision reserved continuation) =
     (retry_decision_valid decision \<and> optional execution_decision_valid reserved)"

fun run_command ::
  "('w, 'x) ports \<Rightarrow> string \<Rightarrow> 'w workflow_command \<Rightarrow> ('w, 'x, 'x draft) action" where
  "run_command P workflow_id Inspect = inspect_workflow P workflow_id"
| "run_command P workflow_id (Recover operation) = recover_interrupted P workflow_id operation"
| "run_command P workflow_id (DecideIntent decision) = decide_intent P workflow_id decision"
| "run_command P workflow_id (DecideExecution decision continuation) =
     decide_execution P workflow_id decision continuation"
| "run_command P workflow_id (DecidePublication decision) = decide_publication P workflow_id decision"
| "run_command P workflow_id (Retry decision reserved continuation) =
     retry_workflow P workflow_id decision reserved continuation"

abbreviation session_of :: "'w \<Rightarrow> ('w, 'x) session" where
  "session_of w \<equiv> \<lparr>se_world = w, se_submitted = []\<rparr>"

inductive stored :: "('w, 'x) ports \<Rightarrow> 'x draft \<Rightarrow> bool" for P where
  started_draft: "start_command_valid c \<Longrightarrow> start_workflow P c (session_of w) = (r, s) \<Longrightarrow>
    d \<in> set (se_submitted s) \<Longrightarrow> stored P d"
| confirmed_draft: "start_confirmed P workflow_id confirmed (session_of w) = (r, s) \<Longrightarrow>
    d \<in> set (se_submitted s) \<Longrightarrow> stored P d"
| commanded_draft: "stored P d0 \<Longrightarrow> wp_load P workflow_id w = (Inr (Some d0), w') \<Longrightarrow>
    command_valid command \<Longrightarrow> run_command P workflow_id command (session_of w) = (r, s) \<Longrightarrow>
    d \<in> set (se_submitted s) \<Longrightarrow> stored P d"

text \<open>Running a command on the draft its first step loads.\<close>

lemma load_draft_Some:
  assumes "wp_load P i (se_world s) = (Inr (Some d), w')"
  shows "load_draft P i s = (Inr d, s\<lparr>se_world := w'\<rparr>)"
  using assms by (simp add: load_draft_def portW_def bindW_def callW_def liftW_def returnW_def)

lemma keeps_after_load:
  assumes "wp_load P i w = (Inr (Some d), w')" and "bindW (load_draft P i) f (session_of w) = (r, s)"
    and "keeps I Q (f d)"
  shows "list_all I (se_submitted s) \<and> (\<forall>x. r = Inr x \<longrightarrow> Q x)"
proof -
  have "f d (session_of w') = (r, s)"
    using assms(2) load_draft_Some [of P i "session_of w" d w'] assms(1) by (simp add: bindW_def)
  from keepsD [OF assms(3) this] show ?thesis by simp
qed

lemma keeps_recover:
  assumes "succeeds P b d"
  shows "keeps (succeeds P b) (succeeds P b)
    (case workflow_recovery_operation d of
       None \<Rightarrow> raiseW WE_INVALID_TRANSITION
     | Some operation \<Rightarrow>
         if operation \<noteq> expected_operation then raiseW WE_DECISION_MISMATCH
         else if in_flight d
         then fail_simply P d (te_operation (last (dw_trace d)))
                ''workflow_external_action_interrupted'' True
         else case pending_resume_operation d of
           Some pending \<Rightarrow> pause_for_retry P d pending
         | None \<Rightarrow>
             if dw_stage d = ST_VALIDATED \<and> dw_checkpoint d = None \<and> dw_plan_fingerprint d \<noteq> None
             then pause_for_execution P d
             else if dw_stage d = ST_EXECUTED then propose_publication P d
             else returnW d)"
proof (intro keeps_intros assms)
  assume flight: "in_flight d"
  show "keeps (succeeds P b) (succeeds P b) (fail_simply P d (te_operation (last (dw_trace d)))
      ''workflow_external_action_interrupted'' True)"
    by (rule keeps_mono [OF keeps_fail_external [OF assms]])
      (use flight in \<open>simp_all add: started_def same_core_def\<close>)
next
  fix pending
  assume still: "\<not> in_flight d" and pending: "pending_resume_operation d = Some pending"
  have "ready_for P pending d"
    using pending settledD [OF assms still]
    by (auto simp: pending_resume_operation_def split: if_splits)
  then show "keeps (succeeds P b) (succeeds P b) (pause_for_retry P d pending)"
    by (rule keeps_pause_for_retry [OF assms still])
next
  assume still: "\<not> in_flight d"
    and validated: "dw_stage d = ST_VALIDATED \<and> dw_checkpoint d = None \<and> dw_plan_fingerprint d \<noteq> None"
  show "keeps (succeeds P b) (succeeds P b) (pause_for_execution P d)"
    by (rule keeps_pause_for_execution [OF assms still])
      (use validated settledD [OF assms still] in simp)
next
  assume still: "\<not> in_flight d" and executed: "dw_stage d = ST_EXECUTED"
  show "keeps (succeeds P b) (succeeds P b) (propose_publication P d)"
    by (rule keeps_propose_publication [OF assms still])
      (use executed settledD [OF assms still] in simp)
qed

lemma keeps_executed:
  assumes "revalidated P b d (answer, current)" and "approved_plan d"
  shows "keeps (succeeds P b) (succeeds P b)
    (case answer of None \<Rightarrow> returnW current
     | Some prepared \<Rightarrow> execute_preview P current prepared should_continue)"
  using assms by (cases answer)
    (auto intro!: keeps_returnW keeps_execute_preview [where ?d0.0 = d] simp: validated_draft_def)

lemma keeps_resume_operation:
  assumes "succeeds P b d" and "ready_for P operation d"
    and "reserved \<noteq> None \<Longrightarrow> approved_plan d"
    and "\<not> in_flight d" and "dw_stage d = retry_stage operation"
  shows "keeps (succeeds P b) (succeeds P b) (resume_operation P operation d reserved continuation)"
proof (cases operation)
  case OP_SQL_VALIDATION
  then have ready: "ready_for P OP_SQL_VALIDATION d" using assms(2) by simp
  have run: "keeps (succeeds P b) (succeeds P b) (execute_preview P d' prepared continuation)"
    if "succeeds P b d'" "validated_draft P d current" "validated_draft P current d'"
      "reserved = Some y" for current d' prepared y
    using that assms(3) by (intro keeps_execute_preview) (auto simp: validated_draft_def)
  show ?thesis
    unfolding OP_SQL_VALIDATION resume_operation.simps
    by (rule keeps_bind [OF keeps_revalidate_resolved [OF assms(1) ready]])
      (auto intro!: keeps_intros keeps_bind [OF keeps_lookup_recipe] keeps_pause_validated
        intro: run)
next
  case OP_QUERY_RECIPE_LOOKUP
  then have valid: "validated_draft P d d"
    using assms(2,4,5) by (simp add: validated_draft_def)
  show ?thesis
    unfolding OP_QUERY_RECIPE_LOOKUP resume_operation.simps
    by (rule keeps_bind [OF keeps_lookup_recipe [OF assms(1) valid]])
      (auto intro!: keeps_intros keeps_bind [OF keeps_revalidate_resolved] keeps_pause_validated
        simp: validated_draft_def guarded_plan_def)
next
  case OP_PREVIEW_EXECUTION
  then have ready: "ready_for P OP_SQL_VALIDATION d" "approved_plan d"
    using assms(2) by (simp_all add: guarded_plan_def)
  show ?thesis
    unfolding OP_PREVIEW_EXECUTION resume_operation.simps
    by (rule keeps_bind [OF keeps_revalidate_resolved [OF assms(1) ready(1)]], rule keeps_prod)
      (use keeps_executed ready(2) in blast)
next
  case OP_REJECTION_INSPECTION
  then have ready: "ready_for P OP_SQL_VALIDATION d"
    using assms(2) by (simp add: guarded_plan_def)
  show ?thesis
    unfolding OP_REJECTION_INSPECTION resume_operation.simps
    by (rule keeps_bind [OF keeps_revalidate_resolved [OF assms(1) ready]])
      (auto intro!: keeps_intros keeps_inspect_rejections simp: validated_draft_def)
qed (use assms in \<open>auto intro: keeps_retrieve_context keeps_resolve_intent keeps_resolve_semantics
      keeps_publish_context keeps_raiseW\<close>)

text \<open>Every command of the orchestrator, run on a draft it loaded, only submits drafts that keep the
  invariant and continue the loaded draft.\<close>

lemma decide_intent_keeps:
  assumes "succeeds P b d"
    and "wp_load P i w = (Inr (Some d), w')" and "decide_intent P i decision (session_of w) = (r, s)"
  shows "list_all (succeeds P b) (se_submitted s) \<and> (\<forall>x. r = Inr x \<longrightarrow> succeeds P b x)"
proof (rule keeps_after_load [OF assms(2) assms(3) [unfolded decide_intent_def]], intro keeps_intros)
  fix checkpoint c snapshot answer validated
  assume "dw_stage d \<in> {ST_DECISION_REQUIRED, ST_PUBLICATION_PROPOSED}"
    "dw_checkpoint d = Some checkpoint" "cp_kind checkpoint = CK_INTENT_CONFIRMATION"
  then have ready: "ready_for P OP_INTENT_RESOLUTION d"
    using require_checkpointD(1) [OF assms(1)] by blast
  show "keeps (succeeds P b) (succeeds P b)
      (bindW (record_decision P d DK_INTENT DA_CONFIRM (id_actor decision)
        (id_interpretation_fingerprint decision)
        (\<lambda>d. d\<lparr>dw_validated_request := Some validated, dw_stage := ST_SEMANTIC_RESOLUTION,
           dw_checkpoint := None\<rparr>)) (resolve_semantics P))"
    by (rule keeps_bind [OF keeps_record_confirmation [OF assms(1) ready]])
      (auto intro: keeps_resolve_semantics)
qed

lemma decide_execution_keeps:
  assumes "succeeds P b d" and "execution_decision_valid decision"
    and "wp_load P i w = (Inr (Some d), w')"
    and "decide_execution P i decision continuation (session_of w) = (r, s)"
  shows "list_all (succeeds P b) (se_submitted s) \<and> (\<forall>x. r = Inr x \<longrightarrow> succeeds P b x)"
proof (rule keeps_after_load [OF assms(3) assms(4) [unfolded decide_execution_def]],
    intro keeps_intros keeps_record_completion assms(1))
  fix c checkpoint
  assume "dw_stage d \<in> {ST_DECISION_REQUIRED, ST_PUBLICATION_PROPOSED}"
    "dw_checkpoint d = Some c" "cp_kind c = CK_EXECUTION_APPROVAL" "dw_checkpoint d = Some checkpoint"
    "\<not> ed_plan_fingerprint decision \<noteq> cp_fingerprint checkpoint" "ed_action decision \<noteq> DA_DECLINE"
  then have ready: "guarded_plan P d" "dw_plan_fingerprint d = Some (ed_plan_fingerprint decision)"
      "ed_action decision = DA_APPROVE"
    using require_checkpointD(2) [OF assms(1)] assms(2) by (auto simp: execution_decision_valid_def)
  show "keeps (succeeds P b) (succeeds P b)
      (bindW (record_decision P d DK_EXECUTION (ed_action decision) (ed_actor decision)
        (ed_plan_fingerprint decision) (\<lambda>d. d\<lparr>dw_stage := ST_VALIDATED, dw_checkpoint := None\<rparr>))
        (\<lambda>decided. bindW (revalidate_resolved P decided) (\<lambda>(answer, current).
          case answer of None \<Rightarrow> returnW current
          | Some prepared \<Rightarrow> execute_preview P current prepared continuation)))"
    unfolding ready(3)
    by (rule keeps_bind [OF keeps_record_approval [OF assms(1) ready(1,2)]], elim conjE,
        rule keeps_bind [OF keeps_revalidate_resolved], assumption+, rule keeps_prod)
      (use keeps_executed in blast)
qed

lemma decide_publication_keeps:
  assumes "succeeds P b d" and "publication_decision_valid decision"
    and "wp_load P i w = (Inr (Some d), w')"
    and "decide_publication P i decision (session_of w) = (r, s)"
  shows "list_all (succeeds P b) (se_submitted s) \<and> (\<forall>x. r = Inr x \<longrightarrow> succeeds P b x)"
proof (rule keeps_after_load [OF assms(3) assms(4) [unfolded decide_publication_def]],
    intro keeps_intros keeps_record_completion assms(1))
  fix c p confirmation approved_at a
  assume "dw_stage d \<in> {ST_DECISION_REQUIRED, ST_PUBLICATION_PROPOSED}"
    "dw_checkpoint d = Some c" "cp_kind c = CK_PUBLICATION_DECISION" "pd_action decision \<noteq> DA_SKIP"
  then have ready: "dw_stage d = ST_PUBLICATION_PROPOSED" "dw_publication_approval d = None"
      and action: "pd_action decision = DA_PUBLISH"
    using require_checkpointD(3) [OF assms(1)] assms(2) by (auto simp: publication_decision_valid_def)
  assume p: "dw_publication_proposal d = Some p"
  assume "construct_model publication_approval_valid
      \<lparr>wa_id = ''workflow-publication-'' @ wr_idempotency_key p, wa_workflow_id = dw_id d,
       wa_proposal_fingerprint = wr_fingerprint p, wa_idempotency_key = wr_idempotency_key p,
       wa_actor = pd_actor decision, wa_approved_at = approved_at, wa_confirmation = confirmation\<rparr>
      = (Inr a :: publication_approval raised)"
  then have a: "wa_workflow_id a = dw_id d" "wa_proposal_fingerprint a = wr_fingerprint p"
      "wa_idempotency_key a = wr_idempotency_key p" "wa_actor a = pd_actor decision"
    by (auto simp: outcome_simps)
  show "keeps (succeeds P b) (succeeds P b)
      (bindW (record_decision P d DK_PUBLICATION (pd_action decision) (pd_actor decision)
        (wr_fingerprint p) (\<lambda>d. d\<lparr>dw_publication_approval := Some a, dw_checkpoint := None\<rparr>))
        (publish_context P))"
    unfolding action
    by (rule keeps_bind [OF keeps_record_publication [OF assms(1) ready p a]])
      (auto intro: keeps_publish_context)
qed

lemma retry_keeps:
  assumes "succeeds P b d" and "wp_load P i w = (Inr (Some d), w')"
    and "retry_workflow P i decision reserved continuation (session_of w) = (r, s)"
  shows "list_all (succeeds P b) (se_submitted s) \<and> (\<forall>x. r = Inr x \<longrightarrow> succeeds P b x)"
proof (rule keeps_after_load [OF assms(2) assms(3) [unfolded retry_workflow_def]], intro keeps_intros)
  fix f
  assume f: "dw_failure d = Some f" "\<not> (dw_stage d \<noteq> ST_FAILED \<or> \<not> wf_retryable f)"
    and res: "\<not> \<not> optional (reserved_execution_matches d decision (wf_operation f)) reserved"
  have still: "\<not> in_flight d"
    using succeedsD(2) [OF assms(1)] f by (auto simp: consistent_def)
  then have ready: "ready_for P (wf_operation f) d"
    using settledD [OF assms(1)] f by simp
  have approved: "reserved \<noteq> None \<Longrightarrow> approved_plan d"
    using res by (cases reserved)
      (auto simp: reserved_execution_matches_def approved_plan_def list_ex_iff dest: sym)
  show "keeps (succeeds P b) (succeeds P b)
      (bindW (record_decision P d DK_RETRY DA_RETRY (rd_actor decision) (wf_fingerprint f)
        (\<lambda>d. d\<lparr>dw_stage := retry_stage (wf_operation f), dw_failure := None, dw_checkpoint := None\<rparr>))
        (\<lambda>retried. resume_operation P (wf_operation f) retried reserved continuation))"
    by (rule keeps_bind [OF keeps_record_retry [OF assms(1) still ready]])
      (use approved in \<open>auto intro!: keeps_resume_operation\<close>)
qed

lemma command_keeps:
  assumes "succeeds P b d" and "wp_load P i w = (Inr (Some d), w')" and "command_valid command"
    and "run_command P i command (session_of w) = (r, s)"
  shows "list_all (succeeds P b) (se_submitted s) \<and> (\<forall>x. r = Inr x \<longrightarrow> succeeds P b x)"
proof (cases command)
  case Inspect
  then show ?thesis
    using assms load_draft_Some [of P i "session_of w" d w'] by (auto simp: inspect_workflow_def)
next
  case (Recover operation)
  then have "recover_interrupted P i operation (session_of w) = (r, s)" using assms(4) by simp
  from keeps_after_load [OF assms(2) this [unfolded recover_interrupted_def]]
  show ?thesis using keeps_recover [OF assms(1)] by blast
next
  case (DecideIntent decision)
  then show ?thesis using decide_intent_keeps [OF assms(1,2)] assms(4) by simp
next
  case (DecideExecution decision continuation)
  then show ?thesis using decide_execution_keeps [OF assms(1) _ assms(2)] assms(3,4) by simp
next
  case (DecidePublication decision)
  then show ?thesis using decide_publication_keeps [OF assms(1) _ assms(2)] assms(3,4) by simp
next
  case (Retry decision reserved continuation)
  then show ?thesis using retry_keeps [OF assms(1,2)] assms(4) by simp
qed

lemma new_draft_invariant:
  assumes "draft_valid (new_draft i t l ds request now)"
  shows "workflow_invariant P (new_draft i t l ds request now)"
  using assms by (simp add: workflow_invariant_def grounded_def consistent_def in_flight_def
      new_draft_def attempted_def unplanned_def)

lemma keeps_first_draft [keeps_intros]:
  "keeps (workflow_invariant P) (workflow_invariant P)
    (bindW (liftW (construct_model draft_valid (new_draft i t l ds request now))) (\<lambda>d.
     bindW (submitW P d None) (\<lambda>_. retrieve_context P d)))"
proof (rule keeps_bind_lift)
  fix d
  assume "construct_model draft_valid (new_draft i t l ds request now) = (Inr d :: 'a draft raised)"
  then have d: "d = new_draft i t l ds request now" "draft_valid d" by (auto simp: outcome_simps)
  then have inv: "workflow_invariant P d" using new_draft_invariant by blast
  then have "succeeds P d d" by (simp add: succeeds_def continues_refl)
  moreover have "ready_for P OP_CATALOG_CONTEXT_READ d"
    by (simp add: d(1) new_draft_def unplanned_def)
  ultimately have "keeps (succeeds P d) (succeeds P d) (retrieve_context P d)"
    by (rule keeps_retrieve_context)
  then have "keeps (workflow_invariant P) (workflow_invariant P) (retrieve_context P d)"
    by (rule keeps_weaken [OF keeps_mono]) (simp_all add: succeeds_def)
  then show "keeps (workflow_invariant P) (workflow_invariant P)
      (bindW (submitW P d None) (\<lambda>_. retrieve_context P d))"
    by (rule keeps_bind [OF keeps_submit [of "workflow_invariant P", OF inv]])
qed

text \<open>The invariant of every draft that can be in the store.\<close>

theorem stored_invariant: "stored P d \<Longrightarrow> workflow_invariant P d"
proof (induction rule: stored.induct)
  case (started_draft c w r s d)
  have "keeps (workflow_invariant P) (workflow_invariant P) (start_workflow P c)"
    unfolding start_workflow_def by (intro keeps_intros)
  from keepsD [OF this started_draft(2)] started_draft(3) show ?case by (auto simp: list_all_iff)
next
  case (confirmed_draft i confirmed w r s d)
  have "keeps (workflow_invariant P) (workflow_invariant P) (start_confirmed P i confirmed)"
    unfolding start_confirmed_def by (intro keeps_intros)
  from keepsD [OF this confirmed_draft(1)] confirmed_draft(2) show ?case by (auto simp: list_all_iff)
next
  case (commanded_draft d0 i w w' command r s d)
  have "succeeds P d0 d0"
    using commanded_draft(6) by (simp add: succeeds_def continues_refl)
  from command_keeps [OF this commanded_draft(2-4)] commanded_draft(5) show ?case
    by (auto simp: list_all_iff succeeds_def)
qed

end
