(* ===== verification/Orchestrator_Runs.thy ===== *)
theory Orchestrator_Runs
  imports Orchestrator_Invariant
begin

text \<open>
  How the steps of the workflow orchestrator run: what a session submits when a step is evaluated,
  which drafts end a workflow, wait for a person or can be recovered, and which commands each draft
  refuses. The properties of the orchestrator rest on these lemmas together with the invariant.
\<close>

section \<open>Evaluating a session\<close>

lemma run_simps:
  "bindW (nowW P) f1 s = f1 (fst (wp_now P (se_world s))) (s\<lparr>se_world := snd (wp_now P (se_world s))\<rparr>)"
  "bindW (liftW (Inr x)) f2 s = f2 x s"
  "bindW (liftW (Inl e)) f3 s = (Inl e, s)"
  "bindW (returnW y) f4 s = f4 y s"
  "bindW (callW g1) f5 s = f5 (fst (g1 (se_world s))) (s\<lparr>se_world := snd (g1 (se_world s))\<rparr>)"
  "bindW (tryW (portW g2)) f6 s = f6 (fst (g2 (se_world s))) (s\<lparr>se_world := snd (g2 (se_world s))\<rparr>)"
  by (simp_all add: bindW_def nowW_def liftW_def returnW_def callW_def tryW_def portW_def
      split: prod.splits sum.splits)

text \<open>The keys the orchestrator writes are allowlisted and its values bounded, so its facts are
  valid whatever they render.\<close>

lemma trace_fact_of_valid [simp]: "trace_fact_valid (trace_fact_of key v) \<longleftrightarrow> is_trace_key key"
  by (cases v) (auto simp: trace_fact_valid_def trace_fact_of_def len_between_def)

lemma trace_keys [simp]:
  "is_trace_key ''error_code''" "is_trace_key ''retryable''" "is_trace_key ''decision_kind''"
  "is_trace_key ''decision_action''" "is_trace_key ''actor''" "is_trace_key ''asset_count''"
  "is_trace_key ''catalog_source''" "is_trace_key ''plan''" "is_trace_key ''context_version''"
  "is_trace_key ''table_count''" "is_trace_key ''query''" "is_trace_key ''policy_status''"
  "is_trace_key ''preview_limit''" "is_trace_key ''row_count''" "is_trace_key ''database_user''"
  "is_trace_key ''read_only''" "is_trace_key ''preview''" "is_trace_key ''rejected_count''"
  "is_trace_key ''inspection_truncated''" "is_trace_key ''inspection_user''"
  by (simp_all add: is_trace_key_def re_head_run_def lower_digit_under_def char_class_defs)

lemma round_half_even_nonneg: "0 \<le> n \<Longrightarrow> 0 < d \<Longrightarrow> 0 \<le> round_half_even n d"
  by (auto simp: round_half_even_def Let_def pos_imp_zdiv_nonneg_iff)

lemma scaled_bounds:
  fixes p q e :: int
  shows "0 \<le> p \<Longrightarrow> 0 \<le> (if e < 0 then p * 2 ^ nat (- e) else p)"
    and "0 < q \<Longrightarrow> 0 < (if e < 0 then q else q * 2 ^ nat e)"
  by simp_all

lemma nearest_double_nonneg: "0 \<le> p \<Longrightarrow> 0 < q \<Longrightarrow> 0 \<le> fst (nearest_double p q)"
  unfolding nearest_double_def Let_def prod.case fst_conv
  by (rule round_half_even_nonneg [OF scaled_bounds])

lemma millis_nonneg: "0 \<le> m \<Longrightarrow> 0 \<le> millis_of m"
proof -
  assume "0 \<le> m"
  then have 1: "0 \<le> fst (nearest_double m 1000000)" by (rule nearest_double_nonneg) simp
  obtain a e where ae: "nearest_double m 1000000 = (a, e)" by (cases "nearest_double m 1000000")
  let ?p = "if e < 0 then a * 1000 else a * 1000 * 2 ^ nat e"
  let ?q = "if e < 0 then 2 ^ nat (- e) else 1 :: int"
  have 2: "0 \<le> fst (nearest_double ?p ?q)"
    using 1 ae by (intro nearest_double_nonneg) auto
  obtain a' e' where "nearest_double ?p ?q = (a', e')" by (cases "nearest_double ?p ?q")
  with 2 ae show ?thesis by (simp add: millis_of_def pos_imp_zdiv_nonneg_iff)
qed

lemma duration_nonneg: "duration_ms s f = Inr n \<Longrightarrow> 0 \<le> n"
  by (cases s; cases f) (auto intro: millis_nonneg)

lemma duration_aware:
  assumes "is_aware s" and "is_aware f" shows "\<exists>n. duration_ms s f = Inr n \<and> 0 \<le> n"
  using assms by (cases s; cases f) (auto intro: millis_nonneg)

section \<open>Error codes\<close>

lemma code_char_of: "n < 256 \<Longrightarrow> code (char_of n) = n"
  by (simp add: code_def of_char_of)

lemma lower_char_ascii: "is_ascii c \<Longrightarrow> is_ascii (lower_char c) \<and> \<not> is_upper (lower_char c)"
  by (cases "is_upper c") (auto simp: lower_char_def is_ascii_def is_upper_def code_char_of)

lemma underscore_class: "is_ascii (CHR ''_'')" "\<not> is_upper (CHR ''_'')"
  by (simp_all add: char_class_defs)

lemma ascii_alnum:
  "is_ascii c \<Longrightarrow> \<not> is_upper c \<Longrightarrow> is_alnum c \<Longrightarrow> lower_or_digit c"
  "is_ascii c \<Longrightarrow> \<not> is_upper c \<Longrightarrow> is_alpha c \<Longrightarrow> is_lower c"
  by (auto simp: is_alnum_def is_alpha_def lower_or_digit_def is_ascii_def)

lemma set_strip_underscores: "set (strip_underscores s) \<subseteq> set s"
  unfolding strip_underscores_def by (auto dest!: set_dropWhileD)

text \<open>Whatever a port reports as its code, the code stored in a failure has the inert shape that the
  failure record demands.\<close>

lemma normalized_error_code_is_valid:
  assumes "list_all is_ascii c"
  shows "is_inert_code (normalize_error_code c)"
proof -
  define m where "m = map (\<lambda>c. if is_alnum c then c else CHR ''_'') (map lower_char c)"
  define n where "n = take 64 (strip_underscores m)"
  have result: "normalize_error_code c =
      (if length n < 2 \<or> \<not> is_alpha (hd n) then ''workflow_external_failure'' else n)"
    by (simp only: normalize_error_code_def Let_def n_def m_def)
  have "is_ascii x \<and> \<not> is_upper x \<and> (is_alnum x \<or> x = CHR ''_'')" if "x \<in> set m" for x
    using that assms lower_char_ascii underscore_class by (auto simp: list_all_iff m_def)
  then have n: "is_ascii x \<and> \<not> is_upper x \<and> (is_alnum x \<or> x = CHR ''_'')" if "x \<in> set n" for x
    using that set_strip_underscores in_set_takeD unfolding n_def by (metis subsetD)
  show ?thesis
  proof (cases "length n < 2 \<or> \<not> is_alpha (hd n)")
    case True
    moreover have "is_inert_code ''workflow_external_failure''" by code_simp
    ultimately show ?thesis using result by simp
  next
    case False
    then obtain x xs where xs: "n = x # xs" by (cases n) auto
    have "is_lower x" using False n [of x] xs ascii_alnum(2) by simp
    moreover have "list_all lower_digit_under xs"
      using n xs ascii_alnum(1)
      by (fastforce simp: list_all_iff lower_digit_under_def lower_or_digit_def)
    moreover have "length n \<le> 64" by (simp add: n_def)
    ultimately show ?thesis
      using False xs result by (cases xs) (simp_all add: is_inert_code_def re_head_run_def)
  qed
qed

section \<open>Where a workflow can stop\<close>

lemma stored_succeeds: "stored P d \<Longrightarrow> succeeds P d d"
  by (simp add: succeeds_def stored_invariant continues_refl)

text \<open>The workflow has ended: skipped, declined, published, or failed for good.\<close>

definition workflow_over :: "'x draft \<Rightarrow> bool" where
  "workflow_over d \<longleftrightarrow>
     dw_stage d \<in> {ST_COMPLETED, ST_PUBLICATION_COMPLETED}
     \<or> dw_stage d = ST_FAILED \<and> optional (\<lambda>f. \<not> wf_retryable f) (dw_failure d)"

text \<open>It waits for a person: a typed checkpoint names the decision that continues it.\<close>

definition awaits_person :: "'x draft \<Rightarrow> bool" where
  "awaits_person d \<longleftrightarrow>
     (case dw_checkpoint d of None \<Rightarrow> False
      | Some c \<Rightarrow>
          (case cp_kind c of
             CK_INTENT_CONFIRMATION \<Rightarrow> dw_stage d = ST_DECISION_REQUIRED
               \<and> map_option is_interpretation_fingerprint (dw_intent d) = Some (cp_fingerprint c)
           | CK_EXECUTION_APPROVAL \<Rightarrow> dw_stage d = ST_DECISION_REQUIRED
               \<and> dw_plan_fingerprint d = Some (cp_fingerprint c)
           | CK_PUBLICATION_DECISION \<Rightarrow> dw_stage d = ST_PUBLICATION_PROPOSED
               \<and> map_option wr_fingerprint (dw_publication_proposal d) = Some (cp_fingerprint c)
           | CK_RETRY \<Rightarrow> dw_stage d = ST_FAILED \<and> optional wf_retryable (dw_failure d)
               \<and> map_option wf_fingerprint (dw_failure d) = Some (cp_fingerprint c)))"

text \<open>The publication was approved (again) and the process stopped before it began.\<close>

definition publication_stranded :: "'x draft \<Rightarrow> bool" where
  "publication_stranded d \<longleftrightarrow>
     dw_stage d = ST_PUBLICATION_PROPOSED \<and> \<not> in_flight d \<and> dw_checkpoint d = None
     \<and> dw_publication_approval d \<noteq> None"

text \<open>Nothing more happens to a workflow that is over, or stranded: the guards of every command.\<close>

lemma no_recovery:
  assumes "dw_stage d \<in> {ST_COMPLETED, ST_PUBLICATION_COMPLETED, ST_FAILED, ST_PUBLICATION_PROPOSED}"
    and "\<not> in_flight d"
  shows "workflow_recovery_operation d = None"
  using assms by (auto simp: workflow_recovery_operation_def pending_resume_operation_def)

lemma load_then:
  assumes "wp_load P i w = (Inr (Some d), w')"
  shows "bindW (load_draft P i) f (session_of w) = f d (session_of w')"
  using load_draft_Some [of P i "session_of w" d w'] assms by (simp add: bindW_def)

lemma command_refused:
  assumes load: "wp_load P i w = (Inr (Some d), w')"
    and recovery: "workflow_recovery_operation d = None"
    and checkpoint: "dw_stage d \<notin> {ST_DECISION_REQUIRED, ST_PUBLICATION_PROPOSED} \<or> dw_checkpoint d = None"
    and failure: "dw_stage d \<noteq> ST_FAILED \<or> optional (\<lambda>f. \<not> wf_retryable f) (dw_failure d)"
    and run: "run_command P i command (session_of w) = (r, s)"
  shows "se_submitted s = []
    \<and> (command = Inspect \<and> r = Inr d
       \<or> (\<exists>decision. command = DecidePublication decision) \<and> dw_publication_result d \<noteq> None \<and> r = Inr d
       \<or> r \<in> {Inl (Transition (WorkflowError WE_INVALID_TRANSITION)),
              Inl (Transition (WorkflowError WE_RETRY_NOT_ALLOWED))})"
proof -
  have guard: "bindW (require_checkpoint d kind) g (session_of w') =
      (Inl (Transition (WorkflowError WE_INVALID_TRANSITION)), session_of w')" for kind g
    using checkpoint by (auto simp: require_checkpoint_def raiseW_def liftW_def bindW_def)
  show ?thesis
  proof (cases command)
    case Inspect
    then show ?thesis
      using run load_draft_Some [of P i "session_of w" d w'] load by (auto simp: inspect_workflow_def)
  next
    case (Recover operation)
    then show ?thesis
      using run recovery
      by (auto simp: recover_interrupted_def load_then [OF load] raiseW_def liftW_def)
  next
    case (DecideIntent decision)
    then show ?thesis using run by (auto simp: decide_intent_def load_then [OF load] guard)
  next
    case (DecideExecution decision continuation)
    then show ?thesis using run by (auto simp: decide_execution_def load_then [OF load] guard)
  next
    case (DecidePublication decision)
    then show ?thesis using run
      by (auto simp: decide_publication_def load_then [OF load] guard returnW_def split: if_splits)
  next
    case (Retry decision reserved continuation)
    then show ?thesis using run failure
      by (auto simp: retry_workflow_def load_then [OF load] raiseW_def liftW_def
          split: option.splits if_splits)
  qed
qed

section \<open>Drafts the orchestrator writes are valid\<close>

lemma upto_snoc: "[1..int n] @ [int n + 1] = [1..int (Suc n)]"
  using upto_rec2 [of 1 "int n + 1"] by (simp add: algebra_simps)

lemma draft_valid_moved:
  assumes "draft_valid d" and "same_core d d'" and "dw_context_source d' = dw_context_source d"
    and "dw_publication_result d' = dw_publication_result d" and "1 \<le> dw_revision d'"
    and "dw_trace d' = dw_trace d \<or> (\<exists>e. dw_trace d' = dw_trace d @ [e] \<and> trace_event_valid e
           \<and> te_sequence e = int (length (dw_trace d)) + 1)"
    and "optional failure_valid (dw_failure d')" and "optional checkpoint_valid (dw_checkpoint d')"
    and "(dw_stage d' = ST_FAILED) = (dw_failure d' \<noteq> None)"
    and "dw_stage d' = ST_DECISION_REQUIRED \<Longrightarrow> dw_checkpoint d' \<noteq> None"
  shows "draft_valid d'"
proof -
  have "map te_sequence (dw_trace d') = [1..int (length (dw_trace d'))]"
    using assms(1,6) upto_snoc [of "length (dw_trace d)"]
    by (auto simp: draft_valid_def state_is_internally_consistent_def add.commute)
  moreover have "list_all trace_event_valid (dw_trace d')"
    using assms(1,6) by (auto simp: draft_valid_def draft_fields_valid_def)
  moreover have "\<not> (dw_stage d' = ST_FAILED \<and> dw_failure d' = None)"
      "\<not> (dw_stage d' \<noteq> ST_FAILED \<and> dw_failure d' \<noteq> None)"
      "\<not> (dw_stage d' = ST_DECISION_REQUIRED \<and> dw_checkpoint d' = None)"
    using assms(9,10) by auto
  ultimately show ?thesis
    using assms(1-5,7,8)
    unfolding draft_valid_def draft_fields_valid_def state_is_internally_consistent_def same_core_def
    by (elim conjE, intro conjI) (simp_all only:)
qed

lemma draft_revision: "draft_valid d \<Longrightarrow> 1 \<le> dw_revision d"
  by (simp add: draft_valid_def draft_fields_valid_def)

lemma submit_run: "submitW P d expected s = (r, s') \<Longrightarrow> se_submitted s' = se_submitted s @ [d]"
  by (auto simp: submitW_def portW_def bindW_def callW_def liftW_def split: prod.splits sum.splits)

text \<open>A valid update is handed to the store, whether or not the store then accepts it.\<close>

lemma save_changes_run:
  assumes "save_changes P d updates s = (r, s')"
    and "\<And>now. draft_valid (saved d updates now)"
  shows "\<exists>now. se_submitted s' = se_submitted s @ [saved d updates now]"
proof -
  let ?now = "fst (wp_now P (se_world s))"
  let ?s = "s\<lparr>se_world := snd (wp_now P (se_world s))\<rparr>"
  have built: "construct_model draft_valid (saved d updates ?now)
      = (Inr (saved d updates ?now) :: 'a draft raised)"
    using assms(2) by (simp add: construct_model_def)
  have "bindW (submitW P (saved d updates ?now) (Some (dw_revision d)))
      (\<lambda>_. returnW (saved d updates ?now)) ?s = (r, s')"
    using assms(1) unfolding save_changes_def saved_def [symmetric]
    by (simp only: run_simps built)
  then have "se_submitted s' = se_submitted ?s @ [saved d updates ?now]"
    using submit_run [of P "saved d updates ?now" "Some (dw_revision d)" ?s]
    by (auto simp: bindW_def returnW_def split: prod.splits sum.splits)
  then show ?thesis by auto
qed

lemma failure_created:
  assumes "is_inert_code c" and "1 \<le> attempt"
  shows "\<exists>f. failure_create iso_text c operation retryable attempt now = (Inr f :: workflow_failure raised)
    \<and> failure_valid f \<and> wf_operation f = operation \<and> wf_retryable f = retryable"
  using assms by (auto simp: failure_create_def outcome_simps failure_valid_def)

text \<open>A workflow that waits for a retry decision bound to its failure.\<close>

definition retry_offered :: "'x draft \<Rightarrow> workflow_operation \<Rightarrow> bool" where
  "retry_offered d operation \<longleftrightarrow>
     dw_stage d = ST_FAILED
     \<and> (\<exists>f. dw_failure d = Some f \<and> wf_retryable f \<and> wf_operation f = operation
          \<and> (\<exists>c. dw_checkpoint d = Some c \<and> cp_kind c = CK_RETRY
               \<and> cp_fingerprint c = wf_fingerprint f))"

lemma checkpoint_reasons:
  "checkpoint_valid \<lparr>cp_kind = k, cp_fingerprint = h,
     cp_reason = ''A typed retry decision is required; no fallback context is used.''\<rparr> = is_sha256 h"
  "checkpoint_valid \<lparr>cp_kind = k, cp_fingerprint = h,
     cp_reason = ''The prior process stopped between durable stages; retry explicitly.''\<rparr> = is_sha256 h"
  "checkpoint_valid (execution_checkpoint h) = is_sha256 h"
  "checkpoint_valid \<lparr>cp_kind = k, cp_fingerprint = h,
     cp_reason = ''Explicitly publish or skip the bounded execution-context proposal.''\<rparr> = is_sha256 h"
  by (simp_all add: checkpoint_valid_def execution_checkpoint_def len_between_def)

lemma fail_external_run:
  assumes "draft_valid d" and "in_flight d" and "te_operation (last (dw_trace d)) = operation"
    and "is_aware (te_occurred_at (last (dw_trace d)))" and "is_aware (fst (wp_now P (se_world s)))"
    and "list_all is_ascii c" and "fail_simply P d operation c True s = (r, s')"
  shows "\<exists>d'. se_submitted s' = se_submitted s @ [d'] \<and> retry_offered d' operation"
proof -
  let ?now = "fst (wp_now P (se_world s))"
  let ?s = "s\<lparr>se_world := snd (wp_now P (se_world s))\<rparr>"
  have "last (dw_trace d) \<in> set (dw_trace d)" using assms(2) by (simp add: in_flight_def)
  then have "1 \<le> started_attempts d operation"
    using assms(2,3) unfolding started_attempts_def in_flight_def
    by (auto simp: Suc_le_eq filter_empty_conv)
  then obtain f where f: "failure_create (wp_iso_text P) (normalize_error_code c) operation True
      (started_attempts d operation) ?now = (Inr f :: workflow_failure raised)"
      "failure_valid f" "wf_operation f = operation" "wf_retryable f"
    using failure_created [OF normalized_error_code_is_valid [OF assms(6)]] by blast
  obtain n where n: "elapsed_since_last d ?now = Inr n" "0 \<le> n"
    using duration_aware [OF assms(4,5)] assms(2) by (auto simp: elapsed_since_last_def in_flight_def)
  define e where "e = \<lparr>te_sequence = int (length (dw_trace d)) + 1, te_stage = dw_stage d,
    te_operation = operation, te_status = TR_FAILED, te_occurred_at = ?now, te_input_refs = [],
    te_facts = [trace_fact_of ''error_code'' (wf_code f),
      trace_fact_of ''retryable'' (str_of_bool (wf_retryable f))] @ [],
    te_duration_ms = Some n\<rparr>"
  have e: "trace_event_valid e" using n by (simp add: e_def trace_event_valid_def)
  let ?u = "\<lambda>d. d\<lparr>dw_stage := ST_FAILED, dw_failure := Some f,
    dw_checkpoint := (if True then Some \<lparr>cp_kind = CK_RETRY, cp_fingerprint = wf_fingerprint f,
      cp_reason = ''A typed retry decision is required; no fallback context is used.''\<rparr> else None),
    dw_trace := dw_trace d @ [e]\<rparr>"
  have built: "construct_model trace_event_valid e = (Inr e :: trace_event raised)"
    using e by (simp add: construct_model_def)
  have run: "save_changes P d ?u ?s = (r, s')"
    using assms(7) unfolding fail_external_def run_simps f(1) n(1) e_def [symmetric] built .
  have valid: "draft_valid (saved d ?u now)" for now
    by (rule draft_valid_moved [OF assms(1)])
      (use e f(2) draft_revision [OF assms(1)] in
        \<open>simp_all add: same_core_def saved_def checkpoint_reasons failure_valid_def e_def\<close>)
  obtain now where "se_submitted s' = se_submitted ?s @ [saved d ?u now]"
    using save_changes_run [OF run valid] by blast
  moreover have "retry_offered (saved d ?u now) operation"
    using f by (simp add: retry_offered_def)
  ultimately show ?thesis by auto
qed

lemma pause_for_retry_run:
  assumes "draft_valid d" and "pause_for_retry P d operation s = (r, s')"
  shows "\<exists>d'. se_submitted s' = se_submitted s @ [d'] \<and> retry_offered d' operation"
proof -
  let ?now = "fst (wp_now P (se_world s))"
  let ?s = "s\<lparr>se_world := snd (wp_now P (se_world s))\<rparr>"
  have "is_inert_code ''workflow_resume_required''"
    by (simp add: is_inert_code_def re_head_run_def lower_digit_under_def char_class_defs)
  moreover have "1 \<le> started_attempts d operation + 1" by (simp add: started_attempts_def)
  ultimately obtain f where f: "failure_create (wp_iso_text P) ''workflow_resume_required'' operation True
      (started_attempts d operation + 1) ?now = (Inr f :: workflow_failure raised)"
      "failure_valid f" "wf_operation f = operation" "wf_retryable f"
    using failure_created by blast
  let ?u = "\<lambda>d. d\<lparr>dw_stage := ST_FAILED, dw_failure := Some f,
    dw_checkpoint := Some \<lparr>cp_kind = CK_RETRY, cp_fingerprint = wf_fingerprint f,
      cp_reason = ''The prior process stopped between durable stages; retry explicitly.''\<rparr>\<rparr>"
  have run: "save_changes P d ?u ?s = (r, s')"
    using assms(2) unfolding pause_for_retry_def run_simps f(1) .
  have valid: "draft_valid (saved d ?u now)" for now
    by (rule draft_valid_moved [OF assms(1)])
      (use f(2) draft_revision [OF assms(1)] in
        \<open>simp_all add: same_core_def saved_def checkpoint_reasons failure_valid_def\<close>)
  obtain now where "se_submitted s' = se_submitted ?s @ [saved d ?u now]"
    using save_changes_run [OF run valid] by blast
  moreover have "retry_offered (saved d ?u now) operation"
    using f by (simp add: retry_offered_def)
  ultimately show ?thesis by auto
qed

lemma plan_fingerprint_shape: "draft_valid d \<Longrightarrow> dw_plan_fingerprint d = Some h \<Longrightarrow> is_sha256 h"
  by (simp add: draft_valid_def draft_fields_valid_def)

lemma pause_for_execution_run:
  assumes "draft_valid d" and "dw_stage d = ST_VALIDATED" and "dw_plan_fingerprint d \<noteq> None"
    and "pause_for_execution P d s = (r, s')"
  shows "\<exists>d'. se_submitted s' = se_submitted s @ [d'] \<and> awaits_person d'
    \<and> dw_stage d' = ST_DECISION_REQUIRED"
proof -
  obtain h where h: "dw_plan_fingerprint d = Some h" using assms(3) by blast
  have clean: "dw_failure d = None"
    using assms(1,2) by (auto simp: draft_valid_def state_is_internally_consistent_def)
  let ?u = "\<lambda>d. d\<lparr>dw_stage := ST_DECISION_REQUIRED, dw_checkpoint := Some (execution_checkpoint h)\<rparr>"
  have run: "save_changes P d ?u s = (r, s')"
    using assms(4) by (simp add: pause_for_execution_def h)
  have valid: "draft_valid (saved d ?u now)" for now
    by (rule draft_valid_moved [OF assms(1)])
      (use clean plan_fingerprint_shape [OF assms(1) h] draft_revision [OF assms(1)] in
        \<open>simp_all add: same_core_def saved_def checkpoint_reasons\<close>)
  obtain now where "se_submitted s' = se_submitted s @ [saved d ?u now]"
    using save_changes_run [OF run valid] by blast
  moreover have "awaits_person (saved d ?u now)"
    using h by (simp add: awaits_person_def execution_checkpoint_def)
  ultimately show ?thesis by auto
qed

lemma proposal_created:
  assumes "is_sha256 plan"
  shows "\<exists>p. publication_proposal_create i plan (sha256_text t) (validated_analytical_request_fingerprint P r)
    = (Inr p :: publication_proposal raised) \<and> publication_proposal_valid p"
  using assms
  by (simp add: publication_proposal_create_def Let_def construct_model_def
      publication_proposal_valid_def validated_analytical_request_fingerprint_def)

lemma propose_publication_run:
  assumes "draft_valid d" and "dw_stage d = ST_EXECUTED" and "guarded_plan P d"
    and "dw_execution d = Some e" and "er_rejection_complete e"
    and "propose_publication P d s = (r, s')"
  shows "\<exists>d'. se_submitted s' = se_submitted s @ [d'] \<and> awaits_person d'
    \<and> dw_stage d' = ST_PUBLICATION_PROPOSED"
proof -
  obtain h request where parts: "dw_plan_fingerprint d = Some h" "dw_validated_request d = Some request"
      "dw_publication_proposal d = None"
    using assms(3) by (auto simp: plan_defs)
  obtain p where p: "publication_proposal_create (dw_id d) h (sha256_text (execution_text e))
      (validated_analytical_request_fingerprint P request) = (Inr p :: publication_proposal raised)"
      "publication_proposal_valid p"
    using proposal_created [OF plan_fingerprint_shape [OF assms(1) parts(1)]] by fast
  have clean: "dw_failure d = None"
    using assms(1,2) by (auto simp: draft_valid_def state_is_internally_consistent_def)
  let ?u = "\<lambda>d. d\<lparr>dw_stage := ST_PUBLICATION_PROPOSED, dw_publication_proposal := Some p,
    dw_checkpoint := Some \<lparr>cp_kind = CK_PUBLICATION_DECISION, cp_fingerprint = wr_fingerprint p,
      cp_reason = ''Explicitly publish or skip the bounded execution-context proposal.''\<rparr>\<rparr>"
  have run: "save_changes P d ?u s = (r, s')"
    using assms(4-6) by (simp add: propose_publication_def parts run_simps p(1))
  have "is_sha256 (wr_fingerprint p)" using p(2) by (simp add: publication_proposal_valid_def)
  then have valid: "draft_valid (saved d ?u now)" for now
    using assms(1) clean p(2)
    by (simp add: draft_valid_def draft_fields_valid_def state_is_internally_consistent_def saved_def
        checkpoint_reasons cong: option.case_cong)
  obtain now where "se_submitted s' = se_submitted s @ [saved d ?u now]"
    using save_changes_run [OF run valid] by blast
  moreover have "awaits_person (saved d ?u now)" by (simp add: awaits_person_def)
  ultimately show ?thesis by auto
qed

text \<open>Recovery between two external steps: the next external step is offered as a retry, or the next
  decision is asked for.\<close>

lemma recover_settled_run:
  assumes "stored P d" and "\<not> in_flight d" and "workflow_recovery_operation d = Some operation"
    and "wp_load P workflow_id w = (Inr (Some d), w')"
    and "recover_interrupted P workflow_id operation (session_of w) = (r, s)"
  shows "\<exists>d'. se_submitted s = [d']
    \<and> (if operation = OP_HUMAN_DECISION
       then awaits_person d' \<and> dw_stage d' \<in> {ST_DECISION_REQUIRED, ST_PUBLICATION_PROPOSED}
       else retry_offered d' operation)"
proof -
  have d: "succeeds P d d" by (rule stored_succeeds [OF assms(1)])
  note valid = succeedsD(3) [OF d] and settled = settledD [OF d assms(2)]
  note run = assms(5) [unfolded recover_interrupted_def load_then [OF assms(4)] assms(3) option.case]
  show ?thesis
  proof (cases "pending_resume_operation d")
    case (Some pending)
    then have "pending = operation" "operation \<noteq> OP_HUMAN_DECISION"
      using assms(2,3)
      by (auto simp: workflow_recovery_operation_def pending_resume_operation_def split: if_splits)
    then show ?thesis
      using run assms(2) Some pause_for_retry_run [OF valid, of P operation "session_of w'" r s] by simp
  next
    case None
    then consider "dw_stage d = ST_VALIDATED" "dw_checkpoint d = None" "dw_plan_fingerprint d \<noteq> None"
        "operation = OP_HUMAN_DECISION" | "dw_stage d = ST_EXECUTED" "operation = OP_HUMAN_DECISION"
      using assms(2,3) by (auto simp: workflow_recovery_operation_def split: if_splits)
    then show ?thesis
    proof cases
      case 1
      then have "pause_for_execution P d (session_of w') = (r, s)" using run assms(2) None by simp
      from pause_for_execution_run [OF valid 1(1,3) this] 1(4) show ?thesis by auto
    next
      case 2
      then obtain e where "dw_execution d = Some e" "er_rejection_complete e" "guarded_plan P d"
        using settled by auto
      moreover have "propose_publication P d (session_of w') = (r, s)" using run assms(2) None 2 by simp
      ultimately show ?thesis
        using propose_publication_run [OF valid 2(1)] 2(2) by fastforce
    qed
  qed
qed

lemma record_decision_run:
  assumes "bounded_actor actor" and "is_sha256 bound"
    and "\<And>x e now. workflow_decision_valid x \<Longrightarrow> trace_event_valid e \<Longrightarrow>
      te_sequence e = int (length (dw_trace d)) + 1 \<Longrightarrow> te_status e = TR_SUCCEEDED \<Longrightarrow>
      draft_valid (saved d (\<lambda>d. (updates d)\<lparr>dw_decisions := dw_decisions d @ [x],
        dw_trace := dw_trace d @ [e]\<rparr>) now)
      \<and> Q (saved d (\<lambda>d. (updates d)\<lparr>dw_decisions := dw_decisions d @ [x],
        dw_trace := dw_trace d @ [e]\<rparr>) now)"
    and "record_decision P d kind action actor bound updates s = (r, s')"
  shows "\<exists>d'. se_submitted s' = se_submitted s @ [d'] \<and> Q d'"
proof -
  let ?now = "fst (wp_now P (se_world s))"
  let ?s = "s\<lparr>se_world := snd (wp_now P (se_world s))\<rparr>"
  define x where "x = \<lparr>de_actor = actor, de_kind = kind, de_action = action, de_decided_at = ?now,
    de_bound_fingerprint = bound\<rparr>"
  define e where "e = \<lparr>te_sequence = int (length (dw_trace d)) + 1, te_stage = dw_stage d,
    te_operation = OP_HUMAN_DECISION, te_status = TR_SUCCEEDED, te_occurred_at = ?now,
    te_input_refs = [],
    te_facts = [trace_fact_of ''decision_kind'' (decision_kind_value kind),
      trace_fact_of ''decision_action'' (decision_action_value action),
      trace_fact_of ''actor'' actor],
    te_duration_ms = Some 0\<rparr>"
  have x: "workflow_decision_valid x" using assms(1,2) by (simp add: x_def workflow_decision_valid_def)
  have e: "trace_event_valid e" "te_sequence e = int (length (dw_trace d)) + 1"
      "te_status e = TR_SUCCEEDED"
    by (simp_all add: e_def trace_event_valid_def)
  have built: "construct_model workflow_decision_valid x = (Inr x :: workflow_decision_record raised)"
      "construct_model trace_event_valid e = (Inr e :: trace_event raised)"
    using x e by (simp_all add: construct_model_def)
  let ?u = "\<lambda>d. (updates d)\<lparr>dw_decisions := dw_decisions d @ [x], dw_trace := dw_trace d @ [e]\<rparr>"
  have run: "save_changes P d ?u ?s = (r, s')"
    using assms(4) unfolding record_decision_def run_simps x_def [symmetric] built
      e_def [symmetric] .
  obtain now where "se_submitted s' = se_submitted ?s @ [saved d ?u now]"
    using save_changes_run [OF run] assms(3) [OF x e] by blast
  then show ?thesis using assms(3) [OF x e] by auto
qed

lemma bind_run:
  assumes "bindW m f s = (r, s')" and "m s = (r1, s1)"
    and "\<And>x. r1 = Inr x \<Longrightarrow> keeps I Q (f x)"
  shows "\<exists>rest. se_submitted s' = se_submitted s1 @ rest"
proof (cases r1)
  case (Inl e)
  then show ?thesis using assms(1,2) by (auto simp: bindW_def)
next
  case (Inr x)
  then have "f x s1 = (r, s')" using assms(1,2) by (simp add: bindW_def)
  from keepsD [OF assms(3) [OF Inr] this] show ?thesis by blast
qed

lemma workflow_id_not_blank: "is_workflow_id i \<Longrightarrow> \<not> blank i"
  by (auto simp: is_workflow_id_def re_head_run_def blank_iff lower_or_digit_def char_class_defs
      split: list.splits)

lemma fingerprint_length: "is_sha256 h \<Longrightarrow> length h = 64"
  by (simp add: is_sha256_def re_exactly_def)

lemma publication_approval_built:
  assumes "draft_valid d" and "dw_publication_proposal d = Some p" and "bounded_actor actor"
    and "is_aware t"
  shows "publication_approval_valid \<lparr>wa_id = ''workflow-publication-'' @ wr_idempotency_key p,
    wa_workflow_id = dw_id d, wa_proposal_fingerprint = wr_fingerprint p,
    wa_idempotency_key = wr_idempotency_key p, wa_actor = actor, wa_approved_at = t,
    wa_confirmation = confirmation\<rparr>"
proof -
  have "is_workflow_id (dw_id d)" "publication_proposal_valid p"
    using assms(1,2) by (simp_all add: draft_valid_def draft_fields_valid_def)
  moreover have "\<not> blank (''workflow-publication-'' @ wr_idempotency_key p)"
    by (simp add: blank_iff char_class_defs)
  ultimately show ?thesis
    using assms(3,4) fingerprint_length workflow_id_not_blank
    by (simp add: publication_approval_valid_def publication_proposal_valid_def len_between_def)
qed

lemma approval_recorded_stranded:
  assumes "succeeds P d d" and "awaits_person d" and "dw_checkpoint d = Some c"
    and "cp_kind c = CK_PUBLICATION_DECISION" and "wp_load P i w = (Inr (Some d), w')"
    and "publication_decision_valid decision" and "pd_action decision = DA_PUBLISH"
    and "pd_proposal_fingerprint decision = cp_fingerprint c"
    and "\<forall>v. is_aware (fst (wp_now P v))"
    and "decide_publication P i decision (session_of w) = (r, s)"
  shows "\<exists>d1 rest. se_submitted s = d1 # rest \<and> publication_stranded d1
    \<and> dw_publication_result d1 = None"
proof -
  obtain p where p: "dw_publication_proposal d = Some p" "wr_fingerprint p = cp_fingerprint c"
      and stage: "dw_stage d = ST_PUBLICATION_PROPOSED"
    using assms(2-4) by (auto simp: awaits_person_def)
  have none: "dw_publication_approval d = None"
    using require_checkpointD(3) [OF assms(1) _ assms(3)] assms(4) stage by simp
  note valid = succeedsD(3) [OF assms(1)]
  then have clean: "dw_publication_result d = None" "dw_failure d = None"
    using none stage by (auto simp: draft_valid_def state_is_internally_consistent_def)
  obtain confirmation where confirmation: "pd_confirmation decision = Some confirmation"
    using assms(6,7) by (auto simp: publication_decision_valid_def)
  have actor: "bounded_actor (pd_actor decision)" and hash: "is_sha256 (wr_fingerprint p)"
    using assms(6) p(2) assms(8) by (simp_all add: publication_decision_valid_def)
  define a where "a = \<lparr>wa_id = ''workflow-publication-'' @ wr_idempotency_key p,
    wa_workflow_id = dw_id d, wa_proposal_fingerprint = wr_fingerprint p,
    wa_idempotency_key = wr_idempotency_key p, wa_actor = pd_actor decision,
    wa_approved_at = fst (wp_now P w'), wa_confirmation = confirmation\<rparr>"
  have a: "publication_approval_valid a"
    unfolding a_def by (rule publication_approval_built [OF valid p(1) actor]) (use assms(9) in blast)
  let ?u = "\<lambda>d. d\<lparr>dw_publication_approval := Some a, dw_checkpoint := None\<rparr>"
  let ?s = "session_of (snd (wp_now P w')) :: ('a, 'b) session"
  let ?m = "record_decision P d DK_PUBLICATION DA_PUBLISH (pd_actor decision) (wr_fingerprint p) ?u"
  have guard: "bindW (require_checkpoint d CK_PUBLICATION_DECISION) g t = g () t" for g and t :: "('a, 'b) session"
    using stage assms(3,4) by (simp add: require_checkpoint_def bindW_def returnW_def)
  have "construct_model publication_approval_valid a = (Inr a :: publication_approval raised)"
    using a by (simp add: construct_model_def)
  then have run: "bindW ?m (publish_context P) ?s = (r, s)"
    using assms(10) p(2) assms(7,8)
    by (simp add: decide_publication_def load_then [OF assms(5)] clean guard p(1) confirmation
        run_simps a_def)
  obtain r1 s1 where m: "?m ?s = (r1, s1)" by (cases "?m ?s")
  have "\<exists>d1. se_submitted s1 = se_submitted ?s @ [d1]
      \<and> publication_stranded d1 \<and> dw_publication_result d1 = None"
  proof (rule record_decision_run [OF actor hash _ m])
    fix x e now
    let ?d = "saved d (\<lambda>d. (?u d)\<lparr>dw_decisions := dw_decisions d @ [x], dw_trace := dw_trace d @ [e]\<rparr>) now"
    assume "workflow_decision_valid x" "trace_event_valid e" "te_status e = TR_SUCCEEDED"
      "te_sequence e = int (length (dw_trace d)) + 1"
    then show "draft_valid ?d \<and> publication_stranded ?d \<and> dw_publication_result ?d = None"
      using valid a clean stage upto_snoc [of "length (dw_trace d)"]
      by (auto simp: draft_valid_def draft_fields_valid_def state_is_internally_consistent_def
          saved_def publication_stranded_def in_flight_def add.commute cong: option.case_cong)
  qed
  then obtain d1 where d1: "se_submitted s1 = [d1]" "publication_stranded d1"
      "dw_publication_result d1 = None" by auto
  have "keeps (succeeds P d) (succeeds P d) (publish_context P x)" if "r1 = Inr x" for x
  proof -
    have "keeps (succeeds P d) (\<lambda>d'. succeeds P d d' \<and> ready_for P OP_CONTEXT_PUBLICATION d') ?m"
      by (rule keeps_record_publication [OF assms(1) stage none p(1)]) (simp_all add: a_def)
    from keepsD [OF this m] that show ?thesis by (auto intro: keeps_publish_context)
  qed
  from bind_run [OF run m this] d1 show ?thesis by auto
qed

end
