(* ===== verification/Orchestrator_Sample.thy ===== *)
theory Orchestrator_Sample
  imports Orchestrator_Runs
begin

text \<open>
  A complete run of the orchestrator over concrete ports: a confirmed request is started, planned and
  validated, the preview is declined or approved and executed, the publication is proposed and
  approved, and the publishing port then raises an error the orchestrator does not catch. Its drafts
  are the concrete stored drafts at which the properties are evaluated.
\<close>

section \<open>A complete run\<close>

definition demo_query :: "unit prepared_query" where
  "demo_query = \<lparr>pq_resolved_plan = (), pq_sql = ''select 1'', pq_parameters = [], pq_max_rows = 1,
     pq_statement_timeout_ms = 10, pq_dialect = ''postgresql'', pq_target_fingerprint = None,
     pq_semantic_evidence = None, pq_cost_assessment = None, pq_policy_status = ''accepted''\<rparr>"

definition demo_ports :: "(unit draft option, unit) ports" where
  "demo_ports =
     \<lparr>wp_iso_text = (\<lambda>_. ''now''), wp_dump_text = (\<lambda>_. ''{}''), wp_context_version = (\<lambda>_. 1),
      wp_policy_datasets = (\<lambda>_. [''s.t'']), wp_now = (\<lambda>w. (Aware 0, w)),
      wp_load = (\<lambda>_ w. (Inr w, w)), wp_save = (\<lambda>d _ _. (Inr (), Some d)),
      wp_source_label = ''catalog'', wp_get_asset = (\<lambda>_ w. (Inr ''urn'', w)),
      wp_list_schema_fields =
        (\<lambda>_ _ w. (Inr \<lparr>pg_items = [], pg_next_cursor = None, pg_partial = False\<rparr>, w)),
      wp_preview = (\<lambda>_ _ w. (Inl (Transition (Raised (IntentParserError ''intent_model_refused''))), w)),
      wp_confirm = (\<lambda>_ _ _ w. (Inl (Transition (Raised (IntentConfirmationError ''no''))), w)),
      wp_planner = (\<lambda>_ w. (Inr (), w)), wp_plan = (\<lambda>_ w. (Inr (), w)),
      wp_refresh_and_validate = (\<lambda>_ _ w. (Inr demo_query, w)),
      wp_execute_preview = (\<lambda>_ w. (Inr \<lparr>pv_columns = [''n''], pv_rows = [[SvInt 1]],
        pv_database_user = ''reader'', pv_transaction_read_only = True,
        pv_statement_timeout_ms = 10, pv_truncated = False\<rparr>, w)),
      wp_inspect_rejections = (\<lambda>_ _ w. (Inr \<lparr>rr_codes = [], rr_total_records = 0,
        rr_truncated = False, rr_database_user = None, rr_transaction_read_only = None\<rparr>, w)),
      wp_publish = (\<lambda>_ _ w. (Inl (Transition (Raised (OtherError ''ConnectionError''))), w)),
      wp_append_audit = (\<lambda>_ w. (Inr (), w)), wp_assess_recipe = None\<rparr>"

definition demo_confirmed :: "unit confirmed_request" where
  "demo_confirmed = \<lparr>cq_original_text = None, cq_language = None, cq_validated_request = ()\<rparr>"

lemma millis_zero [simp]: "millis_of 0 = 0"
  by code_simp

lemma demo_ids: "is_workflow_id ''run'' = True" "is_physical_dataset_ref ''s.t'' = True"
  by (simp_all add: is_workflow_id_def re_head_run_def class_defs char_class_defs
      is_physical_dataset_ref_def segments_def is_identifier_def re_head_star_def DOT_def)

lemma demo_save:
  assumes "draft_valid (saved d u (Aware 0))"
  shows "save_changes demo_ports d u s = (Inr (saved d u (Aware 0)),
    \<lparr>se_world = Some (saved d u (Aware 0)), se_submitted = se_submitted s @ [saved d u (Aware 0)]\<rparr>)"
  using assms unfolding save_changes_def saved_def [symmetric]
  by (simp add: run_simps construct_model_def demo_ports_def bindW_def submitW_def portW_def
      callW_def liftW_def returnW_def nowW_def)

lemma demo_now: "wp_now demo_ports w = (Aware 0, w)"
  by (simp add: demo_ports_def)

definition demo_new :: "unit draft" where
  "demo_new = new_draft ''run'' ''Confirmed guided Query Studio request.'' ENGLISH [''s.t''] (Some ()) (Aware 0)"

lemma demo_new_valid: "draft_valid demo_new"
  by (simp add: demo_new_def new_draft_def draft_valid_def draft_fields_valid_def
      state_is_internally_consistent_def demo_ids len_between_def)

text \<open>The drafts of the run, each from the one before.\<close>

definition begun :: "unit draft \<Rightarrow> agent_stage \<Rightarrow> workflow_operation \<Rightarrow> string list \<Rightarrow> unit draft" where
  "begun d stage operation refs = saved d (\<lambda>x. x\<lparr>dw_stage := stage, dw_checkpoint := None,
     dw_failure := None, dw_trace := dw_trace x @ [\<lparr>te_sequence = int (length (dw_trace d)) + 1,
       te_stage = stage, te_operation = operation, te_status = TR_STARTED, te_occurred_at = Aware 0,
       te_input_refs = refs, te_facts = [], te_duration_ms = None\<rparr>]\<rparr>) (Aware 0)"

definition ended :: "unit draft \<Rightarrow> workflow_operation \<Rightarrow> agent_stage \<Rightarrow> trace_fact list \<Rightarrow>
   (unit draft \<Rightarrow> unit draft) \<Rightarrow> unit draft" where
  "ended d operation stage facts updates = saved d (\<lambda>x. (updates x)\<lparr>dw_stage := stage,
     dw_trace := dw_trace x @ [\<lparr>te_sequence = int (length (dw_trace d)) + 1,
       te_stage = stage, te_operation = operation, te_status = TR_SUCCEEDED, te_occurred_at = Aware 0,
       te_input_refs = [], te_facts = facts, te_duration_ms = Some 0\<rparr>]\<rparr>) (Aware 0)"

definition answered :: "unit draft \<Rightarrow> workflow_decision_kind \<Rightarrow> workflow_decision_action \<Rightarrow> string \<Rightarrow>
   (unit draft \<Rightarrow> unit draft) \<Rightarrow> unit draft" where
  "answered d kind action bound updates = saved d (\<lambda>x. (updates x)\<lparr>
     dw_decisions := dw_decisions x @ [\<lparr>de_actor = ''ana'', de_kind = kind, de_action = action,
       de_decided_at = Aware 0, de_bound_fingerprint = bound\<rparr>],
     dw_trace := dw_trace x @ [\<lparr>te_sequence = int (length (dw_trace d)) + 1,
       te_stage = dw_stage d, te_operation = OP_HUMAN_DECISION, te_status = TR_SUCCEEDED,
       te_occurred_at = Aware 0, te_input_refs = [],
       te_facts = [trace_fact_of ''decision_kind'' (decision_kind_value kind),
         trace_fact_of ''decision_action'' (decision_action_value action),
         trace_fact_of ''actor'' ''ana''],
       te_duration_ms = Some 0\<rparr>]\<rparr>) (Aware 0)"

abbreviation submitted_to :: "unit draft \<Rightarrow> (unit draft option, unit) session \<Rightarrow>
   (unit draft option, unit) session" where
  "submitted_to d s \<equiv> \<lparr>se_world = Some d, se_submitted = se_submitted s @ [d]\<rparr>"

lemma demo_begin:
  assumes "draft_valid (begun d stage operation refs)" and "length refs \<le> 6"
  shows "begin_external demo_ports d stage operation refs s =
    (Inr (begun d stage operation refs), submitted_to (begun d stage operation refs) s)"
  using demo_save [OF assms(1) [unfolded begun_def]] assms(2)
  by (simp add: begin_external_def run_simps demo_now construct_model_def trace_event_valid_def
      begun_def)

lemma demo_end:
  assumes "draft_valid (ended d operation stage facts updates)" and "length facts \<le> 8"
    and "list_all trace_fact_valid facts" and "dw_trace d \<noteq> []"
    and "te_occurred_at (last (dw_trace d)) = Aware 0"
  shows "finish_external demo_ports d operation stage facts updates s =
    (Inr (ended d operation stage facts updates),
     submitted_to (ended d operation stage facts updates) s)"
  using demo_save [OF assms(1) [unfolded ended_def]] assms(2-5)
  by (simp add: finish_external_def elapsed_since_last_def run_simps demo_now construct_model_def
      trace_event_valid_def ended_def)

lemma demo_actor: "bounded_actor ''ana''"
  by (simp add: bounded_actor_def len_between_def blank_iff char_class_defs)

lemma demo_answer:
  assumes "draft_valid (answered d kind action bound updates)" and "is_sha256 bound"
  shows "record_decision demo_ports d kind action ''ana'' bound updates s =
    (Inr (answered d kind action bound updates),
     submitted_to (answered d kind action bound updates) s)"
  using demo_save [OF assms(1) [unfolded answered_def]] assms(2) demo_actor
  by (simp add: record_decision_def run_simps demo_now construct_model_def
      trace_event_valid_def workflow_decision_valid_def answered_def)

abbreviation demo_hash :: string where "demo_hash \<equiv> sha256_text ''{}''"

definition demo_sql_hash :: string where
  "demo_sql_hash = projr (prepared_query_fingerprint demo_query)"

lemma demo_sql_hash:
  "prepared_query_fingerprint demo_query = Inr demo_sql_hash" "is_sha256 demo_sql_hash"
  by (simp_all add: demo_sql_hash_def prepared_query_fingerprint_def demo_query_def)

definition demo_asset :: catalog_asset where
  "demo_asset = \<lparr>ca_dataset = ''s.t'', ca_urn = ''urn'', ca_field_count = 0, ca_partial = False,
     ca_schema_fingerprint = Some (json_fingerprint (JArr []))\<rparr>"

definition demo_context :: "unit draft" where
  "demo_context = ended (begun demo_new ST_CONTEXT_RETRIEVAL OP_CATALOG_CONTEXT_READ [''s.t''])
     OP_CATALOG_CONTEXT_READ ST_CONTEXT_RETRIEVAL
     [trace_fact_of ''asset_count'' (str_of_nat (Suc 0)), trace_fact_of ''catalog_source'' ''catalog'']
     (\<lambda>d. d\<lparr>dw_context_source := Some ''catalog'', dw_context_assets := [demo_asset]\<rparr>)"

definition demo_planned :: "unit draft" where
  "demo_planned = ended (begun demo_context ST_SEMANTIC_RESOLUTION OP_SEMANTIC_RESOLUTION [demo_hash])
     OP_SEMANTIC_RESOLUTION ST_PLAN_READY
     [trace_fact_of ''plan'' demo_hash, trace_fact_of ''context_version'' (str_of_int 1),
      trace_fact_of ''table_count'' (str_of_nat (Suc 0))]
     (\<lambda>d. d\<lparr>dw_resolved_plan := Some (), dw_plan_fingerprint := Some demo_hash\<rparr>)"

definition demo_checked :: "unit draft \<Rightarrow> unit draft" where
  "demo_checked d = ended (begun d ST_PLAN_READY OP_SQL_VALIDATION [demo_hash])
     OP_SQL_VALIDATION ST_VALIDATED
     [trace_fact_of ''query'' demo_sql_hash, trace_fact_of ''policy_status'' ''accepted'',
      trace_fact_of ''preview_limit'' (str_of_int 1)]
     (\<lambda>d. d\<lparr>dw_query_fingerprint := Some demo_sql_hash\<rparr>)"

definition demo_waiting :: "unit draft" where
  "demo_waiting = saved (demo_checked demo_planned) (\<lambda>d. d\<lparr>dw_stage := ST_DECISION_REQUIRED,
     dw_checkpoint := Some (execution_checkpoint demo_hash)\<rparr>) (Aware 0)"

lemmas demo_steps = begun_def ended_def answered_def saved_def demo_new_def new_draft_def
  demo_context_def demo_planned_def demo_checked_def demo_waiting_def demo_asset_def

lemmas draft_checks = draft_valid_def draft_fields_valid_def state_is_internally_consistent_def
  trace_event_valid_def catalog_asset_valid_def len_between_def demo_ids checkpoint_reasons
  demo_sql_hash(2) upto_rec1

lemma demo_context_valid:
  "draft_valid (begun demo_new ST_CONTEXT_RETRIEVAL OP_CATALOG_CONTEXT_READ [''s.t''])"
  "draft_valid demo_context"
  by (simp_all add: demo_steps draft_checks)

lemma demo_planned_valid:
  "draft_valid (begun demo_context ST_SEMANTIC_RESOLUTION OP_SEMANTIC_RESOLUTION [demo_hash])"
  "draft_valid demo_planned"
  by (simp_all add: demo_steps draft_checks)

lemma demo_waiting_valid:
  "draft_valid (begun demo_planned ST_PLAN_READY OP_SQL_VALIDATION [demo_hash])"
  "draft_valid (demo_checked demo_planned)" "draft_valid demo_waiting"
  by (simp_all add: demo_steps draft_checks)

text \<open>The run from the confirmed request to the execution checkpoint.\<close>

lemma begun_fields [simp]:
  "dw_trace (begun d stage operation refs) \<noteq> []"
  "te_occurred_at (last (dw_trace (begun d stage operation refs))) = Aware 0"
  by (simp_all add: begun_def saved_def)

lemma demo_fingerprints [simp]:
  "validated_analytical_request_fingerprint demo_ports r = demo_hash"
  "resolved_semantic_plan_fingerprint demo_ports r' = demo_hash"
  by (simp_all add: validated_analytical_request_fingerprint_def
      resolved_semantic_plan_fingerprint_def demo_ports_def)

lemma demo_revalidate:
  assumes "dw_resolved_plan d = Some ()" and "dw_plan_fingerprint d = Some demo_hash"
    and "dw_validated_request d = Some ()" and "dw_query_fingerprint d \<in> {None, Some demo_sql_hash}"
    and "draft_valid (begun d ST_PLAN_READY OP_SQL_VALIDATION [demo_hash])"
    and "draft_valid (demo_checked d)"
  shows "revalidate_resolved demo_ports d s =
    (Inr (Some demo_query, demo_checked d),
     submitted_to (demo_checked d) (submitted_to (begun d ST_PLAN_READY OP_SQL_VALIDATION [demo_hash]) s))"
proof -
  have refresh: "wp_refresh_and_validate demo_ports a b = (\<lambda>w. (Inr demo_query, w))" for a b
    by (simp add: demo_ports_def)
  have query: "accept_cost demo_query = Inr ()" "pq_policy_status demo_query = ''accepted''"
      "pq_max_rows demo_query = 1" "pq_cost_assessment demo_query = None"
    by (simp_all add: accept_cost_def demo_query_def)
  note ended = demo_end [OF assms(6) [unfolded demo_checked_def], simplified]
  show ?thesis
    using assms(1-4) unfolding revalidate_resolved_def
    by (auto simp: bindW_def demo_begin [OF assms(5)] run_simps [unfolded bindW_def] refresh query
        demo_sql_hash cost_trace_facts_def ended demo_checked_def returnW_def)
qed

text \<open>The drafts after the approval of the plan, up to the publication proposal.\<close>

definition demo_approved :: "unit draft" where
  "demo_approved = answered demo_waiting DK_EXECUTION DA_APPROVE demo_hash
     (\<lambda>d. d\<lparr>dw_stage := ST_VALIDATED, dw_checkpoint := None\<rparr>)"

definition demo_declined :: "unit draft" where
  "demo_declined = answered demo_waiting DK_EXECUTION DA_DECLINE demo_hash
     (\<lambda>d. d\<lparr>dw_stage := ST_COMPLETED, dw_checkpoint := None\<rparr>)"

abbreviation demo_started :: "unit draft" where
  "demo_started \<equiv> begun (demo_checked demo_approved) ST_EXECUTION OP_PREVIEW_EXECUTION
     [demo_hash, demo_sql_hash]"

definition demo_record :: execution_record where
  "demo_record = projr (execution_record_of demo_started (projr (fst (wp_execute_preview demo_ports demo_query None))))"

definition demo_executed :: "unit draft" where
  "demo_executed = ended demo_started OP_PREVIEW_EXECUTION ST_EXECUTION
     [trace_fact_of ''row_count'' (str_of_nat (Suc 0)), trace_fact_of ''database_user'' ''reader'',
      trace_fact_of ''read_only'' (str_of_bool True),
      trace_fact_of ''preview'' (er_preview_fingerprint demo_record)]
     (\<lambda>d. d\<lparr>dw_execution := Some demo_record\<rparr>)"

abbreviation demo_complete :: execution_record where
  "demo_complete \<equiv> demo_record\<lparr>er_rejection_complete := True\<rparr>"

definition demo_inspected :: "unit draft" where
  "demo_inspected = ended (begun demo_executed ST_EXECUTION OP_REJECTION_INSPECTION
      [er_preview_fingerprint demo_record]) OP_REJECTION_INSPECTION ST_EXECUTED
     [trace_fact_of ''rejected_count'' (str_of_int 0),
      trace_fact_of ''inspection_truncated'' (str_of_bool False),
      trace_fact_of ''inspection_user'' ''none'', trace_fact_of ''read_only'' (str_of_bool False)]
     (\<lambda>d. d\<lparr>dw_execution := Some demo_complete\<rparr>)"

definition demo_offer :: publication_proposal where
  "demo_offer = projr (publication_proposal_create ''run'' demo_hash
     (sha256_text (execution_text demo_complete)) demo_hash :: publication_proposal raised)"

definition demo_proposed :: "unit draft" where
  "demo_proposed = saved demo_inspected (\<lambda>d. d\<lparr>dw_stage := ST_PUBLICATION_PROPOSED,
     dw_publication_proposal := Some demo_offer,
     dw_checkpoint := Some \<lparr>cp_kind = CK_PUBLICATION_DECISION, cp_fingerprint = wr_fingerprint demo_offer,
       cp_reason = ''Explicitly publish or skip the bounded execution-context proposal.''\<rparr>\<rparr>) (Aware 0)"

definition demo_approval :: publication_approval where
  "demo_approval = \<lparr>wa_id = ''workflow-publication-'' @ wr_idempotency_key demo_offer,
     wa_workflow_id = ''run'', wa_proposal_fingerprint = wr_fingerprint demo_offer,
     wa_idempotency_key = wr_idempotency_key demo_offer, wa_actor = ''ana'',
     wa_approved_at = Aware 0, wa_confirmation = PUBLISH_EXECUTION_CONTEXT\<rparr>"

definition demo_published :: "unit draft" where
  "demo_published = answered demo_proposed DK_PUBLICATION DA_PUBLISH (wr_fingerprint demo_offer)
     (\<lambda>d. d\<lparr>dw_publication_approval := Some demo_approval, dw_checkpoint := None\<rparr>)"

lemmas demo_later = demo_approved_def demo_declined_def demo_executed_def
  demo_inspected_def demo_proposed_def demo_published_def

lemma demo_record_made:
  "execution_record_of demo_started (projr (fst (wp_execute_preview demo_ports demo_query None)))
     = Inr demo_record"
  "er_plan_fingerprint demo_record = demo_hash" "er_query_fingerprint demo_record = demo_sql_hash"
  "er_database_user demo_record = ''reader''" "er_transaction_read_only demo_record"
  "length (er_rows demo_record) = 1" "\<not> er_rejection_complete demo_record"
  "execution_record_valid demo_record" "execution_record_valid demo_complete"
  by (simp_all add: demo_record_def execution_record_of_def construct_model_def demo_ports_def
      demo_later demo_steps execution_record_valid_def demo_sql_hash len_between_def
      MAX_REJECTED_TOTAL_def)

lemma demo_offer_made:
  "publication_proposal_create ''run'' demo_hash (sha256_text (execution_text demo_complete))
     demo_hash = (Inr demo_offer :: publication_proposal raised)"
  "publication_proposal_valid demo_offer"
  by (simp_all add: demo_offer_def publication_proposal_create_def Let_def construct_model_def
      publication_proposal_valid_def)

lemmas later_checks = draft_checks demo_record_made(2-) demo_offer_made(2) workflow_decision_valid_def
  demo_actor

lemma demo_answered_valid: "draft_valid demo_approved" "draft_valid demo_declined"
  by (simp_all add: demo_later demo_steps later_checks)

lemma demo_rechecked_valid:
  "draft_valid (begun demo_approved ST_PLAN_READY OP_SQL_VALIDATION [demo_hash])"
  "draft_valid (demo_checked demo_approved)"
  by (simp_all add: demo_later demo_steps later_checks)

lemma demo_executed_valid: "draft_valid demo_started" "draft_valid demo_executed"
  by (simp_all add: demo_later demo_steps later_checks)

lemma demo_offer_bound: "is_sha256 (wr_fingerprint demo_offer)"
    "is_sha256 (wr_idempotency_key demo_offer)" "is_sha256 (er_preview_fingerprint demo_record)"
  using demo_offer_made(2) demo_record_made(8)
  by (simp_all add: publication_proposal_valid_def execution_record_valid_def)

lemma demo_inspected_valid:
  "draft_valid (begun demo_executed ST_EXECUTION OP_REJECTION_INSPECTION
      [er_preview_fingerprint demo_record])"
  "draft_valid demo_inspected" "draft_valid demo_proposed"
  by (simp_all add: demo_later demo_steps later_checks demo_offer_bound checkpoint_valid_def)

lemma demo_approval_valid: "publication_approval_valid demo_approval"
  using demo_offer_bound
  by (simp add: demo_approval_def publication_approval_valid_def demo_actor fingerprint_length
      len_between_def blank_iff char_class_defs)

lemma demo_published_valid:
  "draft_valid demo_published"
  "draft_valid (begun demo_published ST_PUBLICATION_PROPOSED OP_CONTEXT_PUBLICATION
     [wr_fingerprint demo_offer, wr_idempotency_key demo_offer])"
  by (simp_all add: demo_later demo_steps later_checks demo_offer_bound demo_approval_valid)

text \<open>The two commands of the run.\<close>

lemma demo_fields [simp]:
  "dw_requested_datasets demo_new = [''s.t'']"
  "dw_requested_datasets (begun d stage operation refs) = dw_requested_datasets d"
  "dw_validated_request demo_context = Some ()" "dw_resolved_plan demo_planned = Some ()"
  "dw_plan_fingerprint demo_planned = Some demo_hash" "dw_validated_request demo_planned = Some ()"
  "dw_query_fingerprint demo_planned = None"
  "dw_plan_fingerprint (demo_checked demo_planned) = Some demo_hash" "dw_stage (demo_checked d) = ST_VALIDATED"
  by (simp_all add: demo_steps)

lemma demo_assets: "tryW (read_assets demo_ports [''s.t'']) s = (Inr (Inr [demo_asset]), s)"
  by (simp add: read_asset_def demo_ports_def bindW_def portW_def callW_def liftW_def returnW_def
      construct_model_def catalog_asset_valid_def len_between_def demo_ids tryW_def demo_asset_def)

lemma demo_pause: "pause_for_execution demo_ports (demo_checked demo_planned) s =
    (Inr demo_waiting, submitted_to demo_waiting s)"
  by (simp add: pause_for_execution_def demo_waiting_def
      demo_save [OF demo_waiting_valid(3) [unfolded demo_waiting_def]])

lemma demo_resolve: "fst (resolve_semantics demo_ports demo_context s) = Inr demo_waiting"
    "set (se_submitted (snd (resolve_semantics demo_ports demo_context s))) \<supseteq>
      {begun demo_planned ST_PLAN_READY OP_SQL_VALIDATION [demo_hash], demo_waiting}"
proof -
  have plan: "wp_plan demo_ports a = (\<lambda>w. (Inr (), w))" "wp_context_version demo_ports b = 1"
      "wp_policy_datasets demo_ports b = [''s.t'']" "wp_assess_recipe demo_ports = None" for a b
    by (simp_all add: demo_ports_def)
  note steps = demo_begin [OF demo_planned_valid(1)]
    demo_end [OF demo_planned_valid(2) [unfolded demo_planned_def], simplified,
      folded demo_planned_def]
    demo_revalidate [OF _ _ _ _ demo_waiting_valid(1,2), simplified]
  have run: "resolve_semantics demo_ports demo_context s = (Inr demo_waiting,
      submitted_to demo_waiting
     (submitted_to (demo_checked demo_planned)
       (submitted_to (begun demo_planned ST_PLAN_READY OP_SQL_VALIDATION [demo_hash])
      (submitted_to demo_planned
       (submitted_to (begun demo_context ST_SEMANTIC_RESOLUTION OP_SEMANTIC_RESOLUTION [demo_hash]) s)))))"
    using demo_pause
    by (simp add: resolve_semantics_def bindW_def steps run_simps [unfolded bindW_def] plan
        lookup_recipe_def returnW_def)
  then show "fst (resolve_semantics demo_ports demo_context s) = Inr demo_waiting"
    "set (se_submitted (snd (resolve_semantics demo_ports demo_context s))) \<supseteq>
      {begun demo_planned ST_PLAN_READY OP_SQL_VALIDATION [demo_hash], demo_waiting}"
    by simp_all
qed

lemma demo_start:
  "{begun demo_planned ST_PLAN_READY OP_SQL_VALIDATION [demo_hash], demo_waiting} \<subseteq>
    set (se_submitted (snd (start_confirmed demo_ports ''run'' demo_confirmed (session_of None))))"
proof -
  have ports: "wp_planner demo_ports a = (\<lambda>w. (Inr (), w))" "wp_policy_datasets demo_ports b = [''s.t'']"
      "wp_now demo_ports w = (Aware 0, w)" "wp_source_label demo_ports = ''catalog''" for a b w
    by (simp_all add: demo_ports_def)
  have submit: "submitW demo_ports d x s = (Inr (), submitted_to d s)" for d x s
    by (simp add: submitW_def demo_ports_def bindW_def portW_def callW_def liftW_def returnW_def)
  have new: "construct_model draft_valid demo_new = (Inr demo_new :: unit draft raised)"
    using demo_new_valid by (simp add: construct_model_def)
  note steps = demo_begin [OF demo_context_valid(1)]
    demo_end [OF demo_context_valid(2) [unfolded demo_context_def], simplified,
      folded demo_context_def]
  have "start_confirmed demo_ports ''run'' demo_confirmed (session_of None) =
      resolve_semantics demo_ports demo_context (submitted_to demo_context
        (submitted_to (begun demo_new ST_CONTEXT_RETRIEVAL OP_CATALOG_CONTEXT_READ [''s.t''])
          (submitted_to demo_new (session_of None))))"
    unfolding start_confirmed_def
    by (simp add: demo_confirmed_def run_simps ports new [unfolded demo_new_def]
        flip: demo_new_def)
      (simp add: retrieve_context_def bindW_def new liftW_def submit steps demo_assets ports del: read_assets.simps)
  then show ?thesis using demo_resolve(2) by simp
qed

lemma demo_stored:
  "stored demo_ports (begun demo_planned ST_PLAN_READY OP_SQL_VALIDATION [demo_hash])"
  "stored demo_ports demo_waiting"
  using demo_start by (auto intro!: stored.confirmed_draft [OF prod.collapse [symmetric]])

definition demo_execution :: "workflow_decision_action \<Rightarrow> execution_decision" where
  "demo_execution action = \<lparr>ed_actor = ''ana'', ed_plan_fingerprint = demo_hash, ed_action = action\<rparr>"

lemma demo_load: "bindW (load_draft demo_ports i) f (session_of (Some d)) = f d (session_of (Some d))"
  by (rule load_then) (simp add: demo_ports_def)

lemma demo_guard: "dw_checkpoint d = Some c \<Longrightarrow>
    (dw_stage d, cp_kind c) \<in> {(ST_DECISION_REQUIRED, CK_EXECUTION_APPROVAL),
       (ST_PUBLICATION_PROPOSED, CK_PUBLICATION_DECISION)} \<Longrightarrow>
    bindW (require_checkpoint d (cp_kind c)) f s = f () s"
  by (auto simp: require_checkpoint_def bindW_def returnW_def)

lemma demo_pending:
  "dw_checkpoint demo_waiting = Some (execution_checkpoint demo_hash)"
  "cp_fingerprint (execution_checkpoint demo_hash) = demo_hash"
  "bindW (require_checkpoint demo_waiting CK_EXECUTION_APPROVAL) f s = f () s"
proof -
  show waiting: "dw_checkpoint demo_waiting = Some (execution_checkpoint demo_hash)"
    "cp_fingerprint (execution_checkpoint demo_hash) = demo_hash"
    by (simp_all add: demo_waiting_def saved_def execution_checkpoint_def)
  show "bindW (require_checkpoint demo_waiting CK_EXECUTION_APPROVAL) f s = f () s"
    using demo_guard [OF waiting(1), of f s] by (simp add: demo_waiting_def saved_def execution_checkpoint_def)
qed

lemma demo_decline:
  "run_command demo_ports ''run'' (DecideExecution (demo_execution DA_DECLINE) (Pair True))
     (session_of (Some demo_waiting)) =
   (Inr demo_declined, submitted_to demo_declined (session_of (Some demo_waiting)))"
proof -
  show ?thesis
    by (simp add: decide_execution_def demo_load demo_pending demo_execution_def
        demo_answer [OF demo_answered_valid(2) [unfolded demo_declined_def], folded demo_declined_def])
qed

lemma demo_later_fields [simp]:
  "dw_resolved_plan demo_approved = Some ()" "dw_plan_fingerprint demo_approved = Some demo_hash"
  "dw_validated_request demo_approved = Some ()"
  "dw_query_fingerprint demo_approved = Some demo_sql_hash"
  "dw_execution (demo_checked demo_approved) = None"
  "dw_plan_fingerprint (demo_checked demo_approved) = Some demo_hash"
  "dw_query_fingerprint (demo_checked demo_approved) = Some demo_sql_hash"
  "dw_execution demo_executed = Some demo_record"
  "dw_publication_proposal demo_inspected = None" "dw_execution demo_inspected = Some demo_complete"
  "dw_validated_request demo_inspected = Some ()" "dw_plan_fingerprint demo_inspected = Some demo_hash"
  "dw_id demo_inspected = ''run''"
  by (simp_all add: demo_later demo_steps)

lemma demo_propose: "propose_publication demo_ports demo_inspected s =
    (Inr demo_proposed, submitted_to demo_proposed s)"
  by (simp add: propose_publication_def run_simps demo_offer_made(1)
      demo_save [OF demo_inspected_valid(3) [unfolded demo_proposed_def]] flip: demo_proposed_def)

lemma demo_inspect: "inspect_rejections demo_ports demo_executed demo_query (Pair True) s =
   (Inr demo_proposed, submitted_to demo_proposed (submitted_to demo_inspected (submitted_to
     (begun demo_executed ST_EXECUTION OP_REJECTION_INSPECTION [er_preview_fingerprint demo_record]) s)))"
proof -
  have report: "wp_inspect_rejections demo_ports a b = (\<lambda>w. (Inr \<lparr>rr_codes = [], rr_total_records = 0,
      rr_truncated = False, rr_database_user = None, rr_transaction_read_only = None\<rparr>, w))" for a b
    by (simp add: demo_ports_def)
  have blank: "er_rejection_codes demo_record = []" "er_rejected_count demo_record = 0"
      "\<not> er_rejection_truncated demo_record"
    using demo_record_made(7,8) by (simp_all add: execution_record_valid_def)
  then have same: "demo_record\<lparr>er_rejection_codes := [], er_rejected_count := 0,
      er_rejection_truncated := False, er_rejection_complete := True\<rparr> = demo_complete"
    by (cases demo_record) simp
  note steps = demo_begin [OF demo_inspected_valid(1)]
    demo_end [OF demo_inspected_valid(2) [unfolded demo_inspected_def], simplified,
      folded demo_inspected_def]
  show ?thesis
    by (simp add: inspect_rejections_def demo_record_made(7) run_simps)
      (simp add: bindW_def steps run_simps [unfolded bindW_def] report complete_rejections_def same
        construct_model_def demo_record_made(9) liftW_def text_or_def blank demo_propose)
qed

lemma demo_preview: "\<exists>rest. execute_preview demo_ports (demo_checked demo_approved) demo_query (Pair True) s =
   (Inr demo_proposed, submitted_to demo_proposed (rest\<lparr>se_submitted := se_submitted s @ demo_started #
     demo_executed # se_submitted rest\<rparr>))"
proof -
  define v where "v = projr (fst (wp_execute_preview demo_ports demo_query None))"
  have preview: "wp_execute_preview demo_ports demo_query = (\<lambda>w. (Inr v, w))"
    by (simp add: v_def demo_ports_def)
  note made = demo_record_made(1) [folded v_def]
  note steps = demo_begin [OF demo_executed_valid(1)]
    demo_end [OF demo_executed_valid(2) [unfolded demo_executed_def], simplified,
      folded demo_executed_def]
  have hashes: "demo_hash \<noteq> []" "demo_sql_hash \<noteq> []"
    using fingerprint_length [of demo_hash] fingerprint_length [OF demo_sql_hash(2)] by auto
  have "execute_preview demo_ports (demo_checked demo_approved) demo_query (Pair True) s =
      inspect_rejections demo_ports demo_executed demo_query (Pair True)
        (submitted_to demo_executed (submitted_to demo_started s))"
    by (simp add: execute_preview_def run_simps text_or_def hashes)
      (simp add: bindW_def steps run_simps [unfolded bindW_def] preview made liftW_def
        demo_record_made(4-6))
  then show ?thesis
    by (intro exI [of _ "\<lparr>se_world = _, se_submitted = [_, _]\<rparr>"]) (simp add: demo_inspect)
qed

lemma demo_approve:
  "\<exists>s. run_command demo_ports ''run'' (DecideExecution (demo_execution DA_APPROVE) (Pair True))
     (session_of (Some demo_waiting)) = (Inr demo_proposed, s)
   \<and> {demo_started, demo_executed, demo_proposed} \<subseteq> set (se_submitted s)"
proof -
  note steps = demo_answer [OF demo_answered_valid(1) [unfolded demo_approved_def],
      folded demo_approved_def] demo_revalidate [OF _ _ _ _ demo_rechecked_valid, simplified]
  show ?thesis
    using demo_preview [of "submitted_to (demo_checked demo_approved) (submitted_to
      (begun demo_approved ST_PLAN_READY OP_SQL_VALIDATION [demo_hash])
      (submitted_to demo_approved (session_of (Some demo_waiting))))"]
    by (auto simp: decide_execution_def demo_load demo_pending demo_execution_def)
      (auto simp: bindW_def steps)
qed

definition demo_publication :: publication_decision where
  "demo_publication = \<lparr>pd_actor = ''ana'', pd_proposal_fingerprint = wr_fingerprint demo_offer,
     pd_action = DA_PUBLISH, pd_confirmation = Some PUBLISH_EXECUTION_CONTEXT\<rparr>"

abbreviation demo_publishing :: "unit draft" where
  "demo_publishing \<equiv> begun demo_published ST_PUBLICATION_PROPOSED OP_CONTEXT_PUBLICATION
     [wr_fingerprint demo_offer, wr_idempotency_key demo_offer]"

lemma demo_proposal [simp]:
  "dw_publication_result demo_proposed = None" "dw_publication_proposal demo_proposed = Some demo_offer"
  "dw_id demo_proposed = ''run''" "dw_publication_proposal demo_published = Some demo_offer"
  "dw_publication_approval demo_published = Some demo_approval"
  "bindW (require_checkpoint demo_proposed CK_PUBLICATION_DECISION) f s = f () s"
  by (simp_all add: demo_later demo_steps require_checkpoint_def bindW_def returnW_def)

lemma demo_publish:
  "decide_publication demo_ports ''run'' demo_publication (session_of (Some demo_proposed)) =
   (Inl (Transition (Raised (OtherError ''ConnectionError''))),
    submitted_to demo_publishing (submitted_to demo_published (session_of (Some demo_proposed))))"
proof -
  have ports: "wp_now demo_ports w = (Aware 0, w)"
      "wp_publish demo_ports a b = (\<lambda>w. (Inl (Transition (Raised (OtherError ''ConnectionError''))), w))"
    for a b w by (simp_all add: demo_ports_def)
  have approval: "construct_model publication_approval_valid
      \<lparr>wa_id = ''workflow-publication-'' @ wr_idempotency_key demo_offer,
       wa_workflow_id = ''run'', wa_proposal_fingerprint = wr_fingerprint demo_offer,
       wa_idempotency_key = wr_idempotency_key demo_offer, wa_actor = ''ana'',
       wa_approved_at = Aware 0, wa_confirmation = PUBLISH_EXECUTION_CONTEXT\<rparr> =
      (Inr demo_approval :: publication_approval raised)"
    using demo_approval_valid by (simp add: construct_model_def demo_approval_def)
  note steps = demo_answer [OF demo_published_valid(1) [unfolded demo_published_def]
      demo_offer_bound(1), folded demo_published_def] demo_begin [OF demo_published_valid(2)]
  show ?thesis
    by (simp add: decide_publication_def demo_load demo_publication_def run_simps ports
        approval [simplified])
      (simp add: bindW_def steps publish_context_def run_simps [unfolded bindW_def] ports
        fail_or_escape_def liftW_def)
qed

lemma demo_commanded:
  assumes "stored demo_ports d0" and "command_valid command"
    and "run_command demo_ports ''run'' command (session_of (Some d0)) = (r, s)"
    and "d \<in> set (se_submitted s)"
  shows "stored demo_ports d"
  by (rule stored.commanded_draft [OF assms(1) _ assms(2-4)]) (simp add: demo_ports_def)

lemma demo_execution_valid: "action \<in> {DA_APPROVE, DA_DECLINE} \<Longrightarrow>
    execution_decision_valid (demo_execution action)"
  by (auto simp: execution_decision_valid_def demo_execution_def demo_actor)

lemma demo_publication_valid: "publication_decision_valid demo_publication"
  by (simp add: publication_decision_valid_def demo_publication_def demo_actor demo_offer_bound)

lemma demo_drafts_stored:
  "stored demo_ports demo_declined" "stored demo_ports demo_executed"
  "stored demo_ports demo_proposed" "stored demo_ports demo_publishing"
proof -
  show "stored demo_ports demo_declined"
    by (rule demo_commanded [OF demo_stored(2) _ demo_decline]) (simp_all add: demo_execution_valid)
  obtain s where run: "run_command demo_ports ''run'' (DecideExecution (demo_execution DA_APPROVE) (Pair True))
      (session_of (Some demo_waiting)) = (Inr demo_proposed, s)"
    and drafts: "{demo_started, demo_executed, demo_proposed} \<subseteq> set (se_submitted s)"
    using demo_approve by blast
  show "stored demo_ports demo_executed"
    by (rule demo_commanded [OF demo_stored(2) _ run]) (use drafts in \<open>simp_all add: demo_execution_valid\<close>)
  show proposed: "stored demo_ports demo_proposed"
    by (rule demo_commanded [OF demo_stored(2) _ run]) (use drafts in \<open>simp_all add: demo_execution_valid\<close>)
  show "stored demo_ports demo_publishing"
    by (rule demo_commanded [OF proposed, of "DecidePublication demo_publication",
        OF _ run_command.simps(5) [THEN fun_cong, THEN trans, OF demo_publish]])
      (simp_all add: demo_publication_valid)
qed

abbreviation demo_interrupted :: "unit draft" where
  "demo_interrupted \<equiv> begun demo_planned ST_PLAN_READY OP_SQL_VALIDATION [demo_hash]"

lemma demo_attempted: "attempted demo_publishing OP_CONTEXT_PUBLICATION"
  by (simp add: attempted_def begun_def saved_def)

lemma demo_over: "workflow_over demo_declined"
  by (simp add: workflow_over_def demo_declined_def answered_def saved_def)

end
