(* ===== verification/Orchestrator_Properties.thy ===== *)
theory Orchestrator_Properties
  imports Orchestrator_Sample
begin

text \<open>
  What the workflow orchestrator guarantees. \<^const>\<open>stored\<close> holds of every draft some sequence of
  commands can hand to the store, for arbitrary ports: a stored draft may be the last one written before
  a crash. The properties say what such a draft proves about approvals, how commands extend it, where a
  workflow can stop and how it goes on.
\<close>

text \<open>Property C33. No preview runs without a person's approval of exactly this plan. In every draft the
  orchestrator ever hands to its store, whatever the ports answer, whichever commands arrive and
  wherever earlier ones stopped, a recorded or attempted preview execution comes with the resolved plan
  and an execution approval bound to that plan's fingerprint; the execution record names that plan and
  the query fingerprint of the draft.\<close>
theorem preview_runs_only_approved_plans:
  assumes "stored P d" and "dw_execution d \<noteq> None \<or> attempted d OP_PREVIEW_EXECUTION"
  shows "\<exists>plan x. dw_resolved_plan d = Some plan \<and> x \<in> set (dw_decisions d)
      \<and> de_kind x = DK_EXECUTION \<and> de_action x = DA_APPROVE
      \<and> de_bound_fingerprint x = resolved_semantic_plan_fingerprint P plan
      \<and> optional (\<lambda>r. er_plan_fingerprint r = de_bound_fingerprint x
            \<and> dw_query_fingerprint d = Some (er_query_fingerprint r)) (dw_execution d)"
proof -
  have inv: "grounded P d" "draft_valid d"
    using stored_invariant [OF assms(1)] by (simp_all add: workflow_invariant_def)
  then have "approved_plan d" using assms(2) by (auto simp: grounded_def)
  moreover have "dw_plan_fingerprint d =
      map_option (resolved_semantic_plan_fingerprint P) (dw_resolved_plan d)"
    using inv(1) by (simp add: grounded_def)
  moreover have "optional (\<lambda>r. dw_plan_fingerprint d = Some (er_plan_fingerprint r)
      \<and> dw_query_fingerprint d = Some (er_query_fingerprint r)) (dw_execution d)"
    using inv(2) by (auto simp: draft_valid_def state_is_internally_consistent_def split: option.splits)
  ultimately show ?thesis
    by (auto simp: approved_plan_def split: option.splits)
qed

theorem preview_runs_only_approved_plans_witness:
  "dw_execution demo_executed \<noteq> None \<and>
   (\<exists>plan x. dw_resolved_plan demo_executed = Some plan \<and> x \<in> set (dw_decisions demo_executed)
      \<and> de_kind x = DK_EXECUTION \<and> de_action x = DA_APPROVE
      \<and> de_bound_fingerprint x = resolved_semantic_plan_fingerprint demo_ports plan
      \<and> optional (\<lambda>r. er_plan_fingerprint r = de_bound_fingerprint x
            \<and> dw_query_fingerprint demo_executed = Some (er_query_fingerprint r))
          (dw_execution demo_executed))"
  using preview_runs_only_approved_plans [OF demo_drafts_stored(2)] by simp

text \<open>Property C34. Nothing is published that no one approved. Whenever a publication was attempted or has
  a result, the draft holds a proposal and an approval of exactly that proposal under its idempotency
  key, the decision of the approving person bound to its fingerprint, and the proposal is computed from
  the workflow's own plan, its confirmed request and its completed execution record.\<close>
theorem publication_needs_bound_approval:
  assumes "stored P d" and "dw_publication_result d \<noteq> None \<or> attempted d OP_CONTEXT_PUBLICATION"
  shows "\<exists>p a x e request. dw_publication_proposal d = Some p \<and> dw_publication_approval d = Some a
      \<and> wa_workflow_id a = dw_id d \<and> wa_proposal_fingerprint a = wr_fingerprint p
      \<and> wa_idempotency_key a = wr_idempotency_key p
      \<and> x \<in> set (dw_decisions d) \<and> de_kind x = DK_PUBLICATION \<and> de_action x = DA_PUBLISH
      \<and> de_actor x = wa_actor a \<and> de_bound_fingerprint x = wr_fingerprint p
      \<and> wr_workflow_id p = dw_id d \<and> dw_plan_fingerprint d = Some (wr_plan_fingerprint p)
      \<and> dw_execution d = Some e \<and> er_rejection_complete e
      \<and> wr_execution_fingerprint p = sha256_text (execution_text e)
      \<and> dw_validated_request d = Some request
      \<and> wr_request_fingerprint p = validated_analytical_request_fingerprint P request"
proof -
  have inv: "grounded P d" "draft_valid d"
    using stored_invariant [OF assms(1)] by (simp_all add: workflow_invariant_def)
  have "dw_publication_approval d \<noteq> None \<or> attempted d OP_CONTEXT_PUBLICATION"
    using assms(2) inv(2) by (auto simp: draft_valid_def state_is_internally_consistent_def)
  then have auth: "publication_authorized d" using inv(1) by (auto simp: grounded_def)
  then obtain p where p: "dw_publication_proposal d = Some p"
    by (auto simp: publication_authorized_def)
  then have "proposal_bound P d p" using inv(1) by (simp add: grounded_def)
  with auth p show ?thesis
    unfolding publication_authorized_def proposal_bound_def by auto
qed

theorem publication_needs_bound_approval_witness:
  "\<exists>p a x. dw_publication_proposal demo_publishing = Some p
      \<and> dw_publication_approval demo_publishing = Some a
      \<and> wa_proposal_fingerprint a = wr_fingerprint p
      \<and> x \<in> set (dw_decisions demo_publishing) \<and> de_kind x = DK_PUBLICATION
      \<and> de_action x = DA_PUBLISH \<and> de_actor x = wa_actor a \<and> de_bound_fingerprint x = wr_fingerprint p"
  using publication_needs_bound_approval [OF demo_drafts_stored(4)] demo_attempted by blast

text \<open>Property C35. Commands never rewrite history. Every draft that a command submits, and the draft it
  returns, is valid, belongs to the same workflow with the same request text and datasets, its trace and
  its decisions extend those of the draft the command loaded, its revision is not lower, and the plan,
  the fingerprints, the proposal and the approval the draft had are never replaced.\<close>
theorem workflow_history_is_kept:
  assumes "stored P d0" and "wp_load P workflow_id w = (Inr (Some d0), w')" and "command_valid command"
    and "run_command P workflow_id command (session_of w) = (r, s)"
    and "d \<in> set (se_submitted s) \<or> r = Inr d"
  shows "continues d0 d \<and> draft_valid d"
  using command_keeps [OF stored_succeeds [OF assms(1)] assms(2-4)] assms(5)
  by (auto simp: list_all_iff succeeds_def workflow_invariant_def)

theorem workflow_history_is_kept_witness: "continues demo_waiting demo_declined"
proof -
  have "wp_load demo_ports ''run'' (Some demo_waiting) = (Inr (Some demo_waiting), Some demo_waiting)"
    by (simp add: demo_ports_def)
  from workflow_history_is_kept [OF demo_stored(2) this _ demo_decline]
  show ?thesis by (simp add: demo_execution_valid)
qed

text \<open>Property C36. Where a workflow can come to rest. Whatever happened before, a stored draft is over, or
  waits for a person at a checkpoint whose fingerprint names the interpretation, plan, proposal or
  failure to decide on, or is recoverable by \<open>recover_interrupted\<close>, or is an approved publication whose
  publishing step never began.\<close>
theorem workflow_stops_only_here:
  assumes "stored P d"
  shows "workflow_over d \<or> awaits_person d \<or> workflow_recovery_operation d \<noteq> None
    \<or> publication_stranded d"
proof (cases "in_flight d")
  case True
  then show ?thesis by (simp add: workflow_recovery_operation_def)
next
  case False
  then have settled: "settled_at P (dw_stage d) d" and valid: "draft_valid d"
    using settledD [OF stored_succeeds [OF assms]] stored_invariant [OF assms]
    by (simp_all add: workflow_invariant_def)
  show ?thesis
  proof (cases "dw_stage d")
    case ST_DECISION_REQUIRED
    then show ?thesis
      using settled by (auto simp: awaits_checkpoint_def awaits_person_def
          split: option.splits workflow_checkpoint_kind.splits)
  next
    case ST_FAILED
    then show ?thesis
      using settled by (auto simp: awaits_person_def workflow_over_def
          split: option.splits workflow_checkpoint_kind.splits)
  qed (use settled False in \<open>auto simp: workflow_over_def awaits_person_def publication_stranded_def
        workflow_recovery_operation_def pending_resume_operation_def plan_defs
        split: option.splits\<close>)
qed

theorem workflow_stops_only_here_witness:
  "workflow_over demo_publishing \<or> awaits_person demo_publishing
    \<or> workflow_recovery_operation demo_publishing \<noteq> None \<or> publication_stranded demo_publishing"
  by (rule workflow_stops_only_here [OF demo_drafts_stored(4)])

text \<open>Property C37. Recovery works. If the process stopped in the middle of an external step or between two
  steps, recovering the operation the draft names submits exactly one draft: it offers the retry of that
  operation, or waits for the person whose decision comes next. The clock is assumed to return aware
  times, also in the trace.\<close>
theorem interrupted_workflow_recovers:
  assumes "stored P d" and "workflow_recovery_operation d = Some operation"
    and "wp_load P workflow_id w = (Inr (Some d), w')"
    and "\<forall>v. is_aware (fst (wp_now P v))"
    and "\<forall>e \<in> set (dw_trace d). is_aware (te_occurred_at e)"
    and "recover_interrupted P workflow_id operation (session_of w) = (r, s)"
  shows "\<exists>d'. se_submitted s = [d']
    \<and> (if operation = OP_HUMAN_DECISION
       then awaits_person d' \<and> dw_stage d' \<in> {ST_DECISION_REQUIRED, ST_PUBLICATION_PROPOSED}
       else retry_offered d' operation)"
proof (cases "in_flight d")
  case True
  have d: "succeeds P d d" by (rule stored_succeeds [OF assms(1)])
  have op: "te_operation (last (dw_trace d)) = operation" "operation \<noteq> OP_HUMAN_DECISION"
    using True assms(2) succeedsD(2) [OF d] by (auto simp: workflow_recovery_operation_def consistent_def)
  have aware: "is_aware (te_occurred_at (last (dw_trace d)))"
    using True assms(5) by (simp add: in_flight_def)
  have ascii: "list_all is_ascii ''workflow_external_action_interrupted''"
    by (simp add: char_class_defs)
  have "fail_simply P d operation ''workflow_external_action_interrupted'' True (session_of w') = (r, s)"
    using assms(2,6) True op by (simp add: recover_interrupted_def load_then [OF assms(3)])
  from fail_external_run [OF succeedsD(3) [OF d] True op(1) aware _ ascii this] assms(4) op(2)
  show ?thesis by simp
next
  case False
  then show ?thesis using recover_settled_run [OF assms(1) _ assms(2,3,6)] by simp
qed

theorem interrupted_workflow_recovers_witness:
  "\<exists>d. se_submitted (snd (recover_interrupted demo_ports ''run'' OP_SQL_VALIDATION
      (session_of (Some demo_interrupted)))) = [d] \<and> retry_offered d OP_SQL_VALIDATION"
proof -
  have load: "wp_load demo_ports ''run'' (Some demo_interrupted) = (Inr (Some demo_interrupted), Some demo_interrupted)"
    "\<forall>v. is_aware (fst (wp_now demo_ports v))"
    by (simp_all add: demo_ports_def)
  have recovery: "workflow_recovery_operation demo_interrupted = Some OP_SQL_VALIDATION"
    by (simp add: workflow_recovery_operation_def in_flight_def begun_def saved_def)
  have "\<forall>e \<in> set (dw_trace demo_interrupted). is_aware (te_occurred_at e)"
    by (simp add: demo_steps)
  from interrupted_workflow_recovers [OF demo_stored(1) recovery load this prod.collapse [symmetric]]
  show ?thesis by auto
qed

text \<open>Property C38. An approved publication can be lost. Approving a proposal first submits a draft that
  records the approval and removes the checkpoint; if the process stops before the publishing step
  begins, that draft is what remains, and from it no command ever submits anything: inspection returns
  it and every other command, recovery and retry included, is refused.\<close>
theorem approved_publication_can_strand:
  assumes "stored P d" and "awaits_person d" and "dw_checkpoint d = Some c"
    and "cp_kind c = CK_PUBLICATION_DECISION" and "wp_load P workflow_id w = (Inr (Some d), w')"
    and "publication_decision_valid decision" and "pd_action decision = DA_PUBLISH"
    and "pd_proposal_fingerprint decision = cp_fingerprint c"
    and "\<forall>v. is_aware (fst (wp_now P v))"
    and "decide_publication P workflow_id decision (session_of w) = (r, s)"
  shows "\<exists>d1 rest. se_submitted s = d1 # rest \<and> stored P d1 \<and> publication_stranded d1
    \<and> (\<forall>i v v' command r' s'. wp_load P i v = (Inr (Some d1), v') \<longrightarrow>
         run_command P i command (session_of v) = (r', s') \<longrightarrow>
         se_submitted s' = [] \<and> (command = Inspect \<and> r' = Inr d1 \<or> (\<exists>e. r' = Inl e)))"
proof -
  obtain d1 rest where d1: "se_submitted s = d1 # rest" "publication_stranded d1"
      "dw_publication_result d1 = None"
    using approval_recorded_stranded [OF stored_succeeds [OF assms(1)] assms(2-10)] by blast
  have "stored P d1"
    by (rule stored.commanded_draft [OF assms(1,5), of "DecidePublication decision" r s])
      (use assms(6,10) d1(1) in simp_all)
  moreover have "workflow_recovery_operation d1 = None"
    by (rule no_recovery) (use d1(2) in \<open>simp_all add: publication_stranded_def\<close>)
  then have "se_submitted s' = [] \<and> (command = Inspect \<and> r' = Inr d1 \<or> (\<exists>e. r' = Inl e))"
    if "wp_load P i v = (Inr (Some d1), v')" "run_command P i command (session_of v) = (r', s')"
    for i v v' command r' s'
    using command_refused [OF that(1) _ _ _ that(2)] d1(2,3) by (auto simp: publication_stranded_def)
  ultimately show ?thesis using d1(1,2) by blast
qed

theorem approved_publication_can_strand_witness:
  "\<exists>d1 rest. se_submitted (snd (decide_publication demo_ports ''run'' demo_publication
        (session_of (Some demo_proposed)))) = d1 # rest
      \<and> stored demo_ports d1 \<and> publication_stranded d1"
proof -
  let ?c = "\<lparr>cp_kind = CK_PUBLICATION_DECISION, cp_fingerprint = wr_fingerprint demo_offer,
       cp_reason = ''Explicitly publish or skip the bounded execution-context proposal.''\<rparr>"
  have load: "wp_load demo_ports ''run'' (Some demo_proposed) = (Inr (Some demo_proposed), Some demo_proposed)"
    "\<forall>v. is_aware (fst (wp_now demo_ports v))"
    by (simp_all add: demo_ports_def)
  have waiting: "awaits_person demo_proposed" "dw_checkpoint demo_proposed = Some ?c"
    by (simp_all add: awaits_person_def demo_proposed_def saved_def)
  show ?thesis
    using approved_publication_can_strand [OF demo_drafts_stored(3) waiting _ load(1)
        demo_publication_valid _ _ load(2) prod.collapse [symmetric]]
    by (auto simp: demo_publication_def)
qed

text \<open>Property C39. A workflow that is over stays over. On a completed, declined, skipped, published or
  finally failed draft no command submits anything: it returns the draft unchanged or is refused as an
  invalid transition or a retry that is not allowed.\<close>
theorem finished_workflow_is_final:
  assumes "stored P d" and "workflow_over d" and "wp_load P workflow_id w = (Inr (Some d), w')"
    and "run_command P workflow_id command (session_of w) = (r, s)"
  shows "se_submitted s = [] \<and> (r = Inr d \<or>
      r \<in> {Inl (Transition (WorkflowError WE_INVALID_TRANSITION)),
           Inl (Transition (WorkflowError WE_RETRY_NOT_ALLOWED))})"
proof -
  have "succeeds P d d" by (rule stored_succeeds [OF assms(1)])
  then have still: "\<not> in_flight d"
    using assms(2) by (auto simp: succeeds_def workflow_invariant_def consistent_def workflow_over_def)
  have "workflow_recovery_operation d = None"
    by (rule no_recovery [OF _ still]) (use assms(2) in \<open>auto simp: workflow_over_def\<close>)
  then show ?thesis
    using command_refused [OF assms(3) _ _ _ assms(4)] assms(2) by (auto simp: workflow_over_def)
qed

theorem finished_workflow_is_final_witness:
  "workflow_over demo_declined
    \<and> se_submitted (snd (run_command demo_ports ''run'' (Recover OP_SQL_VALIDATION)
         (session_of (Some demo_declined)))) = []"
proof -
  have "wp_load demo_ports ''run'' (Some demo_declined) = (Inr (Some demo_declined), Some demo_declined)"
    by (simp add: demo_ports_def)
  from finished_workflow_is_final [OF demo_drafts_stored(1) demo_over this prod.collapse [symmetric]]
  show ?thesis using demo_over by blast
qed

end
