(* ===== verification/Spec2Isabelle.thy ===== *)
theory Spec2Isabelle
  imports Transformations Background_Jobs Governance Joins Profile_Jobs Publication_Jobs Authorization
    Activation_Properties Orchestrator_Properties
begin

text \<open>
  Verification of the SchemaBridge domain core.

  SchemaBridge maps physical tables to governed logical models, lets people approve mappings and
  joins, and executes and publishes only what was approved. Its pure core is the package
  \<open>src/src/schemabridge/domain\<close>: immutable pydantic models whose validators state what a stored
  object may be, and transition functions that rebuild a model from an old one. Services, database
  adapters and entry points call these functions and persist what they return. This development
  models the parts in which mistakes are hardest to see: the normalization of identifiers, the
  approval of mappings and joins, the three durable job machines, the access policies, the
  activation of registry versions from the use case down to the tables it writes, and the resumable
  workflow that takes a request to an approved preview and an approved publication.

  \<^bold>\<open>How code becomes definitions.\<close> A frozen model is a record, an enumeration a datatype, and each
  validator a predicate \<open>\<dots>_valid\<close>; building or rebuilding a model is \<open>construct_model\<close>, which fails
  with \<open>ValidationError\<close> when the predicate does. Every exception is a value of \<open>exn\<close> on the left of
  a sum: \<open>Transition\<close> with the module's own code, \<open>ValueError\<close>, \<open>TypeError\<close>, \<open>KeyError\<close>,
  \<open>AssertionError\<close> or \<open>ValidationError\<close>; guards appear in the order of the source. A timestamp is \<open>Aware\<close> with an
  instant in microseconds or \<open>Naive\<close>, a duration an integer of microseconds. Strings hold code
  points below 256. Identifiers are checked by the shapes of the source's regular expressions.
  SHA-256 and the canonical JSON text that is hashed are defined, not assumed.

  \<^bold>\<open>Theories.\<close>

  \<^item> \<open>Bridge_Prelude\<close>: exceptions and outcomes, the rules \<open>returns_intros\<close> and \<open>fails_intros\<close> that walk
    through an operation to its results and exceptions, time, strings, identifier shapes, numerals.
  \<^item> \<open>Transformations\<close> (\<open>domain/transformations.py\<close>): the step algebra, the closed regular-expression
    scanner and the identifier interpreter. Two identifiers have the same canonical form exactly when
    they denote the same number; nothing is rounded; normalization is idempotent and total up to
    CPython's limit on decimal conversion; the scanner accepts exactly a grammar.
  \<^item> \<open>Canonical_Digest\<close>: SHA-256, JSON rendering in both escaping modes, and the locale \<open>json_escaping\<close>
    under which the canonical text determines the value; size bounds of the text.
  \<^item> \<open>Lease_Interface\<close>: the contract the job machines share. The locale \<open>fenced_lease\<close> gives, from the
    laws of one claim and one other step, bounded deliveries, fencing of stale tokens and settled
    states; \<open>capped_backoff\<close> gives the bounds of a retry policy; \<open>lease_spec\<close> is the abstract machine.
  \<^item> \<open>Background_Jobs\<close> (\<open>domain/background_jobs.py\<close>): execution jobs with authorization windows. The
    invariant is stated by status; each transition has an equation for valid jobs, from which
    the exceptions a command can raise, fencing, authorization, cancellation, exclusiveness and liveness follow.
  \<^item> \<open>Governance\<close> (\<open>domain/concepts.py\<close>, \<open>fields.py\<close>, \<open>decisions.py\<close>, \<open>mappings.py\<close>): references, fields,
    decisions, mapping plans.
  \<^item> \<open>Joins\<close> (\<open>domain/joins.py\<close>): join keys, relationship profiles, the cardinality classifier and the
    fan-out rules of approved contracts.
  \<^item> \<open>Profile_Jobs\<close> (\<open>domain/semantic_profile_jobs.py\<close>): profiling jobs, their value-free proposal and
    result boundary, and reclaiming of expired leases.
  \<^item> \<open>Publication_Candidates\<close> (\<open>domain/registry_publication.py\<close> and the scope and document identities of
    \<open>domain/semantic_registry.py\<close>): candidates, manifests, authorizations and receipts.
  \<^item> \<open>Publication_Jobs\<close> (\<open>domain/registry_publication_jobs.py\<close>): prepare, approve, publish, read back.
  \<^item> \<open>Authorization\<close> (\<open>domain/identity.py\<close>, \<open>application/authorization.py\<close>,
    \<open>application/registry_change_authorization.py\<close>, \<open>application/semantic_onboarding_authorization.py\<close>): the
    three deny-by-default policies. The locales \<open>closed_policy\<close> and \<open>owned_policy\<close> state what they share;
    the access matrix is exact, and a listing selects exactly what the single check allows.
  \<^item> \<open>Registry_Control\<close> (\<open>domain/registry_control.py\<close>): pointers, activation proposals, approvals,
    transitions, projections, outbox items, reconciliation reports, with their identities.
  \<^item> \<open>Control_Store\<close> (\<open>adapters/control_plane/postgres_registry_control.py\<close>): the four tables, the audit
    chain with its keyed digest, and every operation as one transaction on the tables.
  \<^item> \<open>Control_History\<close>: the step relation over commits and projection outcomes. Histories are gapless and
    end in the authoritative pointer; replays have no effect; stale activations are refused; the audit
    chain verifies and detects tampering; outcomes are final.
  \<^item> \<open>Registry_Activation\<close> (\<open>application/registry_control.py\<close>): the use cases over that store.
  \<^item> \<open>Activation_Properties\<close>: a commit moves exactly one pointer; an approved activation commits; readers
    get the version the pointer names; a rollback is anchored in history, but reaches only its oldest
    part; a reported delivery is what DataHub shows.
  \<^item> \<open>Workflows\<close> (\<open>domain/workflows.py\<close>, \<open>domain/publication_audit.py\<close>): the contracts of the agent
    workflow: decisions, checkpoints, failures, trace, execution record, publication proposal, approval
    and result, and the draft with its validator.
  \<^item> \<open>Orchestrator\<close> (\<open>application/workflow_orchestration.py\<close>): every step and command of the
    orchestrator over a record of ports, as functions of a session that keeps the outside world and
    the drafts handed to the store.
  \<^item> \<open>Orchestrator_Invariant\<close>: a small logic of sessions (\<open>keeps\<close>), the invariant of a draft, one lemma
    per step, and \<open>stored\<close>, the drafts any sequence of commands can leave in the store.
  \<^item> \<open>Orchestrator_Runs\<close>, \<open>Orchestrator_Sample\<close>: what single steps submit, and one complete run.
  \<^item> \<open>Orchestrator_Properties\<close>: previews and publications rest on bound approvals; history is only
    extended; where a workflow can rest; recovery and finality; and the one gap, an approved
    publication that no command can resume.

  All three machines interpret \<open>fenced_lease\<close> and \<open>capped_backoff\<close>; background and profiling jobs also
  refine \<open>lease_spec\<close>, shown below. Publication jobs do not: a publication heartbeat may move the
  stored time back and shorten a lease.

  \<^bold>\<open>Bounds.\<close> Every definition terminates without fuel. Attempts are bounded by 10, 100 and 10, leases by
  five minutes, retries by five minutes, proposals by 65536 and results by 16384 bytes, as in the
  source. Runs of a machine are the inductive \<open>lease_run\<close>, of any length; stores are those of
  \<open>reachable_store\<close>, drafts those of \<open>stored\<close>. The commands that change a background job, heartbeats apart, are bounded by its
  deliveries.

  \<^bold>\<open>Parameters.\<close> The text pydantic gives a timestamp inside an authorization identifier is the parameter
  \<open>iso_text\<close> of the publication and control theories; no hypothesis is made about it. It renders the
  instant, so two timestamps of one instant with different offsets, which pydantic would write
  differently into a pointer or handoff fingerprint, are not told apart there; the audit chain does
  model the offset. The identity resolver, the reader of immutable versions, the DataHub projector and the stored function that finds
  activation-ready publications are arguments; only the liveness of activation assumes something of
  one, that the reader answers for the version it is asked for. The ports of the orchestrator (clock,
  draft store, catalog, intent service, planner, executor, publisher, audit store, recipe assessor) are
  the record \<open>ports\<close>; each may answer or raise anything, and requests and plans are of an arbitrary type
  with their JSON text as a port. Only recovery assumes something, that the clock gives aware times.
  Collision resistance of SHA-256 is never assumed: binding theorems speak of the hashed text.

  \<^bold>\<open>Not modelled.\<close> The floating-point join score; the registry snapshot validator, whose snapshots appear
  by the fields publication and activation read; the proposal families, of which a publication job
  reads five fields; event records; the HTTP workflow service and the job worker that call the
  orchestrator; requests, plans and resolution, onboarding and change
  detection, query studio, identity rotation; lost database connections; and everything that is input,
  output or wiring: other adapters, SQL text, entry points and scripts. The next components in order
  of importance are the registry snapshot, logical requests with their approved context, and the
  registry change service.
\<close>

section \<open>Properties that span the job machines\<close>

text \<open>Property C40. Both worker queues implement the same abstract lease machine: every accepted command
  on a valid background job, and every accepted command on a valid profiling job, is a step of the
  machine in which a job waits until it is due, is held until its lease expires or is settled,
  deliveries are counted against the budget, only an expired lease is taken over, and time does not
  run backwards.\<close>

theorem job_machines_refine_lease_spec:
  "(background_job_valid j \<and> run_job_command c j = Inr k \<longrightarrow> lease_spec (job_view j) (job_view k))
   \<and> (profile_job_valid s \<and> run_profile_command d s = Inr u
      \<longrightarrow> lease_spec (profile_view s) (profile_view u))"
  using background_job_refines profile_job_refines by blast

theorem job_machines_refine_lease_spec_witness:
  "lease_spec (job_view sample_job) (job_view sample_leased)
   \<and> lease_spec (profile_view sample_profile_leased) (profile_view sample_profile_reclaimed)"
proof -
  have "run_job_command (Claim ''worker-1'' sample_token (Aware 0) (Aware (minutes 5))) sample_job
      = Inr sample_leased"
    using sample_claim by simp
  then show ?thesis
    using job_machines_refine_lease_spec sample_job_valid sample_profile_leased_valid
      sample_profile_reclaim by blast
qed

text \<open>The three retry policies are one capped exponential backoff: on the attempts all of
  them admit, background, profiling and publication jobs wait for the same time, at least five
  seconds and at most five minutes, and one more attempt doubles the wait up to that cap.\<close>

lemma retry_policies_agree:
  assumes "1 \<le> n" and "n < 10"
  shows "\<exists>d e. job_retry_delay n = Inr d \<and> semantic_join_profile_retry_delay n = Inr d
      \<and> registry_publication_retry_delay n = Inr d
      \<and> job_retry_delay (n + 1) = Inr e \<and> semantic_join_profile_retry_delay (n + 1) = Inr e
      \<and> registry_publication_retry_delay (n + 1) = Inr e
      \<and> seconds 5 \<le> d \<and> d \<le> seconds 300 \<and> e = min (2 * d) (seconds 300)"
proof -
  let ?d = "\<lambda>i. seconds (backoff_seconds 5 300 i)"
  have job: "job_retry_delay i = Inr (?d i)" if "1 \<le> i" "i \<le> 10" for i
    using that by (simp add: job_backoff.delay_eq job_constants)
  have profile: "semantic_join_profile_retry_delay i = Inr (?d i)" if "1 \<le> i" "i \<le> 10" for i
    using that by (simp add: profile_backoff.delay_eq profile_constants)
  have publication: "registry_publication_retry_delay i = Inr (?d i)" if "1 \<le> i" for i
    using that by (simp add: publication_backoff.delay_eq PUBLICATION_MAX_RETRY_DELAY_SECONDS_def)
  have "seconds 5 \<le> ?d n" "?d n \<le> seconds 300" "?d (n + 1) = min (2 * ?d n) (seconds 300)"
    using publication_backoff.delay_bounds [OF publication] publication_backoff.delay_doubles
      [OF publication publication] assms
    by (simp_all add: PUBLICATION_MAX_RETRY_DELAY_SECONDS_def)
  then show ?thesis using assms job profile publication by fastforce
qed

lemma retry_policies_agree_witness:
  "\<exists>d. job_retry_delay 3 = Inr d \<and> semantic_join_profile_retry_delay 3 = Inr d
     \<and> registry_publication_retry_delay 3 = Inr d \<and> d \<le> seconds 300"
  using retry_policies_agree [of 3] by auto

end
